(* ===== verification/Prelude.thy ===== *)
theory Prelude
  imports Complex_Main "HOL-Library.Sublist" "HOL-Library.Char_ord"
    "HOL-Library.List_Lexorder" "HOL-Library.Multiset" "HOL-Library.Monad_Syntax"
begin

text \<open>
  Shared vocabulary of the development: the result type of fallible Go functions, Go's
  truncating division, the stable insertion sort behind \<open>sort.SliceStable\<close>, first-occurrence
  deduplication (the \<open>seen\<close> map idiom of the code base), and the generic lemmas on lists that
  several components use.  The collections \<open>dw_simps\<close> and \<open>dw_intros\<close> carry the component
  lemmas that the property proofs rest on.
\<close>

named_theorems dw_simps "rewrite rules of the components"
named_theorems dw_intros "introduction rules of the components"

section \<open>Results and numbers\<close>

text \<open>
  A Go function returning \<open>(T, error)\<close> is a sum: \<open>Inl\<close> carries the error message.
\<close>

type_synonym 'a result = "string + 'a"

text \<open>Go's integer division truncates towards zero.\<close>

definition go_div :: "int \<Rightarrow> int \<Rightarrow> int" where
  "go_div a b = sgn a * sgn b * (\<bar>a\<bar> div \<bar>b\<bar>)"

lemma go_div_nonneg [simp]: "0 \<le> a \<Longrightarrow> 0 < b \<Longrightarrow> go_div a b = a div b"
  by (cases "a = 0") (simp_all add: go_div_def)

section \<open>First occurrences\<close>

text \<open>
  The loop \<open>if seen[key(x)] { continue }; seen[key(x)] = true; out = append(out, x)\<close>, with the
  map of seen keys as the first argument after the key function.
\<close>

fun first_by :: "('a \<Rightarrow> 'k) \<Rightarrow> 'k list \<Rightarrow> 'a list \<Rightarrow> 'a list" where
  "first_by key seen [] = []"
| "first_by key seen (x # xs) =
     (if key x \<in> set seen then first_by key seen xs
      else x # first_by key (key x # seen) xs)"

lemma first_by_keys:
  "key ` set (first_by key seen xs) = key ` set xs - set seen"
  by (induction xs arbitrary: seen) auto

lemma first_by_subset: "set (first_by key seen xs) \<subseteq> set xs"
  by (induction xs arbitrary: seen) auto

lemma first_by_distinct: "distinct (map key (first_by key seen xs))"
proof (induction xs arbitrary: seen)
  case Nil
  then show ?case by simp
next
  case (Cons x xs)
  have "key x \<notin> key ` set (first_by key (key x # seen) xs)"
    by (simp add: first_by_keys)
  with Cons.IH show ?case by simp
qed

lemma first_by_id_set: "set (first_by (\<lambda>x. x) [] xs) = set xs"
  using first_by_keys [of "\<lambda>x. x" "[]" xs] by simp

lemma first_by_id_distinct: "distinct (first_by (\<lambda>x. x) seen xs)"
  using first_by_distinct [of "\<lambda>x. x"] by simp

lemma first_by_distinct_id:
  "distinct (map key xs) \<Longrightarrow> key ` set xs \<inter> set seen = {} \<Longrightarrow> first_by key seen xs = xs"
proof (induction xs arbitrary: seen)
  case Nil
  then show ?case by simp
next
  case (Cons x xs)
  then have "key ` set xs \<inter> set (key x # seen) = {}" by auto
  with Cons show ?case by simp
qed

section \<open>Stable insertion sort\<close>

text \<open>
  \<open>sort.SliceStable\<close> sorts short slices (up to twenty elements) by exactly this insertion
  sort: each element moves left while it is \<open>less\<close> than its left neighbour.  Longer slices are
  sorted blockwise and merged; for a strict weak order the stable result is unique, so the
  function below is that result too.  The already sorted prefix is kept reversed.
\<close>

fun sink_left :: "('a \<Rightarrow> 'a \<Rightarrow> bool) \<Rightarrow> 'a \<Rightarrow> 'a list \<Rightarrow> 'a list" where
  "sink_left lt x [] = [x]"
| "sink_left lt x (y # ys) = (if lt x y then y # sink_left lt x ys else x # y # ys)"

definition slice_stable :: "('a \<Rightarrow> 'a \<Rightarrow> bool) \<Rightarrow> 'a list \<Rightarrow> 'a list" where
  "slice_stable lt xs = rev (fold (sink_left lt) xs [])"

lemma mset_sink_left [simp]: "mset (sink_left lt x ys) = add_mset x (mset ys)"
  by (induction ys) auto

lemma mset_fold_sink_left: "mset (fold (sink_left lt) xs acc) = mset xs + mset acc"
  by (induction xs arbitrary: acc) auto

lemma mset_slice_stable [simp]: "mset (slice_stable lt xs) = mset xs"
  by (simp add: slice_stable_def mset_fold_sink_left)

lemma set_slice_stable [simp]: "set (slice_stable lt xs) = set xs"
  by (metis mset_slice_stable set_mset_mset)

lemma length_slice_stable [simp]: "length (slice_stable lt xs) = length xs"
  by (metis mset_slice_stable size_mset)

lemma slice_stable_Nil [simp]: "slice_stable lt [] = []"
  by (simp add: slice_stable_def)

lemma slice_stable_eq_Nil [simp]: "slice_stable lt xs = [] \<longleftrightarrow> xs = []"
  by (metis length_0_conv length_slice_stable)

lemma set_sink_left [simp]: "set (sink_left lt x ys) = insert x (set ys)"
  by (induction ys) auto

text \<open>
  The contract between a comparison function and the sort: on the elements satisfying
  \<open>ok\<close> the comparison is a strict weak order.  Then no element of the result is \<open>less\<close> than
  an element before it.
\<close>

locale weak_order =
  fixes ok :: "'a \<Rightarrow> bool" and lt :: "'a \<Rightarrow> 'a \<Rightarrow> bool"
  assumes lt_asym: "ok x \<Longrightarrow> ok y \<Longrightarrow> lt x y \<Longrightarrow> \<not> lt y x"
    and not_lt_trans:
      "ok x \<Longrightarrow> ok y \<Longrightarrow> ok z \<Longrightarrow> \<not> lt y x \<Longrightarrow> \<not> lt z y \<Longrightarrow> \<not> lt z x"
begin

lemma sink_left_sorted:
  assumes "ok x" "\<forall>y \<in> set ys. ok y" "sorted_wrt (\<lambda>a b. \<not> lt a b) ys"
  shows "sorted_wrt (\<lambda>a b. \<not> lt a b) (sink_left lt x ys)"
  using assms
proof (induction ys)
  case Nil
  then show ?case by simp
next
  case (Cons y ys)
  show ?case
  proof (cases "lt x y")
    case True
    with Cons show ?thesis by (auto dest: lt_asym)
  next
    case False
    have "\<not> lt x z" if "z \<in> set ys" for z
      using that False Cons.prems not_lt_trans [of z y x] by auto
    with False Cons.prems show ?thesis by auto
  qed
qed

lemma fold_sink_left_sorted:
  assumes "\<forall>x \<in> set xs. ok x" "\<forall>y \<in> set acc. ok y" "sorted_wrt (\<lambda>a b. \<not> lt a b) acc"
  shows "sorted_wrt (\<lambda>a b. \<not> lt a b) (fold (sink_left lt) xs acc)"
  using assms
proof (induction xs arbitrary: acc)
  case Nil
  then show ?case by simp
next
  case (Cons x xs)
  then have "sorted_wrt (\<lambda>a b. \<not> lt a b) (sink_left lt x acc)"
    by (intro sink_left_sorted) auto
  with Cons.prems show ?case by (auto intro!: Cons.IH)
qed

lemma slice_stable_sorted:
  assumes "\<forall>x \<in> set xs. ok x"
  shows "sorted_wrt (\<lambda>a b. \<not> lt b a) (slice_stable lt xs)"
  using fold_sink_left_sorted [of xs "[]"] assms
  by (simp add: slice_stable_def sorted_wrt_rev)

lemma slice_stable_head:
  assumes "\<forall>x \<in> set xs. ok x" "slice_stable lt xs = y # ys" "x \<in> set xs"
  shows "\<not> lt x y"
proof -
  have "x \<in> set (y # ys)" using assms(2,3) set_slice_stable [of lt xs] by simp
  moreover have "\<forall>z \<in> set ys. \<not> lt z y"
    using slice_stable_sorted [OF assms(1)] assms(2) by simp
  moreover have "y \<in> set xs" using assms(2) set_slice_stable [of lt xs] by auto
  then have "\<not> lt y y" using assms(1) lt_asym by blast
  ultimately show ?thesis by auto
qed

end

text \<open>Orders given by a key into a linear order, ascending: the shape of most sorts of the code.\<close>

definition by_key :: "('a \<Rightarrow> 'k :: linorder) \<Rightarrow> 'a \<Rightarrow> 'a \<Rightarrow> bool" where
  "by_key key x y \<longleftrightarrow> key x < key y"

interpretation key_order: weak_order "\<lambda>_. True" "by_key key"
  for key :: "'a \<Rightarrow> 'k :: linorder"
  by unfold_locales (auto simp: by_key_def)

section \<open>Lists and options\<close>

lemma find_Some_set: "find P xs = Some x \<Longrightarrow> x \<in> set xs \<and> P x"
  by (auto simp: find_Some_iff)

lemma find_None_all: "find P xs = None \<longleftrightarrow> (\<forall>x \<in> set xs. \<not> P x)"
  by (auto simp: find_None_iff)

lemma length_takeWhile_drop: "length (takeWhile P xs) + length (dropWhile P xs) = length xs"
  by (metis length_append takeWhile_dropWhile_id)

section \<open>Refusals of a handler\<close>

text \<open>\<open>writeOpenAIError\<close>: the HTTP status, the message and the error code of the response.\<close>

record admin_error =
  aerr_status :: nat
  aerr_message :: string
  aerr_code :: string

definition admin_fail :: "nat \<Rightarrow> string \<Rightarrow> string \<Rightarrow> admin_error + 'a" where
  "admin_fail status message code = Inl \<lparr>aerr_status = status, aerr_message = message, aerr_code = code\<rparr>"

lemma admin_fail_not_Inr [simp]: "admin_fail st m c \<noteq> Inr x"
  by (simp add: admin_fail_def)

end
