(* ===== verification/GoStrings.thy ===== *)
theory GoStrings
  imports Prelude
begin

text \<open>
  The part of Go's \<open>strings\<close> and \<open>strconv\<close> packages the program uses.  A Go string is the list
  of its bytes.  \<open>TrimSpace\<close> knows every Unicode space in its UTF-8 form; case mapping
  (\<open>ToLower\<close>, \<open>EqualFold\<close>) maps ASCII letters and leaves all other bytes as they are, which is
  exact for ASCII and for scripts without case such as Hangul.
\<close>

section \<open>Case\<close>

definition lower_char :: "char \<Rightarrow> char" where
  "lower_char c = (if 65 \<le> (of_char c :: nat) \<and> (of_char c :: nat) \<le> 90
                   then char_of ((of_char c :: nat) + 32) else c)"

definition to_lower :: "string \<Rightarrow> string" where
  "to_lower s = map lower_char s"

definition equal_fold :: "string \<Rightarrow> string \<Rightarrow> bool" where
  "equal_fold s t \<longleftrightarrow> to_lower s = to_lower t"

lemma lower_char_idem [simp]: "lower_char (lower_char c) = lower_char c"
  by (simp add: lower_char_def)

lemma to_lower_idem [simp]: "to_lower (to_lower s) = to_lower s"
  by (simp add: to_lower_def)

lemma to_lower_Nil [simp]: "to_lower [] = []"
  by (simp add: to_lower_def)

lemma to_lower_eq_Nil [simp]: "to_lower s = [] \<longleftrightarrow> s = []"
  by (simp add: to_lower_def)

lemma to_lower_append: "to_lower (s @ t) = to_lower s @ to_lower t"
  by (simp add: to_lower_def)

lemma equal_fold_refl [simp]: "equal_fold s s"
  by (simp add: equal_fold_def)

lemma equal_fold_sym: "equal_fold s t = equal_fold t s"
  by (auto simp: equal_fold_def)

lemma equal_fold_trans: "equal_fold s t \<Longrightarrow> equal_fold t u \<Longrightarrow> equal_fold s u"
  by (simp add: equal_fold_def)

section \<open>White space\<close>

text \<open>The UTF-8 encodings of the runes for which \<open>unicode.IsSpace\<close> holds.\<close>

definition utf8_spaces :: "string list" where
  "utf8_spaces =
     [[CHR 0x20], [CHR 0x09], [CHR 0x0A], [CHR 0x0B], [CHR 0x0C], [CHR 0x0D],
      [CHR 0xC2, CHR 0x85], [CHR 0xC2, CHR 0xA0], [CHR 0xE1, CHR 0x9A, CHR 0x80],
      [CHR 0xE2, CHR 0x80, CHR 0x80], [CHR 0xE2, CHR 0x80, CHR 0x81],
      [CHR 0xE2, CHR 0x80, CHR 0x82], [CHR 0xE2, CHR 0x80, CHR 0x83],
      [CHR 0xE2, CHR 0x80, CHR 0x84], [CHR 0xE2, CHR 0x80, CHR 0x85],
      [CHR 0xE2, CHR 0x80, CHR 0x86], [CHR 0xE2, CHR 0x80, CHR 0x87],
      [CHR 0xE2, CHR 0x80, CHR 0x88], [CHR 0xE2, CHR 0x80, CHR 0x89],
      [CHR 0xE2, CHR 0x80, CHR 0x8A], [CHR 0xE2, CHR 0x80, CHR 0xA8],
      [CHR 0xE2, CHR 0x80, CHR 0xA9], [CHR 0xE2, CHR 0x80, CHR 0xAF],
      [CHR 0xE2, CHR 0x81, CHR 0x9F], [CHR 0xE3, CHR 0x80, CHR 0x80]]"

definition skip_len :: "string list \<Rightarrow> string \<Rightarrow> nat" where
  "skip_len pats s = (case find (\<lambda>p. prefix p s) pats of None \<Rightarrow> 0 | Some p \<Rightarrow> length p)"

lemma skip_len_le: "skip_len pats s \<le> length s"
  by (auto simp: skip_len_def split: option.splits dest!: find_Some_set dest: prefix_length_le)

function trim_front :: "string list \<Rightarrow> string \<Rightarrow> string" where
  "trim_front pats s =
     (if skip_len pats s = 0 then s else trim_front pats (drop (skip_len pats s) s))"
  by pat_completeness auto
termination
proof (relation "measure (\<lambda>(pats, s). length s)", goal_cases)
  case 1
  then show ?case by simp
next
  case (2 pats s)
  then show ?case using skip_len_le [of pats s] by auto
qed

declare trim_front.simps [simp del]

definition trim_left :: "string \<Rightarrow> string" where
  "trim_left s = trim_front utf8_spaces s"

definition trim_right :: "string \<Rightarrow> string" where
  "trim_right s = rev (trim_front (map rev utf8_spaces) (rev s))"

definition trim_space :: "string \<Rightarrow> string" where
  "trim_space s = trim_right (trim_left s)"

lemma trim_front_suffix: "suffix (trim_front pats s) s"
proof (induction pats s rule: trim_front.induct)
  case (1 pats s)
  show ?case
  proof (cases "skip_len pats s = 0")
    case True
    then show ?thesis by (subst trim_front.simps) simp
  next
    case False
    with 1 have "suffix (trim_front pats (drop (skip_len pats s) s)) (drop (skip_len pats s) s)"
      by blast
    then have "suffix (trim_front pats (drop (skip_len pats s) s)) s"
      by (meson suffix_drop suffix_order.trans)
    with False show ?thesis by (subst trim_front.simps) simp
  qed
qed

lemma trim_front_done: "skip_len pats (trim_front pats s) = 0"
proof (induction pats s rule: trim_front.induct)
  case (1 pats s)
  then show ?case by (cases "skip_len pats s = 0") (simp_all add: trim_front.simps [of pats s])
qed

lemma trim_front_fix: "skip_len pats s = 0 \<Longrightarrow> trim_front pats s = s"
  by (simp add: trim_front.simps)

lemma skip_len_0_iff:
  assumes "[] \<notin> set pats"
  shows "skip_len pats s = 0 \<longleftrightarrow> (\<forall>p \<in> set pats. \<not> prefix p s)"
proof -
  have "length p \<noteq> 0" if "find (\<lambda>p. prefix p s) pats = Some p" for p
    using find_Some_set [OF that] assms by auto
  moreover have "find (\<lambda>p. prefix p s) pats = None \<longleftrightarrow> (\<forall>p \<in> set pats. \<not> prefix p s)"
    by (rule find_None_all)
  ultimately show ?thesis
    by (cases "find (\<lambda>p. prefix p s) pats") (auto simp: skip_len_def)
qed

lemma nil_notin_spaces [simp]: "[] \<notin> set utf8_spaces" "[] \<notin> set (map rev utf8_spaces)"
  by (simp_all add: utf8_spaces_def)

lemma trim_right_prefix: "prefix (trim_right s) s"
  unfolding trim_right_def
  by (metis rev_rev_ident suffix_to_prefix trim_front_suffix)

lemma trim_left_trim_right:
  assumes "trim_left s = s"
  shows "trim_left (trim_right s) = trim_right s"
proof -
  have "skip_len utf8_spaces s = 0"
    using assms trim_front_done [of utf8_spaces s] by (simp add: trim_left_def)
  then have "\<forall>p \<in> set utf8_spaces. \<not> prefix p s"
    by (simp add: skip_len_0_iff)
  then have "\<forall>p \<in> set utf8_spaces. \<not> prefix p (trim_right s)"
    using trim_right_prefix prefix_order.trans by blast
  then have "skip_len utf8_spaces (trim_right s) = 0"
    by (simp add: skip_len_0_iff)
  then show ?thesis by (simp add: trim_left_def trim_front_fix)
qed

lemma trim_left_idem [simp]: "trim_left (trim_left s) = trim_left s"
  by (simp add: trim_left_def trim_front_done trim_front_fix)

lemma trim_right_idem [simp]: "trim_right (trim_right s) = trim_right s"
  by (simp add: trim_right_def trim_front_done trim_front_fix)

lemma trim_space_idem [simp]: "trim_space (trim_space s) = trim_space s"
  by (simp add: trim_space_def trim_left_trim_right)

lemma trim_space_Nil [simp]: "trim_space [] = []"
  by (simp add: trim_space_def trim_left_def trim_right_def trim_front.simps skip_len_def
      utf8_spaces_def)

lemma trim_space_set: "set (trim_space s) \<subseteq> set s"
proof -
  have "suffix (trim_left s) s" by (simp add: trim_left_def trim_front_suffix)
  moreover have "prefix (trim_right (trim_left s)) (trim_left s)" by (rule trim_right_prefix)
  ultimately show ?thesis
    unfolding trim_space_def using set_mono_prefix set_mono_suffix by blast
qed

text \<open>Lowering ASCII letters neither makes nor removes a space.\<close>

lemma lower_char_other: "\<not> (65 \<le> (of_char c :: nat) \<and> (of_char c :: nat) \<le> 90) \<Longrightarrow> lower_char c = c"
  by (auto simp: lower_char_def)

lemma of_char_lower_char:
  "(of_char (lower_char c) :: nat) =
    (if 65 \<le> (of_char c :: nat) \<and> (of_char c :: nat) \<le> 90 then of_char c + 32 else of_char c)"
  by (simp add: lower_char_def)

lemma spaces_no_letters:
  "p \<in> set utf8_spaces \<Longrightarrow> c \<in> set p \<Longrightarrow> (of_char c :: nat) < 65 \<or> 122 < (of_char c :: nat)"
  by (auto simp: utf8_spaces_def)

lemma lower_char_eq_non_letter:
  assumes "(of_char d :: nat) < 65 \<or> 122 < (of_char d :: nat)"
  shows "lower_char c = d \<longleftrightarrow> c = d"
proof
  assume "lower_char c = d"
  with assms have "\<not> (65 \<le> (of_char c :: nat) \<and> (of_char c :: nat) \<le> 90)"
    using of_char_lower_char [of c] by auto
  with \<open>lower_char c = d\<close> show "c = d" by (simp add: lower_char_other)
next
  assume "c = d"
  with assms show "lower_char c = d" by (auto simp: lower_char_def)
qed

lemma prefix_map_lower:
  assumes "\<forall>c \<in> set p. (of_char c :: nat) < 65 \<or> 122 < (of_char c :: nat)"
  shows "prefix p (map lower_char s) \<longleftrightarrow> prefix p s"
  using assms
proof (induction p arbitrary: s)
  case Nil
  then show ?case by simp
next
  case (Cons d p)
  then have "d = lower_char c \<longleftrightarrow> d = c" for c
    using lower_char_eq_non_letter [of d c] by auto
  with Cons show ?case by (cases s) auto
qed

lemma skip_len_lower:
  assumes "\<And>p c. p \<in> set pats \<Longrightarrow> c \<in> set p \<Longrightarrow> (of_char c :: nat) < 65 \<or> 122 < (of_char c :: nat)"
  shows "skip_len pats (map lower_char s) = skip_len pats s"
proof -
  have "find (\<lambda>p. prefix p (map lower_char s)) pats = find (\<lambda>p. prefix p s) pats"
    using assms by (intro find_cong) (auto simp: prefix_map_lower)
  then show ?thesis by (simp add: skip_len_def)
qed

lemma trim_front_lower:
  assumes "\<And>p c. p \<in> set pats \<Longrightarrow> c \<in> set p \<Longrightarrow> (of_char c :: nat) < 65 \<or> 122 < (of_char c :: nat)"
  shows "trim_front pats (map lower_char s) = map lower_char (trim_front pats s)"
  using assms
proof (induction pats s rule: trim_front.induct)
  case (1 pats s)
  then show ?case
    by (cases "skip_len pats s = 0")
       (simp_all add: trim_front.simps [of pats s] trim_front.simps [of pats "map lower_char s"]
         skip_len_lower drop_map)
qed

lemma trim_space_to_lower: "trim_space (to_lower s) = to_lower (trim_space s)"
proof -
  have l: "trim_left (to_lower t) = to_lower (trim_left t)" for t
    unfolding trim_left_def to_lower_def by (rule trim_front_lower) (rule spaces_no_letters)
  have r: "trim_right (to_lower t) = to_lower (trim_right t)" for t
    unfolding trim_right_def to_lower_def rev_map
    by (subst trim_front_lower) (auto simp: rev_map dest: spaces_no_letters)
  show ?thesis by (simp add: trim_space_def l r)
qed

section \<open>Searching\<close>

fun contains :: "string \<Rightarrow> string \<Rightarrow> bool" where
  "contains [] p = (p = [])"
| "contains (c # cs) p = (prefix p (c # cs) \<or> contains cs p)"

lemma contains_iff_sublist: "contains s p \<longleftrightarrow> sublist p s"
  by (induction s) (auto simp: sublist_Cons_right)

lemma contains_append_left: "contains s p \<Longrightarrow> contains (t @ s) p"
  by (simp add: contains_iff_sublist sublist_append)

lemma contains_append_right: "contains s p \<Longrightarrow> contains (s @ t) p"
  by (simp add: contains_iff_sublist sublist_append)

text \<open>\<open>strings.Index\<close>: the offset of the first occurrence.\<close>

fun index_of :: "string \<Rightarrow> string \<Rightarrow> nat option" where
  "index_of [] p = (if p = [] then Some 0 else None)"
| "index_of (c # cs) p =
     (if prefix p (c # cs) then Some 0 else map_option Suc (index_of cs p))"

lemma index_of_None: "index_of s p = None \<longleftrightarrow> \<not> contains s p"
  by (induction s) auto

definition contains_any :: "string \<Rightarrow> string list \<Rightarrow> bool" where
  "contains_any s ps \<longleftrightarrow> (\<exists>p \<in> set ps. contains s p)"

section \<open>Splitting and joining\<close>

fun split_by :: "(char \<Rightarrow> bool) \<Rightarrow> string \<Rightarrow> string list" where
  "split_by P [] = [[]]"
| "split_by P (c # cs) =
     (if P c then [] # split_by P cs
      else (case split_by P cs of [] \<Rightarrow> [[c]] | w # ws \<Rightarrow> (c # w) # ws))"

definition split_char :: "char \<Rightarrow> string \<Rightarrow> string list" where
  "split_char sep s = split_by (\<lambda>c. c = sep) s"

definition fields_func :: "(char \<Rightarrow> bool) \<Rightarrow> string \<Rightarrow> string list" where
  "fields_func P s = filter (\<lambda>w. w \<noteq> []) (split_by P s)"

fun join :: "string \<Rightarrow> string list \<Rightarrow> string" where
  "join sep [] = []"
| "join sep [w] = w"
| "join sep (w # v # ws) = w @ sep @ join sep (v # ws)"

lemma split_by_not_Nil [simp]: "split_by P s \<noteq> []"
  by (cases s) (auto split: list.splits)

lemma split_by_no_sep: "\<forall>w \<in> set (split_by P s). \<forall>c \<in> set w. \<not> P c"
  by (induction s) (auto split: list.splits)

lemma split_by_word: "\<forall>c \<in> set w. \<not> P c \<Longrightarrow> split_by P w = [w]"
  by (induction w) auto

lemma split_by_word_sep:
  "\<forall>c \<in> set w. \<not> P c \<Longrightarrow> P d \<Longrightarrow> split_by P (w @ d # s) = w # split_by P s"
  by (induction w) auto

lemma split_char_join:
  assumes "ws \<noteq> []" "\<forall>w \<in> set ws. sep \<notin> set w"
  shows "split_char sep (join [sep] ws) = ws"
  using assms
proof (induction "[sep]" ws rule: join.induct)
  case 1
  then show ?case by simp
next
  case (2 w)
  then show ?case by (auto simp: split_char_def intro: split_by_word)
next
  case (3 w v ws)
  then have "split_char sep (join [sep] (v # ws)) = v # ws" by simp
  moreover have "split_char sep (w @ sep # join [sep] (v # ws))
      = w # split_char sep (join [sep] (v # ws))"
    using 3 unfolding split_char_def by (intro split_by_word_sep) auto
  ultimately show ?case by simp
qed

section \<open>Cutting\<close>

definition trim_right_char :: "char \<Rightarrow> string \<Rightarrow> string" where
  "trim_right_char c s = rev (dropWhile (\<lambda>d. d = c) (rev s))"

lemma trim_right_char_split: "\<exists>n. s = trim_right_char c s @ replicate n c"
proof -
  have "rev s = takeWhile (\<lambda>d. d = c) (rev s) @ dropWhile (\<lambda>d. d = c) (rev s)" by simp
  then have "s = rev (dropWhile (\<lambda>d. d = c) (rev s)) @ rev (takeWhile (\<lambda>d. d = c) (rev s))"
    by (metis rev_append rev_rev_ident)
  moreover have "rev (takeWhile (\<lambda>d. d = c) (rev s)) = replicate (length (takeWhile (\<lambda>d. d = c) (rev s))) c"
    by (intro replicate_eqI) (auto dest: set_takeWhileD)
  ultimately show ?thesis by (metis trim_right_char_def)
qed

definition has_prefix :: "string \<Rightarrow> string \<Rightarrow> bool" where
  "has_prefix s p \<longleftrightarrow> prefix p s"

definition has_suffix :: "string \<Rightarrow> string \<Rightarrow> bool" where
  "has_suffix s p \<longleftrightarrow> prefix (rev p) (rev s)"

definition replace_char :: "char \<Rightarrow> string \<Rightarrow> string \<Rightarrow> string" where
  "replace_char c r s = concat (map (\<lambda>d. if d = c then r else [d]) s)"

section \<open>Numbers\<close>

definition is_digit :: "char \<Rightarrow> bool" where
  "is_digit c \<longleftrightarrow> 48 \<le> (of_char c :: nat) \<and> (of_char c :: nat) \<le> 57"

definition digit_val :: "char \<Rightarrow> int" where
  "digit_val c = int (of_char c) - 48"

fun nat_digits :: "nat \<Rightarrow> string" where
  "nat_digits n =
     (if n < 10 then [char_of (48 + n)] else nat_digits (n div 10) @ [char_of (48 + n mod 10)])"

declare nat_digits.simps [simp del]

definition itoa :: "int \<Rightarrow> string" where
  "itoa i = (if i < 0 then CHR ''-'' # nat_digits (nat (- i)) else nat_digits (nat i))"

definition digits_val :: "string \<Rightarrow> int" where
  "digits_val s = foldl (\<lambda>acc c. acc * 10 + digit_val c) 0 s"

lemma digits_val_nonneg: "list_all is_digit s \<Longrightarrow> 0 \<le> digits_val s"
proof -
  have "0 \<le> acc \<Longrightarrow> list_all is_digit s \<Longrightarrow> 0 \<le> foldl (\<lambda>acc c. acc * 10 + digit_val c) acc s" for acc
  proof (induction s arbitrary: acc)
    case Nil
    then show ?case by simp
  next
    case (Cons c s)
    then have "0 \<le> digit_val c"
      by (simp add: is_digit_def digit_val_def)
    with Cons show ?case by simp
  qed
  then show "list_all is_digit s \<Longrightarrow> 0 \<le> digits_val s"
    by (simp add: digits_val_def)
qed

section \<open>The helpers every package repeats\<close>

text \<open>
  \<open>firstNonEmpty\<close> of \<open>internal/dataworks/domain.go\<close> trims; the function of the same name in
  \<open>internal/proxy/server.go\<close> does not.
\<close>

fun first_non_empty :: "string list \<Rightarrow> string" where
  "first_non_empty [] = []"
| "first_non_empty (v # vs) =
     (if trim_space v \<noteq> [] then trim_space v else first_non_empty vs)"

fun first_non_empty_raw :: "string list \<Rightarrow> string" where
  "first_non_empty_raw [] = []"
| "first_non_empty_raw (v # vs) = (if v \<noteq> [] then v else first_non_empty_raw vs)"

text \<open>\<open>splitCSVField\<close> of \<open>internal/store/data_products.go\<close>.\<close>

definition split_csv_field :: "string \<Rightarrow> string list" where
  "split_csv_field value = filter (\<lambda>w. w \<noteq> []) (map trim_space (split_char (CHR '','') value))"

text \<open>\<open>splitLoose\<close> and \<open>uniqueStrings\<close> of \<open>internal/dataworks/domain.go\<close>.\<close>

definition split_loose :: "string \<Rightarrow> string list" where
  "split_loose value =
     filter (\<lambda>w. w \<noteq> []) (map trim_space
       (fields_func (\<lambda>c. c = CHR '','' \<or> c = CHR 0x0A \<or> c = CHR '';'' \<or> c = CHR ''|'') value))"

definition unique_strings :: "string list \<Rightarrow> string list" where
  "unique_strings values = first_by (\<lambda>v. v) [[]] (map trim_space values)"

definition contains_fold :: "string list \<Rightarrow> string \<Rightarrow> bool" where
  "contains_fold values want =
     (let w = to_lower (trim_space want)
      in if w = [] then False else list_ex (\<lambda>v. to_lower (trim_space v) = w) values)"

lemma split_csv_field_trimmed:
  "w \<in> set (split_csv_field s) \<Longrightarrow> trim_space w = w \<and> w \<noteq> []"
  by (auto simp: split_csv_field_def)

text \<open>What \<open>strings.Join(fields, ",")\<close> stores is read back unchanged for clean fields.\<close>

lemma split_csv_field_join:
  assumes "\<forall>w \<in> set ws. trim_space w = w \<and> w \<noteq> [] \<and> CHR '','' \<notin> set w"
  shows "split_csv_field (join '','' ws) = ws"
proof (cases "ws = []")
  case True
  then show ?thesis by (simp add: split_csv_field_def split_char_def)
next
  case False
  with assms have "split_char (CHR '','') (join '','' ws) = ws"
    by (intro split_char_join) auto
  with assms show ?thesis
    by (simp add: split_csv_field_def map_idI)
qed

lemma unique_strings_distinct: "distinct (unique_strings values)"
  by (simp add: unique_strings_def first_by_id_distinct)

lemma unique_strings_set:
  "set (unique_strings values) = trim_space ` set values - {[]}"
  using first_by_keys [of "\<lambda>v. v" "[[]]" "map trim_space values"]
  by (simp add: unique_strings_def)

end
