(* ===== verification/GoTime.thy ===== *)
theory GoTime
  imports GoStrings
begin

text \<open>
  The part of Go's \<open>time\<close> package the program uses.  An instant is the number of nanoseconds
  since the Unix epoch (any integer), the zero \<open>time.Time\<close> is the first instant of year 1.
  \<open>parse_rfc3339\<close> is \<open>time.Parse(time.RFC3339Nano, v)\<close> with every leniency of Go's layout
  parser (one-digit hours, comma fractions, offsets up to 24:60), \<open>format_rfc3339nano\<close> is
  \<open>t.UTC().Format(time.RFC3339Nano)\<close> for years 0 to 9999.
\<close>

type_synonym go_time = int

definition second :: int where "second = 1000000000"
definition minute :: int where "minute = 60 * second"
definition hour :: int where "hour = 60 * minute"

definition zero_time :: go_time where
  "zero_time = - 62135596800 * second"

text \<open>\<open>t.Truncate(time.Minute)\<close>: minutes are aligned with the zero time.\<close>

definition truncate_minute :: "go_time \<Rightarrow> go_time" where
  "truncate_minute t = (t div minute) * minute"

lemma truncate_minute_le: "truncate_minute t \<le> t"
  by (simp add: truncate_minute_def minute_def second_def)

lemma truncate_minute_gt: "t < truncate_minute t + minute"
  by (simp add: truncate_minute_def minute_def second_def)

lemma truncate_minute_mono: "s \<le> t \<Longrightarrow> truncate_minute s \<le> truncate_minute t"
  by (simp add: truncate_minute_def minute_def second_def zdiv_mono1)

section \<open>The calendar\<close>

definition is_leap :: "int \<Rightarrow> bool" where
  "is_leap y \<longleftrightarrow> 4 dvd y \<and> (\<not> 100 dvd y \<or> 400 dvd y)"

definition month_lengths :: "int \<Rightarrow> int list" where
  "month_lengths y = [31, if is_leap y then 29 else 28, 31, 30, 31, 30, 31, 31, 30, 31, 30, 31]"

definition days_in :: "int \<Rightarrow> int \<Rightarrow> int" where
  "days_in y m = (if 1 \<le> m \<and> m \<le> 12 then month_lengths y ! nat (m - 1) else 0)"

text \<open>Days from 1 January of year 0 to 1 January of year \<open>y\<close>.\<close>

definition days_before_year :: "int \<Rightarrow> int" where
  "days_before_year y = 365 * y + (y + 3) div 4 - (y + 99) div 100 + (y + 399) div 400"

definition days_before_month :: "int \<Rightarrow> int \<Rightarrow> int" where
  "days_before_month y m = sum_list (take (nat (m - 1)) (month_lengths y))"

text \<open>The Unix epoch is day 719528 of this count.\<close>

definition days_from_civil :: "int \<Rightarrow> int \<Rightarrow> int \<Rightarrow> int" where
  "days_from_civil y m d = days_before_year y + days_before_month y m + (d - 1) - 719528"

definition year_of_day :: "int \<Rightarrow> int" where
  "year_of_day n =
     (let y = n * 400 div 146097
      in if n < days_before_year y then y - 1
         else if days_before_year (y + 1) \<le> n then y + 1 else y)"

fun split_month :: "int \<Rightarrow> int \<Rightarrow> int list \<Rightarrow> int \<times> int" where
  "split_month m n [] = (m, n + 1)"
| "split_month m n (l # ls) = (if n < l then (m, n + 1) else split_month (m + 1) (n - l) ls)"

definition civil_from_days :: "int \<Rightarrow> int \<times> int \<times> int" where
  "civil_from_days n =
     (let y = year_of_day (n + 719528);
          (m, d) = split_month 1 (n + 719528 - days_before_year y) (month_lengths y)
      in (y, m, d))"

section \<open>Parsing\<close>

fun take_digits :: "nat \<Rightarrow> string \<Rightarrow> (int \<times> string) option" where
  "take_digits n s =
     (if length (take n s) = n \<and> list_all is_digit (take n s)
      then Some (digits_val (take n s), drop n s) else None)"

definition expect :: "char \<Rightarrow> string \<Rightarrow> string option" where
  "expect c s = (case s of [] \<Rightarrow> None | d # r \<Rightarrow> if d = c then Some r else None)"

definition check :: "bool \<Rightarrow> unit option" where
  "check b = (if b then Some () else None)"

text \<open>The hour field of the layout is not fixed width: one digit is accepted.\<close>

definition take_hour :: "string \<Rightarrow> (int \<times> string) option" where
  "take_hour s = (case take_digits 2 s of None \<Rightarrow> take_digits 1 s | Some r \<Rightarrow> Some r)"

text \<open>
  Fractional seconds: a point or comma followed by digits; nine digits count, further ones are
  dropped.
\<close>

definition take_fraction :: "string \<Rightarrow> (int \<times> string) option" where
  "take_fraction s =
     (case s of
        c # d # _ \<Rightarrow>
          if (c = CHR ''.'' \<or> c = CHR '','') \<and> is_digit d then
            let ds = takeWhile is_digit (tl s); nine = take 9 ds
            in Some (digits_val nine * 10 ^ (9 - length nine), drop (length ds) (tl s))
          else Some (0, s)
      | _ \<Rightarrow> Some (0, s))"

definition take_zone :: "string \<Rightarrow> (int \<times> string) option" where
  "take_zone s =
     (case s of
        [] \<Rightarrow> None
      | c # r \<Rightarrow>
          if c = CHR ''Z'' then Some (0, r)
          else do {
            (hh, r) \<leftarrow> take_digits 2 r;
            r \<leftarrow> expect (CHR '':'') r;
            (mm, r) \<leftarrow> take_digits 2 r;
            check (hh \<le> 24 \<and> mm \<le> 60);
            check (c = CHR ''+'' \<or> c = CHR ''-'');
            Some ((if c = CHR ''-'' then - 1 else 1) * ((hh * 60 + mm) * 60), r)
          })"

definition parse_rfc3339 :: "string \<Rightarrow> go_time option" where
  "parse_rfc3339 s = do {
     (y, s) \<leftarrow> take_digits 4 s;
     s \<leftarrow> expect (CHR ''-'') s;
     (mo, s) \<leftarrow> take_digits 2 s;
     check (1 \<le> mo \<and> mo \<le> 12);
     s \<leftarrow> expect (CHR ''-'') s;
     (d, s) \<leftarrow> take_digits 2 s;
     s \<leftarrow> expect (CHR ''T'') s;
     (h, s) \<leftarrow> take_hour s;
     check (h < 24);
     s \<leftarrow> expect (CHR '':'') s;
     (mi, s) \<leftarrow> take_digits 2 s;
     check (mi < 60);
     s \<leftarrow> expect (CHR '':'') s;
     (sec, s) \<leftarrow> take_digits 2 s;
     check (sec < 60);
     (ns, s) \<leftarrow> take_fraction s;
     (off, s) \<leftarrow> take_zone s;
     check (s = []);
     check (1 \<le> d \<and> d \<le> days_in y mo);
     Some ((days_from_civil y mo d * 86400 + h * 3600 + mi * 60 + sec - off) * second + ns)
   }"

section \<open>Formatting\<close>

text \<open>Decimal digits padded with zeros to a width.\<close>

fun pad_digits :: "nat \<Rightarrow> int \<Rightarrow> string" where
  "pad_digits 0 n = []"
| "pad_digits (Suc k) n = pad_digits k (n div 10) @ [char_of (48 + nat (n mod 10))]"

text \<open>The layout's \<open>.999999999\<close>: the fraction without trailing zeros, or nothing.\<close>

definition format_fraction :: "int \<Rightarrow> string" where
  "format_fraction ns =
     (let ds = trim_right_char (CHR ''0'') (pad_digits 9 ns)
      in if ds = [] then [] else CHR ''.'' # ds)"

definition format_date :: "go_time \<Rightarrow> string" where
  "format_date t =
     (let (y, m, d) = civil_from_days (t div (86400 * second))
      in pad_digits 4 y @ ''-'' @ pad_digits 2 m @ ''-'' @ pad_digits 2 d)"

definition format_rfc3339nano :: "go_time \<Rightarrow> string" where
  "format_rfc3339nano t =
     (let r = t mod (86400 * second); s = r div second
      in format_date t @ ''T'' @ pad_digits 2 (s div 3600) @ '':''
         @ pad_digits 2 (s div 60 mod 60) @ '':'' @ pad_digits 2 (s mod 60)
         @ format_fraction (r mod second) @ ''Z'')"

text \<open>\<open>formatTime\<close> of \<open>internal/store/sqlstore.go\<close>.\<close>

definition format_time :: "go_time \<Rightarrow> string" where
  "format_time value = format_rfc3339nano value"

text \<open>
  \<open>parseStoredTime\<close> of \<open>internal/store/reports.go\<close>.  Its second attempt, with layout
  \<open>time.RFC3339\<close>, accepts the same strings: both layouts read an optional fraction.
\<close>

definition parse_stored_time :: "string \<Rightarrow> go_time option" where
  "parse_stored_time v =
     (if v = [] then None
      else case parse_rfc3339 v of Some t \<Rightarrow> Some t | None \<Rightarrow> parse_rfc3339 v)"

lemma parse_stored_time_eq: "parse_stored_time v = parse_rfc3339 v"
  by (auto simp: parse_stored_time_def parse_rfc3339_def split: option.splits)

end
