(* ===== verification/StoreTypes.thy ===== *)
theory StoreTypes
  imports GoTime
begin

text \<open>
  The row types of the store (\<open>internal/store\<close>): one record per Go struct, one field per
  column, with the field's JSON name behind a prefix that names the record.  Go's \<open>int\<close> fields
  are integers (scores, versions and ceilings stay far below $2^{63}$); \<open>float64\<close> amounts are
  rationals, since every finite float is one and the code only compares, clamps and adds them.
  Timestamps are stored as text.
\<close>

text \<open>\<open>DataProduct\<close> of \<open>internal/store/data_products.go\<close>.\<close>

record data_product =
  dp_id :: string
  dp_product_key :: string
  dp_name_ko :: string
  dp_name_en :: string
  dp_short_name :: string
  dp_description :: string
  dp_executive_summary :: string
  dp_sales_pitch :: string
  dp_source_type :: string
  dp_source_ref :: string
  dp_owner :: string
  dp_allowed_teams :: "string list"
  dp_sensitivity :: string
  dp_status :: string
  dp_version :: int
  dp_target_industries :: "string list"
  dp_target_customers :: "string list"
  dp_pricing_model :: string
  dp_api_spec :: string
  dp_poc_plan :: string
  dp_risk_score :: int
  dp_revenue_score :: int
  dp_differentiation :: string
  dp_similar_products :: "string list"
  dp_updated_by :: string
  dp_created_at :: string
  dp_updated_at :: string

text \<open>\<open>AssetReadinessScore\<close> of \<open>internal/store/dataworks_governance.go\<close>.\<close>

record asset_readiness_score =
  rs_asset_key :: string
  rs_schema_score :: int
  rs_freshness_score :: int
  rs_sample_score :: int
  rs_missingness_score :: int
  rs_sensitivity_score :: int
  rs_external_sharing_score :: int
  rs_api_readiness_score :: int
  rs_billing_readiness_score :: int
  rs_overall_score :: int
  rs_notes :: string
  rs_updated_by :: string
  rs_updated_at :: string

text \<open>\<open>ProductCanvasV2\<close> of \<open>internal/store/dataworks_governance.go\<close>.\<close>

record product_canvas =
  pc_product_key :: string
  pc_customer_problem :: string
  pc_buyer :: string
  pc_use_cases :: string
  pc_provided_data :: string
  pc_differentiation :: string
  pc_pricing_model :: string
  pc_risk_notes :: string
  pc_poc_success_criteria :: string
  pc_expected_revenue :: string
  pc_owner :: string
  pc_updated_by :: string
  pc_created_at :: string
  pc_updated_at :: string

text \<open>\<open>ApprovalTrace\<close> of \<open>internal/store/dataworks_governance.go\<close>.\<close>

record approval_trace =
  atr_id :: string
  atr_product_key :: string
  atr_step :: string
  atr_status :: string
  atr_required :: bool
  atr_evidence_ref :: string
  atr_notes :: string
  atr_decided_by :: string
  atr_expires_at :: string
  atr_created_at :: string
  atr_updated_at :: string

text \<open>\<open>EvidencePack\<close> of \<open>internal/store/dataworks_governance.go\<close>.\<close>

record evidence_pack =
  ep_product_key :: string
  ep_pack_json :: string
  ep_artifact_ref :: string
  ep_created_by :: string
  ep_created_at :: string
  ep_updated_at :: string

text \<open>\<open>ContractVersion\<close> of \<open>internal/store/dataworks_governance.go\<close>.\<close>

record contract_version =
  cv_id :: string
  cv_product_key :: string
  cv_version :: int
  cv_contract_json :: string
  cv_status :: string
  cv_created_by :: string
  cv_created_at :: string

text \<open>\<open>CustomerSegment\<close> of \<open>internal/store/dataworks_operations.go\<close>.\<close>

record customer_segment =
  seg_segment_key :: string
  seg_industry :: string
  seg_buyer_type :: string
  seg_pain_points :: "string list"
  seg_budget_level :: string
  seg_created_at :: string
  seg_updated_at :: string

text \<open>\<open>ProductFitScore\<close> of \<open>internal/store/dataworks_operations.go\<close>.\<close>

record product_fit_score =
  fit_product_key :: string
  fit_customer_segment :: string
  fit_fit_score :: int
  fit_reason :: string
  fit_evidence_refs :: "string list"
  fit_updated_at :: string

text \<open>\<open>ProductVersion\<close> of \<open>internal/store/dataworks_operations.go\<close>.\<close>

record product_version =
  pv_product_key :: string
  pv_version :: int
  pv_snapshot_json :: string
  pv_diff_summary :: string
  pv_changed_by :: string
  pv_changed_at :: string

text \<open>\<open>ContractScope\<close> of \<open>internal/store/dataworks_operations.go\<close>.\<close>

record contract_scope =
  cs_contract_key :: string
  cs_product_key :: string
  cs_customer_key :: string
  cs_allowed_fields :: "string list"
  cs_rate_limit :: int
  cs_valid_from :: string
  cs_valid_to :: string
  cs_purpose :: string
  cs_restrictions :: string
  cs_status :: string
  cs_created_by :: string
  cs_created_at :: string
  cs_updated_at :: string
  cs_masking_policy :: string

text \<open>\<open>APIEntitlement\<close> of \<open>internal/store/dataworks_operations.go\<close>.\<close>

record api_entitlement =
  ent_id :: string
  ent_api_key_id :: string
  ent_api_key_hash :: string
  ent_customer_key :: string
  ent_product_key :: string
  ent_contract_key :: string
  ent_scope :: string
  ent_expires_at :: string
  ent_status :: string
  ent_created_by :: string
  ent_created_at :: string
  ent_updated_at :: string

text \<open>\<open>ProductSLA\<close> of \<open>internal/store/dataworks_operations.go\<close>.\<close>

record product_sla =
  sla_product_key :: string
  sla_refresh_cycle :: string
  sla_latency_target_ms :: int
  sla_availability_target :: rat
  sla_support_level :: string
  sla_updated_by :: string
  sla_created_at :: string
  sla_updated_at :: string

text \<open>\<open>DataWatermark\<close> of \<open>internal/store/dataworks_operations.go\<close>.\<close>

record data_watermark =
  wm_asset_key :: string
  wm_product_key :: string
  wm_last_loaded_at :: string
  wm_data_as_of :: string
  wm_delay_status :: string
  wm_notes :: string
  wm_updated_by :: string
  wm_updated_at :: string

text \<open>\<open>ProductCost\<close> of \<open>internal/store/dataworks_operations.go\<close>.\<close>

record product_cost =
  cost_product_key :: string
  cost_query_cost :: rat
  cost_llm_cost :: rat
  cost_ops_cost :: rat
  cost_data_processing_cost :: rat
  cost_estimated_margin :: rat
  cost_currency :: string
  cost_updated_by :: string
  cost_updated_at :: string
  cost_expected_revenue :: rat

text \<open>\<open>RetirementCandidate\<close> of \<open>internal/store/dataworks_operations.go\<close>.\<close>

record retirement_candidate =
  ret_product_key :: string
  ret_reason :: string
  ret_risk_score :: int
  ret_usage_count :: int
  ret_last_used_at :: string
  ret_recommendation :: string
  ret_created_at :: string
  ret_updated_at :: string

text \<open>\<open>DataQualityResult\<close> of \<open>internal/store/dataworks_advanced.go\<close>.\<close>

record data_quality_result =
  dq_id :: string
  dq_asset_key :: string
  dq_rule_id :: string
  dq_rule_type :: string
  dq_passed :: bool
  dq_actual_value :: rat
  dq_message :: string
  dq_checked_at :: string

text \<open>\<open>UsageMetering\<close> of \<open>internal/store/dataworks_advanced.go\<close>.\<close>

record usage_metering =
  um_id :: string
  um_customer_key :: string
  um_product_key :: string
  um_contract_key :: string
  um_total_calls :: int
  um_failed_calls :: int
  um_over_limit_calls :: int
  um_billing_amount :: rat
  um_billed_date :: string

text \<open>\<open>CustomerProposalEvent\<close> of \<open>internal/store/dataworks_operations.go\<close>.\<close>

record customer_proposal_event =
  pe_id :: string
  pe_customer_key :: string
  pe_product_key :: string
  pe_proposal_id :: string
  pe_variant :: string
  pe_event_type :: string
  pe_feedback :: string
  pe_next_action_at :: string
  pe_created_by :: string
  pe_created_at :: string

text \<open>\<open>ProductRiskReview\<close> of \<open>internal/store/factory.go\<close>.\<close>

record product_risk_review =
  rr_id :: string
  rr_product_key :: string
  rr_privacy_score :: int
  rr_credit_score :: int
  rr_ai_score :: int
  rr_security_score :: int
  rr_overall_score :: int
  rr_checklist_json :: string
  rr_review_notes :: string
  rr_created_by :: string
  rr_created_at :: string

text \<open>\<open>DataProductAccessRequest\<close> of \<open>internal/store/data_products.go\<close>.\<close>

record data_product_access_request =
  rq_id :: string
  rq_product_key :: string
  rq_user_id :: string
  rq_team :: string
  rq_status :: string
  rq_reason :: string
  rq_decided_by :: string
  rq_created_at :: string

text \<open>
  A product key retired for good (table \<open>data_product_retired_keys\<close>): key, product id and the
  time of the deletion.
\<close>

record retired_key =
  rk_product_key :: string
  rk_product_id :: string
  rk_retired_at :: string

section \<open>The database\<close>

text \<open>The tables the modelled handlers read and write.\<close>

record dw_store =
  st_products :: "data_product list"
  st_retired :: "retired_key list"
  st_requests :: "data_product_access_request list"
  st_readiness :: "asset_readiness_score list"
  st_canvases :: "product_canvas list"
  st_approvals :: "approval_trace list"
  st_packs :: "evidence_pack list"
  st_contract_versions :: "contract_version list"
  st_quality :: "data_quality_result list"
  st_risk_reviews :: "product_risk_review list"
  st_segments :: "customer_segment list"
  st_fits :: "product_fit_score list"
  st_versions :: "product_version list"
  st_scopes :: "contract_scope list"
  st_entitlements :: "api_entitlement list"
  st_slas :: "product_sla list"
  st_watermarks :: "data_watermark list"
  st_costs :: "product_cost list"
  st_events :: "customer_proposal_event list"
  st_retirements :: "retirement_candidate list"
  st_usage :: "usage_metering list"

definition empty_store :: dw_store where
  "empty_store = \<lparr>st_products = [], st_retired = [], st_requests = [], st_readiness = [],
     st_canvases = [], st_approvals = [], st_packs = [], st_contract_versions = [],
     st_quality = [], st_risk_reviews = [], st_segments = [], st_fits = [], st_versions = [],
     st_scopes = [], st_entitlements = [], st_slas = [], st_watermarks = [], st_costs = [],
     st_events = [], st_retirements = [], st_usage = []\<rparr>"

text \<open>
  A list column is written as \<open>strings.Join(xs, ",")\<close> and read back with
  \<open>splitCSVField\<close>; rows of the model hold the list that a read returns.
\<close>

definition stored_list :: "string list \<Rightarrow> string list" where
  "stored_list ws = split_csv_field (join '','' ws)"

lemma stored_list_trimmed: "w \<in> set (stored_list ws) \<Longrightarrow> trim_space w = w \<and> w \<noteq> []"
  unfolding stored_list_def by (rule split_csv_field_trimmed)

lemma stored_list_id:
  "\<forall>w \<in> set ws. trim_space w = w \<and> w \<noteq> [] \<and> CHR '','' \<notin> set w \<Longrightarrow> stored_list ws = ws"
  unfolding stored_list_def by (rule split_csv_field_join)

lemma stored_list_idem: "stored_list (stored_list ws) = stored_list ws"
proof (rule stored_list_id, intro ballI conjI)
  fix w assume w: "w \<in> set (stored_list ws)"
  from stored_list_trimmed [OF w] show "trim_space w = w" "w \<noteq> []" by auto
  from w obtain v where v: "v \<in> set (split_char (CHR '','') (join '','' ws))" "w = trim_space v"
    by (auto simp: stored_list_def split_csv_field_def)
  have "CHR '','' \<notin> set v"
    using v(1) split_by_no_sep [of "\<lambda>c. c = CHR '',''"] by (auto simp: split_char_def)
  moreover have "set w \<subseteq> set v"
    unfolding v(2) by (rule trim_space_set)
  ultimately show "CHR '','' \<notin> set w" by auto
qed

section \<open>A sample product\<close>

text \<open>The product that the concrete instances of the properties use.\<close>

definition sample_product :: data_product where
  "sample_product =
     \<lparr>dp_id = ''dp_1'', dp_product_key = ''loan-score'', dp_name_ko = [], dp_name_en = ''Loan score'',
      dp_short_name = [], dp_description = [], dp_executive_summary = [], dp_sales_pitch = [],
      dp_source_type = ''api'', dp_source_ref = ''loans; scores'', dp_owner = ''data'',
      dp_allowed_teams = [], dp_sensitivity = ''Personal_Credit'', dp_status = ''approved'',
      dp_version = 1, dp_target_industries = [], dp_target_customers = [],
      dp_pricing_model = ''per call'', dp_api_spec = [], dp_poc_plan = [], dp_risk_score = 40,
      dp_revenue_score = 60, dp_differentiation = [], dp_similar_products = [],
      dp_updated_by = [], dp_created_at = ''2025-01-01T00:00:00Z'',
      dp_updated_at = ''2025-01-01T00:00:00Z''\<rparr>"

end
