(* ===== verification/Tables.thy ===== *)
theory Tables
  imports StoreTypes
begin

text \<open>
  SQL tables with a primary key, as lists of rows.  \<open>upsert_row\<close> is
  \<open>INSERT ... ON CONFLICT(key) DO UPDATE\<close>: the merge function says which columns of the old row
  survive.  \<open>ORDER BY\<close> clauses are stable sorts with the comparison functions below; SQL leaves
  the order of ties open, and the stable order is one of the admissible results.  The locale
  \<open>row_store\<close> is the interface the handlers rely on, proved once and interpreted for every
  table the store theories declare.
\<close>

section \<open>Upsert and lookup\<close>

fun upsert_row :: "('r \<Rightarrow> 'k) \<Rightarrow> ('r \<Rightarrow> 'r \<Rightarrow> 'r) \<Rightarrow> 'r \<Rightarrow> 'r list \<Rightarrow> 'r list" where
  "upsert_row key merge new [] = [new]"
| "upsert_row key merge new (r # rs) =
     (if key r = key new then merge r new # rs else r # upsert_row key merge new rs)"

definition find_row :: "('r \<Rightarrow> 'k) \<Rightarrow> 'r list \<Rightarrow> 'k \<Rightarrow> 'r option" where
  "find_row key rs k = find (\<lambda>r. key r = k) rs"

lemma find_row_Nil [simp]: "find_row key [] k = None"
  by (simp add: find_row_def)

lemma find_row_Cons [simp]:
  "find_row key (r # rs) k = (if key r = k then Some r else find_row key rs k)"
  by (simp add: find_row_def)

lemma find_row_key: "find_row key rs k = Some r \<Longrightarrow> key r = k \<and> r \<in> set rs"
  by (auto simp: find_row_def dest: find_Some_set)

lemma find_row_self: "distinct (map key rs) \<Longrightarrow> r \<in> set rs \<Longrightarrow> find_row key rs (key r) = Some r"
  by (induction rs) auto

lemma find_row_upsert_other:
  assumes "\<And>old. key (merge old new) = key new" "k \<noteq> key new"
  shows "find_row key (upsert_row key merge new rs) k = find_row key rs k"
  using assms by (induction rs) auto

lemma find_row_upsert_same:
  assumes "\<And>old. key (merge old new) = key new"
  shows "find_row key (upsert_row key merge new rs) (key new) =
    Some (case find_row key rs (key new) of None \<Rightarrow> new | Some old \<Rightarrow> merge old new)"
  using assms by (induction rs) auto

lemma upsert_row_keys:
  assumes "\<And>old. key (merge old new) = key new"
  shows "key ` set (upsert_row key merge new rs) = insert (key new) (key ` set rs)"
  using assms by (induction rs) auto

lemma upsert_row_distinct:
  assumes "\<And>old. key (merge old new) = key new" "distinct (map key rs)"
  shows "distinct (map key (upsert_row key merge new rs))"
  using assms(2)
proof (induction rs)
  case Nil
  then show ?case by simp
next
  case (Cons r rs)
  then show ?case
    using upsert_row_keys [of key merge new rs, OF assms(1)] assms(1) by auto
qed

lemma upsert_row_elem:
  "r \<in> set (upsert_row key merge new rs) \<Longrightarrow>
    r = new \<or> r \<in> set rs \<or> (\<exists>old \<in> set rs. key old = key new \<and> r = merge old new)"
  by (induction rs) (auto split: if_splits)

lemma upsert_row_all:
  assumes "\<forall>r \<in> set rs. P r" "P new" "\<And>old. P old \<Longrightarrow> key old = key new \<Longrightarrow> P (merge old new)"
  shows "\<forall>r \<in> set (upsert_row key merge new rs). P r"
  using assms upsert_row_elem by fast

text \<open>An update of all rows that keeps their keys.\<close>

lemma find_row_map:
  assumes "\<And>x. key (f x) = key x"
  shows "find_row key (map f rs) k = map_option f (find_row key rs k)"
  using assms by (induction rs) auto

section \<open>The interface of a keyed table\<close>

locale row_store =
  fixes key :: "'r \<Rightarrow> 'k"
    and get :: "'s \<Rightarrow> 'k \<Rightarrow> 'r option"
    and put :: "'r \<Rightarrow> 's \<Rightarrow> 's"
    and merge :: "'r \<Rightarrow> 'r \<Rightarrow> 'r"
  assumes get_put_same:
      "get (put r s) (key r) =
        Some (case get s (key r) of None \<Rightarrow> r | Some old \<Rightarrow> merge old r)"
    and get_put_other: "k \<noteq> key r \<Longrightarrow> get (put r s) k = get s k"
    and get_key: "get s k = Some r \<Longrightarrow> key r = k"
begin

lemma get_put:
  "get (put r s) k =
    (if k = key r then Some (case get s k of None \<Rightarrow> r | Some old \<Rightarrow> merge old r) else get s k)"
  by (simp add: get_put_same get_put_other)

text \<open>Writes with other keys do not touch a row.\<close>

lemma get_fold_put_other:
  "k \<notin> key ` set rs \<Longrightarrow> get (fold put rs s) k = get s k"
  by (induction rs arbitrary: s) (auto simp: get_put_other)

lemma put_dom: "{k. get (put r s) k \<noteq> None} = insert (key r) {k. get s k \<noteq> None}"
  by (auto simp: get_put)

text \<open>
  Ownership: an attribute of the row under a key (its product, say) that a guarded write keeps
  is kept for every key.
\<close>

lemma put_keeps_owner:
  assumes "\<And>old. get s (key r) = Some old \<Longrightarrow> owner old = owner r"
    and "\<And>old. owner (merge old r) = owner r"
    and "get s k = Some row"
  shows "\<exists>row'. get (put r s) k = Some row' \<and> owner row' = owner row"
  using assms by (auto simp: get_put)

end

text \<open>
  Most tables replace the old row but for its creation columns, so that only the last write to a
  key counts; counters (usage, product versions) do not.
\<close>

locale replacing_store = row_store key get put merge
  for key :: "'r \<Rightarrow> 'k" and get :: "'s \<Rightarrow> 'k \<Rightarrow> 'r option" and put :: "'r \<Rightarrow> 's \<Rightarrow> 's"
    and merge :: "'r \<Rightarrow> 'r \<Rightarrow> 'r" +
  assumes merge_last: "merge (merge a b) c = merge a c"
begin

text \<open>A second write to the same key leaves the table as if only it had happened to an old row.\<close>

lemma put_put_same:
  assumes "get s (key r) = Some old" "key r' = key r"
  shows "get (put r' (put r s)) k = get (put r' s) k"
  using assms by (auto simp: get_put merge_last)

end

text \<open>The list tables satisfy the interface for every merge that keeps the new key.\<close>

lemma row_store_upsert:
  assumes "\<And>old new. key (merge old new) = key new"
  shows "row_store key (find_row key) (upsert_row key merge) merge"
  using assms find_row_key
  by unfold_locales (fastforce simp: find_row_upsert_same find_row_upsert_other)+

section \<open>Comparison functions of ORDER BY\<close>

definition by_key_desc :: "('a \<Rightarrow> 'k :: linorder) \<Rightarrow> 'a \<Rightarrow> 'a \<Rightarrow> bool" where
  "by_key_desc key x y \<longleftrightarrow> key y < key x"

definition order_then :: "('a \<Rightarrow> 'a \<Rightarrow> bool) \<Rightarrow> ('a \<Rightarrow> 'a \<Rightarrow> bool) \<Rightarrow> 'a \<Rightarrow> 'a \<Rightarrow> bool" where
  "order_then lt lt' x y \<longleftrightarrow> lt x y \<or> (\<not> lt y x \<and> lt' x y)"

interpretation key_desc_order: weak_order "\<lambda>_. True" "by_key_desc key"
  for key :: "'a \<Rightarrow> 'k :: linorder"
  by unfold_locales (auto simp: by_key_desc_def)

lemma weak_order_then:
  assumes "weak_order ok lt" "weak_order ok lt'"
  shows "weak_order ok (order_then lt lt')"
proof -
  note a = weak_order.lt_asym [OF assms(1)] weak_order.not_lt_trans [OF assms(1)]
  note b = weak_order.lt_asym [OF assms(2)] weak_order.not_lt_trans [OF assms(2)]
  show ?thesis
  proof
    fix x y
    assume "ok x" "ok y" "order_then lt lt' x y"
    then show "\<not> order_then lt lt' y x"
      using a(1) [of x y] b(1) [of x y] by (auto simp: order_then_def)
  next
    fix x y z
    assume "ok x" "ok y" "ok z" "\<not> order_then lt lt' y x" "\<not> order_then lt lt' z y"
    then show "\<not> order_then lt lt' z x"
      using a(2) [of x y z] a(2) [of z x y] a(2) [of y z x] b(2) [of x y z]
        a(1) [of x z] a(1) [of x y] a(1) [of y z]
      by (auto simp: order_then_def)
  qed
qed

text \<open>\<open>SELECT ... WHERE p ORDER BY lt\<close>.\<close>

definition select_rows :: "('r \<Rightarrow> bool) \<Rightarrow> ('r \<Rightarrow> 'r \<Rightarrow> bool) \<Rightarrow> 'r list \<Rightarrow> 'r list" where
  "select_rows P lt rs = slice_stable lt (filter P rs)"

lemma set_select_rows [simp]: "set (select_rows P lt rs) = {r \<in> set rs. P r}"
  by (simp add: select_rows_def)

text \<open>An optional filter: \<open>if strings.TrimSpace(v) != "" { q += " AND col = ?" }\<close>.\<close>

definition opt_eq :: "string \<Rightarrow> string \<Rightarrow> bool" where
  "opt_eq arg col \<longleftrightarrow> trim_space arg = [] \<or> col = trim_space arg"

end
