(* ===== verification/ContractStore.thy ===== *)
theory ContractStore
  imports Tables
begin

text \<open>
  Contract scopes and API entitlements of \<open>internal/store/dataworks_operations.go\<close>: the rows that
  decide who may query a data product.  The operations take the wall clock \<open>now\<close> that the code
  reads with \<open>time.Now()\<close>.
\<close>

section \<open>Contract scopes\<close>

definition merge_contract_scope :: "contract_scope \<Rightarrow> contract_scope \<Rightarrow> contract_scope" where
  "merge_contract_scope old new = new\<lparr>cs_created_at := cs_created_at old\<rparr>"

definition upsert_contract_scope :: "go_time \<Rightarrow> contract_scope \<Rightarrow> dw_store \<Rightarrow> dw_store result" where
  "upsert_contract_scope now scope s =
     (let scope = scope\<lparr>cs_contract_key := trim_space (cs_contract_key scope),
                        cs_product_key := trim_space (cs_product_key scope)\<rparr>
      in if cs_contract_key scope = [] \<or> cs_product_key scope = []
         then Inl ''contract_key and product_key are required''
         else
           let scope = (if trim_space (cs_status scope) = [] then scope\<lparr>cs_status := ''active''\<rparr>
                        else scope);
               ts = format_time now;
               row = scope\<lparr>cs_allowed_fields := stored_list (cs_allowed_fields scope),
                           cs_created_at := ts, cs_updated_at := ts\<rparr>
           in Inr (s\<lparr>st_scopes :=
                upsert_row cs_contract_key merge_contract_scope row (st_scopes s)\<rparr>))"

definition list_contract_scopes :: "string \<Rightarrow> string \<Rightarrow> dw_store \<Rightarrow> contract_scope list" where
  "list_contract_scopes product_key customer_key s =
     select_rows (\<lambda>r. opt_eq product_key (cs_product_key r) \<and> opt_eq customer_key (cs_customer_key r))
       (order_then (by_key_desc cs_updated_at) (by_key cs_contract_key)) (st_scopes s)"

definition get_contract_scope :: "string \<Rightarrow> dw_store \<Rightarrow> contract_scope option" where
  "get_contract_scope contract_key s = find_row cs_contract_key (st_scopes s) (trim_space contract_key)"

interpretation scopes: replacing_store cs_contract_key "find_row cs_contract_key"
  "upsert_row cs_contract_key merge_contract_scope" merge_contract_scope
  unfolding replacing_store_def replacing_store_axioms_def
  by (auto simp: merge_contract_scope_def intro!: row_store_upsert)

section \<open>API entitlements\<close>

definition merge_api_entitlement :: "api_entitlement \<Rightarrow> api_entitlement \<Rightarrow> api_entitlement" where
  "merge_api_entitlement old new = new\<lparr>ent_created_at := ent_created_at old\<rparr>"

definition upsert_api_entitlement :: "go_time \<Rightarrow> api_entitlement \<Rightarrow> dw_store \<Rightarrow> dw_store result" where
  "upsert_api_entitlement now ent s =
     (let ent = ent\<lparr>ent_id := trim_space (ent_id ent),
                    ent_product_key := trim_space (ent_product_key ent)\<rparr>
      in if ent_id ent = [] \<or> ent_product_key ent = []
         then Inl ''id and product_key are required''
         else if trim_space (ent_api_key_id ent) = [] \<and> trim_space (ent_api_key_hash ent) = []
         then Inl ''api_key_id or api_key_hash is required''
         else if trim_space (ent_contract_key ent) = []
         then Inl ''contract_key is required''
         else
           let ent = (if trim_space (ent_status ent) = [] then ent\<lparr>ent_status := ''active''\<rparr> else ent);
               ts = format_time now;
               row = ent\<lparr>ent_created_at := ts, ent_updated_at := ts\<rparr>
           in Inr (s\<lparr>st_entitlements :=
                upsert_row ent_id merge_api_entitlement row (st_entitlements s)\<rparr>))"

definition list_api_entitlements :: "string \<Rightarrow> string \<Rightarrow> dw_store \<Rightarrow> api_entitlement list" where
  "list_api_entitlements product_key api_key_id s =
     select_rows (\<lambda>r. opt_eq product_key (ent_product_key r) \<and> opt_eq api_key_id (ent_api_key_id r))
       (order_then (by_key_desc ent_updated_at) (by_key ent_id)) (st_entitlements s)"

definition get_api_entitlement :: "string \<Rightarrow> dw_store \<Rightarrow> api_entitlement option" where
  "get_api_entitlement key s = find_row ent_id (st_entitlements s) (trim_space key)"

interpretation entitlements: replacing_store ent_id "find_row ent_id"
  "upsert_row ent_id merge_api_entitlement" merge_api_entitlement
  unfolding replacing_store_def replacing_store_axioms_def
  by (auto simp: merge_api_entitlement_def intro!: row_store_upsert)

text \<open>
  \<open>EntitlementActive\<close>: an expiry the gateway cannot parse counts as expired.
\<close>

definition entitlement_active :: "api_entitlement \<Rightarrow> go_time \<Rightarrow> bool" where
  "entitlement_active ent now =
     (if \<not> equal_fold (trim_space (ent_status ent)) ''active'' then False
      else if trim_space (ent_expires_at ent) = [] then True
      else case parse_stored_time (trim_space (ent_expires_at ent)) of
             None \<Rightarrow> False
           | Some expires_at \<Rightarrow> now < expires_at)"

definition entitlement_newer :: "api_entitlement \<Rightarrow> api_entitlement \<Rightarrow> bool" where
  "entitlement_newer a b =
     (let string_order = (if ent_updated_at a \<noteq> ent_updated_at b
                          then ent_updated_at b < ent_updated_at a
                          else ent_id b < ent_id a)
      in case (parse_stored_time (ent_updated_at a), parse_stored_time (ent_updated_at b)) of
           (Some ta, Some tb) \<Rightarrow> if ta \<noteq> tb then tb < ta else string_order
         | _ \<Rightarrow> string_order)"

definition candidate_before :: "go_time \<Rightarrow> api_entitlement \<Rightarrow> api_entitlement \<Rightarrow> bool" where
  "candidate_before now x y =
     (if entitlement_active x now \<noteq> entitlement_active y now then entitlement_active x now
      else entitlement_newer x y)"

definition candidate_match :: "string \<Rightarrow> string \<Rightarrow> string \<Rightarrow> api_entitlement \<Rightarrow> bool" where
  "candidate_match product_key api_key_id api_key_hash r \<longleftrightarrow>
     ent_product_key r = product_key \<and>
     ((api_key_id \<noteq> [] \<and> ent_api_key_id r = api_key_id) \<or>
      (api_key_hash \<noteq> [] \<and> ent_api_key_hash r = api_key_hash))"

text \<open>\<open>ListAPIEntitlementCandidates\<close>: the fifty last written rows of the key, reordered.\<close>

definition list_api_entitlement_candidates ::
  "go_time \<Rightarrow> string \<Rightarrow> string \<Rightarrow> string \<Rightarrow> dw_store \<Rightarrow> api_entitlement list" where
  "list_api_entitlement_candidates now product_key api_key_id api_key_hash s =
     (let product_key = trim_space product_key;
          api_key_id = trim_space api_key_id;
          api_key_hash = trim_space api_key_hash
      in if product_key = [] \<or> (api_key_id = [] \<and> api_key_hash = []) then []
         else slice_stable (candidate_before now)
                (take 50 (select_rows (candidate_match product_key api_key_id api_key_hash)
                   (by_key_desc ent_updated_at) (st_entitlements s))))"

definition find_api_entitlement ::
  "go_time \<Rightarrow> string \<Rightarrow> string \<Rightarrow> string \<Rightarrow> dw_store \<Rightarrow> api_entitlement option" where
  "find_api_entitlement now product_key api_key_id api_key_hash s =
     (case list_api_entitlement_candidates now product_key api_key_id api_key_hash s of
        [] \<Rightarrow> None
      | ent # _ \<Rightarrow> Some ent)"

section \<open>Lemmas\<close>

lemma entitlement_active_status:
  "entitlement_active ent now \<Longrightarrow> to_lower (trim_space (ent_status ent)) = ''active''"
  by (auto simp: entitlement_active_def equal_fold_def to_lower_def lower_char_def split: if_splits)

text \<open>
  The runtime order is a strict weak order on rows whose \<open>updated_at\<close> can be read, which is
  what the store writes.
\<close>

definition readable_update :: "api_entitlement \<Rightarrow> bool" where
  "readable_update r \<longleftrightarrow> parse_stored_time (ent_updated_at r) \<noteq> None"

definition update_rank :: "api_entitlement \<Rightarrow> go_time \<times> string \<times> string" where
  "update_rank r = (the (parse_stored_time (ent_updated_at r)), ent_updated_at r, ent_id r)"

lemma entitlement_newer_iff:
  assumes "readable_update a" "readable_update b"
  shows "entitlement_newer a b \<longleftrightarrow>
    (let (ta, ua, ia) = update_rank a; (tb, ub, ib) = update_rank b
     in tb < ta \<or> (tb = ta \<and> (ub < ua \<or> (ub = ua \<and> ib < ia))))"
  using assms by (auto simp: entitlement_newer_def readable_update_def update_rank_def Let_def)

interpretation candidates: weak_order readable_update "candidate_before now" for now
proof
  fix x y
  assume "readable_update x" "readable_update y" "candidate_before now x y"
  then show "\<not> candidate_before now y x"
    by (auto simp: candidate_before_def entitlement_newer_iff Let_def split: if_splits prod.splits)
next
  fix x y z
  assume "readable_update x" "readable_update y" "readable_update z"
    "\<not> candidate_before now y x" "\<not> candidate_before now z y"
  then show "\<not> candidate_before now z x"
    by (auto simp: candidate_before_def entitlement_newer_iff Let_def split: if_splits prod.splits)
qed

lemma candidates_subset:
  "r \<in> set (list_api_entitlement_candidates now pk kid kh s) \<Longrightarrow>
    r \<in> set (st_entitlements s) \<and> candidate_match (trim_space pk) (trim_space kid) (trim_space kh) r"
  by (auto simp: list_api_entitlement_candidates_def Let_def split: if_splits dest!: in_set_takeD)

end
