(* ===== verification/ProductStore.thy ===== *)
theory ProductStore
  imports Tables
begin

text \<open>
  The product catalog of \<open>internal/store/data_products.go\<close>: products by key and id, the permanent
  tombstones of deleted keys, and the access requests of team members.  The transaction of
  \<open>UpsertDataProduct\<close> and \<open>deleteDataProduct\<close> is one step of the model.
\<close>

section \<open>Products\<close>

text \<open>
  An update keeps the row's id and creation time and bumps the version; list columns go through
  their CSV form.
\<close>

definition merge_data_product :: "data_product \<Rightarrow> data_product \<Rightarrow> data_product" where
  "merge_data_product old new =
     new\<lparr>dp_id := dp_id old, dp_version := dp_version old + 1, dp_created_at := dp_created_at old\<rparr>"

definition stored_product :: "go_time \<Rightarrow> data_product \<Rightarrow> data_product" where
  "stored_product now p =
     p\<lparr>dp_product_key := trim_space (dp_product_key p),
       dp_sensitivity := (if dp_sensitivity p = [] then ''internal'' else dp_sensitivity p),
       dp_source_type := (if dp_source_type p = [] then ''custom'' else dp_source_type p),
       dp_status := (if dp_status p = [] then ''draft'' else dp_status p),
       dp_version := 1,
       dp_allowed_teams := stored_list (dp_allowed_teams p),
       dp_target_industries := stored_list (dp_target_industries p),
       dp_target_customers := stored_list (dp_target_customers p),
       dp_similar_products := stored_list (dp_similar_products p),
       dp_created_at := format_time now, dp_updated_at := format_time now\<rparr>"

text \<open>
  The two errors of the write: a retired key, and the primary key on \<open>id\<close> when a new key comes
  with an id another row has (the message is the driver's).
\<close>

datatype product_error = KeyRetired string | ConstraintFailed

definition upsert_data_product :: "go_time \<Rightarrow> data_product \<Rightarrow> dw_store \<Rightarrow> product_error + dw_store" where
  "upsert_data_product now p s =
     (let row = stored_product now p; key = dp_product_key row
      in if find_row rk_product_key (st_retired s) key \<noteq> None then Inl (KeyRetired key)
         else if find_row dp_product_key (st_products s) key = None
              \<and> dp_id row \<in> dp_id ` set (st_products s) then Inl ConstraintFailed
         else Inr (s\<lparr>st_products :=
                upsert_row dp_product_key merge_data_product row (st_products s)\<rparr>))"

definition list_data_products :: "string \<Rightarrow> dw_store \<Rightarrow> data_product list" where
  "list_data_products status s =
     select_rows (\<lambda>r. status = [] \<or> dp_status r = status) (by_key_desc dp_created_at) (st_products s)"

text \<open>
  \<open>WHERE id = ? OR product_key = ?\<close> without an order: the first matching row of the table.
\<close>

definition get_data_product :: "string \<Rightarrow> dw_store \<Rightarrow> data_product option" where
  "get_data_product id_or_key s =
     find (\<lambda>r. dp_id r = id_or_key \<or> dp_product_key r = id_or_key) (st_products s)"

definition get_data_product_by_key :: "string \<Rightarrow> dw_store \<Rightarrow> data_product option" where
  "get_data_product_by_key key s = find_row dp_product_key (st_products s) (trim_space key)"

interpretation products: row_store dp_product_key "find_row dp_product_key"
  "upsert_row dp_product_key merge_data_product" merge_data_product
  by (rule row_store_upsert) (simp add: merge_data_product_def)

section \<open>Deletion\<close>

text \<open>\<open>deleteDataProduct\<close> for the row its lookup query found: tombstone, then delete.\<close>

definition retire_product :: "go_time \<Rightarrow> data_product option \<Rightarrow> dw_store \<Rightarrow> dw_store" where
  "retire_product now found s =
     (case found of
        None \<Rightarrow> s
      | Some p \<Rightarrow>
          s\<lparr>st_retired :=
              (if find_row rk_product_key (st_retired s) (dp_product_key p) = None
               then st_retired s @ [\<lparr>rk_product_key = dp_product_key p, rk_product_id = dp_id p,
                                     rk_retired_at = format_time now\<rparr>]
               else st_retired s),
            st_products :=
              filter (\<lambda>r. \<not> (dp_id r = dp_id p \<and> dp_product_key r = dp_product_key p))
                (st_products s)\<rparr>)"

definition delete_data_product :: "go_time \<Rightarrow> string \<Rightarrow> dw_store \<Rightarrow> dw_store result" where
  "delete_data_product now id_or_key s =
     (let k = trim_space id_or_key
      in if k = [] then Inl ''data product id or product_key is required''
         else Inr (retire_product now (get_data_product k s) s))"

definition delete_data_product_by_key :: "go_time \<Rightarrow> string \<Rightarrow> dw_store \<Rightarrow> dw_store result" where
  "delete_data_product_by_key now key s =
     (let k = trim_space key
      in if k = [] then Inl ''product_key is required''
         else Inr (retire_product now (find_row dp_product_key (st_products s) k) s))"

section \<open>Access requests\<close>

definition add_access_request ::
  "go_time \<Rightarrow> data_product_access_request \<Rightarrow> dw_store \<Rightarrow> dw_store" where
  "add_access_request now rq s =
     (let rq = (if rq_status rq = [] then rq\<lparr>rq_status := ''pending''\<rparr> else rq)
      in s\<lparr>st_requests := st_requests s @ [rq\<lparr>rq_created_at := format_time now\<rparr>]\<rparr>)"

definition list_access_requests :: "string \<Rightarrow> dw_store \<Rightarrow> data_product_access_request list" where
  "list_access_requests product_key s =
     take 200 (select_rows (\<lambda>r. product_key = [] \<or> rq_product_key r = product_key)
       (by_key_desc rq_created_at) (st_requests s))"

definition decide_access_request :: "string \<Rightarrow> bool \<Rightarrow> string \<Rightarrow> dw_store \<Rightarrow> dw_store" where
  "decide_access_request request_id approve decider s =
     s\<lparr>st_requests := map (\<lambda>r. if rq_id r = request_id
         then r\<lparr>rq_status := (if approve then ''approved'' else ''denied''), rq_decided_by := decider\<rparr>
         else r) (st_requests s)\<rparr>"

section \<open>The catalog invariant\<close>

text \<open>
  Product keys are unique and no key of the catalog has a tombstone.
\<close>

definition catalog_ok :: "dw_store \<Rightarrow> bool" where
  "catalog_ok s \<longleftrightarrow> distinct (map dp_product_key (st_products s)) \<and>
     dp_product_key ` set (st_products s) \<inter> rk_product_key ` set (st_retired s) = {}"

lemma find_row_None_iff: "find_row key rs k = None \<longleftrightarrow> k \<notin> key ` set rs"
  by (auto simp: find_row_def find_None_all)

lemma catalog_ok_upsert:
  assumes "catalog_ok s" "upsert_data_product now p s = Inr s'"
  shows "catalog_ok s'"
proof -
  let ?row = "stored_product now p"
  have s': "s' = s\<lparr>st_products :=
      upsert_row dp_product_key merge_data_product ?row (st_products s)\<rparr>"
    and free: "dp_product_key ?row \<notin> rk_product_key ` set (st_retired s)"
    using assms(2) by (auto simp: upsert_data_product_def Let_def find_row_None_iff split: if_splits)
  have key_kept: "dp_product_key (merge_data_product old ?row) = dp_product_key ?row" for old
    by (simp add: merge_data_product_def)
  show ?thesis
    using assms(1) free
      upsert_row_distinct [of dp_product_key merge_data_product ?row "st_products s", OF key_kept]
      upsert_row_keys [of dp_product_key merge_data_product ?row "st_products s", OF key_kept]
    by (auto simp: catalog_ok_def s')
qed

lemma catalog_ok_retire:
  assumes "catalog_ok s" "\<And>p. found = Some p \<Longrightarrow> p \<in> set (st_products s)"
  shows "catalog_ok (retire_product now found s)"
proof (cases found)
  case None
  with assms(1) show ?thesis by (simp add: retire_product_def)
next
  case (Some p)
  have d: "distinct (map dp_product_key (st_products s))"
    and p: "p \<in> set (st_products s)"
    using assms Some by (auto simp: catalog_ok_def)
  have same: "r = p" if "r \<in> set (st_products s)" "dp_product_key r = dp_product_key p" for r
    using d p that by (meson distinct_map inj_on_eq_iff)
  have "distinct (map dp_product_key (filter Q (st_products s)))" for Q
    using d by (simp add: distinct_map_filter)
  then show ?thesis
    using assms(1) same Some
    by (fastforce simp: retire_product_def catalog_ok_def)
qed

text \<open>Tombstones are permanent.\<close>

lemma retire_product_keeps_tombstones:
  "rk_product_key ` set (st_retired s) \<subseteq> rk_product_key ` set (st_retired (retire_product now found s))"
  by (auto simp: retire_product_def split: option.splits)

lemma upsert_keeps_tombstones:
  "upsert_data_product now p s = Inr s' \<Longrightarrow> st_retired s' = st_retired s"
  by (auto simp: upsert_data_product_def Let_def split: if_splits)

lemma get_data_product_in: "get_data_product k s = Some p \<Longrightarrow> p \<in> set (st_products s)"
  by (auto simp: get_data_product_def dest: find_Some_set)

end
