(* ===== verification/GovernanceStore.thy ===== *)
theory GovernanceStore
  imports Tables
begin

text \<open>
  The evidence the publish gate reads: asset readiness scores, product canvases, approval traces,
  evidence packs and contract versions (\<open>internal/store/dataworks_governance.go\<close>), data quality
  results and the usage counters (\<open>internal/store/dataworks_advanced.go\<close>), risk reviews
  (\<open>internal/store/factory.go\<close>).
\<close>

section \<open>Readiness scores\<close>

definition merge_replace :: "'r \<Rightarrow> 'r \<Rightarrow> 'r" where
  "merge_replace old new = new"

definition upsert_asset_readiness_score ::
  "go_time \<Rightarrow> asset_readiness_score \<Rightarrow> dw_store \<Rightarrow> dw_store result" where
  "upsert_asset_readiness_score now score s =
     (let score = score\<lparr>rs_asset_key := trim_space (rs_asset_key score)\<rparr>
      in if rs_asset_key score = [] then Inl ''asset_key is required''
         else Inr (s\<lparr>st_readiness := upsert_row rs_asset_key merge_replace
                (score\<lparr>rs_updated_at := format_time now\<rparr>) (st_readiness s)\<rparr>))"

definition list_asset_readiness_scores :: "string \<Rightarrow> dw_store \<Rightarrow> asset_readiness_score list" where
  "list_asset_readiness_scores asset_key s =
     select_rows (\<lambda>r. opt_eq asset_key (rs_asset_key r))
       (order_then (by_key rs_overall_score) (by_key rs_asset_key)) (st_readiness s)"

interpretation readiness: replacing_store rs_asset_key "find_row rs_asset_key"
  "upsert_row rs_asset_key merge_replace" merge_replace
  unfolding replacing_store_def replacing_store_axioms_def
  by (auto simp: merge_replace_def intro!: row_store_upsert)

section \<open>Product canvases\<close>

definition merge_canvas :: "product_canvas \<Rightarrow> product_canvas \<Rightarrow> product_canvas" where
  "merge_canvas old new = new\<lparr>pc_created_at := pc_created_at old\<rparr>"

definition upsert_product_canvas :: "go_time \<Rightarrow> product_canvas \<Rightarrow> dw_store \<Rightarrow> dw_store result" where
  "upsert_product_canvas now canvas s =
     (let canvas = canvas\<lparr>pc_product_key := trim_space (pc_product_key canvas)\<rparr>
      in if pc_product_key canvas = [] then Inl ''product_key is required''
         else let ts = format_time now
              in Inr (s\<lparr>st_canvases := upsert_row pc_product_key merge_canvas
                   (canvas\<lparr>pc_created_at := ts, pc_updated_at := ts\<rparr>) (st_canvases s)\<rparr>))"

definition get_product_canvas :: "string \<Rightarrow> dw_store \<Rightarrow> product_canvas option" where
  "get_product_canvas product_key s = find_row pc_product_key (st_canvases s) (trim_space product_key)"

interpretation canvases: replacing_store pc_product_key "find_row pc_product_key"
  "upsert_row pc_product_key merge_canvas" merge_canvas
  unfolding replacing_store_def replacing_store_axioms_def
  by (auto simp: merge_canvas_def intro!: row_store_upsert)

section \<open>Approval traces\<close>

definition merge_approval_trace :: "approval_trace \<Rightarrow> approval_trace \<Rightarrow> approval_trace" where
  "merge_approval_trace old new = new\<lparr>atr_created_at := atr_created_at old\<rparr>"

definition upsert_approval_trace :: "go_time \<Rightarrow> approval_trace \<Rightarrow> dw_store \<Rightarrow> dw_store result" where
  "upsert_approval_trace now trace s =
     (let trace = trace\<lparr>atr_id := trim_space (atr_id trace),
                        atr_product_key := trim_space (atr_product_key trace),
                        atr_step := trim_space (atr_step trace)\<rparr>
      in if atr_id trace = [] \<or> atr_product_key trace = [] \<or> atr_step trace = []
         then Inl ''id, product_key, and step are required''
         else
           let trace = (if atr_status trace = [] then trace\<lparr>atr_status := ''pending''\<rparr> else trace);
               ts = format_time now
           in Inr (s\<lparr>st_approvals := upsert_row atr_id merge_approval_trace
                (trace\<lparr>atr_created_at := ts, atr_updated_at := ts\<rparr>) (st_approvals s)\<rparr>))"

definition approval_order :: "approval_trace \<Rightarrow> approval_trace \<Rightarrow> bool" where
  "approval_order = order_then (by_key atr_product_key)
     (order_then (by_key_desc atr_required)
       (order_then (by_key atr_step) (by_key_desc atr_updated_at)))"

definition list_approval_traces :: "string \<Rightarrow> dw_store \<Rightarrow> approval_trace list" where
  "list_approval_traces product_key s =
     select_rows (\<lambda>r. opt_eq product_key (atr_product_key r)) approval_order (st_approvals s)"

interpretation approvals: replacing_store atr_id "find_row atr_id"
  "upsert_row atr_id merge_approval_trace" merge_approval_trace
  unfolding replacing_store_def replacing_store_axioms_def
  by (auto simp: merge_approval_trace_def intro!: row_store_upsert)

section \<open>Evidence packs\<close>

definition merge_evidence_pack :: "evidence_pack \<Rightarrow> evidence_pack \<Rightarrow> evidence_pack" where
  "merge_evidence_pack old new = new\<lparr>ep_created_at := ep_created_at old\<rparr>"

definition upsert_evidence_pack :: "go_time \<Rightarrow> evidence_pack \<Rightarrow> dw_store \<Rightarrow> dw_store result" where
  "upsert_evidence_pack now pack s =
     (let pack = pack\<lparr>ep_product_key := trim_space (ep_product_key pack)\<rparr>
      in if ep_product_key pack = [] then Inl ''product_key is required''
         else
           let pack = (if trim_space (ep_pack_json pack) = [] then pack\<lparr>ep_pack_json := ''{}''\<rparr>
                       else pack);
               ts = format_time now
           in Inr (s\<lparr>st_packs := upsert_row ep_product_key merge_evidence_pack
                (pack\<lparr>ep_created_at := ts, ep_updated_at := ts\<rparr>) (st_packs s)\<rparr>))"

definition get_evidence_pack :: "string \<Rightarrow> dw_store \<Rightarrow> evidence_pack option" where
  "get_evidence_pack product_key s = find_row ep_product_key (st_packs s) (trim_space product_key)"

interpretation packs: replacing_store ep_product_key "find_row ep_product_key"
  "upsert_row ep_product_key merge_evidence_pack" merge_evidence_pack
  unfolding replacing_store_def replacing_store_axioms_def
  by (auto simp: merge_evidence_pack_def intro!: row_store_upsert)

section \<open>Contract versions\<close>

text \<open>
  The message of a violated primary key comes from the database driver; only that there is one
  matters.
\<close>

definition constraint_failed :: string where
  "constraint_failed = ''UNIQUE constraint failed''"

text \<open>\<open>SELECT COALESCE(MAX(version), 0) + 1\<close>.\<close>

definition next_version :: "int list \<Rightarrow> int" where
  "next_version versions = (if versions = [] then 0 else Max (set versions)) + 1"

definition chosen_version :: "int \<Rightarrow> int list \<Rightarrow> int" where
  "chosen_version requested versions =
     (let next = (if requested \<le> 0 then next_version versions else requested)
      in if next \<le> 0 then 1 else next)"

definition insert_contract_version ::
  "go_time \<Rightarrow> contract_version \<Rightarrow> dw_store \<Rightarrow> (int \<times> dw_store) result" where
  "insert_contract_version now version s =
     (let version = version\<lparr>cv_product_key := trim_space (cv_product_key version)\<rparr>
      in if cv_id version = [] \<or> cv_product_key version = []
         then Inl ''id and product_key are required''
         else
           let version = (if cv_status version = [] then version\<lparr>cv_status := ''draft''\<rparr> else version);
               version = (if trim_space (cv_contract_json version) = []
                          then version\<lparr>cv_contract_json := ''{}''\<rparr> else version);
               next = chosen_version (cv_version version)
                 (map cv_version (filter (\<lambda>r. cv_product_key r = cv_product_key version)
                   (st_contract_versions s)));
               row = version\<lparr>cv_version := next, cv_created_at := format_time now\<rparr>
           in if cv_id version \<in> cv_id ` set (st_contract_versions s) then Inl constraint_failed
              else Inr (next, s\<lparr>st_contract_versions := st_contract_versions s @ [row]\<rparr>))"

definition latest_contract_version :: "string \<Rightarrow> dw_store \<Rightarrow> contract_version option" where
  "latest_contract_version product_key s =
     (case select_rows (\<lambda>r. cv_product_key r = trim_space product_key) (by_key_desc cv_version)
             (st_contract_versions s) of
        [] \<Rightarrow> None | r # _ \<Rightarrow> Some r)"

section \<open>Quality results and risk reviews\<close>

definition list_data_quality_results :: "string \<Rightarrow> dw_store \<Rightarrow> data_quality_result list" where
  "list_data_quality_results asset_key s =
     select_rows (\<lambda>r. dq_asset_key r = asset_key) (by_key_desc dq_checked_at) (st_quality s)"

definition latest_product_risk_review :: "string \<Rightarrow> dw_store \<Rightarrow> product_risk_review option" where
  "latest_product_risk_review product_key s =
     (case select_rows (\<lambda>r. rr_product_key r = product_key) (by_key_desc rr_created_at)
             (st_risk_reviews s) of
        [] \<Rightarrow> None | r # _ \<Rightarrow> Some r)"

section \<open>Usage metering\<close>

text \<open>
  \<open>IncrementUsageMetering\<close>: the counters of one contract and day.  The row id joins its parts
  with colons.
\<close>

definition usage_id :: "string \<Rightarrow> string \<Rightarrow> string \<Rightarrow> string \<Rightarrow> string" where
  "usage_id customer_key product_key contract_key date =
     customer_key @ '':'' @ product_key @ '':'' @ contract_key @ '':'' @ date"

definition merge_usage :: "usage_metering \<Rightarrow> usage_metering \<Rightarrow> usage_metering" where
  "merge_usage old new = old\<lparr>
     um_total_calls := um_total_calls old + 1,
     um_failed_calls := um_failed_calls old + um_failed_calls new,
     um_over_limit_calls := um_over_limit_calls old + um_over_limit_calls new,
     um_billing_amount := um_billing_amount old + um_billing_amount new\<rparr>"

definition increment_usage_metering ::
  "go_time \<Rightarrow> string \<Rightarrow> string \<Rightarrow> string \<Rightarrow> bool \<Rightarrow> bool \<Rightarrow> rat \<Rightarrow> dw_store \<Rightarrow> dw_store" where
  "increment_usage_metering now customer_key product_key contract_key failed over_limit amount s =
     (let date = format_date now;
          row = \<lparr>um_id = usage_id customer_key product_key contract_key date,
                 um_customer_key = customer_key, um_product_key = product_key,
                 um_contract_key = contract_key, um_total_calls = 1,
                 um_failed_calls = of_bool failed, um_over_limit_calls = of_bool over_limit,
                 um_billing_amount = amount, um_billed_date = date\<rparr>
      in s\<lparr>st_usage := upsert_row um_id merge_usage row (st_usage s)\<rparr>)"

definition list_usage_metering :: "string \<Rightarrow> dw_store \<Rightarrow> usage_metering list" where
  "list_usage_metering product_key s =
     select_rows (\<lambda>r. um_product_key r = product_key) (by_key_desc um_billed_date) (st_usage s)"

text \<open>The counters keep the id of the old row, which is the id of the new one.\<close>

lemma merge_usage_id: "um_id old = um_id new \<Longrightarrow> um_id (merge_usage old new) = um_id new"
  by (simp add: merge_usage_def)

text \<open>
  What a call adds to a counter: \<open>calls\<close> is any linear column.
\<close>

lemma sum_list_upsert_row:
  fixes f :: "'r \<Rightarrow> 'n :: comm_monoid_add"
  assumes "\<And>old. key old = key new \<Longrightarrow> f (merge old new) = f old + f new"
  shows "(\<Sum>r \<leftarrow> upsert_row key merge new rs. f r) = (\<Sum>r \<leftarrow> rs. f r) + f new"
  using assms by (induction rs) (auto simp: algebra_simps)

end
