(* ===== verification/RateLimiter.thy ===== *)
theory RateLimiter
  imports GoTime "HOL-Library.AList_Mapping"
begin

text \<open>
  The per-minute call ceiling of a contract (\<open>internal/proxy/dataworks_ratelimit.go\<close>): fixed
  windows aligned with the wall-clock minute, kept in a map from contract keys.  A call holds the
  limiter's mutex from start to end, so calls are the atomic steps of a run.
\<close>

section \<open>The limiter\<close>

record contract_rate_window =
  rw_start :: go_time
  rw_count :: int

type_synonym contract_rate_limiter = "(string, contract_rate_window) mapping"

definition rate_limiter_max_keys :: nat where
  "rate_limiter_max_keys = 512"

definition prune_locked :: "go_time \<Rightarrow> contract_rate_limiter \<Rightarrow> contract_rate_limiter" where
  "prune_locked current l = Mapping.filter (\<lambda>key window. \<not> rw_start window < current) l"

definition window_of :: "contract_rate_limiter \<Rightarrow> string \<Rightarrow> contract_rate_window" where
  "window_of l key =
     (case Mapping.lookup l key of None \<Rightarrow> \<lparr>rw_start = zero_time, rw_count = 0\<rparr> | Some w \<Rightarrow> w)"

definition allow ::
  "contract_rate_limiter \<Rightarrow> string \<Rightarrow> int \<Rightarrow> go_time \<Rightarrow> (bool \<times> int \<times> go_time) \<times> contract_rate_limiter" where
  "allow l contract_key limit now =
     (let start = truncate_minute now; reset = start + minute
      in if limit \<le> 0 \<or> contract_key = [] then ((True, 0, reset), l)
         else
           let window = window_of l contract_key;
               (window, l) =
                 (if rw_start window \<noteq> start
                  then (\<lparr>rw_start = start, rw_count = 0\<rparr>,
                        if rate_limiter_max_keys < Mapping.size l then prune_locked start l else l)
                  else (window, l))
           in if limit \<le> rw_count window
              then ((False, rw_count window, reset), Mapping.update contract_key window l)
              else let window = window\<lparr>rw_count := rw_count window + 1\<rparr>
                   in ((True, rw_count window, reset), Mapping.update contract_key window l))"

text \<open>
  \<open>retryAfterSeconds\<close> of \<open>internal/proxy/dataworks_runtime.go\<close>.
\<close>

definition retry_after_seconds :: "go_time \<Rightarrow> go_time \<Rightarrow> int" where
  "retry_after_seconds reset_at now =
     (let remaining = reset_at - now
      in if remaining \<le> 0 then 1
         else let seconds = go_div remaining second
              in if remaining mod second \<noteq> 0 then seconds + 1 else seconds)"

lemma rounded_up:
  fixes x s :: int
  assumes "0 < s" "0 < x"
  shows "let q = (if x mod s \<noteq> 0 then x div s + 1 else x div s) in 1 \<le> q \<and> x \<le> q * s \<and> (q - 1) * s < x"
proof -
  define q where "q = x div s"
  define r where "r = x mod s"
  have x: "x = q * s + r" and r: "0 \<le> r" "r < s" and q: "0 \<le> q"
    using assms by (simp_all add: q_def r_def pos_imp_zdiv_nonneg_iff)
  have "0 < q" if "r = 0"
    using x q that assms(2) by (cases "q = 0") auto
  then show ?thesis
    unfolding q_def [symmetric] r_def [symmetric] Let_def
    using x r q by (auto simp: distrib_right left_diff_distrib)
qed

lemma retry_after_ceiling:
  "1 \<le> retry_after_seconds reset now \<and> reset \<le> now + retry_after_seconds reset now * second
   \<and> (retry_after_seconds reset now = 1 \<or> now + (retry_after_seconds reset now - 1) * second < reset)"
proof (cases "reset \<le> now")
  case False
  moreover have "0 < second" by (simp add: second_def)
  ultimately show ?thesis
    using rounded_up [of second "reset - now"] by (simp add: retry_after_seconds_def Let_def)
qed (simp add: retry_after_seconds_def second_def)

section \<open>One call\<close>

text \<open>How many calls of a minute the limiter has counted for a key.\<close>

definition used :: "contract_rate_limiter \<Rightarrow> string \<Rightarrow> go_time \<Rightarrow> int" where
  "used l key start =
     (case Mapping.lookup l key of
        None \<Rightarrow> 0 | Some w \<Rightarrow> if rw_start w = start then rw_count w else 0)"

text \<open>Counts are never negative, and no window lies after the last call.\<close>

definition limiter_ok :: "contract_rate_limiter \<Rightarrow> go_time \<Rightarrow> bool" where
  "limiter_ok l start \<longleftrightarrow>
     (\<forall>key w. Mapping.lookup l key = Some w \<longrightarrow> rw_start w \<le> start \<and> 0 \<le> rw_count w)"

lemma lookup_prune:
  "Mapping.lookup (prune_locked current l) key =
    (case Mapping.lookup l key of None \<Rightarrow> None
     | Some w \<Rightarrow> if rw_start w < current then None else Some w)"
  by (auto simp: prune_locked_def lookup_filter split: option.splits)

lemma allow_unlimited: "limit \<le> 0 \<or> key = [] \<Longrightarrow> snd (allow l key limit now) = l"
  by (simp add: allow_def Let_def)

lemma used_window: "rw_start (window_of l key) = start \<Longrightarrow> rw_count (window_of l key) = used l key start"
  by (auto simp: used_def window_of_def split: option.splits)

lemma used_stale: "rw_start (window_of l key) \<noteq> start \<Longrightarrow> used l key start = 0"
  by (auto simp: used_def window_of_def split: option.splits)

text \<open>A limited call is admitted exactly when the minute's count is below the limit.\<close>

lemma allow_admits:
  assumes "0 < limit" "key \<noteq> []"
  shows "fst (fst (allow l key limit now)) \<longleftrightarrow> used l key (truncate_minute now) < limit"
  using assms used_window [of l key "truncate_minute now"] used_stale [of l key "truncate_minute now"]
  by (auto simp: allow_def Let_def)

lemma allow_used_same:
  assumes "0 < limit" "key \<noteq> []"
  shows "used (snd (allow l key limit now)) key (truncate_minute now) =
    used l key (truncate_minute now) + of_bool (fst (fst (allow l key limit now)))"
  using assms used_window [of l key "truncate_minute now"] used_stale [of l key "truncate_minute now"]
  by (auto simp: allow_def Let_def used_def)

lemma lookup_allow_other:
  assumes "k \<noteq> key"
  shows "Mapping.lookup (snd (allow l key limit now)) k = Mapping.lookup l k \<or>
    (Mapping.lookup (snd (allow l key limit now)) k = None \<and>
     (\<exists>w. Mapping.lookup l k = Some w \<and> rw_start w < truncate_minute now))"
  using assms by (auto simp: allow_def Let_def lookup_update' lookup_prune split: option.splits)

text \<open>Another key's count of the current or a later minute never changes, pruning included.\<close>

lemma allow_used_other:
  assumes "k \<noteq> key" "truncate_minute now \<le> start"
  shows "used (snd (allow l key limit now)) k start = used l k start"
  using lookup_allow_other [OF assms(1), of l limit now] assms(2) by (auto simp: used_def)

lemma allow_ok:
  assumes "limiter_ok l start" "start \<le> truncate_minute now"
  shows "limiter_ok (snd (allow l key limit now)) (truncate_minute now)"
  using assms
  by (fastforce simp: limiter_ok_def allow_def Let_def lookup_update' lookup_prune window_of_def
      split: option.splits if_splits)

lemma used_nonneg: "limiter_ok l start' \<Longrightarrow> 0 \<le> used l key start"
  by (auto simp: used_def limiter_ok_def split: option.splits)

lemma used_future: "limiter_ok l start' \<Longrightarrow> start' < start \<Longrightarrow> used l key start = 0"
  by (fastforce simp: used_def limiter_ok_def split: option.splits)

section \<open>Runs\<close>

text \<open>A call names its contract, the ceiling stored on it and the time it arrives.\<close>

record rate_call =
  rc_key :: string
  rc_limit :: int
  rc_now :: go_time

fun run_limiter :: "contract_rate_limiter \<Rightarrow> rate_call list \<Rightarrow> bool list" where
  "run_limiter l [] = []"
| "run_limiter l (c # cs) =
     (let (answer, l') = allow l (rc_key c) (rc_limit c) (rc_now c)
      in fst answer # run_limiter l' cs)"

definition in_window :: "string \<Rightarrow> go_time \<Rightarrow> rate_call \<Rightarrow> bool" where
  "in_window key start c \<longleftrightarrow> rc_key c = key \<and> truncate_minute (rc_now c) = start"

definition window_calls :: "string \<Rightarrow> go_time \<Rightarrow> rate_call list \<Rightarrow> int" where
  "window_calls key start cs = int (length (filter (in_window key start) cs))"

definition admitted :: "contract_rate_limiter \<Rightarrow> rate_call list \<Rightarrow> string \<Rightarrow> go_time \<Rightarrow> int" where
  "admitted l cs key start =
     int (length (filter (\<lambda>(c, ok). in_window key start c \<and> ok) (zip cs (run_limiter l cs))))"

definition in_time_order :: "go_time \<Rightarrow> rate_call list \<Rightarrow> bool" where
  "in_time_order start cs \<longleftrightarrow> sorted (start # map (\<lambda>c. truncate_minute (rc_now c)) cs)"

lemma in_time_order_Cons:
  "in_time_order start (c # cs) \<longleftrightarrow>
    start \<le> truncate_minute (rc_now c) \<and> in_time_order (truncate_minute (rc_now c)) cs"
  by (auto simp: in_time_order_def)

lemma no_calls_before:
  "in_time_order start' cs \<Longrightarrow> start < start' \<Longrightarrow> c \<in> set cs \<Longrightarrow> \<not> in_window key start c"
  by (fastforce simp: in_time_order_def in_window_def)

lemma admitted_none:
  "\<forall>c \<in> set cs. \<not> in_window key start c \<Longrightarrow> admitted l cs key start = 0 \<and> window_calls key start cs = 0"
  by (auto simp: admitted_def window_calls_def filter_empty_conv dest: set_zip_leftD)

lemma admitted_Cons:
  "admitted l (c # cs) key start =
    of_bool (in_window key start c \<and> fst (fst (allow l (rc_key c) (rc_limit c) (rc_now c))))
    + admitted (snd (allow l (rc_key c) (rc_limit c) (rc_now c))) cs key start"
  by (simp add: admitted_def Let_def split: prod.split)

lemma window_calls_Cons:
  "window_calls key start (c # cs) = of_bool (in_window key start c) + window_calls key start cs"
  by (simp add: window_calls_def)

lemma window_calls_nonneg: "0 \<le> window_calls key start cs"
  by (simp add: window_calls_def)

text \<open>
  Over a run in time order, a contract with ceiling \<open>limit\<close> gets exactly the calls that still fit
  into the minute: the bound and the fact that nothing else is rejected in one equation.
\<close>

lemma admitted_exact:
  assumes "limiter_ok l start'" "in_time_order start' cs" "0 < limit" "key \<noteq> []"
    and "\<forall>c \<in> set cs. rc_key c = key \<longrightarrow> rc_limit c = limit"
    and "used l key start \<le> limit"
  shows "admitted l cs key start = min (limit - used l key start) (window_calls key start cs)"
  using assms
proof (induction cs arbitrary: l start')
  case Nil
  then show ?case by (simp add: admitted_def window_calls_def)
next
  case (Cons c cs)
  let ?t = "truncate_minute (rc_now c)"
  let ?l = "snd (allow l (rc_key c) (rc_limit c) (rc_now c))"
  have ord: "start' \<le> ?t" "in_time_order ?t cs"
    using Cons.prems(2) by (simp_all add: in_time_order_Cons)
  have ok: "limiter_ok ?l ?t" by (rule allow_ok [OF Cons.prems(1) ord(1)])
  show ?case
  proof (cases "start < ?t")
    case True
    then have "\<forall>d \<in> set (c # cs). \<not> in_window key start d"
      using no_calls_before [OF ord(2)] by (auto simp: in_window_def)
    then show ?thesis
      using admitted_none [of "c # cs"] Cons.prems(6) by simp
  next
    case False
    show ?thesis
    proof (cases "rc_key c = key")
      case mine: True
      then have lim: "rc_limit c = limit" using Cons.prems(5) by simp
      show ?thesis
      proof (cases "?t = start")
        case True
        have adm: "fst (fst (allow l key limit (rc_now c))) \<longleftrightarrow> used l key start < limit"
          using allow_admits [OF Cons.prems(3,4)] True by simp
        have used': "used ?l key start =
            used l key start + of_bool (fst (fst (allow l key limit (rc_now c))))"
          using allow_used_same [OF Cons.prems(3,4), of l "rc_now c"] True mine lim by simp
        have "admitted ?l cs key start = min (limit - used ?l key start) (window_calls key start cs)"
          using Cons.prems used' adm by (intro Cons.IH [OF ok ord(2)]) auto
        with used' adm True mine lim Cons.prems(6) show ?thesis
          using window_calls_nonneg [of key start cs]
          by (auto simp: admitted_Cons window_calls_Cons in_window_def)
      next
        case other: False
        have u0: "used l key start = 0"
          using used_future [OF Cons.prems(1)] ord(1) other False by auto
        have u1: "used ?l key start = 0"
          using used_future [OF ok] other False by auto
        have "admitted ?l cs key start = min (limit - used ?l key start) (window_calls key start cs)"
          using Cons.prems u1 by (intro Cons.IH [OF ok ord(2)]) auto
        with u0 u1 other show ?thesis
          by (auto simp: admitted_Cons window_calls_Cons in_window_def)
      qed
    next
      case other: False
      have u: "used ?l key start = used l key start"
        using other False by (intro allow_used_other) auto
      have "admitted ?l cs key start = min (limit - used ?l key start) (window_calls key start cs)"
        using Cons.prems u by (intro Cons.IH [OF ok ord(2)]) auto
      with u other show ?thesis
        by (auto simp: admitted_Cons window_calls_Cons in_window_def)
    qed
  qed
qed

lemma limiter_ok_empty: "limiter_ok Mapping.empty start"
  by (simp add: limiter_ok_def lookup_empty)

lemma used_empty [simp]: "used Mapping.empty key start = 0"
  by (simp add: used_def lookup_empty)

section \<open>Properties\<close>

text \<open>
  C8. The ceiling is exact.  Starting from an empty limiter, over any interleaving of contracts
  whose calls arrive in time order, the calls of a contract admitted in one minute are the smaller
  of its ceiling and the number it made: never more than the ceiling, and none rejected while the
  ceiling is not reached.  The window map may be pruned at any point.
\<close>

theorem rate_limit_exact:
  assumes "in_time_order start' cs" "0 < limit" "key \<noteq> []"
    and "\<forall>c \<in> set cs. rc_key c = key \<longrightarrow> rc_limit c = limit"
  shows "admitted Mapping.empty cs key start = min limit (window_calls key start cs)"
  using admitted_exact [OF limiter_ok_empty assms(1,2,3,4), of start] assms(2) by simp

definition sample_calls :: "rate_call list" where
  "sample_calls =
     [\<lparr>rc_key = ''a'', rc_limit = 2, rc_now = 0\<rparr>, \<lparr>rc_key = ''b'', rc_limit = 9, rc_now = second\<rparr>,
      \<lparr>rc_key = ''a'', rc_limit = 2, rc_now = 2 * second\<rparr>,
      \<lparr>rc_key = ''a'', rc_limit = 2, rc_now = 3 * second\<rparr>,
      \<lparr>rc_key = ''a'', rc_limit = 2, rc_now = minute\<rparr>]"

theorem rate_limit_exact_witness:
  "admitted Mapping.empty sample_calls ''a'' 0 = 2 \<and> window_calls ''a'' 0 sample_calls = 3"
proof -
  have "window_calls ''a'' 0 sample_calls = 3" by code_simp
  moreover have "admitted Mapping.empty sample_calls ''a'' 0 = min 2 (window_calls ''a'' 0 sample_calls)"
  proof (rule rate_limit_exact [where start' = 0])
    show "in_time_order 0 sample_calls" by code_simp
    show "(0::int) < 2" by simp
    show "''a'' \<noteq> []" by simp
    show "\<forall>c \<in> set sample_calls. rc_key c = ''a'' \<longrightarrow> rc_limit c = 2" by code_simp
  qed
  ultimately show ?thesis by simp
qed

text \<open>
  \<open>Retry-After\<close> is the least whole number of seconds, at least one, after which the window has
  reset: a client that waits as told never calls inside the closed window, and one second less
  would be too early.
\<close>

lemma retry_after_least:
  "let s = retry_after_seconds reset now
   in 1 \<le> s \<and> reset \<le> now + s * second \<and> (s = 1 \<or> now + (s - 1) * second < reset)"
  using retry_after_ceiling [of reset now] by (simp add: Let_def)

end
