(* ===== verification/AccessGate.thy ===== *)
theory AccessGate
  imports ContractStore ProductStore GovernanceStore RateLimiter "HOL-Library.Word"
begin

unbundle bit_operations_syntax

text \<open>
  The runtime gate of \<open>POST /v1/data-products/{key}/query\<close> (\<open>internal/proxy/dataworks_runtime.go\<close>):
  which entitlement and contract answer a call, which fields they allow, how values are masked,
  what is metered and audited.  Inputs that come from other subsystems (the authenticated key, the
  decoded JSON body, the clock) are fields of the request; the three table lookups, which may fail,
  are the record \<open>lookups\<close>, instantiated by the store's own reads in \<open>store_lookups\<close>.
\<close>

section \<open>The path\<close>

definition trim_slashes :: "string \<Rightarrow> string" where
  "trim_slashes s = trim_right_char (CHR ''/'') (dropWhile (\<lambda>c. c = CHR ''/'') s)"

definition trim_prefix :: "string \<Rightarrow> string \<Rightarrow> string" where
  "trim_prefix s p = (if has_prefix s p then drop (length p) s else s)"

definition hex_val :: "char \<Rightarrow> nat option" where
  "hex_val c =
     (let n = of_char c
      in if 48 \<le> n \<and> n \<le> 57 then Some (n - 48)
         else if 97 \<le> n \<and> n \<le> 102 then Some (n - 87)
         else if 65 \<le> n \<and> n \<le> 70 then Some (n - 55)
         else None)"

text \<open>\<open>url.PathUnescape\<close>: percent escapes decode to bytes, a malformed escape is an error.\<close>

fun path_unescape :: "string \<Rightarrow> string option" where
  "path_unescape [] = Some []"
| "path_unescape (c # cs) =
     (if c = CHR ''%'' then
        (case cs of
           a # b # rest \<Rightarrow>
             (case (hex_val a, hex_val b) of
                (Some x, Some y) \<Rightarrow> map_option (\<lambda>r. char_of (16 * x + y) # r) (path_unescape rest)
              | _ \<Rightarrow> None)
         | _ \<Rightarrow> None)
      else map_option (\<lambda>r. c # r) (path_unescape cs))"

definition data_works_path_parts :: "string \<Rightarrow> string \<Rightarrow> string list" where
  "data_works_path_parts path pre =
     (let rest = trim_slashes (trim_prefix path pre)
      in if rest = [] then []
         else map (\<lambda>item. case path_unescape item of None \<Rightarrow> item | Some decoded \<Rightarrow> decoded)
                (filter (\<lambda>item. item \<noteq> []) (split_char (CHR ''/'') rest)))"

definition data_product_query_key :: "string \<Rightarrow> string option" where
  "data_product_query_key path =
     (let parts = data_works_path_parts path ''/v1/data-products/''
      in if length parts \<noteq> 2 \<or> trim_space (parts ! 0) = [] \<or> parts ! 1 \<noteq> ''query'' then None
         else Some (trim_space (parts ! 0)))"

section \<open>Grants and contracts\<close>

definition grant_separators :: string where
  "grant_separators = '',;| '' @ [CHR 0x09, CHR 0x0A, CHR 0x0D]"

definition entitlement_allows_query :: "string \<Rightarrow> bool" where
  "entitlement_allows_query scope =
     (if trim_space scope = [] then True
      else (\<exists>grant \<in> set (fields_func (\<lambda>c. c \<in> set grant_separators) (to_lower scope)).
              grant \<in> {''*'', ''query'', ''data_product:*'', ''data_product:query''}))"

definition contract_scope_status_active :: "string \<Rightarrow> bool" where
  "contract_scope_status_active status = equal_fold (trim_space status) ''active''"

definition scope_statuses :: "string list" where
  "scope_statuses = [''active'', ''draft'', ''suspended'', ''revoked'']"

definition contract_scope_status_known :: "string \<Rightarrow> bool" where
  "contract_scope_status_known status =
     (let status = to_lower (trim_space status) in status = [] \<or> status \<in> set scope_statuses)"

definition entitlement_status_known :: "string \<Rightarrow> bool" where
  "entitlement_status_known status =
     (let status = to_lower (trim_space status) in status = [] \<or> status \<in> set scope_statuses)"

definition contract_scope_can_serve :: "contract_scope \<Rightarrow> go_time \<Rightarrow> bool" where
  "contract_scope_can_serve scope now =
     (if \<not> contract_scope_status_active (cs_status scope) then False
      else let raw = trim_space (cs_valid_to scope)
           in if raw = [] then True
              else case parse_rfc3339 raw of None \<Rightarrow> False | Some valid_to \<Rightarrow> \<not> valid_to < now)"

definition contract_scope_active :: "contract_scope \<Rightarrow> go_time \<Rightarrow> bool" where
  "contract_scope_active scope now =
     (if \<not> contract_scope_can_serve scope now then False
      else let raw = trim_space (cs_valid_from scope)
           in if raw = [] then True
              else case parse_rfc3339 raw of None \<Rightarrow> False | Some valid_from \<Rightarrow> \<not> now < valid_from)"

text \<open>The gate's notion of a sensitive product, narrower than the publish gate's.\<close>

definition runtime_sensitive :: "data_product \<Rightarrow> bool" where
  "runtime_sensitive product =
     (let value = to_lower (dp_sensitivity product @ '' '' @ dp_source_type product)
      in contains value ''personal'' \<or> contains value ''restricted'' \<or> contains value ''credit''
         \<or> contains value ''sensitive'')"

section \<open>Lookups\<close>

text \<open>
  \<open>lk_scope_select\<close> is the contract read of \<open>usableEntitlement\<close>, \<open>lk_scope_serve\<close> the second read in
  the handler: between the two an administrator may have written.
\<close>

record lookups =
  lk_product :: "string \<Rightarrow> data_product option result"
  lk_candidates :: "string \<Rightarrow> string \<Rightarrow> string \<Rightarrow> api_entitlement list result"
  lk_scope_select :: "string \<Rightarrow> contract_scope option result"
  lk_scope_serve :: "string \<Rightarrow> contract_scope option result"

definition store_lookups :: "go_time \<Rightarrow> dw_store \<Rightarrow> lookups" where
  "store_lookups now s =
     \<lparr>lk_product = (\<lambda>key. Inr (get_data_product key s)),
      lk_candidates = (\<lambda>pk kid kh. Inr (list_api_entitlement_candidates now pk kid kh s)),
      lk_scope_select = (\<lambda>key. Inr (get_contract_scope key s)),
      lk_scope_serve = (\<lambda>key. Inr (get_contract_scope key s))\<rparr>"

text \<open>\<open>usableEntitlement\<close>: the walk keeps the first read failure in \<open>lookup_err\<close>.\<close>

fun usable_walk ::
  "lookups \<Rightarrow> data_product \<Rightarrow> go_time \<Rightarrow> api_entitlement list \<Rightarrow> string option \<Rightarrow> api_entitlement option result" where
  "usable_walk L product now [] lookup_err =
     (case lookup_err of None \<Rightarrow> Inr None | Some e \<Rightarrow> Inl e)"
| "usable_walk L product now (ent # ents) lookup_err =
     (if \<not> entitlement_active ent now \<or> \<not> entitlement_allows_query (ent_scope ent)
      then usable_walk L product now ents lookup_err
      else case lk_scope_select L (ent_contract_key ent) of
             Inl e \<Rightarrow> usable_walk L product now ents (if lookup_err = None then Some e else lookup_err)
           | Inr None \<Rightarrow> usable_walk L product now ents lookup_err
           | Inr (Some contract) \<Rightarrow>
               if cs_product_key contract \<noteq> dp_product_key product then usable_walk L product now ents lookup_err
               else if \<not> contract_scope_active contract now then usable_walk L product now ents lookup_err
               else if runtime_sensitive product \<and> trim_space (cs_purpose contract) = []
               then usable_walk L product now ents lookup_err
               else Inr (Some ent))"

definition usable_entitlement ::
  "lookups \<Rightarrow> data_product \<Rightarrow> api_entitlement list \<Rightarrow> go_time \<Rightarrow> api_entitlement option result" where
  "usable_entitlement L product candidates now = usable_walk L product now candidates None"

section \<open>Requested and answered fields\<close>

text \<open>
  A decoded JSON value; numbers keep their text.  An object is the association list of its members
  in document order, the last one winning, as in Go's map.
\<close>

datatype json = JNull | JBool bool | JNum string | JStr string | JArr "json list" | JObj "(string \<times> json) list"

type_synonym query_body = "string \<rightharpoonup> json"

text \<open>What \<open>json.Decoder\<close> makes of the request body: nothing to read, an error, or one value.\<close>

datatype decoded = Body_empty | Body_malformed | Body_value json

definition object_map :: "(string \<times> json) list \<Rightarrow> query_body" where
  "object_map ms = map_of (rev ms)"

definition decode_data_product_query_body :: "decoded \<Rightarrow> query_body option" where
  "decode_data_product_query_body d =
     (case d of
        Body_empty \<Rightarrow> Some Map.empty
      | Body_value (JObj ms) \<Rightarrow> Some (object_map ms)
      | Body_value JNull \<Rightarrow> Some Map.empty
      | _ \<Rightarrow> None)"

definition nonblank_trimmed :: "string list \<Rightarrow> string list" where
  "nonblank_trimmed ws = map trim_space (filter (\<lambda>w. trim_space w \<noteq> []) ws)"

definition json_strings :: "json list \<Rightarrow> string list" where
  "json_strings vs = concat (map (\<lambda>v. case v of JStr w \<Rightarrow> [w] | _ \<Rightarrow> []) vs)"

definition fields_from_query_body :: "query_body \<Rightarrow> string list" where
  "fields_from_query_body body =
     (case body ''fields'' of
        None \<Rightarrow> []
      | Some (JArr items) \<Rightarrow> nonblank_trimmed (json_strings items)
      | Some (JStr s) \<Rightarrow> nonblank_trimmed (split_char (CHR '','') s)
      | Some _ \<Rightarrow> [])"

definition normalize_field_list :: "string list \<Rightarrow> string list" where
  "normalize_field_list xs = first_by to_lower [[]] (map trim_space xs)"

definition contains_field :: "string list \<Rightarrow> string \<Rightarrow> bool" where
  "contains_field xs v \<longleftrightarrow> (\<exists>x \<in> set xs. equal_fold x v)"

definition match_field_fold :: "string list \<Rightarrow> string \<Rightarrow> string option" where
  "match_field_fold allowed field = find (\<lambda>candidate. equal_fold candidate field) allowed"

text \<open>\<open>contractResponseFields\<close>: the fields to answer with and the fields refused.\<close>

definition contract_response_fields :: "string list \<Rightarrow> string list \<Rightarrow> string list \<times> string list" where
  "contract_response_fields allowed requested =
     (let allowed = normalize_field_list allowed;
          requested = normalize_field_list requested;
          wildcard = contains_field allowed ''*''
      in if requested = []
         then (if wildcard then ([''product_key'', ''score'', ''risk_band'', ''as_of''], [])
               else (allowed, []))
         else if wildcard then (requested, [])
         else
           let forbidden = filter (\<lambda>field. match_field_fold allowed field = None) requested;
               response = List.map_filter (match_field_fold allowed) requested
           in if forbidden \<noteq> [] then ([], forbidden) else (response, []))"

section \<open>Values and masking\<close>

datatype go_value = V_string string | V_int int | V_float rat | V_other

definition any_substring :: "string \<Rightarrow> string list \<Rightarrow> bool" where
  "any_substring s ps = list_ex (contains s) ps"

definition data_works_sample_value :: "string \<Rightarrow> query_body \<Rightarrow> data_product \<Rightarrow> string \<Rightarrow> go_value" where
  "data_works_sample_value field body product clock =
     (let lower = to_lower field
      in if lower = ''product_key'' then V_string (dp_product_key product)
         else if lower = ''as_of'' \<or> any_substring lower [''date'', ''time''] then V_string clock
         else if any_substring lower [''score'', ''rate'', ''probability''] then V_int 82
         else if any_substring lower [''risk'', ''band''] then V_string ''medium''
         else if any_substring lower [''amount'', ''revenue'', ''price''] then V_int 1250000
         else if contains lower ''customer''
         then (case body ''customer_key'' of
                 Some (JStr v) \<Rightarrow> if trim_space v \<noteq> [] then V_string (trim_space v)
                                  else V_string ''sample_customer''
               | _ \<Rightarrow> V_string ''sample_customer'')
         else V_string (''sample_'' @ replace_char (CHR '' '') ''_'' lower))"

definition masking_policies :: "string list" where
  "masking_policies = [''redact'', ''hash'']"

definition masking_policy_known :: "string \<Rightarrow> bool" where
  "masking_policy_known policy =
     (let policy = to_lower (trim_space policy)
      in policy = [] \<or> policy = ''none'' \<or> policy \<in> set masking_policies)"

definition masking_policy_masks :: "string \<Rightarrow> bool" where
  "masking_policy_masks policy \<longleftrightarrow> to_lower (trim_space policy) \<in> set masking_policies"

definition hash_step :: "32 word \<Rightarrow> char \<Rightarrow> 32 word" where
  "hash_step h c = (h XOR word_of_nat (of_char c)) * 16777619"

definition hash_string :: "string \<Rightarrow> 32 word" where
  "hash_string s = foldl hash_step 2166136261 s"

definition apply_masking :: "go_value \<Rightarrow> string \<Rightarrow> go_value" where
  "apply_masking value policy =
     (let policy = to_lower (trim_space policy)
      in if policy = [] \<or> policy = ''none'' then value
         else if policy = ''redact''
         then (case value of
                 V_string s \<Rightarrow> V_string (replicate (length s) (CHR ''*''))
               | V_int _ \<Rightarrow> V_int 0
               | V_float _ \<Rightarrow> V_float 0
               | V_other \<Rightarrow> V_string ''****'')
         else if policy = ''hash''
         then (case value of
                 V_string s \<Rightarrow> V_string (''hash_'' @ itoa (uint (hash_string s)))
               | _ \<Rightarrow> V_int 9999)
         else value)"

section \<open>The handler\<close>

text \<open>
  A request as the handler sees it: \<open>q_auth\<close> is the result of \<open>authenticateProxyContext\<close> (the key's
  id, empty when the gateway runs open), \<open>q_token_hash\<close> the hash of the bearer token, \<open>q_clock\<close> the
  wall clock that sample values render and \<open>q_done\<close> the one that metering reads at the end.
\<close>

record query_request =
  q_method :: string
  q_path :: string
  q_auth :: "string option"
  q_token_hash :: string
  q_body :: decoded
  q_now :: go_time
  q_clock :: string
  q_done :: go_time

record query_answer =
  qa_product_key :: string
  qa_customer_key :: string
  qa_contract_key :: string
  qa_entitlement_id :: string
  qa_purpose :: string
  qa_rate_limit :: int
  qa_mock :: bool
  qa_as_of :: string
  qa_data :: "(string \<times> go_value) list"

datatype reply_body =
    Error_body string string string
  | Fields_body "string list" "string list"
  | Answer query_answer

record query_reply =
  rp_status :: nat
  rp_headers :: "(string \<times> string) list"
  rp_body :: reply_body

record audit_event =
  ae_type :: string
  ae_key :: string
  ae_detail :: string

record gateway =
  gw_store :: dw_store
  gw_limits :: contract_rate_limiter
  gw_audit :: "audit_event list"

text \<open>An early return: its status and body, and the detail of the denial when it is audited.\<close>

record refusal =
  rf_status :: nat
  rf_body :: reply_body
  rf_audit :: "string option"

type_synonym 'a checked = "refusal + 'a"

definition refuse :: "nat \<Rightarrow> string \<Rightarrow> string \<Rightarrow> string \<Rightarrow> string option \<Rightarrow> 'a checked" where
  "refuse status message kind code audit =
     Inl \<lparr>rf_status = status, rf_body = Error_body message kind code, rf_audit = audit\<rparr>"

abbreviation invalid_request :: string where "invalid_request \<equiv> ''invalid_request_error''"
abbreviation server_error :: string where "server_error \<equiv> ''server_error''"

definition query_product :: "lookups \<Rightarrow> query_request \<Rightarrow> string \<Rightarrow> data_product checked" where
  "query_product L q product_key =
     (case lk_product L product_key of
        Inl e \<Rightarrow> refuse 500 e server_error ''product_lookup_failed'' None
      | Inr None \<Rightarrow> refuse 404 ''data product not found'' invalid_request ''product_not_found'' None
      | Inr (Some product) \<Rightarrow>
          if dp_status product \<noteq> ''published''
          then refuse 403 ''data product is not published'' invalid_request ''product_not_published''
                 (Some (''product_not_published:'' @ dp_product_key product))
          else Inr product)"

definition query_entitlement ::
  "lookups \<Rightarrow> query_request \<Rightarrow> string \<Rightarrow> data_product \<Rightarrow> api_entitlement checked" where
  "query_entitlement L q api_key_id product =
     (case lk_candidates L (dp_product_key product) api_key_id (q_token_hash q) of
        Inl e \<Rightarrow> refuse 500 e server_error ''entitlement_lookup_failed'' None
      | Inr [] \<Rightarrow>
          refuse 403 ''data product entitlement is required'' invalid_request ''missing_entitlement''
            (Some (''missing_entitlement:'' @ dp_product_key product))
      | Inr (first # rest) \<Rightarrow>
          (case usable_entitlement L product (first # rest) (q_now q) of
             Inl e \<Rightarrow> refuse 500 e server_error ''contract_lookup_failed'' None
           | Inr usable \<Rightarrow>
               let ent = (case usable of None \<Rightarrow> first | Some u \<Rightarrow> u)
               in if \<not> entitlement_active ent (q_now q)
                  then refuse 403 ''data product entitlement is inactive or expired'' invalid_request
                         ''inactive_entitlement'' (Some (''inactive_entitlement:'' @ ent_id ent))
                  else if \<not> entitlement_allows_query (ent_scope ent)
                  then refuse 403 ''entitlement scope does not allow query'' invalid_request
                         ''scope_denied'' (Some (''scope_not_allowed:'' @ ent_scope ent))
                  else Inr ent))"

definition query_contract ::
  "lookups \<Rightarrow> data_product \<Rightarrow> api_entitlement \<Rightarrow> contract_scope checked" where
  "query_contract L product ent =
     (case lk_scope_serve L (ent_contract_key ent) of
        Inl e \<Rightarrow> refuse 500 e server_error ''contract_lookup_failed'' None
      | Inr found \<Rightarrow>
          (case found of
             Some contract \<Rightarrow>
               if cs_product_key contract = dp_product_key product then Inr contract
               else refuse 403 ''contract scope is missing for entitlement'' invalid_request
                      ''contract_scope_missing'' (Some (''contract_scope_missing:'' @ ent_contract_key ent))
           | None \<Rightarrow> refuse 403 ''contract scope is missing for entitlement'' invalid_request
                      ''contract_scope_missing'' (Some (''contract_scope_missing:'' @ ent_contract_key ent))))"

definition query_contract_checks :: "data_product \<Rightarrow> contract_scope \<Rightarrow> go_time \<Rightarrow> unit checked" where
  "query_contract_checks product contract now =
     (if \<not> contract_scope_active contract now
      then refuse 403 ''contract scope is inactive or outside valid window'' invalid_request
             ''contract_scope_inactive'' (Some (''contract_scope_inactive:'' @ cs_contract_key contract))
      else if runtime_sensitive product \<and> trim_space (cs_purpose contract) = []
      then refuse 403 ''contract purpose is required for sensitive data products'' invalid_request
             ''missing_contract_purpose'' (Some (''missing_contract_purpose:'' @ cs_contract_key contract))
      else Inr ())"

text \<open>The rate limit: the three headers always, \<open>Retry-After\<close> and the refusal over the limit.\<close>

definition query_rate ::
  "contract_rate_limiter \<Rightarrow> contract_scope \<Rightarrow> go_time
    \<Rightarrow> (string \<times> string) list \<times> contract_rate_limiter \<times> unit checked" where
  "query_rate l contract now =
     (if 0 < cs_rate_limit contract
      then let ((allowed, used, reset_at), l) = allow l (cs_contract_key contract) (cs_rate_limit contract) now;
               headers = [(''X-DataWorks-RateLimit-Limit'', itoa (cs_rate_limit contract)),
                          (''X-DataWorks-RateLimit-Used'', itoa used),
                          (''X-DataWorks-RateLimit-Reset'', format_rfc3339nano reset_at)]
           in if \<not> allowed
              then (headers @ [(''Retry-After'', itoa (retry_after_seconds reset_at now))], l,
                    refuse 429 ''contract rate limit exceeded'' ''rate_limit_error'' ''contract_rate_limited''
                      (Some (''rate_limit_exceeded:'' @ cs_contract_key contract)))
              else (headers, l, Inr ())
      else ([], l, Inr ()))"

definition query_fields :: "query_request \<Rightarrow> contract_scope \<Rightarrow> (query_body \<times> string list) checked" where
  "query_fields q contract =
     (case decode_data_product_query_body (q_body q) of
        None \<Rightarrow> refuse 400 ''invalid JSON body'' invalid_request ''invalid_body'' None
      | Some body \<Rightarrow>
          let (response_fields, forbidden) =
                contract_response_fields (cs_allowed_fields contract) (fields_from_query_body body)
          in if forbidden \<noteq> []
             then Inl \<lparr>rf_status = 403, rf_body = Fields_body forbidden (cs_allowed_fields contract),
                       rf_audit = Some (''forbidden_fields:'' @ join '','' forbidden)\<rparr>
             else if response_fields = []
             then refuse 403 ''contract scope has no allowed fields'' invalid_request
                    ''empty_contract_scope'' (Some (''empty_contract_scope:'' @ cs_contract_key contract))
             else Inr (body, response_fields))"

definition query_value ::
  "query_request \<Rightarrow> query_body \<Rightarrow> data_product \<Rightarrow> contract_scope \<Rightarrow> string \<Rightarrow> go_value" where
  "query_value q body product contract field =
     (let val = data_works_sample_value field body product (q_clock q)
      in if cs_masking_policy contract \<noteq> [] then apply_masking val (cs_masking_policy contract) else val)"

definition query_answer_of ::
  "query_request \<Rightarrow> data_product \<Rightarrow> api_entitlement \<Rightarrow> contract_scope \<Rightarrow> query_body \<Rightarrow> string list \<Rightarrow> query_answer" where
  "query_answer_of q product ent contract body response_fields =
     \<lparr>qa_product_key = dp_product_key product,
      qa_customer_key = first_non_empty_raw [ent_customer_key ent, cs_customer_key contract],
      qa_contract_key = cs_contract_key contract, qa_entitlement_id = ent_id ent,
      qa_purpose = cs_purpose contract, qa_rate_limit = cs_rate_limit contract, qa_mock = True,
      qa_as_of = format_rfc3339nano (q_now q),
      qa_data = map (\<lambda>field. (field, query_value q body product contract field)) response_fields\<rparr>"

text \<open>The request once its contract is known: the part of the handler the metering defer covers.\<close>

definition serve_contract ::
  "query_request \<Rightarrow> contract_rate_limiter \<Rightarrow> data_product \<Rightarrow> api_entitlement \<Rightarrow> contract_scope
    \<Rightarrow> (string \<times> string) list \<times> contract_rate_limiter \<times> query_answer checked" where
  "serve_contract q l product ent contract =
     (case query_contract_checks product contract (q_now q) of
        Inl r \<Rightarrow> ([], l, Inl r)
      | Inr _ \<Rightarrow>
          (case query_rate l contract (q_now q) of
             (headers, l, Inl r) \<Rightarrow> (headers, l, Inl r)
           | (headers, l, Inr _) \<Rightarrow>
               (headers, l,
                case query_fields q contract of
                  Inl r \<Rightarrow> Inl r
                | Inr (body, response_fields) \<Rightarrow>
                    Inr (query_answer_of q product ent contract body response_fields))))"

definition reply_of_refusal :: "(string \<times> string) list \<Rightarrow> refusal \<Rightarrow> query_reply" where
  "reply_of_refusal headers r =
     \<lparr>rp_status = rf_status r, rp_headers = headers, rp_body = rf_body r\<rparr>"

definition audit_event_of :: "string \<Rightarrow> refusal \<Rightarrow> audit_event list" where
  "audit_event_of api_key_id r =
     (case rf_audit r of
        None \<Rightarrow> []
      | Some detail \<Rightarrow> [\<lparr>ae_type = ''data_product_query_denied'', ae_key = api_key_id, ae_detail = detail\<rparr>])"

definition refused :: "gateway \<Rightarrow> string \<Rightarrow> (string \<times> string) list \<Rightarrow> refusal \<Rightarrow> query_reply \<times> gateway" where
  "refused g api_key_id headers r =
     (reply_of_refusal headers r, g\<lparr>gw_audit := gw_audit g @ audit_event_of api_key_id r\<rparr>)"

text \<open>The deferred metering: every outcome after the contract is known, counted by its status.\<close>

definition meter_query ::
  "query_request \<Rightarrow> string \<Rightarrow> api_entitlement \<Rightarrow> contract_scope \<Rightarrow> nat \<Rightarrow> bool \<Rightarrow> gateway \<Rightarrow> gateway" where
  "meter_query q product_key ent contract status over_limit g =
     (if cs_contract_key contract = [] then g
      else let failed = (status \<noteq> 200 \<and> \<not> over_limit);
               billing_amount = (if status = 200 then 10 else 0)
           in g\<lparr>gw_store := increment_usage_metering (q_done q)
                  (first_non_empty_raw [ent_customer_key ent, cs_customer_key contract])
                  product_key (cs_contract_key contract) failed over_limit billing_amount (gw_store g)\<rparr>)"

definition answered ::
  "query_request \<Rightarrow> gateway \<Rightarrow> string \<Rightarrow> string \<Rightarrow> data_product \<Rightarrow> api_entitlement \<Rightarrow> contract_scope
    \<Rightarrow> query_reply \<times> gateway" where
  "answered q g api_key_id product_key product ent contract =
     (case serve_contract q (gw_limits g) product ent contract of
        (headers, l, Inl r) \<Rightarrow>
          (let (reply, g) = refused (g\<lparr>gw_limits := l\<rparr>) api_key_id headers r
           in (reply, meter_query q product_key ent contract (rf_status r) (rf_status r = 429) g))
      | (headers, l, Inr answer) \<Rightarrow>
          (\<lparr>rp_status = 200, rp_headers = headers, rp_body = Answer answer\<rparr>,
           meter_query q product_key ent contract 200 False
             (g\<lparr>gw_limits := l,
                gw_audit := gw_audit g @
                  [\<lparr>ae_type = ''data_product_query'', ae_key = api_key_id,
                    ae_detail = dp_product_key product @ '':'' @ ent_id ent\<rparr>]\<rparr>)))"

definition caller_id :: "string \<Rightarrow> string" where
  "caller_id key = (if key = [] then ''anonymous'' else key)"

text \<open>The checks before the contract: method, path, authentication, product and entitlement.\<close>

definition query_admit ::
  "lookups \<Rightarrow> query_request \<Rightarrow> (string \<times> string \<times> data_product \<times> api_entitlement \<times> contract_scope) checked \<times> string" where
  "query_admit L q =
     (if q_method q \<noteq> ''POST''
      then (refuse 405 ''method not allowed'' invalid_request ''method_not_allowed'' None, [])
      else case data_product_query_key (q_path q) of
        None \<Rightarrow> (refuse 404 ''data product endpoint not found'' invalid_request ''not_found'' None, [])
      | Some product_key \<Rightarrow>
          (case q_auth q of
             None \<Rightarrow> (refuse 401 ''invalid API key'' invalid_request ''invalid_api_key'' None, [])
           | Some key \<Rightarrow>
               let api_key_id = caller_id key
               in (case query_product L q product_key of
                     Inl r \<Rightarrow> Inl r
                   | Inr product \<Rightarrow>
                       (case query_entitlement L q api_key_id product of
                          Inl r \<Rightarrow> Inl r
                        | Inr ent \<Rightarrow>
                            (case query_contract L product ent of
                               Inl r \<Rightarrow> Inl r
                             | Inr contract \<Rightarrow> Inr (api_key_id, product_key, product, ent, contract))),
                   api_key_id)))"

definition handle_data_product_query ::
  "lookups \<Rightarrow> query_request \<Rightarrow> gateway \<Rightarrow> query_reply \<times> gateway" where
  "handle_data_product_query L q g =
     (case query_admit L q of
        (Inl r, api_key_id) \<Rightarrow> refused g api_key_id [] r
      | (Inr (api_key_id, product_key, product, ent, contract), _) \<Rightarrow>
          answered q g api_key_id product_key product ent contract)"

section \<open>Selecting the entitlement\<close>

text \<open>
  The specification of a usable grant: it passes every check that neither depends on the body nor
  consumes quota.  A grant that is eligible but whose contract cannot be read is a fault.
\<close>

definition eligible :: "go_time \<Rightarrow> api_entitlement \<Rightarrow> bool" where
  "eligible now ent \<longleftrightarrow> entitlement_active ent now \<and> entitlement_allows_query (ent_scope ent)"

definition contract_serves :: "data_product \<Rightarrow> go_time \<Rightarrow> contract_scope \<Rightarrow> bool" where
  "contract_serves product now contract \<longleftrightarrow>
     cs_product_key contract = dp_product_key product \<and> contract_scope_active contract now \<and>
     (runtime_sensitive product \<longrightarrow> trim_space (cs_purpose contract) \<noteq> [])"

definition usable :: "lookups \<Rightarrow> data_product \<Rightarrow> go_time \<Rightarrow> api_entitlement \<Rightarrow> bool" where
  "usable L product now ent \<longleftrightarrow>
     eligible now ent \<and>
     (case lk_scope_select L (ent_contract_key ent) of
        Inr (Some contract) \<Rightarrow> contract_serves product now contract
      | _ \<Rightarrow> False)"

definition read_fault :: "lookups \<Rightarrow> go_time \<Rightarrow> api_entitlement \<Rightarrow> string option" where
  "read_fault L now ent =
     (if eligible now ent
      then (case lk_scope_select L (ent_contract_key ent) of Inl e \<Rightarrow> Some e | Inr _ \<Rightarrow> None)
      else None)"

definition first_fault :: "lookups \<Rightarrow> go_time \<Rightarrow> api_entitlement list \<Rightarrow> string option" where
  "first_fault L now ents =
     (case List.map_filter (read_fault L now) ents of [] \<Rightarrow> None | e # _ \<Rightarrow> Some e)"

lemma first_fault_Cons:
  "first_fault L now (e # ents) = (case read_fault L now e of None \<Rightarrow> first_fault L now ents | Some f \<Rightarrow> Some f)"
  by (simp add: first_fault_def List.map_filter_simps split: option.split)

lemma usable_walk_spec:
  "usable_walk L product now ents err =
    (case find (usable L product now) ents of
       Some ent \<Rightarrow> Inr (Some ent)
     | None \<Rightarrow> (case (if err = None then first_fault L now ents else err) of
                None \<Rightarrow> Inr None | Some e \<Rightarrow> Inl e))"
proof (induction ents arbitrary: err)
  case Nil
  then show ?case by (simp add: first_fault_def)
next
  case (Cons ent ents)
  note Cons.IH [simp]
  show ?case
  proof (cases "eligible now ent")
    case False
    then have "\<not> usable L product now ent" "read_fault L now ent = None"
      by (simp_all add: usable_def read_fault_def)
    then show ?thesis using False by (simp add: first_fault_Cons eligible_def split: option.split)
  next
    case True
    show ?thesis
    proof (cases "lk_scope_select L (ent_contract_key ent)")
      case (Inl e)
      then have "\<not> usable L product now ent" "read_fault L now ent = Some e"
        using True by (simp_all add: usable_def read_fault_def)
      then show ?thesis using True Inl
        by (cases err) (simp_all add: first_fault_Cons eligible_def split: option.split)
    next
      case (Inr c)
      then have "usable L product now ent = (case c of None \<Rightarrow> False | Some c \<Rightarrow> contract_serves product now c)"
        "read_fault L now ent = None"
        using True by (simp_all add: usable_def read_fault_def)
      then show ?thesis using True Inr
        by (cases c; cases err) (simp_all add: first_fault_Cons eligible_def contract_serves_def split: option.split)
    qed
  qed
qed

lemma usable_entitlement_find:
  "usable_entitlement L product ents now =
    (case find (usable L product now) ents of
       Some ent \<Rightarrow> Inr (Some ent)
     | None \<Rightarrow> (case first_fault L now ents of None \<Rightarrow> Inr None | Some e \<Rightarrow> Inl e))"
  by (simp add: usable_entitlement_def usable_walk_spec)

section \<open>The stages\<close>

lemma refuse_not_Inr [simp]: "refuse st m k c a \<noteq> Inr x"
  by (simp add: refuse_def)

lemma query_product_Inr:
  "query_product L q key = Inr product \<longleftrightarrow>
    lk_product L key = Inr (Some product) \<and> dp_status product = ''published''"
  by (auto simp: query_product_def split: sum.splits option.splits)

text \<open>The entitlement a call runs under.\<close>

definition selected :: "lookups \<Rightarrow> data_product \<Rightarrow> go_time \<Rightarrow> api_entitlement list \<Rightarrow> api_entitlement \<Rightarrow> bool" where
  "selected L product now ents ent \<longleftrightarrow>
     (case find (usable L product now) ents of
        Some u \<Rightarrow> ent = u
      | None \<Rightarrow> first_fault L now ents = None \<and> (\<exists>rest. ents = ent # rest))"

lemma query_entitlement_Inr:
  "query_entitlement L q key product = Inr ent \<longleftrightarrow>
    (\<exists>ents. lk_candidates L (dp_product_key product) key (q_token_hash q) = Inr ents \<and>
       selected L product (q_now q) ents ent \<and> eligible (q_now q) ent)"
proof (cases "lk_candidates L (dp_product_key product) key (q_token_hash q)")
  case (Inl e)
  then show ?thesis by (simp add: query_entitlement_def)
next
  case (Inr ents)
  show ?thesis
  proof (cases ents)
    case Nil
    with Inr show ?thesis by (simp add: query_entitlement_def selected_def)
  next
    case (Cons first rest)
    have "(if \<not> a then refuse s1 m1 k1 c1 d1 else if \<not> b then refuse s2 m2 k2 c2 d2 else Inr y) = Inr x
      \<longleftrightarrow> x = y \<and> a \<and> b" for a b s1 m1 k1 c1 d1 s2 m2 k2 c2 d2 and x y :: api_entitlement
      by auto
    with Inr Cons show ?thesis
      by (simp add: query_entitlement_def usable_entitlement_find selected_def eligible_def Let_def
          split: option.split) auto
  qed
qed

lemma query_contract_Inr:
  "query_contract L product ent = Inr contract \<longleftrightarrow>
    lk_scope_serve L (ent_contract_key ent) = Inr (Some contract) \<and>
    cs_product_key contract = dp_product_key product"
  by (auto simp: query_contract_def split: sum.splits option.splits)

lemma query_contract_checks_Inr:
  "query_contract_checks product contract now = Inr u \<longleftrightarrow>
    contract_scope_active contract now \<and>
    (runtime_sensitive product \<longrightarrow> trim_space (cs_purpose contract) \<noteq> [])"
  by (auto simp: query_contract_checks_def)

text \<open>The limiter admits the call: no ceiling, or the minute still has room.\<close>

definition has_quota :: "contract_rate_limiter \<Rightarrow> contract_scope \<Rightarrow> go_time \<Rightarrow> bool" where
  "has_quota l contract now \<longleftrightarrow>
     cs_rate_limit contract \<le> 0 \<or> cs_contract_key contract = [] \<or>
     used l (cs_contract_key contract) (truncate_minute now) < cs_rate_limit contract"

lemma allow_has_quota:
  "0 < cs_rate_limit c \<Longrightarrow>
    fst (fst (allow l (cs_contract_key c) (cs_rate_limit c) now)) \<longleftrightarrow> has_quota l c now"
  using allow_admits [of "cs_rate_limit c" "cs_contract_key c" l now]
  by (cases "cs_contract_key c = []") (auto simp: has_quota_def allow_def Let_def)

lemma query_rate_Inr: "snd (snd (query_rate l contract now)) = Inr u \<longleftrightarrow> has_quota l contract now"
  using allow_has_quota [of contract l now]
  by (auto simp: query_rate_def Let_def has_quota_def split: prod.splits)

lemma query_fields_Inr:
  "query_fields q contract = Inr (body, response_fields) \<longleftrightarrow>
    decode_data_product_query_body (q_body q) = Some body \<and> response_fields \<noteq> [] \<and>
    contract_response_fields (cs_allowed_fields contract) (fields_from_query_body body) =
      (response_fields, [])"
  by (auto simp: query_fields_def split: option.splits prod.splits)

lemma serve_contract_Inr:
  "snd (snd (serve_contract q l product ent contract)) = Inr answer \<longleftrightarrow>
    contract_scope_active contract (q_now q) \<and>
    (runtime_sensitive product \<longrightarrow> trim_space (cs_purpose contract) \<noteq> []) \<and>
    has_quota l contract (q_now q) \<and>
    (\<exists>body response_fields. query_fields q contract = Inr (body, response_fields) \<and>
       answer = query_answer_of q product ent contract body response_fields)"
  using query_contract_checks_Inr [of product contract "q_now q" "()"]
    query_rate_Inr [of l contract "q_now q" "()"]
  by (auto simp: serve_contract_def split: sum.splits prod.splits)

lemma query_admit_Inr:
  "fst (query_admit L q) = Inr (api_key_id, product_key, product, ent, contract) \<longleftrightarrow>
    q_method q = ''POST'' \<and> data_product_query_key (q_path q) = Some product_key \<and>
    (\<exists>key. q_auth q = Some key \<and> api_key_id = caller_id key) \<and>
    query_product L q product_key = Inr product \<and>
    query_entitlement L q api_key_id product = Inr ent \<and> query_contract L product ent = Inr contract"
  by (auto simp: query_admit_def Let_def split: option.splits sum.splits)

section \<open>The whole request\<close>

text \<open>
  What a call needs to be answered, as one conjunction over the reads of the request: the
  specification that the chain of early returns implements.
\<close>

definition may_answer ::
  "lookups \<Rightarrow> query_request \<Rightarrow> contract_rate_limiter \<Rightarrow> data_product \<Rightarrow> api_entitlement \<Rightarrow> contract_scope
    \<Rightarrow> query_body \<Rightarrow> string list \<Rightarrow> bool" where
  "may_answer L q l product ent contract body response_fields \<longleftrightarrow>
     q_method q = ''POST'' \<and>
     (\<exists>product_key. data_product_query_key (q_path q) = Some product_key \<and>
        lk_product L product_key = Inr (Some product)) \<and>
     dp_status product = ''published'' \<and>
     (\<exists>key ents. q_auth q = Some key \<and>
        lk_candidates L (dp_product_key product) (caller_id key) (q_token_hash q) = Inr ents \<and>
        selected L product (q_now q) ents ent) \<and>
     eligible (q_now q) ent \<and>
     lk_scope_serve L (ent_contract_key ent) = Inr (Some contract) \<and>
     contract_serves product (q_now q) contract \<and>
     has_quota l contract (q_now q) \<and>
     decode_data_product_query_body (q_body q) = Some body \<and> response_fields \<noteq> [] \<and>
     contract_response_fields (cs_allowed_fields contract) (fields_from_query_body body) =
       (response_fields, [])"

text \<open>No refusal looks like an answer, and the audited refusals are those with status 403 and 429.\<close>

definition plain_refusal :: "refusal \<Rightarrow> bool" where
  "plain_refusal r \<longleftrightarrow> (\<forall>a. rf_body r \<noteq> Answer a) \<and> rf_status r \<noteq> 200 \<and>
     (rf_audit r \<noteq> None \<longleftrightarrow> rf_status r \<in> {403, 429})"

lemma refuse_plain: "refuse st m k c a = Inl r \<Longrightarrow> st \<noteq> 200 \<Longrightarrow> (a \<noteq> None \<longleftrightarrow> st \<in> {403, 429}) \<Longrightarrow>
    plain_refusal r"
  by (auto simp: refuse_def plain_refusal_def)

lemma query_product_plain: "query_product L q key = Inl r \<Longrightarrow> plain_refusal r"
  by (auto simp: query_product_def split: sum.splits option.splits if_splits dest: refuse_plain)

lemma query_entitlement_plain: "query_entitlement L q key product = Inl r \<Longrightarrow> plain_refusal r"
  by (auto simp: query_entitlement_def Let_def
      split: sum.splits list.splits if_splits dest: refuse_plain)

lemma query_contract_plain: "query_contract L product ent = Inl r \<Longrightarrow> plain_refusal r"
  by (auto simp: query_contract_def split: sum.splits option.splits if_splits dest: refuse_plain)

lemma query_checks_plain: "query_contract_checks product contract now = Inl r \<Longrightarrow> plain_refusal r"
  by (auto simp: query_contract_checks_def split: if_splits dest: refuse_plain)

lemma query_rate_plain: "query_rate l contract now = (h, l', Inl r) \<Longrightarrow> plain_refusal r"
  by (auto simp: query_rate_def Let_def split: if_splits prod.splits dest: refuse_plain)

lemma query_fields_plain: "query_fields q contract = Inl r \<Longrightarrow> plain_refusal r"
  by (auto simp: query_fields_def split: option.splits prod.splits if_splits dest: refuse_plain)
    (auto simp: plain_refusal_def)

lemma admit_plain: "fst (query_admit L q) = Inl r \<Longrightarrow> plain_refusal r"
  by (auto simp: query_admit_def Let_def split: if_splits option.splits sum.splits
      dest: refuse_plain query_product_plain query_entitlement_plain query_contract_plain)

lemma serve_plain: "serve_contract q l product ent contract = (h, l', Inl r) \<Longrightarrow> plain_refusal r"
  by (auto simp: serve_contract_def split: sum.splits prod.splits
      dest: query_checks_plain query_rate_plain query_fields_plain)

lemma handle_refused:
  "query_admit L q = (Inl r, key) \<Longrightarrow> handle_data_product_query L q g = refused g key [] r"
  by (simp add: handle_data_product_query_def)

lemma handle_admitted:
  "query_admit L q = (Inr (key, pk, product, ent, contract), k) \<Longrightarrow>
    handle_data_product_query L q g = answered q g key pk product ent contract"
  by (simp add: handle_data_product_query_def)

lemma answered_body:
  "rp_body (fst (answered q g key pk product ent contract)) = Answer a \<longleftrightarrow>
    snd (snd (serve_contract q (gw_limits g) product ent contract)) = Inr a"
  "rp_status (fst (answered q g key pk product ent contract)) = 200 \<longleftrightarrow>
    (\<exists>a. snd (snd (serve_contract q (gw_limits g) product ent contract)) = Inr a)"
  using serve_plain [of q "gw_limits g" product ent contract]
  by (auto simp: answered_def refused_def reply_of_refusal_def plain_refusal_def
      split: prod.splits sum.splits)

lemma handle_answer:
  "rp_body (fst (handle_data_product_query L q g)) = Answer a \<longleftrightarrow>
    (\<exists>key pk product ent contract. fst (query_admit L q) = Inr (key, pk, product, ent, contract) \<and>
       snd (snd (serve_contract q (gw_limits g) product ent contract)) = Inr a)"
  using admit_plain [of L q]
  by (cases "query_admit L q"; cases "fst (query_admit L q)")
    (auto simp: handle_data_product_query_def answered_body refused_def reply_of_refusal_def
      plain_refusal_def split: prod.splits)

lemma handle_status:
  "rp_status (fst (handle_data_product_query L q g)) = 200 \<longleftrightarrow>
    (\<exists>a. rp_body (fst (handle_data_product_query L q g)) = Answer a)"
  using admit_plain [of L q]
  by (cases "query_admit L q"; cases "fst (query_admit L q)")
    (auto simp: handle_data_product_query_def answered_body refused_def reply_of_refusal_def
      plain_refusal_def split: prod.splits)

lemma handle_answer_spec:
  "rp_body (fst (handle_data_product_query L q g)) = Answer a \<longleftrightarrow>
    (\<exists>product ent contract body response_fields.
       may_answer L q (gw_limits g) product ent contract body response_fields \<and>
       a = query_answer_of q product ent contract body response_fields)"
  unfolding handle_answer query_admit_Inr serve_contract_Inr may_answer_def query_product_Inr
    query_entitlement_Inr query_contract_Inr query_fields_Inr contract_serves_def
  by (rule iffI; (elim exE conjE; blast)?)

section \<open>Metering and audit\<close>

definition metered :: "lookups \<Rightarrow> query_request \<Rightarrow> bool" where
  "metered L q =
     (case fst (query_admit L q) of
        Inl _ \<Rightarrow> False
      | Inr (_, _, _, _, contract) \<Rightarrow> cs_contract_key contract \<noteq> [])"

definition total_calls :: "dw_store \<Rightarrow> int" where
  "total_calls s = (\<Sum>r \<leftarrow> st_usage s. um_total_calls r)"

definition failed_calls :: "dw_store \<Rightarrow> int" where
  "failed_calls s = (\<Sum>r \<leftarrow> st_usage s. um_failed_calls r)"

definition over_limit_calls :: "dw_store \<Rightarrow> int" where
  "over_limit_calls s = (\<Sum>r \<leftarrow> st_usage s. um_over_limit_calls r)"

definition billed :: "dw_store \<Rightarrow> rat" where
  "billed s = (\<Sum>r \<leftarrow> st_usage s. um_billing_amount r)"

lemmas usage_sums = total_calls_def failed_calls_def over_limit_calls_def billed_def

lemma increment_usage_sums:
  "total_calls (increment_usage_metering now ck pk key failed over amount s) = total_calls s + 1"
  "failed_calls (increment_usage_metering now ck pk key failed over amount s) = failed_calls s + of_bool failed"
  "over_limit_calls (increment_usage_metering now ck pk key failed over amount s) = over_limit_calls s + of_bool over"
  "billed (increment_usage_metering now ck pk key failed over amount s) = billed s + amount"
  by (simp_all add: usage_sums increment_usage_metering_def Let_def sum_list_upsert_row merge_usage_def)

lemma increment_usage_state:
  "let s' = increment_usage_metering now ck pk key failed over amount s in s' = s\<lparr>st_usage := st_usage s'\<rparr>"
  by (simp add: increment_usage_metering_def Let_def)

lemma meter_query_store:
  "gw_store (meter_query q pk ent contract status over g) =
    (if cs_contract_key contract = [] then gw_store g
     else increment_usage_metering (q_done q)
       (first_non_empty_raw [ent_customer_key ent, cs_customer_key contract]) pk (cs_contract_key contract)
       (status \<noteq> 200 \<and> \<not> over) over (if status = 200 then 10 else 0) (gw_store g))"
  by (simp add: meter_query_def Let_def)

lemma meter_query_frame [simp]:
  "gw_limits (meter_query q pk ent contract status over g) = gw_limits g"
  "gw_audit (meter_query q pk ent contract status over g) = gw_audit g"
  by (simp_all add: meter_query_def Let_def)

lemma answered_store:
  "let (reply, g') = answered q g key pk product ent contract
   in gw_store g' =
        (if cs_contract_key contract = [] then gw_store g
         else increment_usage_metering (q_done q)
           (first_non_empty_raw [ent_customer_key ent, cs_customer_key contract]) pk (cs_contract_key contract)
           (rp_status reply \<noteq> 200 \<and> rp_status reply \<noteq> 429) (rp_status reply = 429)
           (if rp_status reply = 200 then 10 else 0) (gw_store g))"
proof (cases "serve_contract q (gw_limits g) product ent contract")
  case (fields h l a)
  then show ?thesis
    by (cases a) (auto simp: answered_def refused_def reply_of_refusal_def meter_query_store
      simp del: first_non_empty_raw.simps)
qed

lemma handle_store:
  "let (reply, g') = handle_data_product_query L q g
   in if metered L q
      then (\<exists>ck pk key. gw_store g' = increment_usage_metering (q_done q) ck pk key
              (rp_status reply \<noteq> 200 \<and> rp_status reply \<noteq> 429) (rp_status reply = 429)
              (if rp_status reply = 200 then 10 else 0) (gw_store g))
      else gw_store g' = gw_store g"
proof (cases "query_admit L q")
  case (Pair a k)
  show ?thesis
  proof (cases a)
    case (Inl r)
    with Pair show ?thesis by (simp add: handle_refused refused_def metered_def)
  next
    case (Inr p)
    obtain key pk product ent contract where p: "p = (key, pk, product, ent, contract)"
      by (cases p)
    show ?thesis
      using answered_store [of q g key pk product ent contract] Pair Inr p
      by (cases "answered q g key pk product ent contract")
        (auto simp: handle_admitted metered_def)
  qed
qed

lemma audit_event_of_plain:
  "plain_refusal r \<Longrightarrow> length (audit_event_of key r) = of_bool (rf_status r \<in> {403, 429})"
  by (auto simp: audit_event_of_def plain_refusal_def split: option.splits)

lemma answered_audit:
  "let (reply, g') = answered q g key pk product ent contract
   in \<exists>evs. gw_audit g' = gw_audit g @ evs \<and> length evs = of_bool (rp_status reply \<in> {200, 403, 429})"
proof (cases "serve_contract q (gw_limits g) product ent contract")
  case (fields h l a)
  show ?thesis
  proof (cases a)
    case (Inl r)
    then have "plain_refusal r" using serve_plain fields by blast
    then show ?thesis
      using Inl fields audit_event_of_plain [of r key]
      by (auto simp: answered_def refused_def reply_of_refusal_def plain_refusal_def)
  qed (simp add: answered_def fields)
qed

lemma handle_audit:
  "let (reply, g') = handle_data_product_query L q g
   in \<exists>evs. gw_audit g' = gw_audit g @ evs \<and> length evs = of_bool (rp_status reply \<in> {200, 403, 429})"
proof (cases "query_admit L q")
  case (Pair a k)
  show ?thesis
  proof (cases a)
    case (Inl r)
    then have "plain_refusal r" using admit_plain [of L q] Pair by simp
    then show ?thesis
      using Pair Inl audit_event_of_plain [of r k]
      by (auto simp: handle_refused refused_def reply_of_refusal_def plain_refusal_def)
  next
    case (Inr p)
    obtain key pk product ent contract where "p = (key, pk, product, ent, contract)"
      by (cases p)
    then show ?thesis
      using answered_audit [of q g key pk product ent contract] Pair Inr
      by (simp add: handle_admitted)
  qed
qed

end
