(* ===== verification/AccessProperties.thy ===== *)
theory AccessProperties
  imports AccessGate
begin

text \<open>
  What the runtime gate promises: the selection of an entitlement, the exact condition for an
  answer, its meaning for the stored rows, the fields and values a contract lets through, and the
  metering and audit of every call.
\<close>

section \<open>Fields\<close>

lemma normalize_field_list_trimmed:
  "f \<in> set (normalize_field_list xs) \<Longrightarrow> f \<in> trim_space ` set xs \<and> f \<noteq> []"
proof -
  assume f: "f \<in> set (normalize_field_list xs)"
  then have "to_lower f \<in> to_lower ` set (normalize_field_list xs)" by simp
  then have "to_lower f \<noteq> []"
    unfolding normalize_field_list_def using first_by_keys [of to_lower "[[]]" "map trim_space xs"] by simp
  moreover have "f \<in> set (map trim_space xs)"
    using f first_by_subset [of to_lower "[[]]" "map trim_space xs"] by (auto simp: normalize_field_list_def)
  ultimately show ?thesis by auto
qed

lemma normalize_field_list_distinct: "distinct (map to_lower (normalize_field_list xs))"
  by (simp add: normalize_field_list_def first_by_distinct)

lemma match_field_fold_Some:
  "match_field_fold allowed field = Some c \<Longrightarrow> c \<in> set allowed \<and> to_lower c = to_lower field"
  by (auto simp: match_field_fold_def equal_fold_def dest!: find_Some_set)

lemma match_field_fold_None: "match_field_fold allowed field = None \<longleftrightarrow> \<not> contains_field allowed field"
  by (auto simp: match_field_fold_def contains_field_def find_None_iff)

lemma map_filter_all:
  "\<forall>x \<in> set xs. f x \<noteq> None \<Longrightarrow> List.map_filter f xs = map (\<lambda>x. the (f x)) xs"
  by (induction xs) auto

lemma map_filter_match:
  assumes "\<forall>f \<in> set xs. match_field_fold allowed f \<noteq> None"
  shows "map to_lower (List.map_filter (match_field_fold allowed) xs) = map to_lower xs"
    and "set (List.map_filter (match_field_fold allowed) xs) \<subseteq> set allowed"
  using assms match_field_fold_Some [of allowed] by (fastforce simp: map_filter_all)+

section \<open>Store reads\<close>




section \<open>A sample gateway\<close>

text \<open>
  One published product with a parked grant that sorts first and a live one, whose contract allows
  two fields and masks them.
\<close>

definition sample_scope :: contract_scope where
  "sample_scope =
     \<lparr>cs_contract_key = ''c1'', cs_product_key = ''loan-score'', cs_customer_key = ''acme'',
      cs_allowed_fields = [''Score'', ''customer_name''], cs_rate_limit = 1, cs_valid_from = [],
      cs_valid_to = ''2026-01-01T00:00:00Z'', cs_purpose = ''scoring'', cs_restrictions = [],
      cs_status = ''active'', cs_created_by = [], cs_created_at = [], cs_updated_at = [],
      cs_masking_policy = ''redact''\<rparr>"

definition sample_grant :: "string \<Rightarrow> string \<Rightarrow> string \<Rightarrow> api_entitlement" where
  "sample_grant key contract updated =
     \<lparr>ent_id = key, ent_api_key_id = ''k1'', ent_api_key_hash = [], ent_customer_key = [],
      ent_product_key = ''loan-score'', ent_contract_key = contract, ent_scope = ''data_product:query'',
      ent_expires_at = [], ent_status = ''active'', ent_created_by = [], ent_created_at = [],
      ent_updated_at = updated\<rparr>"

definition sample_gateway_store :: dw_store where
  "sample_gateway_store = empty_store\<lparr>
     st_products := [sample_product\<lparr>dp_status := ''published''\<rparr>],
     st_scopes := [sample_scope\<lparr>cs_contract_key := ''c0'', cs_status := ''revoked''\<rparr>, sample_scope],
     st_entitlements := [sample_grant ''e1'' ''c1'' ''2025-01-01T00:00:00Z'',
                         sample_grant ''e0'' ''c0'' ''2025-02-01T00:00:00Z'']\<rparr>"

definition sample_request :: query_request where
  "sample_request =
     \<lparr>q_method = ''POST'', q_path = ''/v1/data-products/loan%2Dscore/query'', q_auth = Some ''k1'',
      q_token_hash = [], q_body = Body_value (JObj [(''fields'', JStr ''score'')]),
      q_now = 1740000000 * second, q_clock = ''2025-02-19T21:20:00Z'', q_done = 1740000000 * second\<rparr>"


abbreviation sample_lookups :: lookups where
  "sample_lookups \<equiv> store_lookups 0 sample_gateway_store"

abbreviation sample_published :: data_product where
  "sample_published \<equiv> sample_product\<lparr>dp_status := ''published''\<rparr>"

abbreviation sample_live_grant :: api_entitlement where
  "sample_live_grant \<equiv> sample_grant ''e1'' ''c1'' ''2025-01-01T00:00:00Z''"

text \<open>The parked grant was written last and sorts first; the walk passes over it.\<close>

lemma sample_candidates:
  "list_api_entitlement_candidates 0 ''loan-score'' ''k1'' [] sample_gateway_store =
    [sample_grant ''e0'' ''c0'' ''2025-02-01T00:00:00Z'', sample_live_grant]"
  by code_simp

lemma sample_usable:
  "\<not> usable sample_lookups sample_published (1740000000 * second) (sample_grant ''e0'' ''c0'' ''2025-02-01T00:00:00Z'')"
  "usable sample_lookups sample_published (1740000000 * second) sample_live_grant"
  by code_simp+


lemma sample_path: "data_product_query_key (q_path sample_request) = Some ''loan-score''"
  by code_simp



section \<open>Properties\<close>

text \<open>
  Which grant a call runs under.  The walk over the candidates returns the first grant that
  passes every check a request cannot influence; a candidate whose contract cannot be read is
  passed over, and its fault (the first one) is the result only when no grant is usable.
\<close>

lemma usable_entitlement_exact:
  "usable_entitlement L product ents now =
    (case find (usable L product now) ents of
       Some ent \<Rightarrow> Inr (Some ent)
     | None \<Rightarrow> (case first_fault L now ents of None \<Rightarrow> Inr None | Some e \<Rightarrow> Inl e))"
  by (rule usable_entitlement_find)

text \<open>
  C5. The condition for an answer is exact.  The reply is an answer precisely when the request is a
  POST to a query path by an authenticated caller, the product is published, the selected
  entitlement is active and grants queries, its contract belongs to the product, is in its window
  and states the purpose a sensitive product needs, the minute has quota left, and the requested
  fields are within the contract; the answer then names that entitlement and contract.  Status 200
  and an answer are the same thing.
\<close>

theorem query_answer_exact:
  "(rp_body (fst (handle_data_product_query L q g)) = Answer a \<longleftrightarrow>
    (\<exists>product ent contract body response_fields.
       may_answer L q (gw_limits g) product ent contract body response_fields \<and>
       a = query_answer_of q product ent contract body response_fields)) \<and>
   (rp_status (fst (handle_data_product_query L q g)) = 200 \<longleftrightarrow>
    (\<exists>a. rp_body (fst (handle_data_product_query L q g)) = Answer a))"
  using handle_answer_spec handle_status by blast



text \<open>
  C7. A stale grant never shadows a live one.  When the caller holds one usable grant among the
  candidates of a published product, the call passes every entitlement and contract check: what can
  still refuse it is the rate limit, the body or the requested fields.
\<close>

theorem live_grant_is_served:
  assumes "q_method q = ''POST''" "data_product_query_key (q_path q) = Some product_key"
    and "q_auth q = Some key" "get_data_product product_key s = Some product"
    and "dp_status product = ''published''"
    and "ent \<in> set (list_api_entitlement_candidates now (dp_product_key product) (caller_id key)
           (q_token_hash q) s)"
    and "usable (store_lookups now s) product (q_now q) ent"
  shows "\<exists>ent' contract. fst (query_admit (store_lookups now s) q) =
      Inr (caller_id key, product_key, product, ent', contract) \<and>
    usable (store_lookups now s) product (q_now q) ent' \<and>
    query_contract_checks product contract (q_now q) = Inr ()"
proof -
  let ?L = "store_lookups now s"
  let ?ents = "list_api_entitlement_candidates now (dp_product_key product) (caller_id key) (q_token_hash q) s"
  obtain u where u: "find (usable ?L product (q_now q)) ?ents = Some u"
    using assms(6,7) by (cases "find (usable ?L product (q_now q)) ?ents") (auto simp: find_None_iff)
  then have us: "usable ?L product (q_now q) u" by (auto dest!: find_Some_set)
  then obtain contract where c: "get_contract_scope (ent_contract_key u) s = Some contract"
    and serves: "contract_serves product (q_now q) contract"
    by (auto simp: usable_def store_lookups_def split: option.splits)
  have "query_entitlement ?L q (caller_id key) product = Inr u"
    using u us unfolding query_entitlement_Inr selected_def by (auto simp: store_lookups_def usable_def)
  moreover have "query_contract ?L product u = Inr contract"
    using c serves unfolding query_contract_Inr by (simp add: store_lookups_def contract_serves_def)
  moreover have "query_product ?L q product_key = Inr product"
    using assms unfolding query_product_Inr by (simp add: store_lookups_def)
  ultimately have "fst (query_admit ?L q) = Inr (caller_id key, product_key, product, u, contract)"
    using assms unfolding query_admit_Inr by blast
  moreover have "query_contract_checks product contract (q_now q) = Inr ()"
    using serves unfolding query_contract_checks_Inr contract_serves_def by blast
  ultimately show ?thesis using us by blast
qed

theorem live_grant_is_served_witness:
  "\<exists>ent' contract. fst (query_admit sample_lookups sample_request) =
      Inr (''k1'', ''loan-score'', sample_published, ent', contract)"
proof -
  have k: "caller_id ''k1'' = ''k1''" and p: "dp_product_key sample_published = ''loan-score''"
    by (simp_all add: caller_id_def sample_product_def)
  have "get_data_product ''loan-score'' sample_gateway_store = Some sample_published" by code_simp
  then show ?thesis
    using live_grant_is_served [of sample_request "''loan-score''" "''k1''" sample_gateway_store
        sample_published sample_live_grant 0] sample_path sample_candidates sample_usable(2)
    unfolding k p by (auto simp: sample_request_def)
qed

text \<open>
  The fields of an answer.  Without a wildcard the answered fields are contract fields in the
  contract's spelling, each once up to case, matching the request's fields one for one in order (all
  contract fields when none is requested); the refused fields are exactly the requested ones that
  the contract does not list, and one refused field empties the answer.
\<close>

lemma response_fields_within_contract:
  assumes "\<not> contains_field (normalize_field_list allowed) ''*''"
    and "contract_response_fields allowed requested = (response, forbidden)"
  shows "set response \<subseteq> set (normalize_field_list allowed) \<and> distinct (map to_lower response) \<and>
    forbidden = filter (\<lambda>f. \<not> contains_field (normalize_field_list allowed) f) (normalize_field_list requested) \<and>
    (forbidden \<noteq> [] \<longrightarrow> response = []) \<and>
    (forbidden = [] \<longrightarrow> map to_lower response =
           map to_lower (normalize_field_list (if normalize_field_list requested = [] then allowed else requested)))"
  using assms
    map_filter_match [of "normalize_field_list requested" "normalize_field_list allowed"]
    normalize_field_list_distinct [of allowed] normalize_field_list_distinct [of requested]
  by (auto simp: contract_response_fields_def Let_def match_field_fold_None filter_empty_conv
      split: if_splits)

fun same_shape :: "go_value \<Rightarrow> go_value \<Rightarrow> bool" where
  "same_shape (V_string s) (V_string t) = (length s = length t)"
| "same_shape (V_int _) (V_int _) = True"
| "same_shape (V_float _) (V_float _) = True"
| "same_shape V_other V_other = True"
| "same_shape _ _ = False"

text \<open>
  Masking.  The policies that count as masking for the publish gate are exactly those that change
  some value; every other policy leaves all values as they are.  Under \<open>redact\<close> two values of the same
  kind, strings of the same length, cannot be told apart.
\<close>

lemma masking_hides:
  "(masking_policy_masks policy \<longleftrightarrow> (\<exists>v. apply_masking v policy \<noteq> v)) \<and>
   (masking_policy_known policy \<longleftrightarrow>
      masking_policy_masks policy \<or> to_lower (trim_space policy) \<in> {[], ''none''}) \<and>
   (to_lower (trim_space policy) = ''redact'' \<and> same_shape v w \<longrightarrow>
      apply_masking v policy = apply_masking w policy)"
proof (intro conjI)
  have "apply_masking (V_int 1) policy \<noteq> V_int 1" if "masking_policy_masks policy"
    using that by (auto simp: masking_policy_masks_def masking_policies_def apply_masking_def Let_def)
  moreover have "apply_masking v policy = v" if "\<not> masking_policy_masks policy" for v
    using that by (auto simp: masking_policy_masks_def masking_policies_def apply_masking_def Let_def)
  ultimately show "masking_policy_masks policy \<longleftrightarrow> (\<exists>v. apply_masking v policy \<noteq> v)" by blast
qed (cases v; cases w; auto simp: masking_policy_masks_def masking_policy_known_def apply_masking_def Let_def)+

text \<open>
  Metering.  A call that gets as far as a contract adds exactly one call to the usage table,
  counted as failed, as over the limit (status 429) or as billed (ten units, status 200), never as two
  of these; any other call adds nothing, and no call changes another table.
\<close>

lemma query_metering:
  "let (reply, g') = handle_data_product_query L q g; s = gw_store g; s' = gw_store g'; m = metered L q
   in s' = s\<lparr>st_usage := st_usage s'\<rparr> \<and>
      total_calls s' = total_calls s + of_bool m \<and>
      failed_calls s' = failed_calls s + of_bool (m \<and> rp_status reply \<notin> {200, 429}) \<and>
      over_limit_calls s' = over_limit_calls s + of_bool (m \<and> rp_status reply = 429) \<and>
      billed s' = billed s + (if m \<and> rp_status reply = 200 then 10 else 0)"
proof -
  obtain reply g' where h: "handle_data_product_query L q g = (reply, g')"
    by (cases "handle_data_product_query L q g")
  show ?thesis
  proof (cases "metered L q")
    case False
    then show ?thesis using handle_store [of L q g] h by simp
  next
    case True
    then obtain ck pk key where s':
      "gw_store g' = increment_usage_metering (q_done q) ck pk key
         (rp_status reply \<noteq> 200 \<and> rp_status reply \<noteq> 429) (rp_status reply = 429)
         (if rp_status reply = 200 then 10 else 0) (gw_store g)"
      using handle_store [of L q g] h by auto
    show ?thesis
      unfolding h Let_def prod.case s'
      by (intro conjI; (rule increment_usage_state [unfolded Let_def])?)
        (simp_all add: increment_usage_sums True)
  qed
qed

text \<open>
  Audit.  Every answer and every refusal with status 403 or 429 leaves exactly one audit event;
  malformed requests, unknown callers and faults leave none; events are only ever appended.
\<close>

lemma query_audit:
  "let (reply, g') = handle_data_product_query L q g
   in \<exists>evs. gw_audit g' = gw_audit g @ evs \<and>
        length evs = of_bool (rp_status reply \<in> {200, 403, 429})"
  by (rule handle_audit)

end
