(* ===== verification/PublishGate.thy ===== *)
theory PublishGate
  imports GovernanceStore
begin

text \<open>
  The publish gate of \<open>internal/dataworks/domain.go\<close>: readiness normalisation, the strict-gate
  predicate, the approval check and the two gate evaluations.  The gate is a pure function of the
  product, its evidence and the clock; \<open>wall\<close> stands for \<open>time.Now()\<close>, read when the caller
  passes the zero time.
\<close>

section \<open>Readiness\<close>

definition default_readiness_threshold :: int where
  "default_readiness_threshold = 70"

definition required_publish_approvals :: "string list" where
  "required_publish_approvals = [''data_owner'', ''legal'', ''compliance'']"

definition clamp :: "int \<Rightarrow> int" where
  "clamp v = (if v < 0 then 0 else if 100 < v then 100 else v)"

definition normalize_readiness_score :: "asset_readiness_score \<Rightarrow> asset_readiness_score" where
  "normalize_readiness_score score =
     (let score = score\<lparr>
            rs_schema_score := clamp (rs_schema_score score),
            rs_freshness_score := clamp (rs_freshness_score score),
            rs_sample_score := clamp (rs_sample_score score),
            rs_missingness_score := clamp (rs_missingness_score score),
            rs_sensitivity_score := clamp (rs_sensitivity_score score),
            rs_external_sharing_score := clamp (rs_external_sharing_score score),
            rs_api_readiness_score := clamp (rs_api_readiness_score score),
            rs_billing_readiness_score := clamp (rs_billing_readiness_score score)\<rparr>;
          score = (if rs_overall_score score \<le> 0
            then score\<lparr>rs_overall_score := go_div
                (rs_schema_score score + rs_freshness_score score + rs_sample_score score
                 + rs_missingness_score score + rs_sensitivity_score score
                 + rs_external_sharing_score score + rs_api_readiness_score score
                 + rs_billing_readiness_score score) 8\<rparr>
            else score)
      in score\<lparr>rs_overall_score := clamp (rs_overall_score score)\<rparr>)"

lemma clamp_range [simp]: "0 \<le> clamp v" "clamp v \<le> 100"
  by (auto simp: clamp_def)

lemma clamp_id [simp]: "0 \<le> v \<Longrightarrow> v \<le> 100 \<Longrightarrow> clamp v = v"
  by (simp add: clamp_def)

section \<open>The strict gate\<close>

definition sensitive_words :: "string list" where
  "sensitive_words = [''restricted'', ''personal'', ''credit'', ''pseudonym'', ''sensitive'']"

definition requires_strict_publish_gate :: "data_product \<Rightarrow> bool" where
  "requires_strict_publish_gate p =
     (let sensitivity = to_lower (trim_space (dp_sensitivity p));
          source_type = to_lower (trim_space (dp_source_type p))
      in if 70 \<le> dp_risk_score p then True
         else if contains_any sensitivity sensitive_words then True
         else source_type = ''api'' \<and> 55 \<le> dp_risk_score p)"

definition product_asset_keys :: "data_product \<Rightarrow> string list" where
  "product_asset_keys p = split_loose (dp_source_ref p)"

section \<open>Approvals\<close>

definition norm_step :: "string \<Rightarrow> string" where
  "norm_step step = to_lower (trim_space step)"

text \<open>
  The status of one trace at a time: empty is pending, an expiry that is unreadable or not in the
  future makes it expired.
\<close>

definition effective_status :: "approval_trace \<Rightarrow> go_time \<Rightarrow> string" where
  "effective_status trace now =
     (let status = to_lower (trim_space (atr_status trace));
          status = (if status = [] then ''pending'' else status);
          expires_raw = trim_space (atr_expires_at trace)
      in if expires_raw \<noteq> []
         then (case parse_rfc3339 expires_raw of
                 None \<Rightarrow> ''expired''
               | Some expires_at \<Rightarrow> if \<not> now < expires_at then ''expired'' else status)
         else status)"

fun best_status_loop :: "string \<Rightarrow> go_time \<Rightarrow> string \<Rightarrow> approval_trace list \<Rightarrow> string" where
  "best_status_loop step now best [] = best"
| "best_status_loop step now best (trace # traces) =
     (if norm_step (atr_step trace) \<noteq> step then best_status_loop step now best traces
      else let status = effective_status trace now
           in if status = ''approved'' \<or> status = ''waived'' then status
              else best_status_loop step now status traces)"

definition best_approval_status :: "string \<Rightarrow> approval_trace list \<Rightarrow> go_time \<Rightarrow> string" where
  "best_approval_status step approvals now =
     best_status_loop (norm_step step) now ''missing'' approvals"

text \<open>The \<open>add\<close> closure of \<open>requiredApprovalSteps\<close>, and the loop over extra required steps.\<close>

definition add_step :: "string \<Rightarrow> string list \<Rightarrow> string list" where
  "add_step step steps =
     (let step = norm_step step in if step = [] \<or> step \<in> set steps then steps else steps @ [step])"

fun extra_steps :: "string list \<Rightarrow> approval_trace list \<Rightarrow> string list" where
  "extra_steps seen [] = []"
| "extra_steps seen (a # as) =
     (let step = norm_step (atr_step a)
      in if atr_required a \<and> step \<noteq> [] \<and> step \<notin> set seen
         then step # extra_steps (step # seen) as else extra_steps seen as)"

definition required_approval_steps :: "bool \<Rightarrow> approval_trace list \<Rightarrow> string list" where
  "required_approval_steps strict approvals =
     (let steps = (if strict then fold add_step required_publish_approvals [] else [])
      in steps @ sort (extra_steps steps approvals))"

definition step_satisfied :: "approval_trace list \<Rightarrow> go_time \<Rightarrow> string \<Rightarrow> bool" where
  "step_satisfied approvals now step \<longleftrightarrow>
     best_approval_status step approvals now \<in> {''approved'', ''waived''}"

section \<open>The gate result\<close>

record publish_gate_result =
  pg_product_key :: string
  pg_strict_gate :: bool
  pg_allowed :: bool
  pg_minimum_readiness :: int
  pg_required_approvals :: "string list"
  pg_approval_status :: "string \<rightharpoonup> string"
  pg_missing_approvals :: "string list"
  pg_missing_evidence :: "string list"
  pg_blocked_reasons :: "string list"
  pg_warnings :: "string list"
  pg_asset_readiness :: "asset_readiness_score list"
  pg_checked_at :: string
  pg_metadata :: "int \<times> string \<times> string"
  pg_quality_passed :: bool
  pg_risk_reviewed :: bool
  pg_api_contract_configured :: bool
  pg_sla_configured :: bool
  pg_pricing_model_configured :: bool
  pg_masking_configured :: bool

definition block :: "string \<Rightarrow> publish_gate_result \<Rightarrow> publish_gate_result" where
  "block reason r = r\<lparr>pg_blocked_reasons := pg_blocked_reasons r @ [reason]\<rparr>"

definition lack :: "string \<Rightarrow> publish_gate_result \<Rightarrow> publish_gate_result" where
  "lack evidence r = r\<lparr>pg_missing_evidence := pg_missing_evidence r @ [evidence]\<rparr>"

definition warn :: "string \<Rightarrow> publish_gate_result \<Rightarrow> publish_gate_result" where
  "warn text r = r\<lparr>pg_warnings := pg_warnings r @ [text]\<rparr>"

definition gate_init :: "data_product \<Rightarrow> asset_readiness_score list \<Rightarrow> go_time \<Rightarrow> publish_gate_result" where
  "gate_init p readiness now =
     \<lparr>pg_product_key = dp_product_key p, pg_strict_gate = requires_strict_publish_gate p,
      pg_allowed = True, pg_minimum_readiness = default_readiness_threshold,
      pg_required_approvals = [], pg_approval_status = Map.empty, pg_missing_approvals = [],
      pg_missing_evidence = [], pg_blocked_reasons = [], pg_warnings = [],
      pg_asset_readiness = readiness, pg_checked_at = format_rfc3339nano now,
      pg_metadata = (dp_risk_score p, dp_sensitivity p, dp_source_type p),
      pg_quality_passed = False, pg_risk_reviewed = False, pg_api_contract_configured = False,
      pg_sla_configured = False, pg_pricing_model_configured = False,
      pg_masking_configured = False\<rparr>"

section \<open>EvaluatePublishGate\<close>

definition check_step ::
  "approval_trace list \<Rightarrow> go_time \<Rightarrow> string \<Rightarrow> publish_gate_result \<Rightarrow> publish_gate_result" where
  "check_step approvals now step r =
     (let status = best_approval_status step approvals now;
          r = r\<lparr>pg_approval_status := (pg_approval_status r)(step \<mapsto> status)\<rparr>
      in if status \<noteq> ''approved'' \<and> status \<noteq> ''waived''
         then block (''missing required approval: '' @ step)
                (r\<lparr>pg_missing_approvals := pg_missing_approvals r @ [step]\<rparr>)
         else r)"

text \<open>The map from lower-cased asset keys to normalised scores; the last score of a key wins.\<close>

definition readiness_by_asset :: "asset_readiness_score list \<Rightarrow> (string \<rightharpoonup> asset_readiness_score)" where
  "readiness_by_asset readiness =
     map_of (rev (map (\<lambda>score. let n = normalize_readiness_score score
                               in (to_lower (rs_asset_key n), n)) readiness))"

definition check_asset ::
  "(string \<rightharpoonup> asset_readiness_score) \<Rightarrow> string \<Rightarrow> publish_gate_result \<Rightarrow> publish_gate_result" where
  "check_asset scores key r =
     (case scores (to_lower key) of
        None \<Rightarrow> block (''missing asset readiness score for '' @ key) (lack (''asset_readiness:'' @ key) r)
      | Some score \<Rightarrow>
          if rs_overall_score score < pg_minimum_readiness r
          then block (''asset '' @ key @ '' readiness score '' @ itoa (rs_overall_score score)
                 @ '' is below '' @ itoa (pg_minimum_readiness r)) r
          else r)"

definition pack_missing :: "evidence_pack option \<Rightarrow> bool" where
  "pack_missing pack =
     (case pack of None \<Rightarrow> True
      | Some pk \<Rightarrow> trim_space (ep_pack_json pk) = [] \<or> trim_space (ep_pack_json pk) = ''{}'')"

definition set_allowed :: "publish_gate_result \<Rightarrow> publish_gate_result" where
  "set_allowed r = r\<lparr>pg_allowed := (pg_blocked_reasons r = [])\<rparr>"

definition evaluate_publish_gate ::
  "data_product \<Rightarrow> asset_readiness_score list \<Rightarrow> approval_trace list \<Rightarrow> evidence_pack option
   \<Rightarrow> go_time \<Rightarrow> go_time \<Rightarrow> publish_gate_result" where
  "evaluate_publish_gate p readiness approvals pack wall now =
     (let now = (if now = zero_time then wall else now);
          r = gate_init p readiness now;
          steps = required_approval_steps (pg_strict_gate r) approvals;
          r = fold (check_step approvals now) steps (r\<lparr>pg_required_approvals := steps\<rparr>)
      in if \<not> pg_strict_gate r
         then set_allowed
                (warn ''strict gate is not required for this product risk/sensitivity profile'' r)
         else
           let asset_keys = product_asset_keys p;
               scores = readiness_by_asset readiness;
               r = (if asset_keys = []
                    then block ''at least one source data asset must be linked before publishing a strict-gated product''
                           (lack ''source_assets'' r)
                    else r);
               r = fold (check_asset scores) asset_keys r;
               r = (if pack_missing pack
                    then block ''evidence pack must be generated before publishing''
                           (lack ''evidence_pack'' r)
                    else r)
           in set_allowed r)"

section \<open>EvaluatePublishGateV2\<close>

definition pricing_model_configured :: "data_product \<Rightarrow> product_cost option \<Rightarrow> bool" where
  "pricing_model_configured p cost =
     (if dp_pricing_model p \<noteq> [] then True
      else case cost of None \<Rightarrow> False
           | Some c \<Rightarrow> cost_query_cost c > 0 \<or> cost_ops_cost c > 0 \<or> cost_data_processing_cost c > 0)"

definition check_quality :: "data_quality_result list \<Rightarrow> publish_gate_result \<Rightarrow> publish_gate_result" where
  "check_quality results r =
     (let r = r\<lparr>pg_quality_passed := True\<rparr>
      in if results = []
         then lack ''quality_results''
                (warn ''no data quality execution results found for assets''
                  (r\<lparr>pg_quality_passed := False\<rparr>))
         else fold (\<lambda>q r. if \<not> dq_passed q
                          then block (''data quality rule failed: '' @ dq_message q)
                                 (r\<lparr>pg_quality_passed := False\<rparr>)
                          else r) results r)"

text \<open>The four checks that only warn: risk review, API contract, SLA, pricing.\<close>

definition check_soft :: "bool \<Rightarrow> string \<Rightarrow> string \<Rightarrow> publish_gate_result \<Rightarrow> publish_gate_result" where
  "check_soft ok warning evidence r = (if \<not> ok then lack evidence (warn warning r) else r)"

definition check_masking :: "data_product \<Rightarrow> bool \<Rightarrow> publish_gate_result \<Rightarrow> publish_gate_result" where
  "check_masking p masking_configured r =
     (let sensitivity = to_lower (trim_space (dp_sensitivity p))
      in if contains_any sensitivity sensitive_words
         then let r = r\<lparr>pg_masking_configured := masking_configured\<rparr>
              in if \<not> masking_configured
                 then lack ''masking_policy''
                        (block ''sample response masking policy is not configured for sensitive product'' r)
                 else r
         else r\<lparr>pg_masking_configured := True\<rparr>)"

definition evaluate_publish_gate_v2 ::
  "data_product \<Rightarrow> asset_readiness_score list \<Rightarrow> approval_trace list \<Rightarrow> evidence_pack option
   \<Rightarrow> product_sla option \<Rightarrow> product_cost option \<Rightarrow> data_quality_result list \<Rightarrow> bool \<Rightarrow> bool
   \<Rightarrow> go_time \<Rightarrow> go_time \<Rightarrow> publish_gate_result" where
  "evaluate_publish_gate_v2 p readiness approvals pack sla cost quality has_risk_review
       masking_configured wall now =
     (let now = (if now = zero_time then wall else now);
          res = evaluate_publish_gate p readiness approvals pack wall now
      in if \<not> pg_strict_gate res
         then res\<lparr>pg_quality_passed := True, pg_risk_reviewed := True,
                  pg_api_contract_configured := (dp_api_spec p \<noteq> []),
                  pg_sla_configured := (sla \<noteq> None),
                  pg_pricing_model_configured := pricing_model_configured p cost,
                  pg_masking_configured := True\<rparr>
         else
           let res = check_quality quality res;
               res = check_soft has_risk_review ''risk review check must be completed before publishing''
                       ''risk_review'' (res\<lparr>pg_risk_reviewed := has_risk_review\<rparr>);
               api = (dp_api_spec p \<noteq> []);
               res = check_soft api ''API contract (OpenAPI Spec) is not configured'' ''api_contract''
                       (res\<lparr>pg_api_contract_configured := api\<rparr>);
               res = check_soft (sla \<noteq> None) ''SLA targets are not configured'' ''product_sla''
                       (res\<lparr>pg_sla_configured := (sla \<noteq> None)\<rparr>);
               pricing = pricing_model_configured p cost;
               res = check_soft pricing
                       ''pricing model or operational cost parameters are not configured''
                       ''pricing_model'' (res\<lparr>pg_pricing_model_configured := pricing\<rparr>);
               res = check_masking p masking_configured res
           in set_allowed res)"

section \<open>Lemmas on approvals\<close>

lemma norm_step_idem [simp]: "norm_step (norm_step step) = norm_step step"
  by (simp add: norm_step_def trim_space_to_lower)

lemma best_status_loop_ok:
  "best_status_loop step now best traces \<in> {''approved'', ''waived''} \<longleftrightarrow>
    (\<exists>a \<in> set traces. norm_step (atr_step a) = step \<and> effective_status a now \<in> {''approved'', ''waived''})
    \<or> ((\<forall>a \<in> set traces. norm_step (atr_step a) \<noteq> step) \<and> best \<in> {''approved'', ''waived''})"
  by (induction step now best traces rule: best_status_loop.induct) (auto simp: Let_def)

text \<open>The step is satisfied exactly when some trace of it is approved or waived and in force.\<close>

lemma step_satisfied_iff:
  "step_satisfied approvals now step \<longleftrightarrow>
    (\<exists>a \<in> set approvals. norm_step (atr_step a) = norm_step step
       \<and> effective_status a now \<in> {''approved'', ''waived''})"
  unfolding step_satisfied_def best_approval_status_def best_status_loop_ok by auto

definition in_force :: "approval_trace \<Rightarrow> go_time \<Rightarrow> bool" where
  "in_force a now \<longleftrightarrow> trim_space (atr_expires_at a) = [] \<or>
     (\<exists>t. parse_rfc3339 (trim_space (atr_expires_at a)) = Some t \<and> now < t)"

lemma effective_status_granted:
  "effective_status a now \<in> {''approved'', ''waived''} \<longleftrightarrow>
    to_lower (trim_space (atr_status a)) \<in> {''approved'', ''waived''} \<and> in_force a now"
  by (auto simp: effective_status_def in_force_def Let_def split: option.splits)

lemma in_force_earlier: "in_force a now \<Longrightarrow> now' \<le> now \<Longrightarrow> in_force a now'"
  by (fastforce simp: in_force_def)

lemma step_satisfied_earlier:
  "step_satisfied approvals now step \<Longrightarrow> now' \<le> now \<Longrightarrow> step_satisfied approvals now' step"
  unfolding step_satisfied_iff effective_status_granted using in_force_earlier by blast

lemma set_extra_steps:
  "set (extra_steps seen as) =
    {norm_step (atr_step a) | a. a \<in> set as \<and> atr_required a \<and> norm_step (atr_step a) \<noteq> []} - set seen"
  by (induction seen as rule: extra_steps.induct) (auto simp: Let_def)

lemma distinct_extra_steps: "distinct (extra_steps seen as)"
  by (induction seen as rule: extra_steps.induct) (auto simp: Let_def set_extra_steps)

lemma strict_steps: "fold add_step required_publish_approvals [] = required_publish_approvals"
  by code_simp

lemma set_required_approval_steps:
  "set (required_approval_steps strict approvals) =
    (if strict then set required_publish_approvals else {})
    \<union> {norm_step (atr_step a) | a. a \<in> set approvals \<and> atr_required a \<and> norm_step (atr_step a) \<noteq> []}"
  by (auto simp: required_approval_steps_def strict_steps set_extra_steps Let_def)

lemma distinct_required_approval_steps: "distinct (required_approval_steps strict approvals)"
proof -
  have "distinct required_publish_approvals" by code_simp
  then show ?thesis
    by (auto simp: required_approval_steps_def strict_steps Let_def distinct_extra_steps set_extra_steps)
qed

lemma required_steps_normal:
  "step \<in> set (required_approval_steps strict approvals) \<Longrightarrow> norm_step step = step"
proof -
  have "norm_step r = r" if "r \<in> set required_publish_approvals" for r
  proof -
    have "list_all (\<lambda>r. norm_step r = r) required_publish_approvals" by code_simp
    with that show ?thesis by (simp add: list_all_iff)
  qed
  then show "step \<in> set (required_approval_steps strict approvals) \<Longrightarrow> norm_step step = step"
    by (auto simp: set_required_approval_steps split: if_splits)
qed

section \<open>Lemmas on the gate stages\<close>

text \<open>What each stage adds to the blocking reasons, and what it leaves alone.\<close>

lemmas stage_defs = block_def lack_def warn_def check_step_def check_asset_def check_soft_def
  check_masking_def check_quality_def set_allowed_def Let_def

lemma check_step_blocked:
  "pg_blocked_reasons (check_step approvals now step r) = [] \<longleftrightarrow>
    pg_blocked_reasons r = [] \<and> step_satisfied approvals now step"
  by (auto simp: stage_defs step_satisfied_def)

lemma fold_check_step_blocked:
  "pg_blocked_reasons (fold (check_step approvals now) steps r) = [] \<longleftrightarrow>
    pg_blocked_reasons r = [] \<and> list_all (step_satisfied approvals now) steps"
  by (induction steps arbitrary: r) (auto simp: check_step_blocked)

lemma check_step_frame [simp]:
  "pg_strict_gate (check_step approvals now step r) = pg_strict_gate r"
  "pg_minimum_readiness (check_step approvals now step r) = pg_minimum_readiness r"
  "pg_required_approvals (check_step approvals now step r) = pg_required_approvals r"
  "pg_approval_status (check_step approvals now step r) =
     (pg_approval_status r)(step \<mapsto> best_approval_status step approvals now)"
  "pg_missing_approvals (check_step approvals now step r) =
     pg_missing_approvals r @ (if step_satisfied approvals now step then [] else [step])"
  by (auto simp: stage_defs step_satisfied_def)

lemma fold_check_step_frame [simp]:
  "pg_strict_gate (fold (check_step approvals now) steps r) = pg_strict_gate r"
  "pg_minimum_readiness (fold (check_step approvals now) steps r) = pg_minimum_readiness r"
  "pg_required_approvals (fold (check_step approvals now) steps r) = pg_required_approvals r"
  by (induction steps arbitrary: r) auto

lemma fold_check_step_status:
  "pg_approval_status (fold (check_step approvals now) steps r) =
    (\<lambda>s. if s \<in> set steps then Some (best_approval_status s approvals now) else pg_approval_status r s)"
  "pg_missing_approvals (fold (check_step approvals now) steps r) =
    pg_missing_approvals r @ filter (\<lambda>s. \<not> step_satisfied approvals now s) steps"
  by (induction steps arbitrary: r) (auto simp: fun_eq_iff)

definition asset_ready :: "(string \<rightharpoonup> asset_readiness_score) \<Rightarrow> int \<Rightarrow> string \<Rightarrow> bool" where
  "asset_ready scores minimum key \<longleftrightarrow>
     (case scores (to_lower key) of None \<Rightarrow> False | Some score \<Rightarrow> minimum \<le> rs_overall_score score)"

lemma check_asset_blocked:
  "pg_blocked_reasons (check_asset scores key r) = [] \<longleftrightarrow>
    pg_blocked_reasons r = [] \<and> asset_ready scores (pg_minimum_readiness r) key"
  by (auto simp: stage_defs asset_ready_def split: option.splits)

lemma check_asset_frame [simp]:
  "pg_strict_gate (check_asset scores key r) = pg_strict_gate r"
  "pg_minimum_readiness (check_asset scores key r) = pg_minimum_readiness r"
  "pg_approval_status (check_asset scores key r) = pg_approval_status r"
  "pg_missing_approvals (check_asset scores key r) = pg_missing_approvals r"
  "pg_required_approvals (check_asset scores key r) = pg_required_approvals r"
  by (auto simp: stage_defs split: option.splits)

lemma fold_check_asset_blocked:
  "pg_blocked_reasons (fold (check_asset scores) keys r) = [] \<longleftrightarrow>
    pg_blocked_reasons r = [] \<and> list_all (asset_ready scores (pg_minimum_readiness r)) keys"
  by (induction keys arbitrary: r) (auto simp: check_asset_blocked)

lemma fold_check_asset_frame [simp]:
  "pg_strict_gate (fold (check_asset scores) keys r) = pg_strict_gate r"
  "pg_approval_status (fold (check_asset scores) keys r) = pg_approval_status r"
  "pg_missing_approvals (fold (check_asset scores) keys r) = pg_missing_approvals r"
  "pg_required_approvals (fold (check_asset scores) keys r) = pg_required_approvals r"
  by (induction keys arbitrary: r) auto

lemma fold_quality_blocked:
  "pg_blocked_reasons (fold (\<lambda>q r. if \<not> dq_passed q
       then block (''data quality rule failed: '' @ dq_message q) (r\<lparr>pg_quality_passed := False\<rparr>)
       else r) results r) = [] \<longleftrightarrow>
    pg_blocked_reasons r = [] \<and> list_all dq_passed results"
  by (induction results arbitrary: r) (auto simp: block_def)

lemma check_quality_blocked:
  "pg_blocked_reasons (check_quality results r) = [] \<longleftrightarrow>
    pg_blocked_reasons r = [] \<and> list_all dq_passed results"
  by (auto simp: check_quality_def Let_def fold_quality_blocked lack_def warn_def)

lemma check_soft_blocked [simp]:
  "pg_blocked_reasons (check_soft ok warning evidence r) = pg_blocked_reasons r"
  by (simp add: stage_defs)

definition sensitive_gate :: "data_product \<Rightarrow> bool" where
  "sensitive_gate p \<longleftrightarrow> contains_any (to_lower (trim_space (dp_sensitivity p))) sensitive_words"

lemma check_masking_blocked:
  "pg_blocked_reasons (check_masking p masking r) = [] \<longleftrightarrow>
    pg_blocked_reasons r = [] \<and> (sensitive_gate p \<longrightarrow> masking)"
  by (auto simp: stage_defs sensitive_gate_def)

section \<open>The specification of the gate\<close>

text \<open>
  The abstract contract: the approvals that are required are in force and, for a strict product,
  the evidence is complete.
\<close>

definition approvals_in_force :: "bool \<Rightarrow> approval_trace list \<Rightarrow> go_time \<Rightarrow> bool" where
  "approvals_in_force strict approvals now \<longleftrightarrow>
     list_all (step_satisfied approvals now) (required_approval_steps strict approvals)"

definition evidence_complete ::
  "data_product \<Rightarrow> asset_readiness_score list \<Rightarrow> evidence_pack option \<Rightarrow> bool" where
  "evidence_complete p readiness pack \<longleftrightarrow>
     product_asset_keys p \<noteq> [] \<and>
     list_all (asset_ready (readiness_by_asset readiness) default_readiness_threshold)
       (product_asset_keys p) \<and>
     \<not> pack_missing pack"

definition publishable ::
  "data_product \<Rightarrow> asset_readiness_score list \<Rightarrow> approval_trace list \<Rightarrow> evidence_pack option
   \<Rightarrow> data_quality_result list \<Rightarrow> bool \<Rightarrow> go_time \<Rightarrow> bool" where
  "publishable p readiness approvals pack quality masking now \<longleftrightarrow>
     (let strict = requires_strict_publish_gate p
      in approvals_in_force strict approvals now \<and>
         (strict \<longrightarrow> evidence_complete p readiness pack \<and> list_all dq_passed quality \<and>
            (sensitive_gate p \<longrightarrow> masking)))"

lemma gate_init_fields [simp]:
  "pg_strict_gate (gate_init p readiness now) = requires_strict_publish_gate p"
  "pg_minimum_readiness (gate_init p readiness now) = default_readiness_threshold"
  "pg_blocked_reasons (gate_init p readiness now) = []"
  "pg_missing_approvals (gate_init p readiness now) = []"
  "pg_approval_status (gate_init p readiness now) = Map.empty"
  by (simp_all add: gate_init_def)

lemma set_allowed_fields [simp]:
  "pg_allowed (set_allowed r) = (pg_blocked_reasons r = [])"
  "pg_blocked_reasons (set_allowed r) = pg_blocked_reasons r"
  "pg_strict_gate (set_allowed r) = pg_strict_gate r"
  by (simp_all add: set_allowed_def)

lemma warn_lack_block_fields [simp]:
  "pg_blocked_reasons (warn t r) = pg_blocked_reasons r"
  "pg_blocked_reasons (lack t r) = pg_blocked_reasons r"
  "pg_blocked_reasons (block t r) = pg_blocked_reasons r @ [t]"
  "pg_strict_gate (warn t r) = pg_strict_gate r"
  "pg_strict_gate (lack t r) = pg_strict_gate r"
  "pg_strict_gate (block t r) = pg_strict_gate r"
  "pg_minimum_readiness (block t r) = pg_minimum_readiness r"
  "pg_minimum_readiness (lack t r) = pg_minimum_readiness r"
  by (simp_all add: warn_def lack_def block_def)

lemma evaluate_publish_gate_strict [simp]:
  "pg_strict_gate (evaluate_publish_gate p readiness approvals pack wall now) =
    requires_strict_publish_gate p"
  by (simp add: evaluate_publish_gate_def Let_def)

definition gate_clock :: "go_time \<Rightarrow> go_time \<Rightarrow> go_time" where
  "gate_clock wall now = (if now = zero_time then wall else now)"

lemma evaluate_publish_gate_blocked:
  "pg_blocked_reasons (evaluate_publish_gate p readiness approvals pack wall now) = [] \<longleftrightarrow>
    approvals_in_force (requires_strict_publish_gate p) approvals (gate_clock wall now) \<and>
    (requires_strict_publish_gate p \<longrightarrow> evidence_complete p readiness pack)"
  by (simp add: evaluate_publish_gate_def Let_def fold_check_step_blocked fold_check_asset_blocked
      approvals_in_force_def evidence_complete_def gate_clock_def [symmetric])

lemma evaluate_publish_gate_allowed:
  "pg_allowed (evaluate_publish_gate p readiness approvals pack wall now) \<longleftrightarrow>
    pg_blocked_reasons (evaluate_publish_gate p readiness approvals pack wall now) = []"
  by (simp add: evaluate_publish_gate_def Let_def)

lemma gate_v2_allowed:
  "pg_allowed (evaluate_publish_gate_v2 p readiness approvals pack sla cost quality rr masking wall now)
    \<longleftrightarrow> publishable p readiness approvals pack quality masking (gate_clock wall now)"
proof (cases "requires_strict_publish_gate p")
  case False
  then show ?thesis
    by (simp add: evaluate_publish_gate_v2_def Let_def evaluate_publish_gate_allowed
        evaluate_publish_gate_blocked publishable_def gate_clock_def)
next
  case True
  then show ?thesis
    by (simp add: evaluate_publish_gate_v2_def Let_def check_masking_blocked check_quality_blocked
        evaluate_publish_gate_blocked publishable_def gate_clock_def)
qed

lemma publishable_earlier:
  assumes "publishable p readiness approvals pack quality masking now" "now' \<le> now"
  shows "publishable p readiness approvals pack quality masking now'"
  using assms step_satisfied_earlier
  by (fastforce simp: publishable_def approvals_in_force_def list_all_iff Let_def)

section \<open>Readiness lemmas\<close>

lemma normalize_parts:
  "rs_schema_score (normalize_readiness_score r) = clamp (rs_schema_score r)"
  "rs_freshness_score (normalize_readiness_score r) = clamp (rs_freshness_score r)"
  "rs_sample_score (normalize_readiness_score r) = clamp (rs_sample_score r)"
  "rs_missingness_score (normalize_readiness_score r) = clamp (rs_missingness_score r)"
  "rs_sensitivity_score (normalize_readiness_score r) = clamp (rs_sensitivity_score r)"
  "rs_external_sharing_score (normalize_readiness_score r) = clamp (rs_external_sharing_score r)"
  "rs_api_readiness_score (normalize_readiness_score r) = clamp (rs_api_readiness_score r)"
  "rs_billing_readiness_score (normalize_readiness_score r) = clamp (rs_billing_readiness_score r)"
  "rs_asset_key (normalize_readiness_score r) = rs_asset_key r"
  "rs_notes (normalize_readiness_score r) = rs_notes r"
  "rs_updated_by (normalize_readiness_score r) = rs_updated_by r"
  "rs_updated_at (normalize_readiness_score r) = rs_updated_at r"
  by (simp_all add: normalize_readiness_score_def Let_def)

definition parts_sum :: "asset_readiness_score \<Rightarrow> int" where
  "parts_sum r = clamp (rs_schema_score r) + clamp (rs_freshness_score r) + clamp (rs_sample_score r)
     + clamp (rs_missingness_score r) + clamp (rs_sensitivity_score r)
     + clamp (rs_external_sharing_score r) + clamp (rs_api_readiness_score r)
     + clamp (rs_billing_readiness_score r)"

lemma parts_sum_range: "0 \<le> parts_sum r" "parts_sum r \<le> 800"
  using clamp_range [of "rs_schema_score r"] clamp_range [of "rs_freshness_score r"]
    clamp_range [of "rs_sample_score r"] clamp_range [of "rs_missingness_score r"]
    clamp_range [of "rs_sensitivity_score r"] clamp_range [of "rs_external_sharing_score r"]
    clamp_range [of "rs_api_readiness_score r"] clamp_range [of "rs_billing_readiness_score r"]
  unfolding parts_sum_def by linarith+

lemma normalize_overall:
  "rs_overall_score (normalize_readiness_score r) =
    (if rs_overall_score r \<le> 0 then parts_sum r div 8 else min 100 (rs_overall_score r))"
proof -
  have "rs_overall_score (normalize_readiness_score r) =
      clamp (if rs_overall_score r \<le> 0 then go_div (parts_sum r) 8 else rs_overall_score r)"
    by (simp add: normalize_readiness_score_def Let_def parts_sum_def)
  moreover have "clamp (go_div (parts_sum r) 8) = parts_sum r div 8"
    using parts_sum_range [of r] by simp
  ultimately show ?thesis by (auto simp: clamp_def)
qed

lemma normalize_overall_range:
  "0 \<le> rs_overall_score (normalize_readiness_score r)"
  "rs_overall_score (normalize_readiness_score r) \<le> 100"
  using parts_sum_range [of r] by (auto simp: normalize_overall)

lemma parts_sum_normalize: "parts_sum (normalize_readiness_score r) = parts_sum r"
  by (simp add: parts_sum_def normalize_parts)

lemma normalize_idem: "normalize_readiness_score (normalize_readiness_score r) = normalize_readiness_score r"
proof -
  let ?n = "normalize_readiness_score r"
  have "rs_overall_score (normalize_readiness_score ?n) = rs_overall_score ?n"
    using parts_sum_range [of r]
    by (auto simp: normalize_overall [of ?n] parts_sum_normalize normalize_overall [of r] split: if_splits)
  then show ?thesis
    by (intro asset_readiness_score.equality) (simp_all add: normalize_parts)
qed

section \<open>A sample product\<close>

text \<open>Data for the witnesses: a product with personal credit data, its asset score and its approvals.\<close>

definition sample_score :: "string \<Rightarrow> int \<Rightarrow> asset_readiness_score" where
  "sample_score asset overall =
     \<lparr>rs_asset_key = asset, rs_schema_score = 80, rs_freshness_score = 80, rs_sample_score = 80,
      rs_missingness_score = 80, rs_sensitivity_score = 80, rs_external_sharing_score = 80,
      rs_api_readiness_score = 80, rs_billing_readiness_score = 80, rs_overall_score = overall,
      rs_notes = [], rs_updated_by = [], rs_updated_at = []\<rparr>"

definition sample_trace :: "string \<Rightarrow> string \<Rightarrow> string \<Rightarrow> approval_trace" where
  "sample_trace step status expires =
     \<lparr>atr_id = ''appr_'' @ step, atr_product_key = ''loan-score'', atr_step = step,
      atr_status = status, atr_required = True, atr_evidence_ref = [], atr_notes = [],
      atr_decided_by = ''kim'', atr_expires_at = expires, atr_created_at = [], atr_updated_at = []\<rparr>"

definition sample_traces :: "approval_trace list" where
  "sample_traces = [sample_trace ''data_owner'' ''approved'' [],
     sample_trace ''Legal '' ''approved'' ''2030-01-01T00:00:00Z'',
     sample_trace ''compliance'' ''waived'' []]"

definition sample_pack :: evidence_pack where
  "sample_pack = \<lparr>ep_product_key = ''loan-score'', ep_pack_json = ''{\"product\":{}}'',
     ep_artifact_ref = [], ep_created_by = [], ep_created_at = [], ep_updated_at = []\<rparr>"

definition sample_now :: go_time where
  "sample_now = 1760000000 * second"

lemma sample_publishable:
  "publishable sample_product [sample_score ''loans'' 0, sample_score ''SCORES'' 90] sample_traces
     (Some sample_pack) [] True sample_now"
  by code_simp

section \<open>Properties\<close>


text \<open>
  A strict product passes the gate only with the data owner's, legal's and compliance's
  approval or waiver on record and not expired, whatever other traces exist.
\<close>

lemma strict_gate_needs_three_approvals:
  assumes "requires_strict_publish_gate p"
    and "pg_allowed (evaluate_publish_gate_v2 p readiness approvals pack sla cost quality risk_review
           masking wall now)"
  shows "\<forall>step \<in> {''data_owner'', ''legal'', ''compliance''}. \<exists>a \<in> set approvals.
    norm_step (atr_step a) = step \<and> to_lower (trim_space (atr_status a)) \<in> {''approved'', ''waived''}
    \<and> in_force a (gate_clock wall now)"
proof
  fix step :: string
  assume "step \<in> {''data_owner'', ''legal'', ''compliance''}"
  then have req: "step \<in> set (required_approval_steps True approvals)"
    by (auto simp: set_required_approval_steps required_publish_approvals_def)
  moreover have "approvals_in_force True approvals (gate_clock wall now)"
    using assms by (simp add: gate_v2_allowed publishable_def Let_def)
  ultimately have "step_satisfied approvals (gate_clock wall now) step"
    by (simp add: approvals_in_force_def list_all_iff)
  then show "\<exists>a \<in> set approvals. norm_step (atr_step a) = step
      \<and> to_lower (trim_space (atr_status a)) \<in> {''approved'', ''waived''}
      \<and> in_force a (gate_clock wall now)"
    unfolding step_satisfied_iff effective_status_granted required_steps_normal [OF req] by blast
qed

text \<open>
  Time only closes the gate: evidence that lets a product through at some instant lets it
  through at every earlier instant.
\<close>

lemma publish_gate_only_closes:
  assumes "pg_allowed (evaluate_publish_gate_v2 p readiness approvals pack sla cost quality
      risk_review masking wall now)"
    and "now' \<le> now" "now \<noteq> zero_time" "now' \<noteq> zero_time"
  shows "pg_allowed (evaluate_publish_gate_v2 p readiness approvals pack sla cost quality
      risk_review masking wall now')"
  using assms publishable_earlier [of p readiness approvals pack quality masking now now']
  by (simp add: gate_v2_allowed gate_clock_def)

text \<open>
  Risk review, SLA, cost and API contract are reported but never decide: two evaluations that
  differ only in them allow the same products.  In particular a product whose risk review was never
  done is published, although the warning says it must be completed before publishing.
\<close>

lemma soft_evidence_never_blocks:
  "pg_allowed (evaluate_publish_gate_v2 p readiness approvals pack sla cost quality risk_review
       masking wall now)
   = pg_allowed (evaluate_publish_gate_v2 p readiness approvals pack sla' cost' quality risk_review'
       masking wall now)
   \<and> pg_allowed (evaluate_publish_gate_v2 sample_product
       [sample_score ''loans'' 0, sample_score ''SCORES'' 90] sample_traces (Some sample_pack)
       None None [] False True 0 sample_now)"
proof -
  have "gate_clock 0 sample_now = sample_now" by code_simp
  then show ?thesis using sample_publishable by (simp add: gate_v2_allowed)
qed

text \<open>
  Readiness normalisation puts the overall score between 0 and 100, replaces a missing overall
  score by the floor of the average of the clamped parts, and is idempotent.
\<close>

lemma readiness_normalised:
  "0 \<le> rs_overall_score (normalize_readiness_score r)
   \<and> rs_overall_score (normalize_readiness_score r) \<le> 100
   \<and> rs_overall_score (normalize_readiness_score r) =
       (if rs_overall_score r \<le> 0 then parts_sum r div 8 else min 100 (rs_overall_score r))
   \<and> normalize_readiness_score (normalize_readiness_score r) = normalize_readiness_score r"
  by (intro conjI normalize_overall_range normalize_overall normalize_idem)

text \<open>
  The approval report of the gate is exact: the required steps are listed once, the status map
  covers exactly these steps with their best status, and the missing ones are those not satisfied.
\<close>

lemma approval_report_exact:
  "let r = evaluate_publish_gate p readiness approvals pack wall now;
       steps = required_approval_steps (requires_strict_publish_gate p) approvals
   in distinct steps \<and> pg_required_approvals r = steps
      \<and> dom (pg_approval_status r) = set steps
      \<and> pg_missing_approvals r =
          filter (\<lambda>s. \<not> step_satisfied approvals (gate_clock wall now) s) steps"
  by (auto simp: evaluate_publish_gate_def Let_def gate_clock_def fold_check_step_status
      distinct_required_approval_steps set_allowed_def warn_def lack_def block_def dom_def)

end
