(* ===== verification/CatalogStore.thy ===== *)
theory CatalogStore
  imports GovernanceStore
begin

text \<open>
  The remaining tables of \<open>internal/store/dataworks_operations.go\<close>: customer segments, fit scores,
  product versions, SLA targets, data watermarks, costs, proposal events and retirement
  candidates.
\<close>

section \<open>Customer segments and fit scores\<close>

definition merge_customer_segment :: "customer_segment \<Rightarrow> customer_segment \<Rightarrow> customer_segment" where
  "merge_customer_segment old new = new\<lparr>seg_created_at := seg_created_at old\<rparr>"

definition upsert_customer_segment :: "go_time \<Rightarrow> customer_segment \<Rightarrow> dw_store \<Rightarrow> dw_store result" where
  "upsert_customer_segment now seg s =
     (let seg = seg\<lparr>seg_segment_key := trim_space (seg_segment_key seg)\<rparr>
      in if seg_segment_key seg = [] then Inl ''segment_key is required''
         else let ts = format_time now
              in Inr (s\<lparr>st_segments := upsert_row seg_segment_key merge_customer_segment
                   (seg\<lparr>seg_pain_points := stored_list (seg_pain_points seg),
                        seg_created_at := ts, seg_updated_at := ts\<rparr>) (st_segments s)\<rparr>))"

definition list_customer_segments :: "string \<Rightarrow> dw_store \<Rightarrow> customer_segment list" where
  "list_customer_segments segment_key s =
     select_rows (\<lambda>r. opt_eq segment_key (seg_segment_key r)) (by_key seg_segment_key) (st_segments s)"

definition fit_key :: "product_fit_score \<Rightarrow> string \<times> string" where
  "fit_key f = (fit_product_key f, fit_customer_segment f)"

definition upsert_product_fit_score :: "go_time \<Rightarrow> product_fit_score \<Rightarrow> dw_store \<Rightarrow> dw_store result" where
  "upsert_product_fit_score now score s =
     (let score = score\<lparr>fit_product_key := trim_space (fit_product_key score),
                        fit_customer_segment := trim_space (fit_customer_segment score)\<rparr>
      in if fit_product_key score = [] \<or> fit_customer_segment score = []
         then Inl ''product_key and customer_segment are required''
         else
           let score = (if fit_fit_score score < 0 then score\<lparr>fit_fit_score := 0\<rparr> else score);
               score = (if 100 < fit_fit_score score then score\<lparr>fit_fit_score := 100\<rparr> else score)
           in Inr (s\<lparr>st_fits := upsert_row fit_key merge_replace
                (score\<lparr>fit_evidence_refs := stored_list (fit_evidence_refs score),
                       fit_updated_at := format_time now\<rparr>) (st_fits s)\<rparr>))"

definition list_product_fit_scores :: "string \<Rightarrow> string \<Rightarrow> dw_store \<Rightarrow> product_fit_score list" where
  "list_product_fit_scores product_key segment_key s =
     select_rows (\<lambda>r. opt_eq product_key (fit_product_key r) \<and> opt_eq segment_key (fit_customer_segment r))
       (order_then (by_key_desc fit_fit_score)
         (order_then (by_key fit_product_key) (by_key fit_customer_segment))) (st_fits s)"

interpretation segments: replacing_store seg_segment_key "find_row seg_segment_key"
  "upsert_row seg_segment_key merge_customer_segment" merge_customer_segment
  unfolding replacing_store_def replacing_store_axioms_def
  by (auto simp: merge_customer_segment_def intro!: row_store_upsert)

interpretation fits: replacing_store fit_key "find_row fit_key"
  "upsert_row fit_key merge_replace" merge_replace
  unfolding replacing_store_def replacing_store_axioms_def
  by (auto simp: merge_replace_def intro!: row_store_upsert)

section \<open>Product versions\<close>

definition insert_product_version ::
  "go_time \<Rightarrow> product_version \<Rightarrow> dw_store \<Rightarrow> (int \<times> dw_store) result" where
  "insert_product_version now version s =
     (let version = version\<lparr>pv_product_key := trim_space (pv_product_key version)\<rparr>
      in if pv_product_key version = [] then Inl ''product_key is required''
         else
           let version = (if trim_space (pv_snapshot_json version) = []
                          then version\<lparr>pv_snapshot_json := ''{}''\<rparr> else version);
               taken = map pv_version (filter (\<lambda>r. pv_product_key r = pv_product_key version)
                         (st_versions s));
               next = chosen_version (pv_version version) taken;
               row = version\<lparr>pv_version := next, pv_changed_at := format_time now\<rparr>
           in if next \<in> set taken then Inl constraint_failed
              else Inr (next, s\<lparr>st_versions := st_versions s @ [row]\<rparr>))"

definition list_product_versions :: "string \<Rightarrow> dw_store \<Rightarrow> product_version list" where
  "list_product_versions product_key s =
     select_rows (\<lambda>r. pv_product_key r = trim_space product_key) (by_key_desc pv_version) (st_versions s)"

definition get_product_version :: "string \<Rightarrow> int \<Rightarrow> dw_store \<Rightarrow> product_version option" where
  "get_product_version product_key version_no s =
     find (\<lambda>r. pv_product_key r = trim_space product_key \<and> pv_version r = version_no) (st_versions s)"

definition latest_product_version :: "string \<Rightarrow> dw_store \<Rightarrow> product_version option" where
  "latest_product_version product_key s =
     (case list_product_versions product_key s of [] \<Rightarrow> None | r # _ \<Rightarrow> Some r)"

section \<open>SLA targets, watermarks and costs\<close>

definition merge_product_sla :: "product_sla \<Rightarrow> product_sla \<Rightarrow> product_sla" where
  "merge_product_sla old new = new\<lparr>sla_created_at := sla_created_at old\<rparr>"

definition upsert_product_sla :: "go_time \<Rightarrow> product_sla \<Rightarrow> dw_store \<Rightarrow> dw_store result" where
  "upsert_product_sla now sla s =
     (let sla = sla\<lparr>sla_product_key := trim_space (sla_product_key sla)\<rparr>
      in if sla_product_key sla = [] then Inl ''product_key is required''
         else
           let sla = (if sla_availability_target sla < 0 then sla\<lparr>sla_availability_target := 0\<rparr> else sla);
               sla = (if 1 < sla_availability_target sla then sla\<lparr>sla_availability_target := 1\<rparr> else sla);
               ts = format_time now
           in Inr (s\<lparr>st_slas := upsert_row sla_product_key merge_product_sla
                (sla\<lparr>sla_created_at := ts, sla_updated_at := ts\<rparr>) (st_slas s)\<rparr>))"

definition get_product_sla :: "string \<Rightarrow> dw_store \<Rightarrow> product_sla option" where
  "get_product_sla product_key s = find_row sla_product_key (st_slas s) (trim_space product_key)"

definition wm_key :: "data_watermark \<Rightarrow> string \<times> string" where
  "wm_key w = (wm_asset_key w, wm_product_key w)"

definition upsert_data_watermark :: "go_time \<Rightarrow> data_watermark \<Rightarrow> dw_store \<Rightarrow> dw_store result" where
  "upsert_data_watermark now wm s =
     (let wm = wm\<lparr>wm_asset_key := trim_space (wm_asset_key wm),
                  wm_product_key := trim_space (wm_product_key wm)\<rparr>
      in if wm_asset_key wm = [] \<or> wm_product_key wm = []
         then Inl ''asset_key and product_key are required''
         else
           let wm = (if trim_space (wm_delay_status wm) = [] then wm\<lparr>wm_delay_status := ''fresh''\<rparr> else wm)
           in Inr (s\<lparr>st_watermarks := upsert_row wm_key merge_replace
                (wm\<lparr>wm_updated_at := format_time now\<rparr>) (st_watermarks s)\<rparr>))"

definition list_data_watermarks :: "string \<Rightarrow> string \<Rightarrow> dw_store \<Rightarrow> data_watermark list" where
  "list_data_watermarks product_key asset_key s =
     select_rows (\<lambda>r. opt_eq product_key (wm_product_key r) \<and> opt_eq asset_key (wm_asset_key r))
       (order_then (by_key_desc wm_updated_at)
         (order_then (by_key wm_product_key) (by_key wm_asset_key))) (st_watermarks s)"

definition upsert_product_cost :: "go_time \<Rightarrow> product_cost \<Rightarrow> dw_store \<Rightarrow> dw_store result" where
  "upsert_product_cost now cost s =
     (let cost = cost\<lparr>cost_product_key := trim_space (cost_product_key cost)\<rparr>
      in if cost_product_key cost = [] then Inl ''product_key is required''
         else
           let cost = (if trim_space (cost_currency cost) = [] then cost\<lparr>cost_currency := ''KRW''\<rparr> else cost)
           in Inr (s\<lparr>st_costs := upsert_row cost_product_key merge_replace
                (cost\<lparr>cost_updated_at := format_time now\<rparr>) (st_costs s)\<rparr>))"

definition get_product_cost :: "string \<Rightarrow> dw_store \<Rightarrow> product_cost option" where
  "get_product_cost product_key s = find_row cost_product_key (st_costs s) (trim_space product_key)"

definition list_product_costs :: "string \<Rightarrow> dw_store \<Rightarrow> product_cost list" where
  "list_product_costs product_key s =
     select_rows (\<lambda>r. opt_eq product_key (cost_product_key r))
       (order_then (by_key cost_estimated_margin) (by_key cost_product_key)) (st_costs s)"

interpretation slas: replacing_store sla_product_key "find_row sla_product_key"
  "upsert_row sla_product_key merge_product_sla" merge_product_sla
  unfolding replacing_store_def replacing_store_axioms_def
  by (auto simp: merge_product_sla_def intro!: row_store_upsert)

interpretation watermarks: replacing_store wm_key "find_row wm_key"
  "upsert_row wm_key merge_replace" merge_replace
  unfolding replacing_store_def replacing_store_axioms_def
  by (auto simp: merge_replace_def intro!: row_store_upsert)

interpretation costs: replacing_store cost_product_key "find_row cost_product_key"
  "upsert_row cost_product_key merge_replace" merge_replace
  unfolding replacing_store_def replacing_store_axioms_def
  by (auto simp: merge_replace_def intro!: row_store_upsert)

section \<open>Proposal events and retirement candidates\<close>

definition insert_customer_proposal_event ::
  "go_time \<Rightarrow> customer_proposal_event \<Rightarrow> dw_store \<Rightarrow> dw_store result" where
  "insert_customer_proposal_event now event s =
     (let event = event\<lparr>pe_id := trim_space (pe_id event)\<rparr>
      in if pe_id event = [] \<or> trim_space (pe_product_key event) = []
         then Inl ''id and product_key are required''
         else
           let event = (if trim_space (pe_event_type event) = [] then event\<lparr>pe_event_type := ''generated''\<rparr>
                        else event)
           in if pe_id event \<in> pe_id ` set (st_events s) then Inl constraint_failed
              else Inr (s\<lparr>st_events := st_events s @ [event\<lparr>pe_created_at := format_time now\<rparr>]\<rparr>))"

definition list_customer_proposal_events ::
  "string \<Rightarrow> string \<Rightarrow> dw_store \<Rightarrow> customer_proposal_event list" where
  "list_customer_proposal_events product_key customer_key s =
     take 200 (select_rows
       (\<lambda>r. opt_eq product_key (pe_product_key r) \<and> opt_eq customer_key (pe_customer_key r))
       (by_key_desc pe_created_at) (st_events s))"

definition merge_retirement :: "retirement_candidate \<Rightarrow> retirement_candidate \<Rightarrow> retirement_candidate" where
  "merge_retirement old new = new\<lparr>ret_created_at := ret_created_at old\<rparr>"

definition upsert_retirement_candidate ::
  "go_time \<Rightarrow> retirement_candidate \<Rightarrow> dw_store \<Rightarrow> dw_store result" where
  "upsert_retirement_candidate now candidate s =
     (let candidate = candidate\<lparr>ret_product_key := trim_space (ret_product_key candidate)\<rparr>
      in if ret_product_key candidate = [] then Inl ''product_key is required''
         else let ts = format_time now
              in Inr (s\<lparr>st_retirements := upsert_row ret_product_key merge_retirement
                   (candidate\<lparr>ret_created_at := ts, ret_updated_at := ts\<rparr>) (st_retirements s)\<rparr>))"

definition list_retirement_candidates :: "string \<Rightarrow> dw_store \<Rightarrow> retirement_candidate list" where
  "list_retirement_candidates product_key s =
     select_rows (\<lambda>r. opt_eq product_key (ret_product_key r))
       (order_then (by_key_desc ret_risk_score) (by_key_desc ret_updated_at)) (st_retirements s)"

interpretation retirements: replacing_store ret_product_key "find_row ret_product_key"
  "upsert_row ret_product_key merge_retirement" merge_retirement
  unfolding replacing_store_def replacing_store_axioms_def
  by (auto simp: merge_retirement_def intro!: row_store_upsert)

section \<open>Version numbers\<close>

text \<open>Automatically numbered versions never collide and grow by one.\<close>

lemma chosen_version_fresh:
  assumes "requested \<le> 0"
  shows "chosen_version requested versions \<notin> set versions"
proof (cases "versions = []")
  case True
  then show ?thesis by simp
next
  case False
  let ?m = "Max (set versions)"
  have le: "v \<le> ?m" if "v \<in> set versions" for v
    using that by simp
  have "?m + 1 \<notin> set versions" using le [of "?m + 1"] by auto
  moreover have False if "?m + 1 \<le> 0" "1 \<in> set versions" using le [of 1] that by linarith
  ultimately show ?thesis
    using assms False by (auto simp: chosen_version_def next_version_def Let_def)
qed

end
