(* ===== verification/ContractAdmin.thy ===== *)
theory ContractAdmin
  imports AccessGate
begin

text \<open>
  The administrator's writes to contracts, entitlements and approvals
  (\<open>internal/proxy/admin_dataworks.go\<close>): what a row must satisfy to be stored, and that a key chosen
  by the operator cannot take over another product's row.  A handler gets the decoded body
  (\<open>None\<close> when the JSON does not decode), a fresh id, the administrator's name and the reads it
  makes, which may fail.
\<close>

section \<open>Timestamps of the body\<close>

text \<open>\<open>dataWorksTimestampOK\<close> and \<open>dataWorksAccessWindowOrdered\<close>.\<close>

definition timestamp_readable :: "string \<Rightarrow> bool" where
  "timestamp_readable raw \<longleftrightarrow> raw = [] \<or> parse_rfc3339 raw \<noteq> None"

definition timestamp_error :: "string \<Rightarrow> admin_error + 'a" where
  "timestamp_error name = admin_fail 400 (name @ '' must be an RFC3339 timestamp'') (''invalid_'' @ name)"

definition access_window_ordered :: "string \<Rightarrow> string \<Rightarrow> bool" where
  "access_window_ordered from_at to_at =
     (if from_at = [] \<or> to_at = [] then True
      else case parse_rfc3339 from_at of
             None \<Rightarrow> True
           | Some valid_from \<Rightarrow>
               (case parse_rfc3339 to_at of
                  None \<Rightarrow> True
                | Some valid_to \<Rightarrow> \<not> valid_to < valid_from))"

section \<open>Contract scopes\<close>

text \<open>The checks on the body alone, in the order the handler makes them.\<close>

definition validate_contract_scope :: "string \<Rightarrow> contract_scope option \<Rightarrow> admin_error + contract_scope" where
  "validate_contract_scope new_id payload =
     (case payload of
        None \<Rightarrow> admin_fail 400 ''invalid JSON body'' ''invalid_body''
      | Some scope \<Rightarrow>
          let from_at = trim_space (cs_valid_from scope);
              to_at = trim_space (cs_valid_to scope);
              allowed = normalize_field_list (cs_allowed_fields scope);
              masking = to_lower (trim_space (cs_masking_policy scope));
              status = to_lower (trim_space (cs_status scope))
          in if \<not> timestamp_readable from_at then timestamp_error ''valid_from''
             else if \<not> timestamp_readable to_at then timestamp_error ''valid_to''
             else if \<not> access_window_ordered from_at to_at
             then admin_fail 400 ''valid_from must not be later than valid_to'' ''invalid_access_window''
             else if cs_rate_limit scope < 0
             then admin_fail 400
                    ''rate_limit must be zero (unlimited) or a positive calls-per-minute ceiling'' ''invalid_rate_limit''
             else if allowed = []
             then admin_fail 400
                    ''allowed_fields must list at least one response field (use \"*\" for the full product schema)''
                    ''invalid_allowed_fields''
             else if \<not> masking_policy_known masking
             then admin_fail 400 ''masking_policy must be one of none, redact, hash'' ''invalid_masking_policy''
             else if \<not> contract_scope_status_known status
             then admin_fail 400 ''status must be one of active, draft, suspended, revoked'' ''invalid_contract_status''
             else Inr (scope\<lparr>cs_valid_from := from_at, cs_valid_to := to_at, cs_allowed_fields := allowed,
                    cs_masking_policy := masking, cs_status := first_non_empty_raw [status, ''active''],
                    cs_contract_key := first_non_empty_raw [trim_space (cs_contract_key scope), new_id]\<rparr>))"

text \<open>The key may not belong to another product.\<close>

definition post_contract_scope ::
  "go_time \<Rightarrow> string \<Rightarrow> string \<Rightarrow> (string \<Rightarrow> contract_scope option result) \<Rightarrow> data_product
    \<Rightarrow> contract_scope option \<Rightarrow> dw_store \<Rightarrow> admin_error + (contract_scope \<times> dw_store)" where
  "post_contract_scope now new_id admin read_scope product payload s =
     (case validate_contract_scope new_id payload of
        Inl e \<Rightarrow> Inl e
      | Inr scope \<Rightarrow>
          (case read_scope (cs_contract_key scope) of
             Inl e \<Rightarrow> admin_fail 500 e ''contract_scope_failed''
           | Inr found \<Rightarrow>
               if (case found of None \<Rightarrow> False | Some existing \<Rightarrow>
                     cs_product_key existing \<noteq> dp_product_key product)
               then admin_fail 409
                      (''contract_key already belongs to product '' @ cs_product_key (the found)) ''contract_key_taken''
               else
                 let scope = scope\<lparr>cs_product_key := dp_product_key product, cs_created_by := admin\<rparr>
                 in case upsert_contract_scope now scope s of
                      Inl e \<Rightarrow> admin_fail 400 e ''contract_scope_upsert_failed''
                    | Inr s' \<Rightarrow> Inr (scope, s')))"

section \<open>Entitlements\<close>

definition validate_entitlement :: "api_entitlement option \<Rightarrow> admin_error + api_entitlement" where
  "validate_entitlement payload =
     (case payload of
        None \<Rightarrow> admin_fail 400 ''invalid JSON body'' ''invalid_body''
      | Some ent \<Rightarrow>
          if trim_space (ent_contract_key ent) = []
          then admin_fail 400 ''contract_key is required'' ''missing_contract''
          else
            let expires_at = trim_space (ent_expires_at ent); status = to_lower (trim_space (ent_status ent))
            in if \<not> timestamp_readable expires_at then timestamp_error ''expires_at''
               else if \<not> entitlement_status_known status
               then admin_fail 400 ''status must be one of active, draft, suspended, revoked''
                      ''invalid_entitlement_status''
               else Inr (ent\<lparr>ent_expires_at := expires_at,
                      ent_status := first_non_empty_raw [status, ''active'']\<rparr>))"

definition post_api_entitlement ::
  "go_time \<Rightarrow> string \<Rightarrow> string \<Rightarrow> (string \<Rightarrow> contract_scope option result)
    \<Rightarrow> (string \<Rightarrow> api_entitlement option result) \<Rightarrow> data_product
    \<Rightarrow> api_entitlement option \<Rightarrow> dw_store \<Rightarrow> admin_error + (api_entitlement \<times> dw_store)" where
  "post_api_entitlement now new_id admin read_scope read_ent product payload s =
     (case validate_entitlement payload of
        Inl e \<Rightarrow> Inl e
      | Inr ent \<Rightarrow>
          (case read_scope (ent_contract_key ent) of
             Inl e \<Rightarrow> admin_fail 500 e ''contract_scope_failed''
           | Inr found \<Rightarrow>
               if (case found of None \<Rightarrow> True | Some scope \<Rightarrow> cs_product_key scope \<noteq> dp_product_key product)
               then admin_fail 400 ''contract scope not found for product'' ''contract_scope_not_found''
               else
                 let ent = ent\<lparr>ent_id := first_non_empty_raw [trim_space (ent_id ent), new_id]\<rparr>
                 in case read_ent (ent_id ent) of
                      Inl e \<Rightarrow> admin_fail 500 e ''entitlement_lookup_failed''
                    | Inr found \<Rightarrow>
                        if (case found of None \<Rightarrow> False | Some existing \<Rightarrow>
                              ent_product_key existing \<noteq> dp_product_key product)
                        then admin_fail 409
                               (''entitlement id already belongs to product '' @ ent_product_key (the found))
                               ''entitlement_id_taken''
                        else
                          let ent = ent\<lparr>ent_product_key := dp_product_key product, ent_created_by := admin\<rparr>
                          in case upsert_api_entitlement now ent s of
                               Inl e \<Rightarrow> admin_fail 400 e ''entitlement_upsert_failed''
                             | Inr s' \<Rightarrow> Inr (ent, s')))"

section \<open>Approvals\<close>

record approval_payload =
  ap_id :: string
  ap_step :: string
  ap_status :: string
  ap_required :: "bool option"
  ap_evidence_ref :: string
  ap_notes :: string
  ap_decided_by :: string
  ap_expires_at :: string

definition post_approval ::
  "go_time \<Rightarrow> string \<Rightarrow> string \<Rightarrow> data_product \<Rightarrow> approval_payload option \<Rightarrow> dw_store
    \<Rightarrow> admin_error + (approval_trace \<times> dw_store)" where
  "post_approval now new_id admin product payload s =
     (case payload of
        None \<Rightarrow> admin_fail 400 ''invalid JSON body'' ''invalid_body''
      | Some p \<Rightarrow>
          let required = (case ap_required p of None \<Rightarrow> True | Some b \<Rightarrow> b);
              status = first_non_empty_raw [trim_space (ap_status p), ''pending'']
          in if status \<notin> {''pending'', ''approved'', ''rejected'', ''waived'', ''expired''}
             then admin_fail 400 ''status must be pending|approved|rejected|waived|expired'' ''invalid_approval_status''
             else
             let expires_at = trim_space (ap_expires_at p)
             in if \<not> timestamp_readable expires_at then timestamp_error ''expires_at''
             else (let trace = \<lparr>atr_id = first_non_empty_raw [trim_space (ap_id p), new_id],
                           atr_product_key = dp_product_key product, atr_step = trim_space (ap_step p),
                           atr_status = status, atr_required = required, atr_evidence_ref = ap_evidence_ref p,
                           atr_notes = ap_notes p,
                           atr_decided_by = first_non_empty_raw [trim_space (ap_decided_by p), admin],
                           atr_expires_at = expires_at, atr_created_at = [], atr_updated_at = []\<rparr>
              in if atr_step trace = [] then admin_fail 400 ''step is required'' ''missing_step''
                 else case upsert_approval_trace now trace s of
                        Inl e \<Rightarrow> admin_fail 400 e ''approval_upsert_failed''
                      | Inr s' \<Rightarrow> Inr (trace, s')))"

section \<open>What an accepted row satisfies\<close>

definition scope_wf :: "contract_scope \<Rightarrow> bool" where
  "scope_wf r \<longleftrightarrow>
     timestamp_readable (cs_valid_from r) \<and> timestamp_readable (cs_valid_to r) \<and>
     trim_space (cs_valid_from r) = cs_valid_from r \<and> trim_space (cs_valid_to r) = cs_valid_to r \<and>
     access_window_ordered (cs_valid_from r) (cs_valid_to r) \<and> 0 \<le> cs_rate_limit r \<and>
     masking_policy_known (cs_masking_policy r) \<and> cs_status r \<in> set scope_statuses"

definition grant_wf :: "api_entitlement \<Rightarrow> bool" where
  "grant_wf r \<longleftrightarrow>
     timestamp_readable (ent_expires_at r) \<and> trim_space (ent_expires_at r) = ent_expires_at r \<and>
     trim_space (ent_contract_key r) \<noteq> [] \<and> ent_status r \<in> set scope_statuses"

lemma timestamp_error_not_Inr [simp]: "timestamp_error name \<noteq> Inr x"
  by (simp add: timestamp_error_def)

lemma chosen_status:
  "contract_scope_status_known st \<Longrightarrow> to_lower (trim_space st) = st \<Longrightarrow>
    first_non_empty_raw [st, ''active''] \<in> set scope_statuses"
  by (auto simp: contract_scope_status_known_def scope_statuses_def)

lemma entitlement_status_same: "entitlement_status_known = contract_scope_status_known"
  by (simp add: fun_eq_iff entitlement_status_known_def contract_scope_status_known_def)

lemma lower_trim_idem [simp]:
  "to_lower (trim_space (to_lower (trim_space w))) = to_lower (trim_space w)"
  by (simp add: trim_space_to_lower)

lemma validate_contract_scope_Inr:
  assumes "validate_contract_scope new_id payload = Inr scope"
  shows "scope_wf scope" "cs_allowed_fields scope \<noteq> []"
    "\<exists>ws. cs_allowed_fields scope = normalize_field_list ws"
proof -
  obtain p where p: "payload = Some p" using assms by (cases payload) (simp_all add: validate_contract_scope_def)
  note v = assms [unfolded p validate_contract_scope_def option.case Let_def]
  show "scope_wf scope"
    using v by (auto simp: scope_wf_def chosen_status simp del: first_non_empty_raw.simps split: if_splits)
  show "cs_allowed_fields scope \<noteq> []" "\<exists>ws. cs_allowed_fields scope = normalize_field_list ws"
    using v by (auto split: if_splits)
qed

lemma post_contract_scope_Inr:
  assumes "post_contract_scope now new_id admin read_scope product payload s = Inr (row, s')"
  obtains scope found where "validate_contract_scope new_id payload = Inr scope"
    "row = scope\<lparr>cs_product_key := dp_product_key product, cs_created_by := admin\<rparr>"
    "read_scope (cs_contract_key row) = Inr found"
    "\<And>existing. found = Some existing \<Longrightarrow> cs_product_key existing = dp_product_key product"
    "upsert_contract_scope now row s = Inr s'"
  using assms
  by (auto simp: post_contract_scope_def Let_def split: sum.splits if_splits option.splits)

lemma validate_entitlement_Inr:
  assumes "validate_entitlement payload = Inr ent"
  shows "grant_wf ent"
proof -
  obtain p where p: "payload = Some p" using assms by (cases payload) (simp_all add: validate_entitlement_def)
  note v = assms [unfolded p validate_entitlement_def option.case Let_def]
  show ?thesis
    using v by (auto simp: grant_wf_def chosen_status entitlement_status_same
        simp del: first_non_empty_raw.simps split: if_splits)
qed

lemma post_api_entitlement_Inr:
  assumes "post_api_entitlement now new_id admin read_scope read_ent product payload s = Inr (row, s')"
  obtains ent scope found where "validate_entitlement payload = Inr ent"
    "row = ent\<lparr>ent_id := first_non_empty_raw [trim_space (ent_id ent), new_id],
               ent_product_key := dp_product_key product, ent_created_by := admin\<rparr>"
    "read_scope (ent_contract_key row) = Inr (Some scope)" "cs_product_key scope = dp_product_key product"
    "read_ent (ent_id row) = Inr found"
    "\<And>existing. found = Some existing \<Longrightarrow> ent_product_key existing = dp_product_key product"
    "upsert_api_entitlement now row s = Inr s'"
  using assms
  by (auto simp: post_api_entitlement_def Let_def simp del: first_non_empty_raw.simps
      split: sum.splits if_splits option.splits)

section \<open>The administrator's writes as steps\<close>

text \<open>
  A step is an accepted write on the store's own reads, for a product whose key is in its stored
  (trimmed) form, or the metering of a call.  \<open>get_contract_scope\<close> and \<open>get_api_entitlement\<close> answer the
  handlers' lookups.
\<close>

definition read_scope_of :: "dw_store \<Rightarrow> string \<Rightarrow> contract_scope option result" where
  "read_scope_of s key = Inr (get_contract_scope key s)"

definition read_entitlement_of :: "dw_store \<Rightarrow> string \<Rightarrow> api_entitlement option result" where
  "read_entitlement_of s key = Inr (get_api_entitlement key s)"

inductive admin_step :: "dw_store \<Rightarrow> dw_store \<Rightarrow> bool" where
  scope_posted: "trim_space (dp_product_key product) = dp_product_key product \<Longrightarrow>
    post_contract_scope now new_id admin (read_scope_of s) product payload s = Inr (row, s') \<Longrightarrow>
    admin_step s s'"
| grant_posted: "trim_space (dp_product_key product) = dp_product_key product \<Longrightarrow>
    post_api_entitlement now new_id admin (read_scope_of s) (read_entitlement_of s) product grant s =
      Inr (ent, s') \<Longrightarrow>
    admin_step s s'"
| approval_posted: "post_approval now new_id admin product approval s = Inr (trace, s') \<Longrightarrow>
    admin_step s s'"
| call_metered: "admin_step s (increment_usage_metering now ck pk key failed over amount s)"

abbreviation admin_reachable :: "dw_store \<Rightarrow> bool" where
  "admin_reachable s \<equiv> admin_step\<^sup>*\<^sup>* empty_store s"

subsection \<open>What one write does to the tables\<close>

lemma upsert_contract_scope_Inr:
  assumes "upsert_contract_scope now scope s = Inr s'"
  obtains row where "s' = s\<lparr>st_scopes := upsert_row cs_contract_key merge_contract_scope row (st_scopes s)\<rparr>"
    "cs_contract_key row = trim_space (cs_contract_key scope)"
    "cs_product_key row = trim_space (cs_product_key scope)"
    "cs_contract_key row \<noteq> []" "scope_wf scope \<longrightarrow> scope_wf row"
    "cs_allowed_fields row = stored_list (cs_allowed_fields scope)"
  using assms
  by (auto simp: upsert_contract_scope_def Let_def scope_wf_def scope_statuses_def split: if_splits)

lemma upsert_api_entitlement_Inr:
  assumes "upsert_api_entitlement now ent s = Inr s'"
  obtains row where "s' = s\<lparr>st_entitlements := upsert_row ent_id merge_api_entitlement row (st_entitlements s)\<rparr>"
    "ent_id row = trim_space (ent_id ent)" "ent_product_key row = trim_space (ent_product_key ent)"
    "ent_contract_key row = ent_contract_key ent" "grant_wf ent \<longrightarrow> grant_wf row"
  using assms
  by (auto simp: upsert_api_entitlement_def Let_def grant_wf_def scope_statuses_def split: if_splits)

lemma approval_frame:
  "post_approval now new_id admin product approval s = Inr (trace, s') \<Longrightarrow>
    \<exists>rows. s' = s\<lparr>st_approvals := rows\<rparr>"
  by (auto simp: post_approval_def upsert_approval_trace_def Let_def split: option.splits sum.splits if_splits)

lemma metering_frame: "\<exists>rows. increment_usage_metering now ck pk key failed over amount s = s\<lparr>st_usage := rows\<rparr>"
  by (auto simp: increment_usage_metering_def Let_def)

lemma merge_scope_wf: "scope_wf (merge_contract_scope old new) \<longleftrightarrow> scope_wf new"
  by (simp add: merge_contract_scope_def scope_wf_def)

lemma merge_grant_wf: "grant_wf (merge_api_entitlement old new) \<longleftrightarrow> grant_wf new"
  by (simp add: merge_api_entitlement_def grant_wf_def)

text \<open>The four shapes of a step, with all that the proofs below need of it.\<close>

lemma admin_step_shape:
  assumes "admin_step s s'"
  obtains
    (scope) row where "s' = s\<lparr>st_scopes := upsert_row cs_contract_key merge_contract_scope row (st_scopes s)\<rparr>"
      "scope_wf row"
      "\<And>old. find_row cs_contract_key (st_scopes s) (cs_contract_key row) = Some old \<Longrightarrow>
         cs_product_key old = cs_product_key row"
  | (grant) row c where "s' = s\<lparr>st_entitlements := upsert_row ent_id merge_api_entitlement row (st_entitlements s)\<rparr>"
      "grant_wf row" "get_contract_scope (ent_contract_key row) s = Some c" "cs_product_key c = ent_product_key row"
      "\<And>old. find_row ent_id (st_entitlements s) (ent_id row) = Some old \<Longrightarrow>
         ent_product_key old = ent_product_key row"
  | (other) "st_scopes s' = st_scopes s" "st_entitlements s' = st_entitlements s"
  using assms
proof cases
  case (scope_posted product now new_id admin payload row)
  from scope_posted(2) obtain scope found where v: "validate_contract_scope new_id payload = Inr scope"
    "row = scope\<lparr>cs_product_key := dp_product_key product, cs_created_by := admin\<rparr>"
    "read_scope_of s (cs_contract_key row) = Inr found"
    "\<And>existing. found = Some existing \<Longrightarrow> cs_product_key existing = dp_product_key product"
    "upsert_contract_scope now row s = Inr s'"
    by (rule post_contract_scope_Inr) blast
  have wf: "scope_wf row" using validate_contract_scope_Inr(1) [OF v(1)] v(2) by (simp add: scope_wf_def)
  from v(5) obtain r where r: "s' = s\<lparr>st_scopes := upsert_row cs_contract_key merge_contract_scope r (st_scopes s)\<rparr>"
    "cs_contract_key r = trim_space (cs_contract_key row)" "cs_product_key r = trim_space (cs_product_key row)"
    "scope_wf row \<longrightarrow> scope_wf r"
    by (rule upsert_contract_scope_Inr)
  show ?thesis
    by (rule scope [OF r(1)]) (use scope_posted(1) v(2,3,4) r wf in \<open>auto simp: read_scope_of_def get_contract_scope_def\<close>)
next
  case (grant_posted product now new_id admin payload row)
  from grant_posted(2) obtain ent c found where v: "validate_entitlement payload = Inr ent"
    "row = ent\<lparr>ent_id := first_non_empty_raw [trim_space (ent_id ent), new_id],
               ent_product_key := dp_product_key product, ent_created_by := admin\<rparr>"
    "read_scope_of s (ent_contract_key row) = Inr (Some c)" "cs_product_key c = dp_product_key product"
    "read_entitlement_of s (ent_id row) = Inr found"
    "\<And>existing. found = Some existing \<Longrightarrow> ent_product_key existing = dp_product_key product"
    "upsert_api_entitlement now row s = Inr s'"
    by (rule post_api_entitlement_Inr) blast
  have wf: "grant_wf row" using validate_entitlement_Inr [OF v(1)] v(2) by (simp add: grant_wf_def)
  from v(7) obtain r where r:
    "s' = s\<lparr>st_entitlements := upsert_row ent_id merge_api_entitlement r (st_entitlements s)\<rparr>"
    "ent_id r = trim_space (ent_id row)" "ent_product_key r = trim_space (ent_product_key row)"
    "ent_contract_key r = ent_contract_key row" "grant_wf row \<longrightarrow> grant_wf r"
    by (rule upsert_api_entitlement_Inr)
  have pk: "ent_product_key row = dp_product_key product" using v(2) by simp
  show ?thesis
    by (rule grant [OF r(1), of c])
      (use grant_posted(1) pk v(3,4,5,6) r(2-5) wf in \<open>auto simp: read_scope_of_def read_entitlement_of_def get_api_entitlement_def\<close>)
next
  case approval_posted
  then show ?thesis using approval_frame other by fastforce
next
  case call_metered
  then show ?thesis using metering_frame other by (metis dw_store.select_convs dw_store.surjective dw_store.update_convs)
qed

section \<open>Invariants\<close>

text \<open>Every grant names a contract of its own product.\<close>

definition grants_backed :: "dw_store \<Rightarrow> bool" where
  "grants_backed s \<longleftrightarrow>
     (\<forall>ent \<in> set (st_entitlements s). \<exists>c.
        get_contract_scope (ent_contract_key ent) s = Some c \<and> cs_product_key c = ent_product_key ent)"

definition rows_wf :: "dw_store \<Rightarrow> bool" where
  "rows_wf s \<longleftrightarrow> (\<forall>c \<in> set (st_scopes s). scope_wf c) \<and> (\<forall>e \<in> set (st_entitlements s). grant_wf e)"

lemma step_keeps_scope_owner:
  assumes "admin_step s s'" "get_contract_scope k s = Some c"
  shows "\<exists>c'. get_contract_scope k s' = Some c' \<and> cs_product_key c' = cs_product_key c"
  using assms(1)
proof (cases rule: admin_step_shape)
  case (scope row)
  then show ?thesis
    using scopes.put_keeps_owner [of "st_scopes s" row cs_product_key "trim_space k" c] assms(2)
    by (simp add: get_contract_scope_def merge_contract_scope_def)
qed (use assms(2) in \<open>simp_all add: get_contract_scope_def\<close>)

lemma step_keeps_grant_owner:
  assumes "admin_step s s'" "get_api_entitlement k s = Some e"
  shows "\<exists>e'. get_api_entitlement k s' = Some e' \<and> ent_product_key e' = ent_product_key e"
  using assms(1)
proof (cases rule: admin_step_shape)
  case (grant row c)
  then show ?thesis
    using entitlements.put_keeps_owner [of "st_entitlements s" row ent_product_key "trim_space k" e] assms(2)
    by (simp add: get_api_entitlement_def merge_api_entitlement_def)
qed (use assms(2) in \<open>simp_all add: get_api_entitlement_def\<close>)

lemma step_rows_wf:
  assumes "admin_step s s'" "rows_wf s"
  shows "rows_wf s'"
  using assms(1)
proof (cases rule: admin_step_shape)
  case (scope row)
  have "\<forall>c \<in> set (upsert_row cs_contract_key merge_contract_scope row (st_scopes s)). scope_wf c"
    by (rule upsert_row_all) (use scope(2) assms(2) in \<open>simp_all add: rows_wf_def merge_scope_wf\<close>)
  then show ?thesis using scope(1) assms(2) by (simp add: rows_wf_def)
next
  case (grant row c)
  have "\<forall>c \<in> set (upsert_row ent_id merge_api_entitlement row (st_entitlements s)). grant_wf c"
    by (rule upsert_row_all) (use grant(2) assms(2) in \<open>simp_all add: rows_wf_def merge_grant_wf\<close>)
  then show ?thesis using grant(1) assms(2) by (simp add: rows_wf_def)
qed (use assms(2) in \<open>simp add: rows_wf_def\<close>)

lemma step_grants_backed:
  assumes "admin_step s s'" "grants_backed s"
  shows "grants_backed s'"
proof -
  have kept: "\<exists>c. get_contract_scope (ent_contract_key e) s' = Some c \<and> cs_product_key c = ent_product_key e"
    if "\<exists>c. get_contract_scope (ent_contract_key e) s = Some c \<and> cs_product_key c = ent_product_key e" for e
    using that step_keeps_scope_owner [OF assms(1)] by metis
  have "\<forall>e \<in> set (st_entitlements s'). \<exists>c.
      get_contract_scope (ent_contract_key e) s = Some c \<and> cs_product_key c = ent_product_key e"
    using assms(1)
  proof (cases rule: admin_step_shape)
    case (grant row c)
    have "\<forall>e \<in> set (upsert_row ent_id merge_api_entitlement row (st_entitlements s)). \<exists>c.
        get_contract_scope (ent_contract_key e) s = Some c \<and> cs_product_key c = ent_product_key e"
      by (rule upsert_row_all)
        (use grant(3,4) assms(2) in \<open>auto simp: grants_backed_def merge_api_entitlement_def\<close>)
    then show ?thesis using grant(1) by simp
  qed (use assms(2) in \<open>simp_all add: grants_backed_def\<close>)
  then show ?thesis unfolding grants_backed_def using kept by blast
qed

lemma reachable_rows: "admin_reachable s \<Longrightarrow> rows_wf s \<and> grants_backed s"
  by (induction rule: rtranclp_induct)
    (auto simp: rows_wf_def grants_backed_def empty_store_def intro: step_rows_wf step_grants_backed
      dest: step_rows_wf step_grants_backed)

section \<open>Properties\<close>

text \<open>A contract and a grant that the handlers accept, from an empty store.\<close>

definition sample_posted :: contract_scope where
  "sample_posted =
     \<lparr>cs_contract_key = '' c1 '', cs_product_key = [], cs_customer_key = ''acme'',
      cs_allowed_fields = ['' score'', ''Score''], cs_rate_limit = 0, cs_valid_from = [], cs_valid_to = [],
      cs_purpose = [], cs_restrictions = [], cs_status = [], cs_created_by = [], cs_created_at = [],
      cs_updated_at = [], cs_masking_policy = '' Redact''\<rparr>"

definition sample_scope_row :: contract_scope where
  "sample_scope_row = sample_posted\<lparr>cs_contract_key := ''c1'', cs_product_key := ''loan-score'',
     cs_allowed_fields := [''score''], cs_status := ''active'', cs_masking_policy := ''redact'',
     cs_created_by := ''admin'', cs_created_at := ''1970-01-01T00:00:00Z'', cs_updated_at := ''1970-01-01T00:00:00Z''\<rparr>"

definition sample_admin_store :: dw_store where
  "sample_admin_store = empty_store\<lparr>st_scopes := [sample_scope_row]\<rparr>"

lemma sample_scope_posted:
  "post_contract_scope 0 ''scope_1'' ''admin'' (read_scope_of empty_store) sample_product (Some sample_posted) empty_store
    = Inr (sample_scope_row\<lparr>cs_created_at := [], cs_updated_at := []\<rparr>, sample_admin_store)"
  by code_simp

lemma sample_admin_step: "admin_step empty_store sample_admin_store"
  by (rule scope_posted [OF _ sample_scope_posted]) code_simp

definition sample_grant_posted :: api_entitlement where
  "sample_grant_posted =
     \<lparr>ent_id = ''e1'', ent_api_key_id = ''k1'', ent_api_key_hash = [], ent_customer_key = [],
      ent_product_key = [], ent_contract_key = ''c1'', ent_scope = [], ent_expires_at = [],
      ent_status = [], ent_created_by = [], ent_created_at = [], ent_updated_at = []\<rparr>"

definition sample_grant_row :: api_entitlement where
  "sample_grant_row = sample_grant_posted\<lparr>ent_product_key := ''loan-score'', ent_status := ''active'',
     ent_created_by := ''admin'', ent_created_at := ''1970-01-01T00:00:00Z'',
     ent_updated_at := ''1970-01-01T00:00:00Z''\<rparr>"

lemma sample_grant_step: "admin_step sample_admin_store (sample_admin_store\<lparr>st_entitlements := [sample_grant_row]\<rparr>)"
proof (rule grant_posted)
  show "post_api_entitlement 0 ''ent_1'' ''admin'' (read_scope_of sample_admin_store)
      (read_entitlement_of sample_admin_store) sample_product (Some sample_grant_posted) sample_admin_store =
    Inr (sample_grant_row\<lparr>ent_created_at := [], ent_updated_at := []\<rparr>,
      sample_admin_store\<lparr>st_entitlements := [sample_grant_row]\<rparr>)"
    by code_simp
qed code_simp

text \<open>
  A stored row was checked.  In every store that the administrator's writes can produce, each
  contract has readable, ordered window bounds, no negative ceiling, a masking policy the runtime
  enforces (or none) and one of the four statuses; each grant has a readable expiry, a contract key
  and a known status: no row denies every call because of a typo.
\<close>

lemma stored_access_rows_wf:
  assumes "admin_reachable s"
  shows "(\<forall>c \<in> set (st_scopes s). scope_wf c) \<and> (\<forall>e \<in> set (st_entitlements s). grant_wf e)"
  using reachable_rows [OF assms] by (simp add: rows_wf_def)

text \<open>
  C38. No grant loses its contract.  In every reachable store each entitlement names a stored contract
  of the entitlement's own product, whatever keys later writes reuse: the runtime never has to
  answer \<open>contract_scope_missing\<close> for a grant that the administrator's writes produced.
\<close>

theorem grants_keep_their_contract:
  assumes "admin_reachable s" "ent \<in> set (st_entitlements s)"
  shows "\<exists>contract. query_contract (store_lookups now s) (p\<lparr>dp_product_key := ent_product_key ent\<rparr>) ent = Inr contract"
  using reachable_rows [OF assms(1)] assms(2)
  by (fastforce simp: grants_backed_def query_contract_Inr store_lookups_def)

theorem grants_keep_their_contract_witness:
  "\<exists>contract. query_contract (store_lookups 0 (sample_admin_store\<lparr>st_entitlements := [sample_grant_row]\<rparr>))
     (sample_product\<lparr>dp_product_key := ''loan-score''\<rparr>) sample_grant_row = Inr contract"
proof -
  have "admin_reachable (sample_admin_store\<lparr>st_entitlements := [sample_grant_row]\<rparr>)"
    using sample_admin_step sample_grant_step by simp
  moreover have "ent_product_key sample_grant_row = ''loan-score''" by (simp add: sample_grant_row_def)
  ultimately show ?thesis
    using grants_keep_their_contract [of _ sample_grant_row 0 sample_product] by fastforce
qed

text \<open>
  Keys are not taken over.  One more accepted write leaves every stored contract and every stored
  entitlement under its key with the product it belongs to: posting an existing key for another
  product is refused.
\<close>

lemma access_keys_keep_their_product:
  assumes "admin_step s s'"
  shows "(\<forall>c. get_contract_scope k s = Some c \<longrightarrow>
      (\<exists>c'. get_contract_scope k s' = Some c' \<and> cs_product_key c' = cs_product_key c)) \<and>
    (\<forall>e. get_api_entitlement k s = Some e \<longrightarrow>
      (\<exists>e'. get_api_entitlement k s' = Some e' \<and> ent_product_key e' = ent_product_key e))"
  using step_keeps_scope_owner [OF assms] step_keeps_grant_owner [OF assms] by blast

definition sample_approval :: "string \<Rightarrow> approval_payload" where
  "sample_approval status =
     \<lparr>ap_id = ''a1'', ap_step = ''legal'', ap_status = status, ap_required = None, ap_evidence_ref = [],
      ap_notes = [], ap_decided_by = [], ap_expires_at = []\<rparr>"

abbreviation other_product :: data_product where
  "other_product \<equiv> sample_product\<lparr>dp_product_key := ''other''\<rparr>"

text \<open>
  Approvals are not protected in this way.  An approval posted for one product with the id of
  another product's approval is accepted and moves the stored approval: the other product loses it.
\<close>

lemma approval_id_can_be_taken_over:
  "case post_approval 0 ''appr_1'' ''admin'' sample_product (Some (sample_approval ''approved'')) empty_store of
     Inl _ \<Rightarrow> False
   | Inr (_, s) \<Rightarrow>
       map atr_status (list_approval_traces (dp_product_key sample_product) s) = [''approved''] \<and>
       (case post_approval 1 ''appr_2'' ''admin'' other_product (Some (sample_approval ''rejected'')) s of
          Inl _ \<Rightarrow> False
        | Inr (_, s') \<Rightarrow> list_approval_traces (dp_product_key sample_product) s' = [])"
  by code_simp

text \<open>
  The one gap of the field check.  A contract whose only allowed field is a lone comma is accepted
  as non-empty, but the comma-separated column reads back without any field, so that the contract
  can never serve: what the check on \<open>allowed_fields\<close> means to rule out.
\<close>

lemma comma_field_stores_empty_contract:
  "case post_contract_scope 0 ''scope_1'' ''admin'' (read_scope_of empty_store) sample_product
       (Some (sample_posted\<lparr>cs_allowed_fields := ['','']\<rparr>)) empty_store of
     Inl _ \<Rightarrow> False
   | Inr (row, s) \<Rightarrow>
       cs_allowed_fields row = ['',''] \<and> map_option cs_allowed_fields (get_contract_scope ''c1'' s) = Some []"
  by code_simp

end
