(* ===== verification/Lifecycle.thy ===== *)
theory Lifecycle
  imports PublishGate CatalogStore ContractAdmin
begin

text \<open>
  The life of a catalog product: every handler that writes a product's status
  (\<open>internal/proxy/admin_dataworks.go\<close>, \<open>admin_data_products.go\<close>, \<open>admin_factory.go\<close>,
  \<open>admin_dataworks_ops.go\<close>), the publish gate over the stored evidence, and the two deletes.
  Texts that the factory handlers generate are inputs of their events.
\<close>

section \<open>The gate over stored evidence\<close>

text \<open>The reads of \<open>dataWorksPublishGate\<close>, each of which may fail.\<close>

record gate_reads =
  gr_readiness :: "string \<Rightarrow> asset_readiness_score list result"
  gr_approvals :: "string \<Rightarrow> approval_trace list result"
  gr_pack :: "string \<Rightarrow> evidence_pack option result"
  gr_sla :: "string \<Rightarrow> product_sla option result"
  gr_cost :: "string \<Rightarrow> product_cost option result"
  gr_quality :: "string \<Rightarrow> data_quality_result list result"
  gr_risk :: "string \<Rightarrow> product_risk_review option result"
  gr_scopes :: "string \<Rightarrow> contract_scope list result"

definition store_gate_reads :: "dw_store \<Rightarrow> gate_reads" where
  "store_gate_reads s =
     \<lparr>gr_readiness = (\<lambda>k. Inr (list_asset_readiness_scores k s)),
      gr_approvals = (\<lambda>k. Inr (list_approval_traces k s)),
      gr_pack = (\<lambda>k. Inr (get_evidence_pack k s)),
      gr_sla = (\<lambda>k. Inr (get_product_sla k s)),
      gr_cost = (\<lambda>k. Inr (get_product_cost k s)),
      gr_quality = (\<lambda>k. Inr (list_data_quality_results k s)),
      gr_risk = (\<lambda>k. Inr (latest_product_risk_review k s)),
      gr_scopes = (\<lambda>k. Inr (list_contract_scopes k [] s))\<rparr>"

text \<open>\<open>dataWorksProductReadiness\<close>: each asset once up to case, the first failing read aborts.\<close>

fun collect_readiness ::
  "(string \<Rightarrow> asset_readiness_score list result) \<Rightarrow> string list \<Rightarrow> string list \<Rightarrow> asset_readiness_score list result" where
  "collect_readiness rd seen [] = Inr []"
| "collect_readiness rd seen (asset # assets) =
     (let key = to_lower (trim_space asset)
      in if key = [] \<or> key \<in> set seen then collect_readiness rd seen assets
         else case rd asset of
                Inl e \<Rightarrow> Inl e
              | Inr scores \<Rightarrow>
                  (case collect_readiness rd (key # seen) assets of
                     Inl e \<Rightarrow> Inl e
                   | Inr others \<Rightarrow> Inr (scores @ others)))"

definition data_works_product_readiness :: "gate_reads \<Rightarrow> data_product \<Rightarrow> asset_readiness_score list result" where
  "data_works_product_readiness R product = collect_readiness (gr_readiness R) [] (product_asset_keys product)"

text \<open>A failed or empty read counts as no row.\<close>

definition found_row :: "'a option result \<Rightarrow> 'a option" where
  "found_row r = (case r of Inl _ \<Rightarrow> None | Inr row \<Rightarrow> row)"

definition quality_results :: "gate_reads \<Rightarrow> data_product \<Rightarrow> data_quality_result list" where
  "quality_results R product =
     concat (map (\<lambda>asset. case gr_quality R asset of Inl _ \<Rightarrow> [] | Inr rs \<Rightarrow> rs) (product_asset_keys product))"

definition masking_configured :: "gate_reads \<Rightarrow> data_product \<Rightarrow> go_time \<Rightarrow> bool" where
  "masking_configured R product now =
     (case gr_scopes R (dp_product_key product) of
        Inl _ \<Rightarrow> False
      | Inr scopes \<Rightarrow>
          list_all (\<lambda>sc. \<not> (contract_scope_can_serve sc now \<and> \<not> masking_policy_masks (cs_masking_policy sc))) scopes)"

definition data_works_publish_gate ::
  "gate_reads \<Rightarrow> go_time \<Rightarrow> data_product \<Rightarrow> publish_gate_result result" where
  "data_works_publish_gate R now product =
     (case data_works_product_readiness R product of
        Inl e \<Rightarrow> Inl e
      | Inr readiness \<Rightarrow>
          (case gr_approvals R (dp_product_key product) of
             Inl e \<Rightarrow> Inl e
           | Inr approvals \<Rightarrow>
               (case gr_pack R (dp_product_key product) of
                  Inl e \<Rightarrow> Inl e
                | Inr pack \<Rightarrow>
                    (let sla = (case found_row (gr_sla R (dp_product_key product)) of
                                  Some sla \<Rightarrow> if sla_product_key sla \<noteq> [] then Some sla else None | None \<Rightarrow> None);
                         cost = (case found_row (gr_cost R (dp_product_key product)) of
                                  Some cost \<Rightarrow> if cost_product_key cost \<noteq> [] then Some cost else None | None \<Rightarrow> None);
                         has_risk_review = (case found_row (gr_risk R (dp_product_key product)) of
                                  Some rrev \<Rightarrow> rr_product_key rrev \<noteq> [] | None \<Rightarrow> False)
                     in Inr (evaluate_publish_gate_v2 product readiness approvals pack sla cost
                               (quality_results R product) has_risk_review
                               (masking_configured R product now) now now)))))"

definition enforce_publish_gate :: "gate_reads \<Rightarrow> go_time \<Rightarrow> data_product \<Rightarrow> admin_error + unit" where
  "enforce_publish_gate R now product =
     (case data_works_publish_gate R now product of
        Inl e \<Rightarrow> admin_fail 500 e ''publish_gate_failed''
      | Inr gate \<Rightarrow> if \<not> pg_allowed gate then admin_fail 409 ''publish gate blocked'' [] else Inr ())"

section \<open>Status changes\<close>

definition write_product :: "go_time \<Rightarrow> string \<Rightarrow> data_product \<Rightarrow> dw_store \<Rightarrow> admin_error + dw_store" where
  "write_product now code product s =
     (case upsert_data_product now product s of
        Inl (KeyRetired key) \<Rightarrow> admin_fail 500 (''data product key is permanently retired: '' @ key) code
      | Inl ConstraintFailed \<Rightarrow> admin_fail 500 constraint_failed code
      | Inr s' \<Rightarrow> Inr s')"

text \<open>The table of \<open>submit\<close>, \<open>approve\<close>, \<open>reject\<close> and \<open>archive\<close>.\<close>

definition product_transition :: "string \<Rightarrow> (string list \<times> string) option" where
  "product_transition action =
     (if action = ''submit'' then Some ([''draft''], ''review'')
      else if action = ''approve'' then Some ([''review'', ''risk_review''], ''approved'')
      else if action = ''reject'' then Some ([''review'', ''risk_review'', ''approved''], ''draft'')
      else if action = ''archive'' then Some ([''published''], ''archived'')
      else None)"

text \<open>\<open>POST /admin/dataworks/products/{key}/{action}\<close> for the status actions.\<close>

definition product_action ::
  "go_time \<Rightarrow> string \<Rightarrow> gate_reads \<Rightarrow> string \<Rightarrow> string \<Rightarrow> dw_store \<Rightarrow> admin_error + dw_store" where
  "product_action now admin R key action s =
     (case get_data_product key s of
        None \<Rightarrow> admin_fail 404 ''product not found'' ''not_found''
      | Some product \<Rightarrow>
          if action = ''publish''
          then (case enforce_publish_gate R now product of
                  Inl e \<Rightarrow> Inl e
                | Inr _ \<Rightarrow> write_product now ''publish_failed''
                             (product\<lparr>dp_status := ''published'', dp_updated_by := admin\<rparr>) s)
          else case product_transition action of
                 None \<Rightarrow> admin_fail 404 ''unknown product action'' ''not_found''
               | Some (from_statuses, to_status) \<Rightarrow>
                   if dp_status product \<notin> set from_statuses
                   then admin_fail 409
                          (''invalid lifecycle transition from '' @ dp_status product @ '' via '' @ action)
                          ''invalid_product_transition''
                   else write_product now ''transition_failed''
                          (product\<lparr>dp_status := to_status, dp_updated_by := admin\<rparr>) s)"

text \<open>\<open>POST /admin/dataworks/reviews/{key}/{action}\<close>.\<close>

definition review_action :: "go_time \<Rightarrow> string \<Rightarrow> string \<Rightarrow> string \<Rightarrow> dw_store \<Rightarrow> admin_error + dw_store" where
  "review_action now admin key action s =
     (case get_data_product key s of
        None \<Rightarrow> admin_fail 404 ''product not found'' ''not_found''
      | Some p \<Rightarrow>
          if action = ''approve''
          then write_product now ''update_failed'' (p\<lparr>dp_status := ''approved'', dp_updated_by := admin\<rparr>) s
          else if action = ''reject''
          then write_product now ''update_failed'' (p\<lparr>dp_status := ''draft'', dp_updated_by := admin\<rparr>) s
          else admin_fail 400 ''action must be approve or reject'' ''bad_action'')"

text \<open>\<open>POST /admin/factory/products/{key}/{action}\<close>.\<close>

definition factory_next :: "string \<Rightarrow> string" where
  "factory_next action =
     (if action = ''approve'' then ''approved'' else if action = ''publish'' then ''published''
      else if action = ''archive'' then ''archived'' else [])"

definition factory_action ::
  "go_time \<Rightarrow> string \<Rightarrow> gate_reads \<Rightarrow> string \<Rightarrow> string \<Rightarrow> dw_store \<Rightarrow> admin_error + dw_store" where
  "factory_action now admin R key action s =
     (if action = [] then admin_fail 400 ''action is required'' ''missing_action''
      else case get_data_product key s of
        None \<Rightarrow> admin_fail 404 ''product not found'' ''not_found''
      | Some p \<Rightarrow>
          let next = factory_next action
          in if next = [] then admin_fail 400 ''action must be approve|publish|archive'' ''bad_action''
             else case (if action = ''publish'' then enforce_publish_gate R now p else Inr ()) of
                    Inl e \<Rightarrow> Inl e
                  | Inr _ \<Rightarrow> write_product now ''status_failed''
                               (p\<lparr>dp_status := next, dp_updated_by := admin\<rparr>) s)"

section \<open>The catalog endpoint\<close>

text \<open>
  \<open>looksCorruptedCatalogText\<close>: half or more of the visible characters are question marks.
  Characters are the bytes of the UTF-8 text that do not continue one.
\<close>

function remove_spaces :: "string \<Rightarrow> string" where
  "remove_spaces s =
     (case s of
        [] \<Rightarrow> []
      | c # cs \<Rightarrow>
          if skip_len utf8_spaces s = 0 then c # remove_spaces cs
          else remove_spaces (drop (skip_len utf8_spaces s) s))"
  by pat_completeness auto
termination
  by (relation "measure length") auto

declare remove_spaces.simps [simp del]

definition rune_count :: "string \<Rightarrow> nat" where
  "rune_count s = length (filter (\<lambda>c. \<not> (128 \<le> (of_char c :: nat) \<and> (of_char c :: nat) < 192)) s)"

definition looks_corrupted_catalog_text :: "string \<Rightarrow> bool" where
  "looks_corrupted_catalog_text value =
     (let compact = remove_spaces value; question_marks = length (filter (\<lambda>c. c = CHR ''?'') compact)
      in 2 \<le> question_marks \<and> rune_count compact \<le> question_marks * 2)"

definition corrupted_catalog_text_field :: "(string \<times> string) list \<Rightarrow> string" where
  "corrupted_catalog_text_field text_fields =
     (case find (\<lambda>(name, value). looks_corrupted_catalog_text value) text_fields of
        None \<Rightarrow> [] | Some (name, value) \<Rightarrow> name)"

definition data_product_source_types :: "string list" where
  "data_product_source_types =
     [''dataset'', ''api'', ''report'', ''score'', ''segment'', ''model_feature'', ''dashboard'',
      ''saved_report'', ''metric'', ''golden_query'', ''custom'']"

definition product_statuses :: "string list" where
  "product_statuses = [''draft'', ''review'', ''risk_review'', ''approved'', ''published'', ''archived'']"

text \<open>The checks of \<open>POST /admin/data-products\<close> on the body, and the product it writes.\<close>

definition validate_product :: "string \<Rightarrow> string \<Rightarrow> data_product option \<Rightarrow> admin_error + data_product" where
  "validate_product new_id admin payload =
     (case payload of
        None \<Rightarrow> admin_fail 400 ''invalid JSON body'' ''invalid_body''
      | Some p \<Rightarrow>
          let key = trim_space (dp_product_key p)
          in if key = [] \<or> trim_space (dp_name_ko p) = []
             then admin_fail 400 ''product_key and name_ko are required'' ''missing_fields''
             else
          let bad = corrupted_catalog_text_field
                [(''name_ko'', dp_name_ko p), (''name_en'', dp_name_en p), (''short_name'', dp_short_name p),
                 (''owner'', dp_owner p), (''description'', dp_description p)]
          in if bad \<noteq> [] then admin_fail 400 (bad @ '' contains corrupted text'') ''invalid_text_encoding''
             else
          let source_type = first_non_empty_raw [trim_space (dp_source_type p), ''custom'']
          in if source_type \<notin> set data_product_source_types
             then admin_fail 400 ''source_type must be dataset|api|report|score|segment|model_feature|dashboard|saved_report|metric|golden_query|custom''
                    ''bad_source_type''
             else
          let status = first_non_empty_raw [trim_space (dp_status p), ''draft'']
          in if status \<notin> set product_statuses
             then admin_fail 400 ''status must be draft|review|risk_review|approved|published|archived'' ''bad_status''
             else Inr (p\<lparr>dp_id := first_non_empty_raw [trim_space (dp_id p), new_id], dp_product_key := key,
                    dp_name_ko := trim_space (dp_name_ko p), dp_name_en := trim_space (dp_name_en p),
                    dp_short_name := trim_space (dp_short_name p), dp_source_type := source_type,
                    dp_source_ref := trim_space (dp_source_ref p), dp_sensitivity := trim_space (dp_sensitivity p),
                    dp_status := status, dp_version := 0, dp_updated_by := admin,
                    dp_created_at := [], dp_updated_at := []\<rparr>))"

definition post_product ::
  "go_time \<Rightarrow> string \<Rightarrow> string \<Rightarrow> gate_reads \<Rightarrow> data_product option \<Rightarrow> dw_store \<Rightarrow> admin_error + dw_store" where
  "post_product now new_id admin R payload s =
     (case validate_product new_id admin payload of
        Inl e \<Rightarrow> Inl e
      | Inr dp \<Rightarrow>
          (case (if dp_status dp = ''published'' then enforce_publish_gate R now dp else Inr ()) of
             Inl e \<Rightarrow> Inl e
           | Inr _ \<Rightarrow>
               (case upsert_data_product now dp s of
                  Inl (KeyRetired key) \<Rightarrow>
                    admin_fail 409 (''data product key is permanently retired: '' @ key) ''product_key_retired''
                | Inl ConstraintFailed \<Rightarrow> admin_fail 500 constraint_failed ''upsert_failed''
                | Inr s' \<Rightarrow> Inr s')))"

text \<open>\<open>DELETE /admin/data-products\<close> deletes whatever the id finds.\<close>

definition admin_delete_product :: "go_time \<Rightarrow> string \<Rightarrow> dw_store \<Rightarrow> admin_error + dw_store" where
  "admin_delete_product now raw_id s =
     (let key = trim_space raw_id
      in if key = [] then admin_fail 400 ''id query param required'' ''no_id''
         else case delete_data_product now key s of
                Inl e \<Rightarrow> admin_fail 500 e ''delete_failed''
              | Inr s' \<Rightarrow> Inr s')"

text \<open>\<open>DELETE /admin/dataworks/products\<close> deletes drafts and archived products.\<close>

definition dataworks_delete_product :: "go_time \<Rightarrow> string \<Rightarrow> string \<Rightarrow> dw_store \<Rightarrow> admin_error + dw_store" where
  "dataworks_delete_product now raw_key raw_id s =
     (let product_key = trim_space raw_key; key = trim_space raw_id
      in if product_key = [] \<and> key = []
         then admin_fail 400 ''product_key or id query param required'' ''missing_product_identifier''
         else case (if product_key \<noteq> [] then get_data_product_by_key product_key s else get_data_product key s) of
                None \<Rightarrow> admin_fail 404 ''product not found'' ''not_found''
              | Some product \<Rightarrow>
                  if dp_status product \<noteq> ''draft'' \<and> dp_status product \<noteq> ''archived''
                  then admin_fail 409 ''only draft or archived products can be deleted'' ''product_delete_blocked''
                  else case (if product_key \<noteq> [] then delete_data_product_by_key now product_key s
                             else delete_data_product now key s) of
                         Inl e \<Rightarrow> admin_fail 500 e ''delete_failed''
                       | Inr s' \<Rightarrow> Inr s')"

section \<open>Writes of the factory and of customer outcomes\<close>

definition clamp_score :: "int \<Rightarrow> int" where
  "clamp_score v = (if v < 0 then 0 else if 100 < v then 100 else v)"

text \<open>
  Errors of these writes are dropped by the code, so that a failing write leaves the store as it is.
\<close>

definition write_or_keep :: "go_time \<Rightarrow> data_product \<Rightarrow> dw_store \<Rightarrow> dw_store" where
  "write_or_keep now product s = (case upsert_data_product now product s of Inl _ \<Rightarrow> s | Inr s' \<Rightarrow> s')"

definition update_found ::
  "go_time \<Rightarrow> string \<Rightarrow> string \<Rightarrow> (data_product \<Rightarrow> data_product) \<Rightarrow> dw_store \<Rightarrow> dw_store" where
  "update_found now admin key change s =
     (case get_data_product key s of
        None \<Rightarrow> s
      | Some p \<Rightarrow> write_or_keep now ((change p)\<lparr>dp_updated_by := admin\<rparr>) s)"

definition feedback_change :: "int \<Rightarrow> data_product \<Rightarrow> data_product" where
  "feedback_change delta p = p\<lparr>dp_revenue_score := clamp_score (dp_revenue_score p + delta)\<rparr>"

definition apply_proposal_feedback_score ::
  "go_time \<Rightarrow> string \<Rightarrow> string \<Rightarrow> string \<Rightarrow> dw_store \<Rightarrow> dw_store" where
  "apply_proposal_feedback_score now actor key outcome s =
     (if trim_space key = [] then s
      else let r = to_lower (trim_space outcome)
           in if r \<in> {''won'', ''accepted'', ''poc'', ''poc_converted'', ''interested''}
              then update_found now actor key (feedback_change 5) s
              else if r \<in> {''lost'', ''rejected'', ''no_interest''}
              then update_found now actor key (feedback_change (- 5)) s
              else s)"

definition poc_change :: "bool \<Rightarrow> string \<Rightarrow> data_product \<Rightarrow> data_product" where
  "poc_change success conversion p =
     (if success
      then let p = p\<lparr>dp_revenue_score := clamp_score (dp_revenue_score p + 8)\<rparr>
           in if equal_fold conversion ''contract_candidate'' \<and> dp_status p = ''approved''
              then p\<lparr>dp_status := ''published''\<rparr> else p
      else p\<lparr>dp_revenue_score := clamp_score (dp_revenue_score p - 4)\<rparr>)"

definition apply_poc_outcome_score ::
  "go_time \<Rightarrow> string \<Rightarrow> string \<Rightarrow> bool \<Rightarrow> string \<Rightarrow> dw_store \<Rightarrow> dw_store" where
  "apply_poc_outcome_score now actor key success conversion s =
     (if trim_space key = [] then s else update_found now actor key (poc_change success conversion) s)"

text \<open>
  The product updates of \<open>handleFactoryRiskCheck\<close>, \<open>handleFactoryPOCPlan\<close> and
  \<open>handleFactoryScoringEvaluate\<close>, with the scores and the plan they computed.
\<close>

definition risk_checked :: "int \<Rightarrow> data_product \<Rightarrow> data_product" where
  "risk_checked overall p = p\<lparr>dp_risk_score := overall, dp_status := ''risk_review''\<rparr>"

definition poc_planned :: "string \<Rightarrow> data_product \<Rightarrow> data_product" where
  "poc_planned plan p = p\<lparr>dp_poc_plan := plan\<rparr>"

definition scored :: "int \<Rightarrow> int \<Rightarrow> data_product \<Rightarrow> data_product" where
  "scored revenue risk p = p\<lparr>dp_revenue_score := revenue, dp_risk_score := risk\<rparr>"

section \<open>Histories\<close>

text \<open>
  The events that write the catalog, with the inputs the handlers get.  \<open>Define\<close> carries the
  product that the factory generated, which it stores for review.
\<close>

datatype lifecycle_event =
    Post_product string "data_product option"
  | Product_action string string
  | Review_action string string
  | Factory_action string string
  | Define_product data_product
  | Risk_check string int
  | Poc_plan string string
  | Scoring string int int
  | Proposal_feedback string string
  | Poc_outcome string bool string
  | Delete_admin string
  | Delete_dataworks string string

definition keep_on_error :: "dw_store \<Rightarrow> admin_error + dw_store \<Rightarrow> dw_store" where
  "keep_on_error s r = (case r of Inl _ \<Rightarrow> s | Inr s' \<Rightarrow> s')"

definition run_event :: "go_time \<Rightarrow> string \<Rightarrow> lifecycle_event \<Rightarrow> dw_store \<Rightarrow> dw_store" where
  "run_event now admin e s =
     (case e of
        Post_product new_id payload \<Rightarrow> keep_on_error s (post_product now new_id admin (store_gate_reads s) payload s)
      | Product_action key action \<Rightarrow> keep_on_error s (product_action now admin (store_gate_reads s) key action s)
      | Review_action key action \<Rightarrow> keep_on_error s (review_action now admin key action s)
      | Factory_action key action \<Rightarrow> keep_on_error s (factory_action now admin (store_gate_reads s) key action s)
      | Define_product generated \<Rightarrow> write_or_keep now (generated\<lparr>dp_status := ''review'', dp_updated_by := admin\<rparr>) s
      | Risk_check key overall \<Rightarrow> if key = [] then s else update_found now admin key (risk_checked overall) s
      | Poc_plan key plan \<Rightarrow> if key = [] then s else update_found now admin key (poc_planned plan) s
      | Scoring key revenue risk \<Rightarrow> if key = [] then s else update_found now admin key (scored revenue risk) s
      | Proposal_feedback key outcome \<Rightarrow> apply_proposal_feedback_score now admin key outcome s
      | Poc_outcome key success conversion \<Rightarrow> apply_poc_outcome_score now admin key success conversion s
      | Delete_admin key \<Rightarrow> keep_on_error s (admin_delete_product now key s)
      | Delete_dataworks key raw_id \<Rightarrow> keep_on_error s (dataworks_delete_product now key raw_id s))"

text \<open>A history is a list of events with their times and administrators.\<close>

fun run_history :: "(go_time \<times> string \<times> lifecycle_event) list \<Rightarrow> dw_store \<Rightarrow> dw_store" where
  "run_history [] s = s"
| "run_history ((now, admin, e) # es) s = run_history es (run_event now admin e s)"

section \<open>The catalog invariant over histories\<close>

definition lifecycle_ok :: "dw_store \<Rightarrow> bool" where
  "lifecycle_ok s \<longleftrightarrow> catalog_ok s \<and> (\<forall>p \<in> set (st_products s). trim_space (dp_product_key p) = dp_product_key p)"

definition status_of :: "string \<Rightarrow> dw_store \<Rightarrow> string option" where
  "status_of k s = map_option dp_status (find_row dp_product_key (st_products s) k)"

lemma upsert_product_rows:
  assumes "upsert_data_product now p s = Inr s'"
  shows "s' = s\<lparr>st_products := upsert_row dp_product_key merge_data_product (stored_product now p) (st_products s)\<rparr>"
  using assms by (auto simp: upsert_data_product_def Let_def split: if_splits)

lemma upsert_product_status:
  assumes "upsert_data_product now p s = Inr s'"
  shows "status_of k s' =
    (if k = trim_space (dp_product_key p) then Some (if dp_status p = [] then ''draft'' else dp_status p)
     else status_of k s)"
  using products.get_put [of "stored_product now p" "st_products s" k]
  by (auto simp: status_of_def upsert_product_rows [OF assms] stored_product_def merge_data_product_def
      split: option.splits)

lemma lifecycle_ok_upsert:
  assumes "upsert_data_product now p s = Inr s'" "lifecycle_ok s"
  shows "lifecycle_ok s'"
proof -
  have "\<forall>r \<in> set (upsert_row dp_product_key merge_data_product (stored_product now p) (st_products s)).
      trim_space (dp_product_key r) = dp_product_key r"
    by (rule upsert_row_all) (use assms(2) in \<open>simp_all add: lifecycle_ok_def stored_product_def merge_data_product_def\<close>)
  then show ?thesis
    using assms(2) catalog_ok_upsert [OF _ assms(1)]
    by (simp add: lifecycle_ok_def upsert_product_rows [OF assms(1)])
qed

lemma lifecycle_ok_retire:
  assumes "\<And>p. found = Some p \<Longrightarrow> p \<in> set (st_products s)" "lifecycle_ok s"
  shows "lifecycle_ok (retire_product now found s)"
  using assms catalog_ok_retire [of s found now]
  by (auto simp: lifecycle_ok_def) (auto simp: retire_product_def split: option.splits)

text \<open>The stored product a lookup returns is the one its key's status belongs to.\<close>

lemma found_status:
  assumes "lifecycle_ok s" "p \<in> set (st_products s)"
  shows "status_of (dp_product_key p) s = Some (dp_status p)" "trim_space (dp_product_key p) = dp_product_key p"
proof -
  have d: "distinct (map dp_product_key (st_products s))"
    using assms(1) by (simp add: lifecycle_ok_def catalog_ok_def)
  have "find_row dp_product_key (st_products s) (dp_product_key p) = Some p"
    using d assms(2) by (rule find_row_self)
  then show "status_of (dp_product_key p) s = Some (dp_status p)" by (simp add: status_of_def)
  show "trim_space (dp_product_key p) = dp_product_key p" using assms by (simp add: lifecycle_ok_def)
qed

text \<open>What the gate decided for a product in a store.\<close>

definition gate_opens :: "go_time \<Rightarrow> dw_store \<Rightarrow> data_product \<Rightarrow> bool" where
  "gate_opens now s product \<longleftrightarrow>
     (case data_works_publish_gate (store_gate_reads s) now product of
        Inl _ \<Rightarrow> False | Inr gate \<Rightarrow> pg_allowed gate)"

lemma enforce_gate_Inr: "enforce_publish_gate (store_gate_reads s) now product = Inr u \<longleftrightarrow> gate_opens now s product"
  by (auto simp: enforce_publish_gate_def gate_opens_def split: sum.splits)

lemma write_product_Inr: "write_product now code p s = Inr s' \<longleftrightarrow> upsert_data_product now p s = Inr s'"
  by (auto simp: write_product_def split: sum.splits product_error.splits)

text \<open>
  Why a written product may be published: the gate opened for it, the stored row under its key was
  published already, or a successful proof of concept promoted an approved row.
\<close>

definition publish_cause :: "go_time \<Rightarrow> dw_store \<Rightarrow> lifecycle_event \<Rightarrow> data_product \<Rightarrow> bool" where
  "publish_cause now s e p \<longleftrightarrow>
     (\<exists>q. gate_opens now s q \<and> trim_space (dp_product_key q) = trim_space (dp_product_key p)) \<or>
     (\<exists>q \<in> set (st_products s). dp_product_key q = dp_product_key p \<and> dp_status q = ''published'') \<or>
     (\<exists>key conversion. e = Poc_outcome key True conversion \<and> equal_fold conversion ''contract_candidate'' \<and>
        (\<exists>q \<in> set (st_products s). dp_product_key q = dp_product_key p \<and> dp_status q = ''approved''))"

definition licensed_write :: "go_time \<Rightarrow> lifecycle_event \<Rightarrow> dw_store \<Rightarrow> dw_store \<Rightarrow> bool" where
  "licensed_write now e s s' \<longleftrightarrow>
     (\<exists>p. upsert_data_product now p s = Inr s' \<and> (dp_status p = ''published'' \<longrightarrow> publish_cause now s e p))"

lemma licensed_writeI:
  "upsert_data_product now p s = Inr s' \<Longrightarrow>
    (dp_status p = ''published'' \<Longrightarrow> publish_cause now s e p) \<Longrightarrow> licensed_write now e s s'"
  by (auto simp: licensed_write_def)

lemma gate_cause: "gate_opens now s q \<Longrightarrow> dp_product_key p = dp_product_key q \<Longrightarrow> publish_cause now s e p"
  by (auto simp: publish_cause_def)

lemma gate_write:
  "gate_opens now s q \<Longrightarrow> upsert_data_product now (q\<lparr>dp_status := st, dp_updated_by := admin\<rparr>) s = Inr s' \<Longrightarrow>
    licensed_write now e s s'"
  by (rule licensed_writeI, assumption) (rule gate_cause [of now s q], simp_all)

lemma product_action_written:
  assumes "product_action now admin (store_gate_reads s) key action s = Inr s'"
  shows "licensed_write now e s s'"
proof -
  obtain product where product: "get_data_product key s = Some product"
    using assms by (cases "get_data_product key s") (simp_all add: product_action_def)
  show ?thesis
  proof (cases "action = ''publish''")
    case True
    then show ?thesis
      using assms product
      by (auto simp: product_action_def enforce_gate_Inr write_product_Inr split: sum.splits
          intro: gate_write)
  next
    case False
    then show ?thesis
      using assms product
      by (auto simp: product_action_def product_transition_def write_product_Inr
          split: option.splits if_splits intro: licensed_writeI)
  qed
qed

lemma factory_action_written:
  assumes "factory_action now admin (store_gate_reads s) key action s = Inr s'"
  shows "licensed_write now e s s'"
proof -
  obtain product where product: "get_data_product key s = Some product"
    using assms by (cases "get_data_product key s") (simp_all add: factory_action_def split: if_splits)
  let ?p = "product\<lparr>dp_status := factory_next action, dp_updated_by := admin\<rparr>"
  have "upsert_data_product now ?p s = Inr s'" "action = ''publish'' \<longrightarrow> gate_opens now s product"
    using assms product
    by (auto simp: factory_action_def enforce_gate_Inr write_product_Inr Let_def split: sum.splits if_splits)
  moreover have "factory_next action = ''published'' \<Longrightarrow> action = ''publish''"
    by (simp add: factory_next_def split: if_splits)
  ultimately show ?thesis by (auto intro!: licensed_writeI [of now ?p] gate_cause [of now s product])
qed

lemma review_action_written:
  assumes "review_action now admin key action s = Inr s'"
  shows "licensed_write now e s s'"
  using assms
  by (auto simp: review_action_def write_product_Inr split: option.splits if_splits intro: licensed_writeI)

lemma post_product_written:
  assumes "post_product now new_id admin (store_gate_reads s) payload s = Inr s'"
  shows "licensed_write now e s s'"
  using assms
  by (auto simp: post_product_def enforce_gate_Inr
      split: sum.splits product_error.splits if_splits intro: licensed_writeI gate_cause)

lemma update_found_written:
  assumes "\<And>p. dp_product_key (change p) = dp_product_key p"
    and "\<And>p. dp_status (change p) = ''published'' \<Longrightarrow> dp_status p = ''published'' \<or>
      (\<exists>k conversion. e = Poc_outcome k True conversion \<and> equal_fold conversion ''contract_candidate'' \<and>
         dp_status p = ''approved'')"
  shows "update_found now admin key change s = s \<or>
    licensed_write now e s (update_found now admin key change s)"
proof (cases "get_data_product key s")
  case (Some p)
  then have p: "p \<in> set (st_products s)" by (rule get_data_product_in)
  let ?q = "(change p)\<lparr>dp_updated_by := admin\<rparr>"
  have "dp_status ?q = ''published'' \<longrightarrow> publish_cause now s e ?q"
    using p assms(1) [of p] assms(2) [of p] by (auto simp: publish_cause_def)
  then show ?thesis
    using Some by (auto simp: update_found_def write_or_keep_def split: sum.splits intro: licensed_writeI)
qed (simp add: update_found_def)

text \<open>Every event leaves the store, writes one product, or removes one.\<close>

lemma event_shape:
  obtains (same) "run_event now admin e s = s"
  | (written) "licensed_write now e s (run_event now admin e s)"
  | (removed) found where "run_event now admin e s = retire_product now found s"
      "\<And>p. found = Some p \<Longrightarrow> p \<in> set (st_products s)"
proof -
  have via: thesis if "run_event now admin e s = s \<or> run_event now admin e s = update_found now admin key change s"
    "update_found now admin key change s = s \<or> licensed_write now e s (update_found now admin key change s)"
    for key change
    using that same written by auto
  show ?thesis
  proof (cases e)
  case (Post_product new_id payload)
  then show ?thesis
    using post_product_written [of now new_id admin s payload _ e]
    by (cases "post_product now new_id admin (store_gate_reads s) payload s")
      (auto simp: run_event_def keep_on_error_def intro: same written)
next
  case (Product_action key action)
  then show ?thesis
    using product_action_written [of now admin s key action _ e]
    by (cases "product_action now admin (store_gate_reads s) key action s")
      (auto simp: run_event_def keep_on_error_def intro: same written)
next
  case (Review_action key action)
  then show ?thesis
    using review_action_written [of now admin key action s _ e]
    by (cases "review_action now admin key action s")
      (auto simp: run_event_def keep_on_error_def intro: same written)
next
  case (Factory_action key action)
  then show ?thesis
    using factory_action_written [of now admin s key action _ e]
    by (cases "factory_action now admin (store_gate_reads s) key action s")
      (auto simp: run_event_def keep_on_error_def intro: same written)
next
  case (Define_product generated)
  let ?p = "generated\<lparr>dp_status := ''review'', dp_updated_by := admin\<rparr>"
  have "upsert_data_product now ?p s = Inr s' \<Longrightarrow> licensed_write now e s s'" for s'
    by (rule licensed_writeI, assumption) simp
  then show ?thesis
    using Define_product
    by (cases "upsert_data_product now ?p s") (auto simp: run_event_def write_or_keep_def intro: same written)
next
  case (Risk_check key overall)
  then show ?thesis
    by (intro via [of key "risk_checked overall"] update_found_written) (auto simp: run_event_def risk_checked_def)
next
  case (Poc_plan key plan)
  then show ?thesis
    by (intro via [of key "poc_planned plan"] update_found_written) (auto simp: run_event_def poc_planned_def)
next
  case (Scoring key revenue risk)
  then show ?thesis
    by (intro via [of key "scored revenue risk"] update_found_written) (auto simp: run_event_def scored_def)
next
  case (Proposal_feedback key outcome)
  have change: "update_found now admin key (feedback_change d) s = s \<or>
      licensed_write now e s (update_found now admin key (feedback_change d) s)" for d
    by (rule update_found_written) (simp_all add: feedback_change_def)
  have "run_event now admin e s = s \<or> run_event now admin e s = update_found now admin key (feedback_change 5) s \<or>
      run_event now admin e s = update_found now admin key (feedback_change (- 5)) s"
    using Proposal_feedback by (simp add: run_event_def apply_proposal_feedback_score_def Let_def)
  then show ?thesis using change via same by metis
next
  case (Poc_outcome key success conversion)
  then show ?thesis
    by (intro via [of key "poc_change success conversion"] update_found_written)
      (auto simp: run_event_def apply_poc_outcome_score_def poc_change_def Let_def split: if_splits)
next
  case (Delete_admin key)
  show ?thesis
  proof (cases "trim_space key = []")
    case True
    then show ?thesis
      using Delete_admin
      by (intro same) (simp add: run_event_def keep_on_error_def admin_delete_product_def admin_fail_def)
  next
    case False
    then have "run_event now admin e s = retire_product now (get_data_product (trim_space key) s) s"
      using Delete_admin
      by (simp add: run_event_def keep_on_error_def admin_delete_product_def delete_data_product_def)
    then show ?thesis by (rule removed) (rule get_data_product_in)
  qed
next
  case (Delete_dataworks key raw_id)
  show ?thesis
  proof (cases "dataworks_delete_product now key raw_id s")
    case (Inl e')
    then show ?thesis using Delete_dataworks by (auto simp: run_event_def keep_on_error_def intro: same)
  next
    case (Inr s')
    then have "\<exists>found. s' = retire_product now found s \<and> (\<forall>p. found = Some p \<longrightarrow> p \<in> set (st_products s))"
      by (auto simp: dataworks_delete_product_def delete_data_product_def delete_data_product_by_key_def Let_def
          split: option.splits if_splits sum.splits dest: get_data_product_in find_row_key)
    then show ?thesis using Delete_dataworks Inr by (auto simp: run_event_def keep_on_error_def intro: removed)
  qed
qed
qed

lemma lifecycle_ok_event:
  assumes "lifecycle_ok s"
  shows "lifecycle_ok (run_event now admin e s)"
  by (cases rule: event_shape [of now admin e s])
    (use assms in \<open>auto simp: licensed_write_def intro: lifecycle_ok_upsert lifecycle_ok_retire\<close>)

lemma lifecycle_ok_history: "lifecycle_ok s \<Longrightarrow> lifecycle_ok (run_history es s)"
  by (induction es s rule: run_history.induct) (simp_all add: lifecycle_ok_event)

lemma lifecycle_ok_empty: "lifecycle_ok empty_store"
  by (simp add: lifecycle_ok_def catalog_ok_def empty_store_def)

abbreviation retired_keys :: "dw_store \<Rightarrow> string set" where
  "retired_keys s \<equiv> rk_product_key ` set (st_retired s)"

lemma event_keeps_retired: "retired_keys s \<subseteq> retired_keys (run_event now admin e s)"
  by (cases rule: event_shape [of now admin e s])
    (use retire_product_keeps_tombstones in \<open>auto simp: licensed_write_def dest: upsert_keeps_tombstones\<close>)

lemma history_keeps_retired: "retired_keys s \<subseteq> retired_keys (run_history es s)"
  by (induction es s rule: run_history.induct) (use event_keeps_retired in \<open>auto 0 3 simp: subset_iff\<close>)

lemma retired_has_no_status: "lifecycle_ok s \<Longrightarrow> k \<in> retired_keys s \<Longrightarrow> status_of k s = None"
  by (fastforce simp: lifecycle_ok_def catalog_ok_def status_of_def find_row_None_iff)


text \<open>A stored product can always be rewritten.\<close>

lemma upsert_found:
  assumes "lifecycle_ok s" "p \<in> set (st_products s)" "dp_product_key q = dp_product_key p"
  shows "\<exists>s'. upsert_data_product now q s = Inr s'"
proof -
  have "find_row dp_product_key (st_products s) (dp_product_key p) = Some p"
    using assms(1,2) by (intro find_row_self) (simp_all add: lifecycle_ok_def catalog_ok_def)
  moreover have "dp_product_key p \<notin> rk_product_key ` set (st_retired s)"
    using assms(1,2) by (auto simp: lifecycle_ok_def catalog_ok_def)
  moreover have "dp_product_key (stored_product now q) = dp_product_key p"
    using found_status(2) [OF assms(1,2)] assms(3) by (simp add: stored_product_def)
  ultimately show ?thesis
    by (simp add: upsert_data_product_def Let_def find_row_None_iff)
qed

lemma poc_outcome_promotes:
  assumes "lifecycle_ok s" "get_data_product key s = Some p" "dp_status p = ''approved''" "trim_space key \<noteq> []"
  shows "status_of (dp_product_key p) (run_event now admin (Poc_outcome key True ''contract_candidate'') s)
    = Some ''published''"
proof -
  let ?q = "(poc_change True ''contract_candidate'' p)\<lparr>dp_updated_by := admin\<rparr>"
  have q: "dp_product_key ?q = dp_product_key p" "dp_status ?q = ''published''"
    using assms(3) by (simp_all add: poc_change_def Let_def)
  obtain s' where s': "upsert_data_product now ?q s = Inr s'"
    using upsert_found [OF assms(1) get_data_product_in [OF assms(2)] q(1)] by blast
  then have "run_event now admin (Poc_outcome key True ''contract_candidate'') s = s'"
    using assms(2,4) by (simp add: run_event_def apply_poc_outcome_score_def update_found_def write_or_keep_def)
  then show ?thesis
    using upsert_product_status [OF s'] q found_status(2) [OF assms(1) get_data_product_in [OF assms(2)]] by simp
qed

text \<open>Without any approval trace the gate is closed for a strict product.\<close>

lemma strict_gate_without_approvals:
  assumes "requires_strict_publish_gate p" "st_approvals s = []"
  shows "\<not> gate_opens now s p"
proof -
  have "''legal'' \<in> set (required_approval_steps True [])" by code_simp
  moreover have "\<not> step_satisfied [] now'' ''legal''" for now'' by (simp add: step_satisfied_iff)
  ultimately have "\<not> approvals_in_force True [] now''" for now''
    by (auto simp: approvals_in_force_def list_all_iff)
  moreover have "list_approval_traces k s = []" for k
    using assms(2) by (simp add: list_approval_traces_def select_rows_def)
  ultimately show ?thesis
    using assms(1)
    by (auto simp: gate_opens_def data_works_publish_gate_def store_gate_reads_def gate_v2_allowed
        publishable_def Let_def split: sum.splits)
qed


section \<open>Properties\<close>


definition sample_history :: "(go_time \<times> string \<times> lifecycle_event) list" where
  "sample_history =
     [(0, ''admin'', Post_product ''dprod_1'' (Some (sample_product\<lparr>dp_name_ko := ''x'', dp_status := ''approved''\<rparr>)))]"

definition sample_row :: data_product where
  "sample_row = sample_product\<lparr>dp_name_ko := ''x'', dp_updated_by := ''admin'',
     dp_created_at := ''1970-01-01T00:00:00Z'', dp_updated_at := ''1970-01-01T00:00:00Z''\<rparr>"

definition sample_approved :: dw_store where
  "sample_approved = empty_store\<lparr>st_products := [sample_row]\<rparr>"

lemma sample_approved_reached: "sample_approved = run_history sample_history empty_store"
  by code_simp


lemma sample_approved_found: "get_data_product ''loan-score'' sample_approved = Some sample_row"
  by code_simp

definition sample_outcome :: lifecycle_event where
  "sample_outcome = Poc_outcome ''loan-score'' True ''contract_candidate''"

lemma sample_outcome_status:
  "status_of ''loan-score'' (run_event 0 ''admin'' sample_outcome sample_approved) = Some ''published''"
proof -
  have "lifecycle_ok sample_approved" using lifecycle_ok_history [OF lifecycle_ok_empty] unfolding sample_approved_reached by blast
  moreover have "trim_space ''loan-score'' \<noteq> []" by code_simp
  ultimately show ?thesis
    using poc_outcome_promotes [OF _ sample_approved_found] unfolding sample_outcome_def
    by (simp add: sample_row_def sample_product_def)
qed


text \<open>
  The proof-of-concept route skips the gate.  A sensitive product posted as approved, without
  any approval trace, readiness score or evidence pack, for which the gate is closed, is published by
  a recorded outcome: the one route on which the gate is not asked.
\<close>

lemma poc_outcome_publishes_past_the_gate:
  "sample_approved = run_history sample_history empty_store \<and>
   get_data_product ''loan-score'' sample_approved = Some sample_row \<and>
   \<not> gate_opens now sample_approved sample_row \<and>
   status_of ''loan-score'' (run_event 0 ''admin'' sample_outcome sample_approved) = Some ''published''"
proof -
  have "st_approvals sample_approved = []" "requires_strict_publish_gate sample_row" by code_simp+
  then have "\<not> gate_opens now sample_approved sample_row" using strict_gate_without_approvals by blast
  then show ?thesis using sample_outcome_status sample_approved_reached sample_approved_found by blast
qed

text \<open>
  The action endpoint follows its table.  On a reachable catalog an accepted action takes the
  product it found from a status the table lists to the one it names, or publishes it through the
  open gate, and touches no other key.
\<close>

lemma product_action_follows_table:
  assumes "s = run_history es empty_store" "get_data_product key s = Some p"
    and "product_action now admin (store_gate_reads s) key action s = Inr s'"
  shows "(if action = ''publish'' then gate_opens now s p \<and> status_of (dp_product_key p) s' = Some ''published''
     else (\<exists>from_statuses to_status. product_transition action = Some (from_statuses, to_status) \<and>
             dp_status p \<in> set from_statuses \<and> status_of (dp_product_key p) s' = Some to_status)) \<and>
   (\<forall>k. k \<noteq> dp_product_key p \<longrightarrow> status_of k s' = status_of k s)"
proof -
  have ok: "lifecycle_ok s" using lifecycle_ok_history [OF lifecycle_ok_empty] assms(1) by simp
  have key: "trim_space (dp_product_key p) = dp_product_key p"
    using found_status(2) [OF ok get_data_product_in [OF assms(2)]] .
  have move: "status_of (dp_product_key p) s' = Some st \<and> (\<forall>k. k \<noteq> dp_product_key p \<longrightarrow> status_of k s' = status_of k s)"
    if "upsert_data_product now (p\<lparr>dp_status := st, dp_updated_by := admin\<rparr>) s = Inr s'" "st \<noteq> []" for st
    using upsert_product_status [OF that(1)] that(2) key by simp
  show ?thesis
  proof (cases "action = ''publish''")
    case True
    then show ?thesis
      using assms(2,3) move [of "''published''"]
      by (auto simp: product_action_def enforce_gate_Inr write_product_Inr split: sum.splits)
  next
    case False
    then obtain from_statuses to_status where
      t: "product_transition action = Some (from_statuses, to_status)" "dp_status p \<in> set from_statuses"
      "upsert_data_product now (p\<lparr>dp_status := to_status, dp_updated_by := admin\<rparr>) s = Inr s'"
      using assms(2,3) by (auto simp: product_action_def write_product_Inr split: option.splits if_splits)
    moreover from t(1) have "to_status \<noteq> []" by (auto simp: product_transition_def split: if_splits)
    ultimately show ?thesis using False move by auto
  qed
qed

text \<open>
  Retired keys stay retired.  Every reachable catalog has unique, trimmed product keys; once a key
  has a tombstone, no continuation of the history brings a product back under it.
\<close>

lemma retired_keys_stay_retired:
  assumes "s = run_history es empty_store" "k \<in> retired_keys s"
  shows "status_of k (run_history es' s) = None \<and> k \<in> retired_keys (run_history es' s) \<and>
    distinct (map dp_product_key (st_products s))"
proof -
  have ok: "lifecycle_ok s" using lifecycle_ok_history [OF lifecycle_ok_empty] assms(1) by simp
  have "k \<in> retired_keys (run_history es' s)" using assms(2) history_keeps_retired by blast
  then show ?thesis
    using retired_has_no_status [OF lifecycle_ok_history [OF ok]] ok
    by (simp add: lifecycle_ok_def catalog_ok_def)
qed

text \<open>
  What the two deletes protect.  The Data Works endpoint deletes only a draft or archived product;
  the older catalog endpoint, and the older review endpoint, ask for no status: the first deletes a
  published product, the second approves an archived one.
\<close>

lemma dataworks_delete_guarded:
  assumes "s = run_history es empty_store" "dataworks_delete_product now key raw_id s = Inr s'"
    and "status_of k s = Some st" "status_of k s' = None"
  shows "st \<in> {''draft'', ''archived''}"
proof -
  have ok: "lifecycle_ok s" using lifecycle_ok_history [OF lifecycle_ok_empty] assms(1) by simp
  obtain p where p: "p \<in> set (st_products s)" "dp_status p \<in> {''draft'', ''archived''}"
    and s': "s' = retire_product now (Some p) s"
    using assms(2)
    by (auto simp: dataworks_delete_product_def delete_data_product_def delete_data_product_by_key_def
        get_data_product_by_key_def Let_def
        split: option.splits if_splits sum.splits dest: get_data_product_in find_row_key)
  obtain r where r: "find_row dp_product_key (st_products s) k = Some r" "dp_status r = st"
    using assms(3) by (auto simp: status_of_def)
  have "r = p"
  proof (rule ccontr)
    assume "r \<noteq> p"
    moreover have "r \<in> set (st_products s)" "dp_product_key r = k" using find_row_key [OF r(1)] by auto
    moreover have "dp_product_key r \<noteq> dp_product_key p"
      using calculation(1,2) p(1) ok by (auto simp: lifecycle_ok_def catalog_ok_def distinct_map inj_on_def)
    ultimately have "r \<in> set (st_products s')" "dp_product_key r = k" by (simp_all add: s' retire_product_def)
    then show False using assms(4) by (force simp: status_of_def find_row_None_iff)
  qed
  then show ?thesis using p r by simp
qed

text \<open>
  The older endpoints skip these checks.  On a catalog holding a published product the catalog
  endpoint deletes it; on one holding an archived product the review endpoint approves it, although
  the action table only approves products under review.
\<close>

lemma older_endpoints_skip_status_checks:
  "status_of ''loan-score'' (run_event 0 ''admin'' (Delete_admin ''loan-score'')
     (empty_store\<lparr>st_products := [sample_row\<lparr>dp_status := ''published''\<rparr>]\<rparr>)) = None \<and>
   status_of ''loan-score'' (run_event 0 ''admin'' (Review_action ''loan-score'' ''approve'')
     (empty_store\<lparr>st_products := [sample_row\<lparr>dp_status := ''archived''\<rparr>]\<rparr>)) = Some ''approved'' \<and>
   product_transition ''approve'' = Some ([''review'', ''risk_review''], ''approved'')"
  by code_simp

end
