(* ===== verification/FlowGraph.thy ===== *)
theory FlowGraph
  imports Tables "HOL-Library.AList"
begin

text \<open>
  Flow definitions of the Data Works platform: the graph check
  (\<open>validateFlowGraph\<close> of \<open>internal/store/dataworks_platform_runtime.go\<close>) and the execution order
  (\<open>orderedDataWorksFlowNodes\<close> of \<open>internal/proxy/admin_dataworks_platform_runtime.go\<close>).  Both are
  Kahn's algorithm over maps of indegrees; they differ in the queue, so that the loop is one function
  with the order of its queue as a parameter, and its correctness is proved once in a locale.
\<close>

section \<open>Flows\<close>

text \<open>The configuration of a node is kept by its \<open>tool_id\<close>, the only entry the code reads.\<close>

record flow_node =
  fn_id :: string
  fn_flow_id :: string
  fn_key :: string
  fn_type :: string
  fn_name :: string
  fn_ref_urn :: string
  fn_tool_id :: string
  fn_position_x :: rat
  fn_position_y :: rat
  fn_sequence_no :: int

record flow_edge =
  fe_id :: string
  fe_flow_id :: string
  fe_source :: string
  fe_target :: string
  fe_condition :: string

record flow =
  fl_id :: string
  fl_key :: string
  fl_workspace_id :: string
  fl_name :: string
  fl_description :: string
  fl_type :: string
  fl_status :: string
  fl_version :: int
  fl_schedule :: string
  fl_owner :: string
  fl_input_schema :: string
  fl_output_schema :: string
  fl_created_by :: string
  fl_created_at :: string
  fl_updated_at :: string
  fl_nodes :: "flow_node list"
  fl_edges :: "flow_edge list"

section \<open>Kahn's algorithm\<close>

text \<open>A Go map from keys to counters: an absent key reads as zero.\<close>

type_synonym degrees = "(string \<times> int) list"

definition degree :: "degrees \<Rightarrow> string \<Rightarrow> int" where
  "degree m k = (case map_of m k of None \<Rightarrow> 0 | Some d \<Rightarrow> d)"

definition add_degree :: "int \<Rightarrow> string \<Rightarrow> degrees \<Rightarrow> degrees" where
  "add_degree d k m = AList.update k (degree m k + d) m"

definition edge_pair :: "flow_edge \<Rightarrow> string \<times> string" where
  "edge_pair e = (fe_source e, fe_target e)"

definition indegrees :: "string list \<Rightarrow> (string \<times> string) list \<Rightarrow> degrees" where
  "indegrees ks es = fold (\<lambda>(s, t). add_degree 1 t) es (map (\<lambda>k. (k, 0)) ks)"

definition adjacent :: "(string \<times> string) list \<Rightarrow> string \<Rightarrow> string list" where
  "adjacent es k = map snd (filter (\<lambda>e. fst e = k) es)"

text \<open>A plain queue appends; an ordered one is sorted again after each append.\<close>

definition enqueue :: "('q \<Rightarrow> 'q \<Rightarrow> bool) option \<Rightarrow> 'q list \<Rightarrow> 'q \<Rightarrow> 'q list" where
  "enqueue order queue x =
     (case order of None \<Rightarrow> queue @ [x] | Some lt \<Rightarrow> slice_stable lt (queue @ [x]))"

fun relax ::
  "('q \<Rightarrow> 'q \<Rightarrow> bool) option \<Rightarrow> (string \<Rightarrow> 'q) \<Rightarrow> string list \<Rightarrow> degrees \<Rightarrow> 'q list \<Rightarrow> degrees \<times> 'q list" where
  "relax order elem [] m queue = (m, queue)"
| "relax order elem (next # ns) m queue =
     (let m = add_degree (- 1) next m
      in relax order elem ns m (if degree m next = 0 then enqueue order queue (elem next) else queue))"

text \<open>The loop ends: each append turns one positive counter into zero.\<close>

definition positives :: "degrees \<Rightarrow> nat" where
  "positives m = length (filter (\<lambda>(k, d). 0 < d) m)"

lemma length_enqueue [simp]: "length (enqueue order queue x) = Suc (length queue)"
  by (simp add: enqueue_def split: option.split)

lemma positives_update:
  "positives (AList.update k d m) + of_bool (0 < degree m k) \<le> positives m + of_bool (0 < d)"
  by (induction m) (auto simp: positives_def degree_def)

lemma relax_measure:
  "relax order elem ns m queue = (m', queue') \<Longrightarrow> length queue' + positives m' \<le> length queue + positives m"
proof (induction order elem ns m queue rule: relax.induct)
  case (1 order elem m queue)
  then show ?case by simp
next
  case (2 order elem n ns m queue)
  let ?m = "add_degree (- 1) n m"
  let ?q = "if degree ?m n = 0 then enqueue order queue (elem n) else queue"
  have "degree ?m n = degree m n - 1"
    by (simp add: add_degree_def degree_def update_conv)
  then have "length ?q + positives ?m \<le> length queue + positives m"
    using positives_update [of n "degree m n - 1" m] by (cases "degree m n = 1") (simp_all add: add_degree_def of_bool_def split: if_splits)
  with 2 show ?case by (auto simp: Let_def)
qed

function kahn ::
  "('q \<Rightarrow> 'q \<Rightarrow> bool) option \<Rightarrow> ('q \<Rightarrow> string) \<Rightarrow> (string \<Rightarrow> 'q) \<Rightarrow> (string \<times> string) list
    \<Rightarrow> degrees \<Rightarrow> 'q list \<Rightarrow> 'q list" where
  "kahn order key elem es m queue =
     (case queue of
        [] \<Rightarrow> []
      | x # rest \<Rightarrow>
          (case relax order elem (adjacent es (key x)) m rest of
             (m', queue') \<Rightarrow> x # kahn order key elem es m' queue'))"
  by pat_completeness auto
termination
proof (relation "measure (\<lambda>(order, key, elem, es, m, queue). length queue + positives m)", goal_cases)
  case (2 order key elem es m queue x rest m' queue')
  then have "relax order elem (adjacent es (key x)) m rest = (m', queue')" by simp
  from this relax_measure [OF this] 2(1) show ?case by simp
qed simp

declare kahn.simps [simp del]

lemma kahn_Nil [simp]: "kahn order key elem es m [] = []"
  by (simp add: kahn.simps)

lemma kahn_Cons:
  "relax order elem (adjacent es (key x)) m rest = (m', queue') \<Longrightarrow>
    kahn order key elem es m (x # rest) = x # kahn order key elem es m' queue'"
  by (subst kahn.simps) simp

lemma set_enqueue: "set (enqueue order queue x) = insert x (set queue)"
  by (simp add: enqueue_def split: option.split)

lemma relax_elems: "relax order elem ns m queue = (m', queue') \<Longrightarrow> set queue' \<subseteq> set queue \<union> elem ` set ns"
  by (induction ns arbitrary: m queue) (fastforce simp: Let_def set_enqueue split: if_splits)+

lemma kahn_elems: "set (kahn order key elem es m queue) \<subseteq> set queue \<union> elem ` snd ` set es"
proof (induction "length queue + positives m" arbitrary: m queue rule: less_induct)
  case less
  show ?case
  proof (cases queue)
    case (Cons x rest)
    obtain m' queue' where r: "relax order elem (adjacent es (key x)) m rest = (m', queue')"
      by (cases "relax order elem (adjacent es (key x)) m rest")
    have "length queue' + positives m' < length queue + positives m"
      using relax_measure [OF r] Cons by simp
    moreover have "set queue' \<subseteq> set rest \<union> elem ` snd ` set es"
      using relax_elems [OF r] by (auto simp: adjacent_def)
    ultimately show ?thesis
      using less.hyps Cons by (fastforce simp: kahn_Cons [where key = key, OF r])
  qed simp
qed

section \<open>Correctness of the loop\<close>

lemma degree_add [simp]: "degree (add_degree d k m) k' = degree m k' + (if k' = k then d else 0)"
  by (simp add: add_degree_def degree_def update_conv)

definition edges_into :: "(string \<times> string) list \<Rightarrow> string set \<Rightarrow> string \<Rightarrow> nat" where
  "edges_into es done k = length (filter (\<lambda>(s, t). t = k \<and> s \<notin> done) es)"

lemma degree_indegrees: "degree (indegrees ks es) k = int (edges_into es {} k)"
proof -
  have "degree (fold (\<lambda>(s, t). add_degree 1 t) es m) k = degree m k + int (edges_into es {} k)" for m
    by (induction es arbitrary: m) (auto simp: edges_into_def)
  moreover have "degree (map (\<lambda>k. (k, 0)) ks) k = 0" by (induction ks) (auto simp: degree_def)
  ultimately show ?thesis by (simp add: indegrees_def)
qed

lemma edges_into_insert:
  assumes "k \<notin> done"
  shows "edges_into es done k' = edges_into es (insert k done) k' + count_list (adjacent es k) k'"
  using assms by (induction es) (auto simp: edges_into_def adjacent_def)

lemma edges_into_0: "edges_into es done k = 0 \<longleftrightarrow> (\<forall>(s, t) \<in> set es. t = k \<longrightarrow> s \<in> done)"
  by (auto simp: edges_into_def filter_empty_conv)

text \<open>
  The specification of an order: each key runs after the sources of all its edges.  Such an order of
  all targets excludes a cycle.
\<close>

fun runs_after :: "(string \<times> string) list \<Rightarrow> string set \<Rightarrow> string list \<Rightarrow> bool" where
  "runs_after es done [] = True"
| "runs_after es done (k # ks) =
     ((\<forall>(s, t) \<in> set es. t = k \<longrightarrow> s \<in> done) \<and> runs_after es (insert k done) ks)"

definition place :: "string list \<Rightarrow> string \<Rightarrow> nat" where
  "place ks k = length (takeWhile (\<lambda>x. x \<noteq> k) ks)"

lemma place_less: "s \<in> set (takeWhile (\<lambda>x. x \<noteq> t) ks) \<Longrightarrow> place ks s < place ks t"
  by (induction ks) (auto simp: place_def split: if_splits)

lemma runs_after_before:
  "runs_after es done ks \<Longrightarrow> (s, t) \<in> set es \<Longrightarrow> t \<in> set ks \<Longrightarrow> s \<in> done \<union> set (takeWhile (\<lambda>x. x \<noteq> t) ks)"
  by (induction es "done" ks rule: runs_after.induct) (fastforce split: if_splits)+

lemma runs_after_acyclic:
  assumes "runs_after es {} ks" "\<forall>(s, t) \<in> set es. t \<in> set ks"
  shows "acyclic (set es)"
proof -
  have "set es \<subseteq> measure (place ks)"
    using assms runs_after_before [OF assms(1)] place_less by fastforce
  then show ?thesis using wf_acyclic wf_subset wf_measure by metis
qed

text \<open>
  Elements of the queue stand for keys: looking up a key gives an element of that key.
\<close>

locale key_lookup =
  fixes key :: "'q \<Rightarrow> string" and elem :: "string \<Rightarrow> 'q" and keys :: "string set"
  assumes key_elem: "k \<in> keys \<Longrightarrow> key (elem k) = k"
begin

lemma enqueue_keys: "mset (map key (enqueue order queue x)) = add_mset (key x) (mset (map key queue))"
  by (simp add: enqueue_def mset_map split: option.split)

lemma relax_spec:
  assumes "relax order elem ns m queue = (m', queue')" "set ns \<subseteq> keys"
    and "\<forall>k \<in> set ns. int (count_list ns k) \<le> degree m k \<and> k \<notin> key ` set queue"
  shows "(\<forall>k. degree m' k = degree m k - int (count_list ns k)) \<and>
    key ` set queue' = key ` set queue \<union> {k \<in> set ns. degree m' k = 0} \<and>
    (distinct (map key queue) \<longrightarrow> distinct (map key queue'))"
  using assms
proof (induction ns arbitrary: m queue)
  case Nil
  then show ?case by simp
next
  case (Cons n ns)
  define m1 where "m1 = add_degree (- 1) n m"
  define q1 where "q1 = (if degree m1 n = 0 then enqueue order queue (elem n) else queue)"
  have run: "relax order elem ns m1 q1 = (m', queue')"
    using Cons(2) by (simp add: m1_def q1_def Let_def)
  have n: "key (elem n) = n" "n \<notin> key ` set queue" "int (count_list ns n) \<le> degree m1 n"
    using Cons(3,4) key_elem [of n] by (auto simp: m1_def)
  have m1: "degree m1 k = degree m k - (if k = n then 1 else 0)" for k by (simp add: m1_def)
  have last: "n \<notin> set ns" if "degree m1 n = 0"
    using n(3) that by (simp add: count_list_0_iff)
  have keys_q1: "key ` set q1 = (if degree m1 n = 0 then insert n (key ` set queue) else key ` set queue)"
    using arg_cong [OF enqueue_keys [of order queue "elem n"], of set_mset] n(1) by (auto simp: q1_def)
  have "mset (map key q1) = (if degree m1 n = 0 then add_mset n (mset (map key queue)) else mset (map key queue))"
    using n(1) by (simp add: q1_def enqueue_keys del: mset_map)
  then have dist: "distinct (map key queue) \<Longrightarrow> distinct (map key q1)"
    using n(2) by (cases "degree m1 n = 0")
      (metis distinct.simps(2) list.set_map mset.simps(2) mset_eq_imp_distinct_iff, metis mset_eq_imp_distinct_iff)
  have "\<forall>k \<in> set ns. int (count_list ns k) \<le> degree m1 k \<and> k \<notin> key ` set q1"
  proof
    fix k assume k: "k \<in> set ns"
    then have "int (count_list (n # ns) k) \<le> degree m k" "k \<notin> key ` set queue" using Cons(4) by auto
    then show "int (count_list ns k) \<le> degree m1 k \<and> k \<notin> key ` set q1"
      using k last by (auto simp: m1 keys_q1 split: if_splits)
  qed
  then have IH: "(\<forall>k. degree m' k = degree m1 k - int (count_list ns k)) \<and>
      key ` set queue' = key ` set q1 \<union> {k \<in> set ns. degree m' k = 0} \<and>
      (distinct (map key q1) \<longrightarrow> distinct (map key queue'))"
    using Cons(1) [OF run] Cons(3) by simp
  then have "key ` set queue' = key ` set queue \<union> {k \<in> set (n # ns). degree m' k = 0}"
    using last by (auto simp: keys_q1 count_list_0_iff split: if_splits)
  with IH dist show ?case by (simp add: m1)
qed

text \<open>
  The state between two rounds: \<open>done\<close> has been taken from the queue; the counter of a key is the
  number of its edges from other keys; exactly the keys with counter zero are done or queued.
\<close>

definition between_rounds :: "(string \<times> string) list \<Rightarrow> string list \<Rightarrow> degrees \<Rightarrow> 'q list \<Rightarrow> bool" where
  "between_rounds es done m queue \<longleftrightarrow>
     distinct (done @ map key queue) \<and> set done \<union> key ` set queue \<subseteq> keys \<and>
     (\<forall>k \<in> keys. degree m k = int (edges_into es (set done) k)) \<and>
     (\<forall>k \<in> keys. degree m k = 0 \<longrightarrow> k \<in> set done \<union> key ` set queue) \<and>
     (\<forall>k \<in> set done \<union> key ` set queue. edges_into es (set done) k = 0)"

lemma round_keeps:
  assumes "between_rounds es done m (x # rest)" "\<forall>(s, t) \<in> set es. t \<in> keys"
    and "relax order elem (adjacent es (key x)) m rest = (m', queue')"
  shows "between_rounds es (done @ [key x]) m' queue'"
proof -
  let ?k = "key x" and ?ns = "adjacent es (key x)"
  have inv: "distinct (done @ ?k # map key rest)" "set done \<union> insert ?k (key ` set rest) \<subseteq> keys"
    "\<And>k. k \<in> keys \<Longrightarrow> degree m k = int (edges_into es (set done) k)"
    "\<And>k. k \<in> keys \<Longrightarrow> degree m k = 0 \<Longrightarrow> k \<in> set done \<union> insert ?k (key ` set rest)"
    "\<And>k. k \<in> set done \<union> insert ?k (key ` set rest) \<Longrightarrow> edges_into es (set done) k = 0"
    using assms(1) by (auto simp: between_rounds_def)
  have fresh: "?k \<notin> set done" using inv(1) by auto
  have split: "edges_into es (set done) k = edges_into es (set (done @ [?k])) k + count_list ?ns k" for k
    using edges_into_insert [OF fresh, of es k] by simp
  have ns: "set ?ns \<subseteq> keys" using assms(2) by (auto simp: adjacent_def)
  have hit: "k \<notin> set done \<union> insert ?k (key ` set rest)" if "k \<in> set ?ns" for k
    using inv(5) [of k] split [of k] that by (metis add_is_0 count_list_0_iff)
  then have "\<forall>k \<in> set ?ns. int (count_list ?ns k) \<le> degree m k \<and> k \<notin> key ` set rest"
    using inv(3) split ns by fastforce
  note step = relax_spec [OF assms(3) ns this]
  have deg: "degree m' k = int (edges_into es (set (done @ [?k])) k)" if "k \<in> keys" for k
    using step inv(3) [OF that] split [of k] by simp
  have queued: "key ` set queue' = key ` set rest \<union> {k \<in> set ?ns. degree m' k = 0}" using step by blast
  have c1: "distinct ((done @ [?k]) @ map key queue')"
    using step inv(1) hit queued by auto
  have c2: "set (done @ [?k]) \<union> key ` set queue' \<subseteq> keys"
    using inv(2) ns queued by auto
  have c3: "k \<in> set (done @ [?k]) \<union> key ` set queue'" if "k \<in> keys" "degree m' k = 0" for k
  proof (cases "degree m k = 0")
    case True
    then show ?thesis using inv(4) [OF that(1)] queued by auto
  next
    case False
    then have "count_list ?ns k \<noteq> 0" using step that(2) by force
    then have "k \<in> set ?ns" by (metis count_list_0_iff)
    then show ?thesis using queued that(2) by blast
  qed
  have c4: "edges_into es (set (done @ [?k])) k = 0" if "k \<in> set (done @ [?k]) \<union> key ` set queue'" for k
  proof (cases "k \<in> set done \<union> insert ?k (key ` set rest)")
    case True
    then show ?thesis using inv(5) [OF True] split [of k] by simp
  next
    case False
    then show ?thesis using that queued deg ns by auto
  qed
  show ?thesis unfolding between_rounds_def
    by (intro conjI ballI impI) (rule c1, rule c2, erule deg, erule (1) c3, erule c4)
qed

lemma kahn_rounds:
  assumes "between_rounds es done m queue" "\<forall>(s, t) \<in> set es. t \<in> keys"
  shows "\<exists>m'. between_rounds es (done @ map key (kahn order key elem es m queue)) m' [] \<and>
    runs_after es (set done) (map key (kahn order key elem es m queue))"
  using assms
proof (induction "length queue + positives m" arbitrary: m queue "done" rule: less_induct)
  case less
  show ?case
  proof (cases queue)
    case Nil
    then show ?thesis using less.prems by auto
  next
    case (Cons x rest)
    obtain m' queue' where r: "relax order elem (adjacent es (key x)) m rest = (m', queue')"
      by (cases "relax order elem (adjacent es (key x)) m rest")
    have inv: "between_rounds es (done @ [key x]) m' queue'"
      by (rule round_keeps [OF less.prems(1) [unfolded Cons] less.prems(2) r])
    have "length queue' + positives m' < length queue + positives m"
      using relax_measure [OF r] Cons by simp
    from less.hyps [OF this inv less.prems(2)]
    obtain m'' where IH: "between_rounds es ((done @ [key x]) @ map key (kahn order key elem es m' queue')) m'' []"
      "runs_after es (set (done @ [key x])) (map key (kahn order key elem es m' queue'))"
      by blast
    moreover have "edges_into es (set done) (key x) = 0"
      using less.prems(1) Cons by (simp add: between_rounds_def)
    ultimately show ?thesis
      using Cons by (auto simp: kahn_Cons [where key = key, OF r] edges_into_0)
  qed
qed

text \<open>
  From the start of the loop: the taken keys are distinct keys in a topological order, and they are
  all keys exactly when the graph has no cycle.
\<close>

lemma kahn_correct:
  fixes order :: "('q \<Rightarrow> 'q \<Rightarrow> bool) option" and es m queue
  assumes "finite keys" "\<forall>(s, t) \<in> set es. s \<in> keys \<and> t \<in> keys" "\<forall>k \<in> keys. degree m k = int (edges_into es {} k)"
    and "distinct (map key queue)" "key ` set queue = {k \<in> keys. degree m k = 0}"
  defines "taken \<equiv> map key (kahn order key elem es m queue)"
  shows "distinct taken \<and> set taken \<subseteq> keys \<and> runs_after es {} taken \<and> (set taken = keys \<longleftrightarrow> acyclic (set es))"
proof -
  have "between_rounds es [] m queue"
    using assms(3,4,5) by (auto simp: between_rounds_def)
  then obtain m' where end_state: "between_rounds es taken m' []" and run: "runs_after es {} taken"
    using kahn_rounds [of es "[]" m queue order] assms(2) unfolding taken_def by fastforce
  have d: "distinct taken" "set taken \<subseteq> keys" using end_state by (auto simp: between_rounds_def)
  have "set taken = keys" if "acyclic (set es)"
  proof (rule ccontr)
    assume "set taken \<noteq> keys"
    then have "keys - set taken \<noteq> {}" using d(2) by blast
    moreover have "wf (set es)" using that by (rule finite_acyclic_wf [OF finite_set])
    ultimately obtain k where k: "k \<in> keys - set taken" "\<And>s. (s, k) \<in> set es \<Longrightarrow> s \<notin> keys - set taken"
      by (metis wfE_min all_not_in_conv)
    then have "edges_into es (set taken) k = 0"
      using assms(2) by (auto simp: edges_into_0)
    then show False using end_state k(1) by (auto simp: between_rounds_def)
  qed
  moreover have "acyclic (set es)" if "set taken = keys"
    using runs_after_acyclic [OF run] assms(2) that by auto
  ultimately show ?thesis using d run by blast
qed

end

section \<open>The graph check\<close>

definition allowed_node_types :: "string list" where
  "allowed_node_types =
     [''input'', ''sql'', ''python'', ''api'', ''rag'', ''product_factory'', ''risk_check'', ''proposal'', ''poc'',
      ''approval'', ''prompt'', ''llm'', ''agent'', ''tool'', ''guardrail'', ''output'']"

text \<open>The loop over the nodes collects the keys or stops at the first bad node.\<close>

fun node_keys :: "string list \<Rightarrow> flow_node list \<Rightarrow> string list result" where
  "node_keys keys [] = Inr keys"
| "node_keys keys (n # ns) =
     (let key = trim_space (fn_key n); typ = to_lower (trim_space (fn_type n))
      in if key = [] \<or> typ \<notin> set allowed_node_types then Inl (''invalid flow node '' @ key @ '' of type '' @ fn_type n)
         else if key \<in> set keys then Inl (''duplicate flow node_key '' @ key)
         else node_keys (keys @ [key]) ns)"

fun check_edges :: "string list \<Rightarrow> flow_edge list \<Rightarrow> unit result" where
  "check_edges keys [] = Inr ()"
| "check_edges keys (e # es) =
     (if fe_source e \<notin> set keys \<or> fe_target e \<notin> set keys
      then Inl (''flow edge references unknown node '' @ fe_source e @ '' -> '' @ fe_target e)
      else if fe_source e = fe_target e then Inl ''flow edge cannot reference itself''
      else check_edges keys es)"

text \<open>
  \<open>validateFlowGraph\<close>.  The code fills its queue in the order of a Go map, which is random; the model
  takes the order of the nodes, and the theorem on the check shows that the answer does not depend
  on it.
\<close>

definition validate_flow_graph :: "flow_node list \<Rightarrow> flow_edge list \<Rightarrow> unit result" where
  "validate_flow_graph nodes edges =
     (if nodes = [] then Inl ''flow requires at least one node''
      else case node_keys [] nodes of
        Inl e \<Rightarrow> Inl e
      | Inr keys \<Rightarrow>
          (case check_edges keys edges of
             Inl e \<Rightarrow> Inl e
           | Inr _ \<Rightarrow>
               let es = map edge_pair edges; indegree = indegrees keys es;
                   queue = filter (\<lambda>k. degree indegree k = 0) keys;
                   visited = length (kahn None (\<lambda>k. k) (\<lambda>k. k) es indegree queue)
               in if visited \<noteq> length nodes then Inl ''flow graph must be acyclic'' else Inr ()))"

section \<open>The execution order\<close>

definition zero_node :: flow_node where
  "zero_node = \<lparr>fn_id = [], fn_flow_id = [], fn_key = [], fn_type = [], fn_name = [], fn_ref_urn = [],
     fn_tool_id = [], fn_position_x = 0, fn_position_y = 0, fn_sequence_no = 0\<rparr>"

text \<open>\<open>byKey\<close>: the last node of a key, the zero node when there is none.\<close>

definition node_by_key :: "flow_node list \<Rightarrow> string \<Rightarrow> flow_node" where
  "node_by_key nodes k = (case find (\<lambda>n. fn_key n = k) (rev nodes) of None \<Rightarrow> zero_node | Some n \<Rightarrow> n)"

definition ordered_flow_nodes :: "flow_node list \<Rightarrow> flow_edge list \<Rightarrow> flow_node list" where
  "ordered_flow_nodes nodes edges =
     (let es = map edge_pair edges; indegree = indegrees (map fn_key nodes) es; order = by_key fn_sequence_no;
          queue = slice_stable order (filter (\<lambda>n. degree indegree (fn_key n) = 0) nodes)
      in kahn (Some order) fn_key (node_by_key nodes) es indegree queue)"

interpretation graph_keys: key_lookup "\<lambda>k. k" "\<lambda>k. k" keys for keys
  by unfold_locales simp

lemma node_by_key_in: "k \<in> fn_key ` set nodes \<Longrightarrow> node_by_key nodes k \<in> set nodes \<and> fn_key (node_by_key nodes k) = k"
  by (cases "find (\<lambda>n. fn_key n = k) (rev nodes)")
    (auto simp: node_by_key_def find_None_iff dest!: find_Some_set)

interpretation graph_nodes: key_lookup fn_key "node_by_key nodes" "fn_key ` set nodes" for nodes
  by unfold_locales (simp add: node_by_key_in)

subsection \<open>Lemmas\<close>

definition trimmed_keys :: "flow_node list \<Rightarrow> string list" where
  "trimmed_keys nodes = map (\<lambda>n. trim_space (fn_key n)) nodes"

definition types_ok :: "flow_node list \<Rightarrow> bool" where
  "types_ok nodes \<longleftrightarrow> (\<forall>n \<in> set nodes. to_lower (trim_space (fn_type n)) \<in> set allowed_node_types)"

lemma trimmed_keys_simps [simp]:
  "trimmed_keys [] = []" "trimmed_keys (n # ns) = trim_space (fn_key n) # trimmed_keys ns"
  by (simp_all add: trimmed_keys_def)

lemma node_keys_Inr:
  "node_keys keys ns = Inr keys' \<longleftrightarrow>
    keys' = keys @ trimmed_keys ns \<and> set keys \<inter> set (trimmed_keys ns) = {} \<and>
    distinct (trimmed_keys ns) \<and> [] \<notin> set (trimmed_keys ns) \<and> types_ok ns"
  by (induction keys ns rule: node_keys.induct) (auto simp: Let_def types_ok_def)

lemma check_edges_Inr:
  "check_edges keys es = Inr u \<longleftrightarrow>
    (\<forall>e \<in> set es. fe_source e \<in> set keys \<and> fe_target e \<in> set keys \<and> fe_source e \<noteq> fe_target e)"
  by (induction keys es rule: check_edges.induct) auto

definition graph_ok :: "string list \<Rightarrow> (string \<times> string) set \<Rightarrow> bool" where
  "graph_ok keys es \<longleftrightarrow> distinct keys \<and> [] \<notin> set keys \<and> es \<subseteq> set keys \<times> set keys \<and> acyclic es"

lemma validate_flow_graph_Inr:
  "validate_flow_graph nodes edges = Inr () \<longleftrightarrow>
    nodes \<noteq> [] \<and> types_ok nodes \<and> graph_ok (trimmed_keys nodes) (edge_pair ` set edges)"
proof (cases "nodes \<noteq> [] \<and> node_keys [] nodes = Inr (trimmed_keys nodes) \<and>
    check_edges (trimmed_keys nodes) edges = Inr ()")
  case False
  then show ?thesis
    by (auto simp: validate_flow_graph_def graph_ok_def node_keys_Inr check_edges_Inr edge_pair_def acyclic_def
        split: sum.splits)
next
  case True
  let ?keys = "trimmed_keys nodes" and ?es = "map edge_pair edges"
  let ?m = "indegrees ?keys ?es"
  let ?taken = "kahn None (\<lambda>k. k) (\<lambda>k. k) ?es ?m (filter (\<lambda>k. degree ?m k = 0) ?keys)"
  have nk: "node_keys [] nodes = Inr ?keys" and ce: "check_edges ?keys edges = Inr ()" using True by blast+
  have d: "distinct ?keys" "[] \<notin> set ?keys" "types_ok nodes" using nk by (simp_all add: node_keys_Inr)
  have es: "\<forall>(s, t) \<in> set ?es. s \<in> set ?keys \<and> t \<in> set ?keys"
    using True by (auto simp: check_edges_Inr edge_pair_def)
  have "distinct ?taken \<and> set ?taken \<subseteq> set ?keys \<and> (set ?taken = set ?keys \<longleftrightarrow> acyclic (set ?es))"
    using graph_keys.kahn_correct [OF _ es, of ?m "filter (\<lambda>k. degree ?m k = 0) ?keys" None] d
    by (simp add: degree_indegrees)
  moreover have "length ?keys = length nodes" by (simp add: trimmed_keys_def)
  ultimately have "length ?taken = length nodes \<longleftrightarrow> acyclic (set ?es)"
    using d(1) by (metis card_subset_eq distinct_card finite_set)
  moreover have "edge_pair ` set edges \<subseteq> set ?keys \<times> set ?keys" using es by auto
  ultimately show ?thesis
    using True d nk ce by (simp add: validate_flow_graph_def Let_def graph_ok_def)
qed

text \<open>The execution order of a graph that passed the check, when its keys carry no surrounding space.\<close>

lemma ordered_flow_nodes_correct:
  assumes "validate_flow_graph nodes edges = Inr ()" "\<forall>n \<in> set nodes. trim_space (fn_key n) = fn_key n"
  shows "distinct (ordered_flow_nodes nodes edges) \<and> set (ordered_flow_nodes nodes edges) = set nodes \<and>
    runs_after (map edge_pair edges) {} (map fn_key (ordered_flow_nodes nodes edges))"
proof -
  have keys: "trimmed_keys nodes = map fn_key nodes" using assms(2) by (simp add: trimmed_keys_def)
  have ok: "graph_ok (map fn_key nodes) (edge_pair ` set edges)"
    using assms(1) keys by (simp add: validate_flow_graph_Inr)
  let ?es = "map edge_pair edges" and ?m = "indegrees (map fn_key nodes) (map edge_pair edges)"
  let ?order = "by_key fn_sequence_no"
  let ?queue = "slice_stable ?order (filter (\<lambda>n. degree ?m (fn_key n) = 0) nodes)"
  let ?out = "ordered_flow_nodes nodes edges"
  have d: "distinct (map fn_key nodes)" and ac: "acyclic (set ?es)"
    and pairs: "set ?es \<subseteq> fn_key ` set nodes \<times> fn_key ` set nodes"
    using ok by (simp_all add: graph_ok_def)
  from pairs have sub: "\<forall>(s, t) \<in> set ?es. s \<in> fn_key ` set nodes \<and> t \<in> fn_key ` set nodes" by blast
  have out: "?out = kahn (Some ?order) fn_key (node_by_key nodes) ?es ?m ?queue"
    by (simp add: ordered_flow_nodes_def Let_def)
  have "distinct (map fn_key (filter (\<lambda>n. degree ?m (fn_key n) = 0) nodes))"
    using d by (simp add: distinct_map_filter)
  then have q1: "distinct (map fn_key ?queue)"
    by (metis mset_eq_imp_distinct_iff mset_map mset_slice_stable)
  have q2: "fn_key ` set ?queue = {k \<in> fn_key ` set nodes. degree ?m k = 0}" by auto
  have fin: "finite (fn_key ` set nodes)"
    and dg: "\<forall>k \<in> fn_key ` set nodes. degree ?m k = int (edges_into ?es {} k)"
    by (simp_all add: degree_indegrees)
  have kc: "distinct (map fn_key ?out) \<and> set (map fn_key ?out) \<subseteq> fn_key ` set nodes \<and>
      runs_after ?es {} (map fn_key ?out) \<and> (set (map fn_key ?out) = fn_key ` set nodes \<longleftrightarrow> acyclic (set ?es))"
    unfolding out by (rule graph_nodes.kahn_correct [OF fin sub dg q1 q2])
  then have k: "distinct (map fn_key ?out)" "set (map fn_key ?out) = fn_key ` set nodes"
    "runs_after ?es {} (map fn_key ?out)"
    using ac by blast+
  have "set ?out \<subseteq> set nodes"
  proof
    fix n assume "n \<in> set ?out"
    then have "n \<in> set ?queue \<union> node_by_key nodes ` snd ` set ?es"
      unfolding out by (rule subsetD [OF kahn_elems])
    then show "n \<in> set nodes"
    proof
      assume "n \<in> node_by_key nodes ` snd ` set ?es"
      then obtain s t where "(s, t) \<in> set ?es" "n = node_by_key nodes t" by force
      then show ?thesis using pairs node_by_key_in by blast
    qed simp
  qed
  moreover have "inj_on fn_key (set nodes)" using d by (simp add: distinct_map)
  ultimately have "set ?out = set nodes"
    using k(2) by (metis image_set inj_on_image_eq_iff order_refl)
  then show ?thesis using k by (simp add: distinct_map)
qed

end
