(* ===== verification/FlowRuntime.thy ===== *)
theory FlowRuntime
  imports FlowGraph
begin

text \<open>
  Flows, agents and tools at run time: their tables
  (\<open>internal/store/dataworks_platform_runtime.go\<close>) and the two sandboxed runners
  (\<open>runDataWorksFlow\<close> and \<open>runDataWorksAgent\<close> of
  \<open>internal/proxy/admin_dataworks_platform_runtime.go\<close>).  Costs are exact rationals where the code
  has \<open>float64\<close>; the explanatory texts of traces are left out.
\<close>

section \<open>Tables\<close>

record dw_tool =
  tl_id :: string
  tl_key :: string
  tl_workspace_id :: string
  tl_name :: string
  tl_type :: string
  tl_server_label :: string
  tl_endpoint :: string
  tl_description :: string
  tl_owner :: string
  tl_risk_level :: string
  tl_input_schema :: string
  tl_output_schema :: string
  tl_allowed_parameters :: string
  tl_requires_approval :: bool
  tl_masking_level :: string
  tl_enabled :: bool
  tl_last_test_status :: string
  tl_last_tested_at :: string
  tl_created_by :: string
  tl_created_at :: string
  tl_updated_at :: string

record dw_agent =
  ag_id :: string
  ag_key :: string
  ag_workspace_id :: string
  ag_name :: string
  ag_purpose :: string
  ag_owner :: string
  ag_risk_level :: string
  ag_status :: string
  ag_version :: int
  ag_system_prompt :: string
  ag_allowed_tools :: "string list"
  ag_memory_scope :: string
  ag_max_cost :: rat
  ag_max_steps :: int
  ag_requires_approval :: bool
  ag_created_by :: string
  ag_created_at :: string
  ag_updated_at :: string

text \<open>Flow rows carry no nodes and edges; those have tables of their own.\<close>

record runtime_store =
  rt_flows :: "flow list"
  rt_nodes :: "flow_node list"
  rt_edges :: "flow_edge list"
  rt_agents :: "dw_agent list"
  rt_agent_versions :: "(string \<times> int) list"
  rt_tools :: "dw_tool list"

section \<open>Flows\<close>

text \<open>Inserts fail on a primary key or a uniqueness constraint, and the transaction rolls back.\<close>

fun insert_nodes :: "flow_node list \<Rightarrow> flow_node list \<Rightarrow> flow_node list result" where
  "insert_nodes rows [] = Inr rows"
| "insert_nodes rows (n # ns) =
     (if fn_id n \<in> fn_id ` set rows \<or> (fn_flow_id n, fn_key n) \<in> (\<lambda>r. (fn_flow_id r, fn_key r)) ` set rows
      then Inl ''UNIQUE constraint failed'' else insert_nodes (rows @ [n]) ns)"

definition edge_key :: "flow_edge \<Rightarrow> string \<times> string \<times> string" where
  "edge_key e = (fe_flow_id e, fe_source e, fe_target e)"

fun insert_edges :: "flow_edge list \<Rightarrow> flow_edge list \<Rightarrow> flow_edge list result" where
  "insert_edges rows [] = Inr rows"
| "insert_edges rows (e # es) =
     (if fe_id e \<in> fe_id ` set rows \<or> edge_key e \<in> edge_key ` set rows
      then Inl ''UNIQUE constraint failed'' else insert_edges (rows @ [e]) es)"

text \<open>The columns the code fills in while it inserts: owner, position in the list, a default id.\<close>

definition prepared_node :: "string \<Rightarrow> nat \<Rightarrow> flow_node \<Rightarrow> flow_node" where
  "prepared_node flow_id i n =
     n\<lparr>fn_flow_id := flow_id, fn_sequence_no := int i,
       fn_id := (if fn_id n = [] then flow_id @ '':node:'' @ fn_key n else fn_id n)\<rparr>"

definition prepared_nodes :: "string \<Rightarrow> flow_node list \<Rightarrow> flow_node list" where
  "prepared_nodes flow_id nodes = map (\<lambda>(i, n). prepared_node flow_id i n) (List.enumerate 0 nodes)"

definition stored_node :: "flow_node \<Rightarrow> flow_node" where
  "stored_node n = n\<lparr>fn_type := to_lower (fn_type n)\<rparr>"

definition prepared_edge :: "string \<Rightarrow> flow_edge \<Rightarrow> flow_edge" where
  "prepared_edge flow_id e =
     e\<lparr>fe_flow_id := flow_id,
       fe_id := (if fe_id e = [] then flow_id @ '':edge:'' @ fe_source e @ '':'' @ fe_target e else fe_id e)\<rparr>"

definition flow_defaults :: "flow \<Rightarrow> flow" where
  "flow_defaults f =
     f\<lparr>fl_key := trim_space (fl_key f), fl_name := trim_space (fl_name f),
       fl_type := (if fl_type f = [] then ''hybrid'' else fl_type f),
       fl_status := (if fl_status f = [] then ''draft'' else fl_status f),
       fl_input_schema := (if fl_input_schema f = [] then ''{}'' else fl_input_schema f),
       fl_output_schema := (if fl_output_schema f = [] then ''{}'' else fl_output_schema f)\<rparr>"

definition merge_flow :: "flow \<Rightarrow> flow \<Rightarrow> flow" where
  "merge_flow old new =
     new\<lparr>fl_id := fl_id old, fl_created_by := fl_created_by old, fl_created_at := fl_created_at old\<rparr>"

text \<open>The row of the key decides the id and the version.\<close>

definition versioned_flow :: "runtime_store \<Rightarrow> flow \<Rightarrow> flow" where
  "versioned_flow s f =
     (case find_row fl_key (rt_flows s) (fl_key f) of
        None \<Rightarrow> f\<lparr>fl_version := 1\<rparr>
      | Some old \<Rightarrow> f\<lparr>fl_id := fl_id old, fl_version := fl_version old + 1\<rparr>)"

text \<open>The row of a flow: what the insert binds, without the nodes and edges.\<close>

definition flow_row :: "string \<Rightarrow> flow \<Rightarrow> flow" where
  "flow_row ts f = f\<lparr>fl_created_at := ts, fl_updated_at := ts, fl_nodes := [], fl_edges := []\<rparr>"

text \<open>The transaction: the flow row, then its nodes and edges in place of the old ones.\<close>

definition write_flow :: "string \<Rightarrow> flow \<Rightarrow> runtime_store \<Rightarrow> (flow \<times> runtime_store) result" where
  "write_flow ts f s =
     (let nodes = prepared_nodes (fl_id f) (fl_nodes f);
          edges = map (prepared_edge (fl_id f)) (fl_edges f)
      in if find_row fl_key (rt_flows s) (fl_key f) = None \<and> fl_id f \<in> fl_id ` set (rt_flows s)
         then Inl ''UNIQUE constraint failed''
         else
           case insert_nodes (filter (\<lambda>n. fn_flow_id n \<noteq> fl_id f) (rt_nodes s)) (map stored_node nodes) of
             Inl e \<Rightarrow> Inl e
           | Inr node_rows \<Rightarrow>
               (case insert_edges (filter (\<lambda>e. fe_flow_id e \<noteq> fl_id f) (rt_edges s)) edges of
                  Inl e \<Rightarrow> Inl e
                | Inr edge_rows \<Rightarrow>
                    Inr (f\<lparr>fl_nodes := nodes, fl_edges := edges, fl_created_at := ts, fl_updated_at := ts\<rparr>,
                         s\<lparr>rt_flows := upsert_row fl_key merge_flow (flow_row ts f) (rt_flows s),
                           rt_nodes := node_rows, rt_edges := edge_rows\<rparr>)))"

definition save_flow :: "go_time \<Rightarrow> flow \<Rightarrow> runtime_store \<Rightarrow> (flow \<times> runtime_store) result" where
  "save_flow now f0 s =
     (let f = flow_defaults f0
      in if fl_id f = [] \<or> fl_key f = [] \<or> fl_name f = [] then Inl ''id, flow_key, and name are required''
         else case validate_flow_graph (fl_nodes f) (fl_edges f) of
           Inl e \<Rightarrow> Inl e
         | Inr _ \<Rightarrow> write_flow (format_time now) (versioned_flow s f) s)"

definition list_flow_nodes :: "string \<Rightarrow> runtime_store \<Rightarrow> flow_node list" where
  "list_flow_nodes flow_id s =
     select_rows (\<lambda>n. fn_flow_id n = flow_id) (by_key fn_sequence_no) (rt_nodes s)"

definition list_flow_edges :: "string \<Rightarrow> runtime_store \<Rightarrow> flow_edge list" where
  "list_flow_edges flow_id s =
     select_rows (\<lambda>e. fe_flow_id e = flow_id) (order_then (by_key fe_source) (by_key fe_target)) (rt_edges s)"

definition get_flow :: "string \<Rightarrow> runtime_store \<Rightarrow> flow option" where
  "get_flow id_or_key s =
     (case find (\<lambda>f. fl_id f = id_or_key \<or> fl_key f = id_or_key) (rt_flows s) of
        None \<Rightarrow> None
      | Some f \<Rightarrow> Some (f\<lparr>fl_nodes := list_flow_nodes (fl_id f) s, fl_edges := list_flow_edges (fl_id f) s\<rparr>))"

definition list_flows :: "string \<Rightarrow> string \<Rightarrow> runtime_store \<Rightarrow> flow list" where
  "list_flows workspace_id status s =
     select_rows (\<lambda>f. (workspace_id = [] \<or> fl_workspace_id f = workspace_id) \<and> (status = [] \<or> fl_status f = status))
       (order_then (by_key_desc fl_updated_at) (by_key fl_name)) (rt_flows s)"

text \<open>\<open>next[f.Status]\<close>: the empty string for every status without a successor.\<close>

definition next_status :: "string \<Rightarrow> string" where
  "next_status status =
     (if status = ''draft'' then ''test'' else if status = ''test'' then ''approved''
      else if status = ''approved'' then ''production'' else [])"

definition set_flow_status :: "go_time \<Rightarrow> string \<Rightarrow> string \<Rightarrow> runtime_store \<Rightarrow> runtime_store" where
  "set_flow_status now flow_id status s =
     s\<lparr>rt_flows := map (\<lambda>r. if fl_id r = flow_id
          then r\<lparr>fl_status := status, fl_updated_at := format_time now\<rparr> else r) (rt_flows s)\<rparr>"

definition promote_flow :: "go_time \<Rightarrow> string \<Rightarrow> string \<Rightarrow> runtime_store \<Rightarrow> (flow \<times> runtime_store) result" where
  "promote_flow now key target s =
     (case get_flow key s of
        None \<Rightarrow> Inl ''sql: no rows in result set''
      | Some f \<Rightarrow>
          let target = (if target = [] then next_status (fl_status f) else target)
          in if next_status (fl_status f) \<noteq> target
             then Inl (''invalid flow promotion '' @ fl_status f @ '' -> '' @ target)
             else Inr (f\<lparr>fl_status := target\<rparr>, set_flow_status now (fl_id f) target s))"

section \<open>Agents and tools\<close>

definition merge_agent :: "dw_agent \<Rightarrow> dw_agent \<Rightarrow> dw_agent" where
  "merge_agent old new =
     new\<lparr>ag_id := ag_id old, ag_created_by := ag_created_by old, ag_created_at := ag_created_at old\<rparr>"

definition agent_defaults :: "dw_agent \<Rightarrow> dw_agent" where
  "agent_defaults a =
     a\<lparr>ag_risk_level := (if ag_risk_level a = [] then ''medium'' else ag_risk_level a),
       ag_status := (if ag_status a = [] then ''draft'' else ag_status a),
       ag_memory_scope := (if ag_memory_scope a = [] then ''workspace'' else ag_memory_scope a),
       ag_max_steps := (if ag_max_steps a \<le> 0 then 8 else ag_max_steps a)\<rparr>"

definition versioned_agent :: "runtime_store \<Rightarrow> dw_agent \<Rightarrow> dw_agent" where
  "versioned_agent s a =
     (case find_row ag_key (rt_agents s) (ag_key a) of
        None \<Rightarrow> a\<lparr>ag_version := 1\<rparr>
      | Some old \<Rightarrow> a\<lparr>ag_id := ag_id old, ag_version := ag_version old + 1\<rparr>)"

text \<open>The transaction: the agent row, then a snapshot of its version.\<close>

definition write_agent :: "string \<Rightarrow> dw_agent \<Rightarrow> runtime_store \<Rightarrow> (dw_agent \<times> runtime_store) result" where
  "write_agent ts a s =
     (if (find_row ag_key (rt_agents s) (ag_key a) = None \<and> ag_id a \<in> ag_id ` set (rt_agents s))
         \<or> (ag_id a, ag_version a) \<in> set (rt_agent_versions s)
      then Inl ''UNIQUE constraint failed''
      else Inr (a\<lparr>ag_created_at := ts, ag_updated_at := ts\<rparr>,
                s\<lparr>rt_agents := upsert_row ag_key merge_agent (a\<lparr>ag_created_at := ts, ag_updated_at := ts\<rparr>) (rt_agents s),
                  rt_agent_versions := rt_agent_versions s @ [(ag_id a, ag_version a)]\<rparr>))"

definition save_agent :: "go_time \<Rightarrow> dw_agent \<Rightarrow> runtime_store \<Rightarrow> (dw_agent \<times> runtime_store) result" where
  "save_agent now a0 s =
     (let a = a0\<lparr>ag_key := trim_space (ag_key a0), ag_name := trim_space (ag_name a0)\<rparr>
      in if ag_id a = [] \<or> ag_key a = [] \<or> ag_name a = [] then Inl ''id, agent_key, and name are required''
         else write_agent (format_time now) (versioned_agent s (agent_defaults a)) s)"

definition get_agent :: "string \<Rightarrow> runtime_store \<Rightarrow> dw_agent option" where
  "get_agent id_or_key s = find (\<lambda>a. ag_id a = id_or_key \<or> ag_key a = id_or_key) (rt_agents s)"

definition list_agents :: "string \<Rightarrow> string \<Rightarrow> runtime_store \<Rightarrow> dw_agent list" where
  "list_agents workspace_id status s =
     select_rows (\<lambda>a. (workspace_id = [] \<or> ag_workspace_id a = workspace_id) \<and> (status = [] \<or> ag_status a = status))
       (order_then (by_key_desc ag_updated_at) (by_key ag_name)) (rt_agents s)"

definition merge_tool :: "dw_tool \<Rightarrow> dw_tool \<Rightarrow> dw_tool" where
  "merge_tool old new =
     new\<lparr>tl_id := tl_id old, tl_last_test_status := tl_last_test_status old,
         tl_last_tested_at := tl_last_tested_at old, tl_created_by := tl_created_by old,
         tl_created_at := tl_created_at old\<rparr>"

definition tool_row :: "string \<Rightarrow> dw_tool \<Rightarrow> dw_tool" where
  "tool_row ts t =
     t\<lparr>tl_type := (if tl_type t = [] then ''internal_api'' else tl_type t),
       tl_risk_level := (if tl_risk_level t = [] then ''medium'' else tl_risk_level t),
       tl_masking_level := (if tl_masking_level t = [] then ''none'' else tl_masking_level t),
       tl_input_schema := (if tl_input_schema t = [] then ''{}'' else tl_input_schema t),
       tl_output_schema := (if tl_output_schema t = [] then ''{}'' else tl_output_schema t),
       tl_created_at := ts, tl_updated_at := ts\<rparr>"

definition upsert_tool :: "go_time \<Rightarrow> dw_tool \<Rightarrow> runtime_store \<Rightarrow> runtime_store result" where
  "upsert_tool now t0 s =
     (let t = t0\<lparr>tl_id := trim_space (tl_id t0), tl_key := trim_space (tl_key t0), tl_name := trim_space (tl_name t0)\<rparr>
      in if tl_id t = [] \<or> tl_key t = [] \<or> tl_name t = [] then Inl ''id, tool_key, and name are required''
         else if find_row tl_key (rt_tools s) (tl_key t) = None \<and> tl_id t \<in> tl_id ` set (rt_tools s)
         then Inl ''UNIQUE constraint failed''
         else Inr (s\<lparr>rt_tools := upsert_row tl_key merge_tool (tool_row (format_time now) t) (rt_tools s)\<rparr>))"

definition get_tool :: "string \<Rightarrow> runtime_store \<Rightarrow> dw_tool option" where
  "get_tool id_or_key s = find (\<lambda>t. tl_id t = id_or_key \<or> tl_key t = id_or_key) (rt_tools s)"

definition list_tools :: "string \<Rightarrow> string \<Rightarrow> bool \<Rightarrow> runtime_store \<Rightarrow> dw_tool list" where
  "list_tools workspace_id tool_type enabled_only s =
     select_rows (\<lambda>t. (workspace_id = [] \<or> tl_workspace_id t = workspace_id) \<and>
         (tool_type = [] \<or> tl_type t = tool_type) \<and> (\<not> enabled_only \<or> tl_enabled t))
       (order_then (by_key_desc tl_risk_level) (by_key tl_name)) (rt_tools s)"

definition update_tool_test :: "go_time \<Rightarrow> string \<Rightarrow> string \<Rightarrow> runtime_store \<Rightarrow> runtime_store" where
  "update_tool_test now key status s =
     s\<lparr>rt_tools := map (\<lambda>t. if tl_id t = key
         then t\<lparr>tl_last_test_status := status, tl_last_tested_at := format_time now, tl_updated_at := format_time now\<rparr>
         else t) (rt_tools s)\<rparr>"

section \<open>Running a flow\<close>

record flow_step =
  fs_step_no :: int
  fs_node_key :: string
  fs_node_type :: string
  fs_name :: string
  fs_status :: string
  fs_tool_id :: string
  fs_cost :: rat

definition node_cost :: "string \<Rightarrow> rat" where
  "node_cost node_type =
     (case map_of [(''sql'', 4/100), (''python'', 6/100), (''api'', 3/100), (''rag'', 8/100), (''llm'', 15/100),
                   (''agent'', 12/100), (''tool'', 5/100), (''product_factory'', 8/100)] node_type of
        None \<Rightarrow> 0 | Some c \<Rightarrow> c)"

definition tool_needs_approval :: "dw_tool \<Rightarrow> bool" where
  "tool_needs_approval tool \<longleftrightarrow>
     tl_requires_approval tool \<or> tl_risk_level tool = ''high'' \<or> tl_risk_level tool = ''critical''"

definition node_tool_id :: "flow_node \<Rightarrow> string" where
  "node_tool_id node =
     (if fn_tool_id node = [] \<and> has_prefix (fn_ref_urn node) ''urn:dw:tool:''
      then drop (length ''urn:dw:tool:'') (fn_ref_urn node) else fn_tool_id node)"

text \<open>The body of the loop: the step a node makes and the status it leaves, with the tool recorded.\<close>

definition node_outcome :: "(string \<Rightarrow> dw_tool option) \<Rightarrow> flow_node \<Rightarrow> string \<times> string" where
  "node_outcome tool_of node =
     (if fn_type node = ''approval'' then (''pending_approval'', [])
      else if fn_type node = ''tool''
      then (case tool_of (node_tool_id node) of
              None \<Rightarrow> (''blocked'', [])
            | Some tool \<Rightarrow>
                if \<not> tl_enabled tool then (''blocked'', [])
                else if tool_needs_approval tool then (''pending_approval'', tl_id tool)
                else (''succeeded'', tl_id tool))
      else (''succeeded'', []))"

definition flow_step_of :: "(string \<Rightarrow> dw_tool option) \<Rightarrow> nat \<Rightarrow> flow_node \<Rightarrow> flow_step" where
  "flow_step_of tool_of i node =
     \<lparr>fs_step_no = int i + 1, fs_node_key = fn_key node, fs_node_type = fn_type node,
      fs_name = first_non_empty_raw [fn_name node, fn_key node],
      fs_status = fst (node_outcome tool_of node), fs_tool_id = snd (node_outcome tool_of node),
      fs_cost = node_cost (fn_type node)\<rparr>"

fun run_nodes :: "(string \<Rightarrow> dw_tool option) \<Rightarrow> nat \<Rightarrow> flow_node list \<Rightarrow> flow_step list" where
  "run_nodes tool_of i [] = []"
| "run_nodes tool_of i (node # nodes) =
     (let step = flow_step_of tool_of i node
      in if fs_status step \<noteq> ''succeeded'' then [step] else step # run_nodes tool_of (i + 1) nodes)"

record flow_run =
  fr_flow_id :: string
  fr_flow_version :: int
  fr_status :: string
  fr_steps :: "flow_step list"
  fr_total_cost :: rat

definition run_status :: "flow_step list \<Rightarrow> string" where
  "run_status steps = (if steps = [] then ''succeeded'' else fs_status (last steps))"

definition run_flow :: "(string \<Rightarrow> dw_tool option) \<Rightarrow> flow \<Rightarrow> flow_run" where
  "run_flow tool_of f =
     (let steps = run_nodes tool_of 0 (ordered_flow_nodes (fl_nodes f) (fl_edges f))
      in \<lparr>fr_flow_id = fl_id f, fr_flow_version = fl_version f, fr_status = run_status steps,
          fr_steps = steps, fr_total_cost = sum_list (map fs_cost steps)\<rparr>)"

section \<open>Running an agent\<close>

record agent_trace =
  at_step_no :: int
  at_type :: string
  at_name :: string
  at_status :: string
  at_tool_id :: string
  at_policy_decision :: string
  at_cost :: rat

record agent_run =
  ar_status :: string
  ar_approval_status :: string
  ar_policy_blocked :: bool
  ar_total_cost :: rat
  ar_traces :: "agent_trace list"

definition allowed_tool_names :: "(string \<Rightarrow> dw_tool option) \<Rightarrow> dw_agent \<Rightarrow> string list" where
  "allowed_tool_names tool_of agent =
     concat (map (\<lambda>t. case tool_of t of None \<Rightarrow> [t] | Some tool \<Rightarrow> [t, tl_id tool, tl_key tool]) (ag_allowed_tools agent))"

definition tool_trace :: "nat \<Rightarrow> string \<Rightarrow> string \<Rightarrow> string \<Rightarrow> string \<Rightarrow> rat \<Rightarrow> agent_trace" where
  "tool_trace i name tool_id status decision cost =
     \<lparr>at_step_no = int i + 2, at_type = ''tool'', at_name = name, at_status = status, at_tool_id = tool_id,
      at_policy_decision = decision, at_cost = cost\<rparr>"

text \<open>The loop over the requested tools; the first stop ends it.\<close>

fun run_tools ::
  "(string \<Rightarrow> dw_tool option) \<Rightarrow> dw_agent \<Rightarrow> nat \<Rightarrow> nat \<Rightarrow> rat \<Rightarrow> agent_trace list \<Rightarrow> string list \<Rightarrow> agent_run" where
  "run_tools tool_of agent nparams i spent traces [] =
     \<lparr>ar_status = ''succeeded'', ar_approval_status = ''not_required'', ar_policy_blocked = False,
      ar_total_cost = spent, ar_traces = traces\<rparr>"
| "run_tools tool_of agent nparams i spent traces (requested # rest) =
     (let stop = (\<lambda>status approval blocked spent trace.
            \<lparr>ar_status = status, ar_approval_status = approval, ar_policy_blocked = blocked,
             ar_total_cost = spent, ar_traces = traces @ [trace]\<rparr>)
      in case (if requested \<in> set (allowed_tool_names tool_of agent) then tool_of requested else None) of
           None \<Rightarrow> stop ''blocked'' ''not_required'' True spent (tool_trace i requested requested ''blocked'' ''deny'' 0)
         | Some tool \<Rightarrow>
             if \<not> tl_enabled tool
             then stop ''blocked'' ''not_required'' True spent
                    (tool_trace i (tl_name tool) (tl_id tool) ''blocked'' ''deny'' 0)
             else if tool_needs_approval tool \<or> ag_requires_approval agent
             then stop ''pending_approval'' ''pending'' False spent
                    (tool_trace i (tl_name tool) (tl_id tool) ''pending_approval'' ''approval_required'' 0)
             else
               let cost = 5/100 + of_nat nparams * (1/100); spent = spent + cost
               in if 0 < ag_max_cost agent \<and> ag_max_cost agent < spent
                  then stop ''blocked'' ''not_required'' True spent
                         (tool_trace i (tl_name tool) (tl_id tool) ''blocked'' ''cost_limit'' cost)
                  else run_tools tool_of agent nparams (i + 1) spent
                         (traces @ [tool_trace i (tl_name tool) (tl_id tool) ''succeeded'' ''allow'' cost]) rest)"

definition plan_trace :: agent_trace where
  "plan_trace = \<lparr>at_step_no = 1, at_type = ''plan'', at_name = [], at_status = ''succeeded'', at_tool_id = [],
     at_policy_decision = ''allow'', at_cost = 0\<rparr>"

definition run_agent :: "(string \<Rightarrow> dw_tool option) \<Rightarrow> dw_agent \<Rightarrow> string list \<Rightarrow> nat \<Rightarrow> agent_run result" where
  "run_agent tool_of agent tool_ids nparams =
     (if ag_status agent = ''disabled'' \<or> ag_status agent = ''archived'' then Inl ''agent is not runnable''
      else
        let ids = (if tool_ids = [] then ag_allowed_tools agent else tool_ids);
            r = run_tools tool_of agent nparams 0 0 [plan_trace] ids
        in if ar_status r = ''succeeded''
           then Inr (r\<lparr>ar_traces := ar_traces r @
                  [\<lparr>at_step_no = int (length (ar_traces r)) + 1, at_type = ''response'', at_name = [],
                    at_status = ''succeeded'', at_tool_id = [], at_policy_decision = ''allow'', at_cost = 0\<rparr>]\<rparr>)
           else Inr r)"

section \<open>Lemmas on tables\<close>

lemma insert_nodes_Inr:
  "insert_nodes rows ns = Inr rows' \<Longrightarrow> rows' = rows @ ns"
  by (induction rows ns rule: insert_nodes.induct) (auto split: if_splits)

lemma insert_edges_Inr: "insert_edges rows es = Inr rows' \<Longrightarrow> rows' = rows @ es"
  by (induction rows es rule: insert_edges.induct) (auto split: if_splits)

text \<open>A list whose keys increase is what a stable sort by the key makes of it.\<close>

lemma fold_sink_sorted:
  "sorted_wrt (\<lambda>a b. \<not> lt b a) (rev acc @ xs) \<Longrightarrow> rev (fold (sink_left lt) xs acc) = rev acc @ xs"
proof (induction xs arbitrary: acc)
  case Nil
  then show ?case by simp
next
  case (Cons x xs)
  have "sink_left lt x acc = x # acc"
    using Cons.prems by (cases acc) (auto simp: sorted_wrt_append)
  then show ?case using Cons.IH [of "x # acc"] Cons.prems by simp
qed

lemma slice_stable_id: "sorted_wrt (\<lambda>a b. \<not> lt b a) xs \<Longrightarrow> slice_stable lt xs = xs"
  using fold_sink_sorted [of lt "[]" xs] by (simp add: slice_stable_def)

lemma prepared_nodes_nth:
  "i < length ns \<Longrightarrow> prepared_nodes fid ns ! i = prepared_node fid i (ns ! i)"
  "length (prepared_nodes fid ns) = length ns"
  by (simp_all add: prepared_nodes_def nth_enumerate_eq)

lemma prepared_nodes_simps:
  "map fn_key (prepared_nodes fid ns) = map fn_key ns"
  "map fn_type (prepared_nodes fid ns) = map fn_type ns"
  by (rule nth_equalityI; simp add: prepared_nodes_nth; simp add: prepared_node_def)+

lemma prepared_nodes_flow: "n \<in> set (prepared_nodes fid ns) \<Longrightarrow> fn_flow_id n = fid"
  by (auto simp: in_set_conv_nth prepared_nodes_nth) (simp add: prepared_node_def)

lemma prepared_nodes_sorted: "sorted_wrt (\<lambda>a b. \<not> by_key fn_sequence_no b a) (prepared_nodes fid ns)"
  by (auto simp: sorted_wrt_iff_nth_less prepared_nodes_nth by_key_def) (simp add: prepared_node_def)

interpretation flows: row_store fl_key "find_row fl_key" "upsert_row fl_key merge_flow" merge_flow
  by (rule row_store_upsert) (simp add: merge_flow_def)

interpretation tools: replacing_store tl_key "find_row tl_key" "upsert_row tl_key merge_tool" merge_tool
  unfolding replacing_store_def replacing_store_axioms_def
  by (auto simp: merge_tool_def intro!: row_store_upsert)

interpretation agents: replacing_store ag_key "find_row ag_key" "upsert_row ag_key merge_agent" merge_agent
  unfolding replacing_store_def replacing_store_axioms_def
  by (auto simp: merge_agent_def intro!: row_store_upsert)

text \<open>All that an accepted save does.\<close>

lemma write_flow_Inr:
  assumes "write_flow ts f s = Inr (f', s')"
  shows "f' = f\<lparr>fl_nodes := prepared_nodes (fl_id f) (fl_nodes f),
                fl_edges := map (prepared_edge (fl_id f)) (fl_edges f), fl_created_at := ts, fl_updated_at := ts\<rparr>"
    and "s' = s\<lparr>rt_flows := upsert_row fl_key merge_flow (flow_row ts f) (rt_flows s),
               rt_nodes := filter (\<lambda>n. fn_flow_id n \<noteq> fl_id f) (rt_nodes s)
                             @ map stored_node (prepared_nodes (fl_id f) (fl_nodes f)),
               rt_edges := filter (\<lambda>e. fe_flow_id e \<noteq> fl_id f) (rt_edges s)
                             @ map (prepared_edge (fl_id f)) (fl_edges f)\<rparr>"
  using assms
  by (auto simp: write_flow_def flow_row_def Let_def split: if_splits sum.splits
      dest!: insert_nodes_Inr insert_edges_Inr)

lemma flow_defaults_simps [simp]:
  "fl_id (flow_defaults f) = fl_id f" "fl_key (flow_defaults f) = trim_space (fl_key f)"
  "fl_name (flow_defaults f) = trim_space (fl_name f)"
  "fl_nodes (flow_defaults f) = fl_nodes f" "fl_edges (flow_defaults f) = fl_edges f"
  by (simp_all add: flow_defaults_def)

lemma versioned_flow_simps [simp]:
  "fl_key (versioned_flow s f) = fl_key f" "fl_nodes (versioned_flow s f) = fl_nodes f"
  "fl_edges (versioned_flow s f) = fl_edges f"
  by (simp_all add: versioned_flow_def split: option.splits)

lemma save_flow_Inr:
  assumes "save_flow now f s = Inr (f', s')"
  shows "trim_space (fl_key f) \<noteq> [] \<and> validate_flow_graph (fl_nodes f) (fl_edges f) = Inr ()
    \<and> write_flow (format_time now) (versioned_flow s (flow_defaults f)) s = Inr (f', s')"
  using assms by (auto simp: save_flow_def Let_def split: if_splits sum.splits)

lemma list_saved_nodes:
  assumes "rt_nodes s' = filter (\<lambda>n. fn_flow_id n \<noteq> fid) (rt_nodes s) @ map stored_node (prepared_nodes fid ns)"
  shows "list_flow_nodes fid s' = map stored_node (prepared_nodes fid ns)"
    and "k \<noteq> fid \<Longrightarrow> list_flow_nodes k s' = list_flow_nodes k s"
proof -
  have own: "fn_flow_id n = fid" if "n \<in> set (map stored_node (prepared_nodes fid ns))" for n
    using that prepared_nodes_flow by (auto simp: stored_node_def)
  then have "filter (\<lambda>n. fn_flow_id n = fid) (rt_nodes s') = map stored_node (prepared_nodes fid ns)"
    by (simp add: assms filter_id_conv del: set_map)
  moreover have "sorted_wrt (\<lambda>a b. \<not> by_key fn_sequence_no b a) (map stored_node (prepared_nodes fid ns))"
    using prepared_nodes_sorted [of fid ns] by (simp add: sorted_wrt_map by_key_def stored_node_def)
  ultimately show "list_flow_nodes fid s' = map stored_node (prepared_nodes fid ns)"
    by (simp add: list_flow_nodes_def select_rows_def slice_stable_id)
  assume k: "k \<noteq> fid"
  have "filter (\<lambda>n. fn_flow_id n = k) (map stored_node (prepared_nodes fid ns)) = []"
    using own k by (auto simp: filter_empty_conv simp del: set_map)
  moreover have "filter (\<lambda>n. fn_flow_id n = k) (filter (\<lambda>n. fn_flow_id n \<noteq> fid) xs) = filter (\<lambda>n. fn_flow_id n = k) xs" for xs
    using k by (induction xs) auto
  ultimately have "filter (\<lambda>n. fn_flow_id n = k) (rt_nodes s') = filter (\<lambda>n. fn_flow_id n = k) (rt_nodes s)"
    by (simp add: assms del: filter_filter)
  then show "list_flow_nodes k s' = list_flow_nodes k s" by (simp add: list_flow_nodes_def select_rows_def)
qed

end
