(* ===== verification/FlowProperties.thy ===== *)
theory FlowProperties
  imports FlowRuntime
begin

text \<open>
  What the flow, agent and tool runtime guarantees: the graph check is exact, stored flows stay
  executable, promotion follows its chain, and the two runners stop where governance says.
\<close>

section \<open>The graph check\<close>

text \<open>
  C34.  A flow is accepted exactly when it has nodes, every node has a known type and a key of its own
  (compared after trimming), every edge joins two of those keys, and no node reaches itself along the
  edges; the order in which the code's map happens to be traversed does not matter.
\<close>

theorem flow_check_exact:
  "validate_flow_graph nodes edges = Inr () \<longleftrightarrow>
    nodes \<noteq> [] \<and> types_ok nodes \<and> distinct (trimmed_keys nodes) \<and> [] \<notin> set (trimmed_keys nodes) \<and>
    edge_pair ` set edges \<subseteq> set (trimmed_keys nodes) \<times> set (trimmed_keys nodes) \<and>
    (\<nexists>k. (k, k) \<in> (edge_pair ` set edges)\<^sup>+)"
  by (simp add: validate_flow_graph_Inr graph_ok_def acyclic_def)

section \<open>Stored flows\<close>

inductive runtime_step :: "runtime_store \<Rightarrow> runtime_store \<Rightarrow> bool" where
  flow: "save_flow now f s = Inr (f', s') \<Longrightarrow> runtime_step s s'"
| promote: "promote_flow now key target s = Inr (f', s') \<Longrightarrow> runtime_step s s'"
| agent: "save_agent now a s = Inr (a', s') \<Longrightarrow> runtime_step s s'"
| tool: "upsert_tool now t s = Inr s' \<Longrightarrow> runtime_step s s'"
| tool_test: "runtime_step s (update_tool_test now key status s)"

inductive_cases runtime_stepE: "runtime_step s s'"

text \<open>The graph that reading a stored flow gives passes the check that saving made.\<close>

definition flow_stored_ok :: "runtime_store \<Rightarrow> flow \<Rightarrow> bool" where
  "flow_stored_ok s f \<longleftrightarrow>
     validate_flow_graph (list_flow_nodes (fl_id f) s) (list_flow_edges (fl_id f) s) = Inr () \<and> 1 \<le> fl_version f"

definition flows_ok :: "runtime_store \<Rightarrow> bool" where
  "flows_ok s \<longleftrightarrow> (\<forall>f \<in> set (rt_flows s). flow_stored_ok s f)"

definition no_runtime :: runtime_store where
  "no_runtime = \<lparr>rt_flows = [], rt_nodes = [], rt_edges = [], rt_agents = [], rt_agent_versions = [], rt_tools = []\<rparr>"

lemma types_ok_map: "types_ok (map stored_node ns) = types_ok ns"
  by (simp add: types_ok_def stored_node_def trim_space_to_lower)

lemma types_ok_prepared: "types_ok (prepared_nodes fid ns) = types_ok ns"
proof -
  have "types_ok xs = (\<forall>t \<in> set (map fn_type xs). to_lower (trim_space t) \<in> set allowed_node_types)" for xs
    by (simp add: types_ok_def)
  then show ?thesis by (simp only: prepared_nodes_simps)
qed

lemma trimmed_keys_prepared: "trimmed_keys (map stored_node (prepared_nodes fid ns)) = trimmed_keys ns"
proof -
  have "trimmed_keys xs = map trim_space (map fn_key xs)" for xs by (simp add: trimmed_keys_def)
  moreover have "map fn_key (map stored_node xs) = map fn_key xs" for xs by (simp add: stored_node_def)
  ultimately show ?thesis by (simp only: prepared_nodes_simps)
qed

lemma edge_pair_prepared [simp]: "edge_pair (prepared_edge fid e) = edge_pair e"
  by (simp add: edge_pair_def prepared_edge_def)

lemma validate_stored:
  assumes "set es' = prepared_edge fid ` set es"
  shows "validate_flow_graph (map stored_node (prepared_nodes fid ns)) es' = Inr () \<longleftrightarrow>
    validate_flow_graph ns es = Inr ()"
proof -
  have "map stored_node (prepared_nodes fid ns) = [] \<longleftrightarrow> ns = []"
    using prepared_nodes_nth(2) [of fid ns] by (metis length_0_conv length_map)
  moreover have "edge_pair ` set es' = edge_pair ` set es" by (simp add: assms image_image)
  ultimately show ?thesis
    by (simp only: validate_flow_graph_Inr types_ok_map types_ok_prepared trimmed_keys_prepared)
qed

lemma list_saved_edges:
  assumes "rt_edges s' = filter (\<lambda>e. fe_flow_id e \<noteq> fid) (rt_edges s) @ map (prepared_edge fid) es"
  shows "set (list_flow_edges fid s') = prepared_edge fid ` set es"
    and "k \<noteq> fid \<Longrightarrow> list_flow_edges k s' = list_flow_edges k s"
proof -
  have own: "fe_flow_id (prepared_edge fid e) = fid" for e by (simp add: prepared_edge_def)
  then show "set (list_flow_edges fid s') = prepared_edge fid ` set es"
    by (auto simp: list_flow_edges_def assms)
  assume "k \<noteq> fid"
  then have "filter (\<lambda>e. fe_flow_id e = k) (rt_edges s') = filter (\<lambda>e. fe_flow_id e = k) (rt_edges s)"
    using own by (auto simp: assms filter_empty_conv intro!: filter_cong)
  then show "list_flow_edges k s' = list_flow_edges k s" by (simp add: list_flow_edges_def select_rows_def)
qed

text \<open>The parts of an accepted save that reading shows.\<close>

lemma save_flow_effect:
  assumes "save_flow now f s = Inr (f', s')"
  defines "fid \<equiv> fl_id f'"
  shows "fl_key f' = trim_space (fl_key f)"
    and "fl_version f' = (case find_row fl_key (rt_flows s) (fl_key f') of None \<Rightarrow> 1 | Some old \<Rightarrow> fl_version old + 1)"
    and "fid = (case find_row fl_key (rt_flows s) (fl_key f') of None \<Rightarrow> fl_id f | Some old \<Rightarrow> fl_id old)"
    and "rt_flows s' = upsert_row fl_key merge_flow (flow_row (format_time now) f') (rt_flows s)"
    and "list_flow_nodes fid s' = map stored_node (prepared_nodes fid (fl_nodes f))"
    and "set (list_flow_edges fid s') = prepared_edge fid ` set (fl_edges f)"
    and "k \<noteq> fid \<Longrightarrow> list_flow_nodes k s' = list_flow_nodes k s \<and> list_flow_edges k s' = list_flow_edges k s"
proof -
  let ?v = "versioned_flow s (flow_defaults f)"
  note w = save_flow_Inr [OF assms(1), THEN conjunct2, THEN conjunct2]
  note f' = write_flow_Inr(1) [OF w] and s' = write_flow_Inr(2) [OF w]
  have fid: "fid = fl_id ?v" by (simp add: fid_def f')
  show "fl_key f' = trim_space (fl_key f)" by (simp add: f')
  then show "fl_version f' = (case find_row fl_key (rt_flows s) (fl_key f') of None \<Rightarrow> 1 | Some old \<Rightarrow> fl_version old + 1)"
    "fid = (case find_row fl_key (rt_flows s) (fl_key f') of None \<Rightarrow> fl_id f | Some old \<Rightarrow> fl_id old)"
    by (auto simp: f' fid versioned_flow_def split: option.splits)
  have "flow_row ts f' = flow_row ts ?v" for ts by (simp add: f' flow_row_def)
  then show "rt_flows s' = upsert_row fl_key merge_flow (flow_row (format_time now) f') (rt_flows s)"
    by (simp add: s')
  have nodes: "rt_nodes s' = filter (\<lambda>n. fn_flow_id n \<noteq> fid) (rt_nodes s)
      @ map stored_node (prepared_nodes fid (fl_nodes f))"
    and edges: "rt_edges s' = filter (\<lambda>e. fe_flow_id e \<noteq> fid) (rt_edges s) @ map (prepared_edge fid) (fl_edges f)"
    by (simp_all add: s' fid)
  show "list_flow_nodes fid s' = map stored_node (prepared_nodes fid (fl_nodes f))"
    by (rule list_saved_nodes(1) [OF nodes])
  show "set (list_flow_edges fid s') = prepared_edge fid ` set (fl_edges f)"
    by (rule list_saved_edges(1) [OF edges])
  assume "k \<noteq> fid"
  then show "list_flow_nodes k s' = list_flow_nodes k s \<and> list_flow_edges k s' = list_flow_edges k s"
    using list_saved_nodes(2) [OF nodes] list_saved_edges(2) [OF edges] by blast
qed

text \<open>The rows after an upsert: the old ones, and the new one merged into the first of its key.\<close>

lemma upsert_row_cases:
  "r \<in> set (upsert_row key merge new rs) \<Longrightarrow>
    r \<in> set rs \<or> r = (case find_row key rs (key new) of None \<Rightarrow> new | Some old \<Rightarrow> merge old new)"
  by (induction rs) (auto split: if_splits)

lemma save_flow_rows:
  assumes "save_flow now f s = Inr (f', s')" "r \<in> set (rt_flows s')"
  shows "r \<in> set (rt_flows s) \<or> fl_id r = fl_id f' \<and> fl_version r = fl_version f'"
proof -
  note e = save_flow_effect [OF assms(1)]
  have "r \<in> set (rt_flows s) \<or> r = (case find_row fl_key (rt_flows s) (fl_key f') of
      None \<Rightarrow> flow_row (format_time now) f' | Some old \<Rightarrow> merge_flow old (flow_row (format_time now) f'))"
    using upsert_row_cases [of r fl_key merge_flow "flow_row (format_time now) f'" "rt_flows s"] assms(2)
    by (simp add: e(4) flow_row_def)
  then show ?thesis using e(3) by (auto simp: flow_row_def merge_flow_def split: option.splits)
qed

lemma save_flow_keeps_ok:
  assumes "save_flow now f s = Inr (f', s')" "flows_ok s"
  shows "flows_ok s'"
  unfolding flows_ok_def
proof
  fix r assume r: "r \<in> set (rt_flows s')"
  note e = save_flow_effect [OF assms(1)]
  have checked: "validate_flow_graph (fl_nodes f) (fl_edges f) = Inr ()" using save_flow_Inr [OF assms(1)] by blast
  have own: "validate_flow_graph (list_flow_nodes (fl_id f') s') (list_flow_edges (fl_id f') s') = Inr ()"
    using validate_stored [OF e(6)] checked by (simp add: e(5))
  have v: "1 \<le> fl_version f'"
    using assms(2) find_row_key [of fl_key "rt_flows s"]
    by (force simp: e(2) flows_ok_def flow_stored_ok_def split: option.splits)
  show "flow_stored_ok s' r"
    using own v e(7) [of "fl_id r"] assms(2) save_flow_rows [OF assms(1) r]
    by (cases "fl_id r = fl_id f'") (auto simp: flow_stored_ok_def flows_ok_def)
qed

lemma promote_flow_Inr:
  "promote_flow now key target s = Inr (f', s') \<longleftrightarrow>
    (\<exists>f. get_flow key s = Some f \<and> (target = [] \<or> target = next_status (fl_status f)) \<and>
       f' = f\<lparr>fl_status := next_status (fl_status f)\<rparr> \<and>
       s' = set_flow_status now (fl_id f) (next_status (fl_status f)) s)"
  unfolding promote_flow_def Let_def by (cases "get_flow key s") auto

lemma other_tables_keep_ok:
  assumes "rt_flows s' = map g (rt_flows s)" "\<And>f. fl_id (g f) = fl_id f \<and> fl_version (g f) = fl_version f"
    and "rt_nodes s' = rt_nodes s" "rt_edges s' = rt_edges s" "flows_ok s"
  shows "flows_ok s'"
  using assms by (simp add: flows_ok_def flow_stored_ok_def list_flow_nodes_def list_flow_edges_def)

lemma set_flow_status_keeps_ok: "flows_ok s \<Longrightarrow> flows_ok (set_flow_status now fid status s)"
  by (auto simp: flows_ok_def flow_stored_ok_def list_flow_nodes_def list_flow_edges_def set_flow_status_def)

lemma save_agent_tables:
  "save_agent now a s = Inr (a', s') \<Longrightarrow> rt_flows s' = rt_flows s \<and> rt_nodes s' = rt_nodes s \<and> rt_edges s' = rt_edges s"
  by (auto simp: save_agent_def write_agent_def Let_def split: if_splits)

lemma upsert_tool_tables:
  "upsert_tool now a s = Inr s' \<Longrightarrow> rt_flows s' = rt_flows s \<and> rt_nodes s' = rt_nodes s \<and> rt_edges s' = rt_edges s"
  by (auto simp: upsert_tool_def Let_def split: if_splits)

lemma runtime_step_keeps_ok:
  assumes "runtime_step s s'" "flows_ok s"
  shows "flows_ok s'"
  using assms
proof cases
  case (promote now key target f')
  then show ?thesis
    using assms(2) by (auto simp: promote_flow_Inr set_flow_status_keeps_ok)
next
  case (agent now a a')
  from save_agent_tables [OF this] show ?thesis
    using other_tables_keep_ok [where g = "\<lambda>f. f", OF _ _ _ _ assms(2), of s'] by simp
next
  case (tool now t)
  from upsert_tool_tables [OF this] show ?thesis
    using other_tables_keep_ok [where g = "\<lambda>f. f", OF _ _ _ _ assms(2), of s'] by simp
next
  case (tool_test now key status)
  then show ?thesis
    using other_tables_keep_ok [where g = "\<lambda>f. f", OF _ _ _ _ assms(2), of s'] by (simp add: update_tool_test_def)
qed (use assms(2) save_flow_keeps_ok in blast)

lemma reachable_flows_ok: "runtime_step\<^sup>*\<^sup>* no_runtime s \<Longrightarrow> flows_ok s"
  by (induction rule: rtranclp_induct) (auto simp: flows_ok_def no_runtime_def dest: runtime_step_keeps_ok [unfolded flows_ok_def])

text \<open>
  An accepted save numbers the flow one above the stored version of its key (1 for a new key) and
  keeps the id the key already had; afterwards the flow and its nodes and edges read back as they were
  saved, and no other flow and no graph of another flow changes.  The status of the request is stored as
  it came, \<open>production\<close> included.
\<close>

lemma saved_flow_reads_back:
  assumes "save_flow now f s = Inr (f', s')"
  shows "fl_key f' = trim_space (fl_key f) \<and>
    fl_version f' = (case find_row fl_key (rt_flows s) (fl_key f') of None \<Rightarrow> 1 | Some old \<Rightarrow> fl_version old + 1) \<and>
    fl_id f' = (case find_row fl_key (rt_flows s) (fl_key f') of None \<Rightarrow> fl_id f | Some old \<Rightarrow> fl_id old) \<and>
    fl_status f' = (if fl_status f = [] then ''draft'' else fl_status f) \<and>
    (\<exists>row. find_row fl_key (rt_flows s') (fl_key f') = Some row \<and> fl_id row = fl_id f' \<and>
       fl_version row = fl_version f' \<and> fl_status row = fl_status f') \<and>
    list_flow_nodes (fl_id f') s' = map stored_node (fl_nodes f') \<and>
    map fn_key (fl_nodes f') = map fn_key (fl_nodes f) \<and>
    set (list_flow_edges (fl_id f') s') = set (fl_edges f') \<and>
    map edge_pair (fl_edges f') = map edge_pair (fl_edges f) \<and>
    (\<forall>k. k \<noteq> fl_key f' \<longrightarrow> find_row fl_key (rt_flows s') k = find_row fl_key (rt_flows s) k) \<and>
    (\<forall>k. k \<noteq> fl_id f' \<longrightarrow> list_flow_nodes k s' = list_flow_nodes k s \<and> list_flow_edges k s' = list_flow_edges k s)"
proof -
  let ?v = "versioned_flow s (flow_defaults f)" and ?row = "flow_row (format_time now) f'"
  note e = save_flow_effect [OF assms]
  have f': "f' = ?v\<lparr>fl_nodes := prepared_nodes (fl_id ?v) (fl_nodes f),
      fl_edges := map (prepared_edge (fl_id ?v)) (fl_edges f),
      fl_created_at := format_time now, fl_updated_at := format_time now\<rparr>"
    using write_flow_Inr(1) save_flow_Inr [OF assms] by fastforce
  have parts: "fl_nodes f' = prepared_nodes (fl_id f') (fl_nodes f)"
    "fl_edges f' = map (prepared_edge (fl_id f')) (fl_edges f)"
    "fl_status f' = (if fl_status f = [] then ''draft'' else fl_status f)"
    by (simp_all add: f' versioned_flow_def flow_defaults_def split: option.splits)
  have [simp]: "fl_key ?row = fl_key f'" by (simp add: flow_row_def)
  have same: "find_row fl_key (rt_flows s') (fl_key f') =
      Some (case find_row fl_key (rt_flows s) (fl_key f') of None \<Rightarrow> ?row | Some old \<Rightarrow> merge_flow old ?row)"
    using flows.get_put_same [of ?row "rt_flows s"] by (simp add: e(4))
  have row: "\<exists>row. find_row fl_key (rt_flows s') (fl_key f') = Some row \<and> fl_id row = fl_id f' \<and>
      fl_version row = fl_version f' \<and> fl_status row = fl_status f'"
    unfolding same using e(3) by (auto simp: flow_row_def merge_flow_def split: option.splits)
  have other: "find_row fl_key (rt_flows s') k = find_row fl_key (rt_flows s) k" if "k \<noteq> fl_key f'" for k
    using flows.get_put_other [of k ?row "rt_flows s"] that by (simp add: e(4))
  show ?thesis
    using e(1,2,3,5,6,7) parts row other by (simp add: prepared_nodes_simps comp_def)
qed

definition sample_node :: "string \<Rightarrow> string \<Rightarrow> flow_node" where
  "sample_node key typ = zero_node\<lparr>fn_key := key, fn_type := typ\<rparr>"

definition sample_edge :: "string \<Rightarrow> string \<Rightarrow> flow_edge" where
  "sample_edge a b = \<lparr>fe_id = [], fe_flow_id = [], fe_source = a, fe_target = b, fe_condition = []\<rparr>"

definition sample_flow :: "string \<Rightarrow> flow" where
  "sample_flow middle =
     \<lparr>fl_id = ''f1'', fl_key = '' daily '', fl_workspace_id = [], fl_name = ''Daily'', fl_description = [],
      fl_type = [], fl_status = [], fl_version = 0, fl_schedule = [], fl_owner = [], fl_input_schema = [],
      fl_output_schema = [], fl_created_by = [], fl_created_at = [], fl_updated_at = [],
      fl_nodes = [sample_node ''out'' ''output'', sample_node ''check'' middle, sample_node ''in'' ''INPUT''],
      fl_edges = [sample_edge ''in'' ''check'', sample_edge ''check'' ''out'']\<rparr>"

definition sample_saved :: "flow \<times> runtime_store" where
  "sample_saved = projr (save_flow 0 (sample_flow ''approval'') no_runtime)"

lemma write_flow_accepts:
  assumes "fl_id f \<notin> fl_id ` set (rt_flows s)"
    and "\<not> isl (insert_nodes (filter (\<lambda>n. fn_flow_id n \<noteq> fl_id f) (rt_nodes s))
                 (map stored_node (prepared_nodes (fl_id f) (fl_nodes f)))) \<and>
         \<not> isl (insert_edges (filter (\<lambda>e. fe_flow_id e \<noteq> fl_id f) (rt_edges s))
                 (map (prepared_edge (fl_id f)) (fl_edges f)))"
  shows "\<not> isl (write_flow ts f s)"
  using assms by (auto simp: write_flow_def Let_def split: sum.splits)

lemma sample_save_ok: "save_flow 0 (sample_flow ''approval'') no_runtime = Inr sample_saved"
proof -
  let ?f = "sample_flow ''approval''"
  let ?v = "versioned_flow no_runtime (flow_defaults ?f)"
  have "trim_space (fl_key ?f) \<noteq> [] \<and> trim_space (fl_name ?f) \<noteq> [] \<and> fl_id ?f \<noteq> [] \<and>
      validate_flow_graph (fl_nodes ?f) (fl_edges ?f) = Inr ()"
    by code_simp
  then have "save_flow 0 ?f no_runtime = write_flow (format_time 0) ?v no_runtime"
    by (simp add: save_flow_def)
  moreover have "\<not> isl (insert_nodes [] (map stored_node (prepared_nodes (fl_id ?v) (fl_nodes ?v)))) \<and>
      \<not> isl (insert_edges [] (map (prepared_edge (fl_id ?v)) (fl_edges ?v)))"
    by code_simp
  then have "\<not> isl (write_flow ts ?v no_runtime)" for ts
    by (intro write_flow_accepts) (simp_all add: no_runtime_def)
  ultimately show ?thesis by (metis isl_def sample_saved_def sum.exhaust_sel sum.sel(2))
qed

section \<open>Runs of a flow\<close>

text \<open>A node lets the run go on: it asks for no approval, and its tool exists, is enabled and needs none.\<close>

definition node_passes :: "(string \<Rightarrow> dw_tool option) \<Rightarrow> flow_node \<Rightarrow> bool" where
  "node_passes tool_of n \<longleftrightarrow>
     (if fn_type n = ''tool''
      then case tool_of (node_tool_id n) of
             None \<Rightarrow> False
           | Some tool \<Rightarrow> tl_enabled tool \<and> \<not> tool_needs_approval tool
      else fn_type n \<noteq> ''approval'')"

lemma node_passes_outcome: "fst (node_outcome tool_of n) = ''succeeded'' \<longleftrightarrow> node_passes tool_of n"
  by (simp add: node_outcome_def node_passes_def split: option.splits)

text \<open>The steps of a run: the nodes that pass, and the first that does not.\<close>

fun up_to_first_stop :: "('n \<Rightarrow> bool) \<Rightarrow> 'n list \<Rightarrow> 'n list" where
  "up_to_first_stop go [] = []"
| "up_to_first_stop go (n # ns) = n # (if go n then up_to_first_stop go ns else [])"

lemma up_to_first_stop_prefix: "\<exists>rest. ns = up_to_first_stop go ns @ rest"
  by (induction ns) auto

lemma up_to_first_stop_all: "up_to_first_stop go ns = ns \<longleftrightarrow> list_all go (butlast ns)"
  by (induction ns) auto

lemma run_nodes_spec:
  "run_nodes tool_of i ns =
    map (\<lambda>(j, n). flow_step_of tool_of j n) (List.enumerate i (up_to_first_stop (node_passes tool_of) ns))"
  by (induction ns arbitrary: i) (auto simp: Let_def flow_step_of_def node_passes_outcome)

lemma run_status_spec:
  "run_status (run_nodes tool_of i ns) = ''succeeded'' \<longleftrightarrow> list_all (node_passes tool_of) ns"
proof (induction ns arbitrary: i)
  case (Cons n ns)
  have "run_nodes tool_of (Suc i) ns = [] \<longleftrightarrow> ns = []" by (cases ns) (simp_all add: Let_def)
  then show ?case
    using Cons.IH [of "Suc i"]
    by (auto simp: Let_def run_status_def flow_step_of_def node_passes_outcome split: if_splits)
qed (simp add: run_status_def)

lemma run_nodes_keys:
  "map fs_node_key (run_nodes tool_of i ns) = map fn_key (up_to_first_stop (node_passes tool_of) ns)"
  by (induction ns arbitrary: i) (auto simp: Let_def flow_step_of_def node_passes_outcome)

lemma run_nodes_cost:
  "map fs_cost (run_nodes tool_of i ns) =
    map (\<lambda>n. node_cost (fn_type n)) (up_to_first_stop (node_passes tool_of) ns)"
  by (induction ns arbitrary: i) (auto simp: Let_def flow_step_of_def node_passes_outcome)

text \<open>
  A run makes one step per node of the execution order up to and including the first node that does
  not pass (an approval node, a missing or disabled tool, a tool that needs approval), numbers the steps
  from 1, charges exactly those nodes, and reports success exactly when every node of the order passes.
\<close>

lemma flow_run_stops_at_governance:
  "fr_steps (run_flow tool_of f) =
      map (\<lambda>(i, n). flow_step_of tool_of i n)
        (List.enumerate 0 (up_to_first_stop (node_passes tool_of) (ordered_flow_nodes (fl_nodes f) (fl_edges f)))) \<and>
    fr_total_cost (run_flow tool_of f) =
      (\<Sum>n \<leftarrow> up_to_first_stop (node_passes tool_of) (ordered_flow_nodes (fl_nodes f) (fl_edges f)). node_cost (fn_type n)) \<and>
    (fr_status (run_flow tool_of f) = ''succeeded'' \<longleftrightarrow>
      list_all (node_passes tool_of) (ordered_flow_nodes (fl_nodes f) (fl_edges f)))"
  by (simp add: run_flow_def Let_def run_status_spec run_nodes_cost) (simp add: run_nodes_spec)

text \<open>
  C35.  Flows that a history of saves and promotions (of flows, agents and tools) stored execute in
  dependency order: when the keys carry no surrounding space, the execution order holds every node of
  the flow once, each one after all nodes it depends on, and a run steps through a prefix of it.
\<close>

theorem stored_flows_run_in_order:
  assumes "runtime_step\<^sup>*\<^sup>* no_runtime s" "row \<in> set (rt_flows s)"
    and "\<forall>n \<in> set (list_flow_nodes (fl_id row) s). trim_space (fn_key n) = fn_key n"
  defines "f \<equiv> row\<lparr>fl_nodes := list_flow_nodes (fl_id row) s, fl_edges := list_flow_edges (fl_id row) s\<rparr>"
  defines "order \<equiv> ordered_flow_nodes (fl_nodes f) (fl_edges f)"
  shows "distinct order \<and> set order = set (fl_nodes f) \<and>
    runs_after (map edge_pair (fl_edges f)) {} (map fn_key order) \<and>
    (\<exists>rest. map fn_key order = map fs_node_key (fr_steps (run_flow tool_of f)) @ rest)"
proof -
  have "validate_flow_graph (fl_nodes f) (fl_edges f) = Inr ()"
    using reachable_flows_ok [OF assms(1)] assms(2) by (simp add: flows_ok_def flow_stored_ok_def f_def)
  then have "distinct order \<and> set order = set (fl_nodes f) \<and>
      runs_after (map edge_pair (fl_edges f)) {} (map fn_key order)"
    unfolding order_def using assms(3) by (intro ordered_flow_nodes_correct) (simp_all add: f_def)
  moreover have "\<exists>rest. map fn_key order = map fs_node_key (fr_steps (run_flow tool_of f)) @ rest"
    using up_to_first_stop_prefix [of order "node_passes tool_of"]
    by (simp add: run_flow_def Let_def run_nodes_keys order_def) (metis map_append)
  ultimately show ?thesis by blast
qed

lemma sample_step: "runtime_step\<^sup>*\<^sup>* no_runtime (snd sample_saved)"
  using runtime_step.flow [of 0 "sample_flow ''approval''" no_runtime "fst sample_saved" "snd sample_saved"]
  by (simp add: sample_save_ok)

lemmas sample_effect =
  save_flow_effect [of 0 "sample_flow ''approval''" no_runtime "fst sample_saved" "snd sample_saved", simplified prod.collapse, OF sample_save_ok]

lemma sample_id: "fl_id (fst sample_saved) = ''f1''"
  using sample_effect(3) by (simp add: no_runtime_def sample_flow_def)

lemma sample_nodes:
  "list_flow_nodes ''f1'' (snd sample_saved) = map stored_node (prepared_nodes ''f1'' (fl_nodes (sample_flow ''approval'')))"
  using sample_effect(5) by (simp only: sample_id)

lemma sample_row: "\<exists>row \<in> set (rt_flows (snd sample_saved)). fl_id row = ''f1''"
  using sample_effect(4) sample_id by (simp add: no_runtime_def flow_row_def)

lemma stored_flows_run_in_order_witness:
  "\<exists>row \<in> set (rt_flows (snd sample_saved)). fl_id row = ''f1'' \<and>
     distinct (ordered_flow_nodes (list_flow_nodes ''f1'' (snd sample_saved)) (list_flow_edges ''f1'' (snd sample_saved)))"
proof -
  obtain row where row: "row \<in> set (rt_flows (snd sample_saved))" "fl_id row = ''f1''" using sample_row by blast
  have "list_all (\<lambda>n. trim_space (fn_key n) = fn_key n)
      (map stored_node (prepared_nodes ''f1'' (fl_nodes (sample_flow ''approval''))))"
    by code_simp
  then have "\<forall>n \<in> set (list_flow_nodes ''f1'' (snd sample_saved)). trim_space (fn_key n) = fn_key n"
    by (simp only: sample_nodes list_all_iff)
  then show ?thesis
    using stored_flows_run_in_order [OF sample_step row(1), unfolded row(2), of "\<lambda>_. None"] row by auto
qed

text \<open>
  The guard against a missing approval can be switched off by a space: a node of type
  \<open>"approval "\<close> passes the graph check, which trims, and is stored and run as typed, so the run goes
  through it and reports success, where the same flow with \<open>"approval"\<close> stops to wait.
\<close>

lemma spaced_approval_node_never_waits:
  "validate_flow_graph (fl_nodes (sample_flow ''Approval '')) (fl_edges (sample_flow ''Approval '')) = Inr () \<and>
   fr_status (run_flow (\<lambda>_. None) (sample_flow ''approval '')) = ''succeeded'' \<and>
   map fs_node_key (fr_steps (run_flow (\<lambda>_. None) (sample_flow ''approval ''))) = [''in'', ''check'', ''out''] \<and>
   fr_status (run_flow (\<lambda>_. None) (sample_flow ''approval'')) = ''pending_approval'' \<and>
   map fs_node_key (fr_steps (run_flow (\<lambda>_. None) (sample_flow ''approval''))) = [''in'', ''check'']"
  by (intro conjI; code_simp)

section \<open>Promotion\<close>

text \<open>
  Promotion moves a flow one place along draft, test, approved, production, and only there: it
  succeeds exactly when the flow exists and the target is empty or the successor of its status, and it
  stores that successor.  A status without a successor (production among them) has the empty string for
  one, so promoting a production flow without a target succeeds and erases its status.
\<close>

lemma promotion_follows_chain:
  "(promote_flow now key target s = Inr (f', s') \<longleftrightarrow>
     (\<exists>f. get_flow key s = Some f \<and> (target = [] \<or> target = next_status (fl_status f)) \<and>
        f' = f\<lparr>fl_status := next_status (fl_status f)\<rparr> \<and>
        s' = set_flow_status now (fl_id f) (next_status (fl_status f)) s)) \<and>
   next_status ''draft'' = ''test'' \<and> next_status ''test'' = ''approved'' \<and>
   next_status ''approved'' = ''production'' \<and> next_status ''production'' = []"
  by (simp add: promote_flow_Inr next_status_def)

section \<open>Runs of an agent\<close>


















text \<open>
  The step limit of an agent is stored and shown but bounds nothing: a run does not depend on it.
\<close>

lemma agent_step_limit_is_not_enforced:
  "run_agent tool_of (agent\<lparr>ag_max_steps := n\<rparr>) ids nparams = run_agent tool_of agent ids nparams"
proof -
  have "run_tools tool_of (agent\<lparr>ag_max_steps := n\<rparr>) nparams i spent traces qs = run_tools tool_of agent nparams i spent traces qs"
    for i spent traces qs
    by (induction tool_of agent nparams i spent traces qs rule: run_tools.induct)
      (simp_all add: Let_def allowed_tool_names_def split: option.split)
  then show ?thesis by (simp add: run_agent_def)
qed

end
