(* ===== verification/SqlGuard.thy ===== *)
theory SqlGuard
  imports GoStrings
begin

text \<open>
  The read-only guard on generated SQL (\<open>internal/text2sql/validator.go\<close>).  Each regular expression
  of the code is the scanner it denotes: a match is taken at the leftmost place, and a list of all
  matches continues behind the last one.  \<open>(?i)\<close> is ASCII case.
\<close>

section \<open>Characters\<close>

text \<open>\<open>[a-zA-Z_]\<close>, \<open>[a-zA-Z0-9_]\<close> and \<open>\s\<close>.\<close>

definition word_start :: "char \<Rightarrow> bool" where
  "word_start c \<longleftrightarrow> (let n = (of_char c :: nat) in (65 \<le> n \<and> n \<le> 90) \<or> (97 \<le> n \<and> n \<le> 122) \<or> n = 95)"

definition word_char :: "char \<Rightarrow> bool" where
  "word_char c \<longleftrightarrow> word_start c \<or> is_digit c"

definition re_space :: "char \<Rightarrow> bool" where
  "re_space c \<longleftrightarrow> c \<in> set [CHR 0x09, CHR 0x0A, CHR 0x0C, CHR 0x0D, CHR '' '']"

abbreviation newline :: char where "newline \<equiv> CHR 0x0A"
abbreviation quote :: char where "quote \<equiv> CHR 0x27"
abbreviation dquote :: char where "dquote \<equiv> CHR 0x22"

lemma length_dropWhile_less: "length (dropWhile P xs) < Suc (length xs)"
  by (simp add: length_dropWhile_le le_imp_less_Suc)

section \<open>Scrubbing\<close>

text \<open>\<open>--[^\n]*\<close> becomes a space.\<close>

function strip_line_comments :: "string \<Rightarrow> string" where
  "strip_line_comments s =
     (case s of
        [] \<Rightarrow> []
      | c # cs \<Rightarrow>
          if has_prefix s ''--'' then CHR '' '' # strip_line_comments (dropWhile (\<lambda>d. d \<noteq> newline) (drop 2 s))
          else c # strip_line_comments cs)"
  by pat_completeness auto
termination
  by (relation "measure length") (auto intro: le_less_trans [OF length_dropWhile_le])

text \<open>The text behind the first \<open>*/\<close>.\<close>

fun after_block :: "string \<Rightarrow> string option" where
  "after_block [] = None"
| "after_block (c # cs) = (if has_prefix (c # cs) ''*/'' then Some (drop 1 cs) else after_block cs)"

lemma after_block_length: "after_block s = Some r \<Longrightarrow> length r < length s"
  by (induction s) (auto split: if_splits)

text \<open>\<open>(?s)/\*.*?\*/\<close> becomes a space; an opener that nothing closes stays.\<close>

function strip_block_comments :: "string \<Rightarrow> string" where
  "strip_block_comments s =
     (case s of
        [] \<Rightarrow> []
      | c # cs \<Rightarrow>
          (case (if has_prefix s ''/*'' then after_block (drop 2 s) else None) of
             Some r \<Rightarrow> CHR '' '' # strip_block_comments r
           | None \<Rightarrow> c # strip_block_comments cs))"
  by pat_completeness auto
termination
  by (relation "measure length") (auto dest!: after_block_length split: if_splits)

definition strip_comments :: "string \<Rightarrow> string" where
  "strip_comments sql = strip_block_comments (strip_line_comments sql)"

text \<open>
  Behind an opening quote, \<open>(?:[^']|'')*'\<close>: the longest body that a quote still closes.  At a doubled
  quote the body goes on if it can be closed later, else it ends at the first of the two.
\<close>

fun literal_end :: "string \<Rightarrow> string option" where
  "literal_end [] = None"
| "literal_end (c # cs) =
     (if c \<noteq> quote then literal_end cs
      else case cs of
             [] \<Rightarrow> Some []
           | d # ds \<Rightarrow>
               if d = quote then (case literal_end ds of Some r \<Rightarrow> Some r | None \<Rightarrow> Some cs)
               else Some cs)"

lemma literal_end_length: "literal_end s = Some r \<Longrightarrow> length r < length s"
  by (induction s rule: literal_end.induct)
    (auto split: if_splits list.splits option.splits intro: less_trans less_SucI)

function blank_literals :: "string \<Rightarrow> string" where
  "blank_literals s =
     (case s of
        [] \<Rightarrow> []
      | c # cs \<Rightarrow>
          (case (if c = quote then literal_end cs else None) of
             Some r \<Rightarrow> quote # quote # blank_literals r
           | None \<Rightarrow> c # blank_literals cs))"
  by pat_completeness auto
termination
  by (relation "measure length") (auto dest!: literal_end_length split: if_splits)

declare strip_line_comments.simps [simp del] strip_block_comments.simps [simp del] blank_literals.simps [simp del]

definition scrub_sql :: "string \<Rightarrow> string" where
  "scrub_sql sql = blank_literals (strip_comments sql)"

section \<open>Structure\<close>

definition multi_statement :: "string \<Rightarrow> bool" where
  "multi_statement sql \<longleftrightarrow> contains (trim_right_char (CHR '';'') (trim_space sql)) '';''"

fun structure_loop :: "int \<Rightarrow> nat \<Rightarrow> string \<Rightarrow> string" where
  "structure_loop depth quotes [] =
     (if depth \<noteq> 0 then ''unbalanced parentheses (unclosed '' @ [quote] @ ''('' @ [quote] @ '')''
      else if quotes mod 2 \<noteq> 0 then ''unterminated quoted identifier'' else [])"
| "structure_loop depth quotes (c # cs) =
     (if c = CHR ''('' then structure_loop (depth + 1) quotes cs
      else if c = CHR '')''
      then (if depth - 1 < 0 then ''unbalanced parentheses (unexpected '' @ [quote] @ '')'' @ [quote] @ '')''
            else structure_loop (depth - 1) quotes cs)
      else if c = dquote then structure_loop depth (quotes + 1) cs
      else structure_loop depth quotes cs)"

definition structural_check :: "string \<Rightarrow> string" where
  "structural_check stripped = structure_loop 0 0 stripped"

section \<open>Words, limits, tables and aggregates\<close>

text \<open>\<open>wordRe.FindAllString\<close>.\<close>

function words :: "string \<Rightarrow> string list" where
  "words s =
     (case s of
        [] \<Rightarrow> []
      | c # cs \<Rightarrow>
          if word_start c then (c # takeWhile word_char cs) # words (dropWhile word_char cs) else words cs)"
  by pat_completeness auto
termination
  by (relation "measure length") (auto simp: length_dropWhile_less)

declare words.simps [simp del]

text \<open>\<open>\blimit\s+\d+\<close>: the space and the digits of the first match; \<open>prev\<close> tells a word character before.\<close>

definition limit_at :: "string \<Rightarrow> (string \<times> string) option" where
  "limit_at s =
     (let r = drop 5 s; space = takeWhile re_space r; digits = takeWhile is_digit (dropWhile re_space r)
      in if has_prefix s ''limit'' \<and> space \<noteq> [] \<and> digits \<noteq> [] then Some (space, digits) else None)"

fun find_limit :: "bool \<Rightarrow> string \<Rightarrow> (string \<times> string) option" where
  "find_limit prev [] = None"
| "find_limit prev (c # cs) =
     (case (if prev then None else limit_at (c # cs)) of
        Some m \<Rightarrow> Some m | None \<Rightarrow> find_limit (word_char c) cs)"

text \<open>
  \<open>fmt.Sscanf(m, "limit %d", &n)\<close>: a newline between the two is an input the format does not match,
  and a number beyond 64 bits is an error; either leaves \<open>n\<close> at zero.
\<close>

definition scanned_limit :: "string \<times> string \<Rightarrow> int" where
  "scanned_limit m =
     (case m of (space, digits) \<Rightarrow>
        if newline \<in> set space \<or> 2 ^ 63 \<le> digits_val digits then 0 else digits_val digits)"

text \<open>An identifier, possibly in double quotes, and the text behind it.\<close>

definition quoted_ident :: "string \<Rightarrow> (string \<times> string) option" where
  "quoted_ident s =
     (let opening = takeWhile (\<lambda>c. c = dquote) (take 1 s); r = drop (length opening) s
      in if r = [] \<or> \<not> word_start (hd r) then None
         else let name = takeWhile word_char r; r = drop (length name) r;
                  closing = takeWhile (\<lambda>c. c = dquote) (take 1 r)
              in Some (opening @ name @ closing, drop (length closing) r))"

lemma quoted_ident_length: "quoted_ident s = Some (t, r) \<Longrightarrow> length r < length s"
  by (cases s) (auto simp: quoted_ident_def Let_def word_char_def split: if_splits)

text \<open>\<open>(?:\.ident)*\<close>.\<close>

function ident_tail :: "string \<Rightarrow> string \<times> string" where
  "ident_tail s =
     (case s of
        [] \<Rightarrow> ([], [])
      | c # cs \<Rightarrow>
          (case (if c = CHR ''.'' then quoted_ident cs else None) of
             None \<Rightarrow> ([], s)
           | Some (t, r) \<Rightarrow> let (ts, r') = ident_tail r in (CHR ''.'' # t @ ts, r')))"
  by pat_completeness auto
termination
  by (relation "measure length") (auto dest!: quoted_ident_length split: if_splits)

declare ident_tail.simps [simp del]

text \<open>\<open>fromJoin\<close> at one place: the captured table and the text behind the match.\<close>

definition table_at :: "string \<Rightarrow> (string \<times> string) option" where
  "table_at s =
     (if to_lower (take 4 s) \<notin> {''from'', ''join''} then None
      else if takeWhile re_space (drop 4 s) = [] then None
      else case quoted_ident (dropWhile re_space (drop 4 s)) of
             None \<Rightarrow> None
           | Some (t, r) \<Rightarrow> let (ts, r') = ident_tail r in Some (t @ ts, r'))"

lemma ident_tail_length: "length (snd (ident_tail s)) \<le> length s"
proof (induction s rule: ident_tail.induct)
  case (1 s)
  show ?case
  proof (cases "\<exists>cs t r. s = CHR ''.'' # cs \<and> quoted_ident cs = Some (t, r)")
    case True
    then obtain cs t r where s: "s = CHR ''.'' # cs" "quoted_ident cs = Some (t, r)" by blast
    have "length (snd (ident_tail r)) \<le> length r" using 1 [of _ cs "(t, r)" t r] s by simp
    then show ?thesis
      using quoted_ident_length [OF s(2)] s
      by (cases "ident_tail r") (simp add: ident_tail.simps [of "CHR ''.'' # cs"])
  next
    case False
    then have "ident_tail s = ([], s)"
      by (subst ident_tail.simps) (auto split: list.split option.split)
    then show ?thesis by simp
  qed
qed

lemma table_at_length: "table_at s = Some (t, r) \<Longrightarrow> length r < length s"
proof -
  assume *: "table_at s = Some (t, r)"
  then obtain t1 r1 where q: "quoted_ident (dropWhile re_space (drop 4 s)) = Some (t1, r1)"
    and r: "r = snd (ident_tail r1)"
    by (auto simp: table_at_def Let_def split: if_splits option.splits prod.splits)
  have "length r \<le> length r1" using r ident_tail_length by simp
  also have "\<dots> < length (dropWhile re_space (drop 4 s))" using quoted_ident_length [OF q] .
  also have "\<dots> \<le> length s" by (rule le_trans [OF length_dropWhile_le]) simp
  finally show ?thesis .
qed

text \<open>All matches; the character before the next one is the last of the match.\<close>

function table_refs :: "bool \<Rightarrow> string \<Rightarrow> string list" where
  "table_refs prev s =
     (case s of
        [] \<Rightarrow> []
      | c # cs \<Rightarrow>
          (case (if prev then None else table_at s) of
             Some (t, r) \<Rightarrow> t # table_refs (word_char (last t)) r
           | None \<Rightarrow> table_refs (word_char c) cs))"
  by pat_completeness auto
termination
  by (relation "measure (\<lambda>(_, s). length s)") (auto dest!: table_at_length split: if_splits)

declare table_refs.simps [simp del]

definition referenced_tables :: "string \<Rightarrow> string list" where
  "referenced_tables sql =
     first_by (\<lambda>t. t) [[]]
       (map (\<lambda>t. filter (\<lambda>c. c \<noteq> dquote) (to_lower (trim_space t))) (table_refs False sql))"

definition exported_referenced_tables :: "string \<Rightarrow> string list" where
  "exported_referenced_tables sql = referenced_tables (trim_right_char (CHR '';'') (trim_space (scrub_sql sql)))"

definition aggregates :: "string list" where
  "aggregates =
     [''count'', ''sum'', ''avg'', ''min'', ''max'', ''stddev'', ''variance'', ''var_pop'', ''var_samp'']"

text \<open>\<open>aggFuncRe\<close> at one place: the offset of the opening parenthesis.\<close>

definition aggregate_at :: "string \<Rightarrow> nat option" where
  "aggregate_at s =
     (case find (\<lambda>f. has_prefix s f \<and> take 1 (dropWhile re_space (drop (length f) s)) = ''('') aggregates of
        None \<Rightarrow> None
      | Some f \<Rightarrow> Some (length f + length (takeWhile re_space (drop (length f) s))))"

function aggregate_opens :: "bool \<Rightarrow> nat \<Rightarrow> string \<Rightarrow> nat list" where
  "aggregate_opens prev i s =
     (case s of
        [] \<Rightarrow> []
      | c # cs \<Rightarrow>
          (case (if prev then None else aggregate_at s) of
             Some k \<Rightarrow> (i + k) # aggregate_opens False (i + k + 1) (drop (k + 1) s)
           | None \<Rightarrow> aggregate_opens (word_char c) (i + 1) cs))"
  by pat_completeness auto
termination
  by (relation "measure (\<lambda>(_, _, s). length s)") (auto split: if_splits)

declare aggregate_opens.simps [simp del]

text \<open>The walk to the matching parenthesis; at the opening one itself nothing is blanked.\<close>

fun blank_body :: "bool \<Rightarrow> int \<Rightarrow> string \<Rightarrow> string" where
  "blank_body at_open depth [] = []"
| "blank_body at_open depth (c # cs) =
     (let depth = (if c = CHR ''('' then depth + 1 else if c = CHR '')'' then depth - 1 else depth);
          b = (if \<not> at_open \<or> c \<noteq> CHR ''('' then CHR '' '' else c)
      in if depth = 0 then b # cs else b # blank_body False depth cs)"

definition strip_aggregate_bodies :: "string \<Rightarrow> string" where
  "strip_aggregate_bodies sql =
     fold (\<lambda>opening b. take opening b @ blank_body True 0 (drop opening b)) (aggregate_opens False 0 sql) sql"

section \<open>The guard\<close>

record validate_options =
  vo_default_limit :: int
  vo_allowed_tables :: "string list"
  vo_blocked_columns :: "string list"
  vo_aggregate_only :: "string list"
  vo_max_limit :: int

record validation_result =
  vr_ok :: bool
  vr_sql :: string
  vr_reason :: string
  vr_tables :: "string list"
  vr_limit_added :: bool

definition forbidden_keywords :: "string list" where
  "forbidden_keywords =
     [''insert'', ''update'', ''delete'', ''drop'', ''alter'', ''create'', ''truncate'', ''grant'', ''revoke'',
      ''merge'', ''replace'', ''call'', ''exec'', ''execute'', ''attach'', ''detach'', ''pragma'', ''vacuum'',
      ''copy'', ''into'', ''commit'', ''rollback'']"

definition dangerous_functions :: "string list" where
  "dangerous_functions =
     [''pg_read_file'', ''pg_sleep'', ''pg_ls_dir'', ''dblink'', ''lo_import'', ''lo_export'',
      ''load_extension'', ''readfile'', ''writefile'']"

definition rejected :: "string \<Rightarrow> validation_result" where
  "rejected reason =
     \<lparr>vr_ok = False, vr_sql = [], vr_reason = reason, vr_tables = [], vr_limit_added = False\<rparr>"

text \<open>The first column of a list that, trimmed and in lower case, is among the words.\<close>

definition used_column :: "string list \<Rightarrow> string list \<Rightarrow> string option" where
  "used_column cols ws =
     find (\<lambda>c. c \<noteq> [] \<and> c \<in> set ws) (map (\<lambda>col. to_lower (trim_space col)) cols)"

text \<open>The part behind the last dot: \<open>LastIndex\<close>.\<close>

definition base_name :: "string \<Rightarrow> string" where
  "base_name t = rev (takeWhile (\<lambda>c. c \<noteq> CHR ''.'') (rev t))"

definition foreign_table :: "string list \<Rightarrow> string list \<Rightarrow> string option" where
  "foreign_table allowed tables =
     (if allowed = [] then None
      else let allowed = map (\<lambda>t. to_lower (trim_space t)) allowed
           in find (\<lambda>t. t \<notin> set allowed \<and> base_name t \<notin> set allowed) tables)"

text \<open>The checks on keywords, functions and columns: the reason to reject, or none.\<close>

definition content_reason :: "validate_options \<Rightarrow> string \<Rightarrow> string option" where
  "content_reason opts lower =
     (if \<not> has_prefix lower ''select'' \<and> \<not> has_prefix lower ''with'' then Some ''only SELECT statements are allowed''
      else if has_prefix lower ''with'' \<and> \<not> contains lower ''select'' then Some ''CTE must resolve to a SELECT''
      else case find (\<lambda>kw. kw \<in> set (words lower)) forbidden_keywords of
        Some kw \<Rightarrow> Some (''forbidden keyword: '' @ kw)
      | None \<Rightarrow>
          (case find (contains lower) dangerous_functions of
             Some fn \<Rightarrow> Some (''dangerous function: '' @ fn)
           | None \<Rightarrow>
               (case used_column (vo_blocked_columns opts) (words lower) of
                  Some c \<Rightarrow> Some (''sensitive column not allowed: '' @ c)
                | None \<Rightarrow>
                    (case used_column (vo_aggregate_only opts) (words (strip_aggregate_bodies lower)) of
                       Some c \<Rightarrow> Some (''aggregate-only column used outside an aggregate: '' @ c)
                     | None \<Rightarrow> None))))"

text \<open>The limits, and the accepted statement.\<close>

definition accept_limited :: "validate_options \<Rightarrow> string \<Rightarrow> string \<Rightarrow> string list \<Rightarrow> validation_result" where
  "accept_limited opts sql lower tables =
     (let n = (case find_limit False lower of None \<Rightarrow> 0 | Some m \<Rightarrow> scanned_limit m)
      in if 0 < vo_max_limit opts \<and> find_limit False lower \<noteq> None \<and> vo_max_limit opts < n
         then rejected (''LIMIT '' @ itoa n @ '' exceeds max '' @ itoa (vo_max_limit opts))
         else
           let added = (0 < vo_default_limit opts \<and> find_limit False lower = None)
           in \<lparr>vr_ok = True,
               vr_sql = (if added then sql @ [newline] @ ''LIMIT '' @ itoa (vo_default_limit opts) else sql),
               vr_reason = [], vr_tables = tables, vr_limit_added = added\<rparr>)"

definition validate_sql :: "string \<Rightarrow> validate_options \<Rightarrow> validation_result" where
  "validate_sql raw opts =
     (let sql = trim_space raw; stripped = scrub_sql sql
      in if sql = [] then rejected ''empty SQL''
         else if multi_statement stripped then rejected ''multiple statements are not allowed''
         else if structural_check stripped \<noteq> [] then rejected (structural_check stripped)
         else
           let sql = trim_right_char (CHR '';'') (trim_space sql);
               stripped = trim_right_char (CHR '';'') (trim_space (scrub_sql sql));
               lower = to_lower stripped
           in case content_reason opts lower of
                Some reason \<Rightarrow> rejected reason
              | None \<Rightarrow>
                  let tables = referenced_tables stripped
                  in (case foreign_table (vo_allowed_tables opts) tables of
                        Some t \<Rightarrow> (rejected (''table not allowed: '' @ t))\<lparr>vr_tables := tables\<rparr>
                      | None \<Rightarrow> accept_limited opts sql lower tables))"

section \<open>What the guard is meant to see\<close>









lemma contains_single [simp]: "contains s [c] \<longleftrightarrow> c \<in> set s"
  by (induction s) auto









definition hidden_drop :: string where
  "hidden_drop = ''SELECT '' @ [quote] @ ''--'' @ [quote] @ ''; DROP TABLE o''"

definition orders_only :: validate_options where
  "orders_only = \<lparr>vo_default_limit = 0, vo_allowed_tables = [''o''], vo_blocked_columns = [],
     vo_aggregate_only = [], vo_max_limit = 9\<rparr>"

text \<open>
  Where the guard is fooled.  Comments are removed before string literals, so a literal \<open>'--'\<close> hides
  the rest of its line: a second statement that drops a table is accepted.  Only the first table behind
  \<open>from\<close> is read, so a comma reaches a table that is not on the allowlist.  The ceiling on limits is lost
  when a newline follows \<open>limit\<close>, and when a subquery carries a smaller limit in front.
\<close>

lemma sql_guard_is_fooled:
  "vr_ok (validate_sql hidden_drop orders_only) \<and> vr_sql (validate_sql hidden_drop orders_only) = hidden_drop \<and>
   \<not> vr_ok (validate_sql ''select a from u'' orders_only) \<and>
   vr_ok (validate_sql ''select a from o,u'' orders_only) \<and>
   \<not> vr_ok (validate_sql ''select 1 limit 10'' orders_only) \<and>
   vr_ok (validate_sql (''select 1 limit'' @ [newline] @ ''10'') orders_only) \<and>
   vr_ok (validate_sql ''select 1 from (select 1 limit 1) limit 10'' orders_only)"
proof -
  have "(let r = validate_sql hidden_drop orders_only in vr_ok r \<and> vr_sql r = hidden_drop) \<and>
      \<not> vr_ok (validate_sql ''select a from u'' orders_only) \<and>
      vr_ok (validate_sql ''select a from o,u'' orders_only) \<and>
      \<not> vr_ok (validate_sql ''select 1 limit 10'' orders_only) \<and>
      vr_ok (validate_sql (''select 1 limit'' @ [newline] @ ''10'') orders_only) \<and>
      vr_ok (validate_sql ''select 1 from (select 1 limit 1) limit 10'' orders_only)"
    by code_simp
  then show ?thesis by (simp add: Let_def)
qed

end
