(* ===== verification/PolicyRules.thy ===== *)
theory PolicyRules
  imports GoStrings "HOL-Library.Word"
begin

unbundle bit_operations_syntax

text \<open>
  The governance rules of the gateway (\<open>internal/proxy/governance.go\<close>): when a rule applies to a
  request, and what all rules together decide.  A decoded JSON value is an \<open>any_val\<close>; a number
  carries its value and the text that \<open>FormatFloat(v, 'f', -1, 64)\<close> gives; \<open>Any_number\<close> is a
  \<open>json.Number\<close>, which a decoder with \<open>UseNumber\<close> yields instead, with its literal.  Floats are exact
  rationals, and a decoded object is the list of its members with distinct keys, in the order in which
  the program happens to range over it.
\<close>

section \<open>Values\<close>

datatype any_val =
  Any_null | Any_bool bool | Any_num rat string | Any_number rat string | Any_str string
  | Any_list "any_val list" | Any_obj "(string \<times> any_val) list"

type_synonym any_map = "(string \<times> any_val) list"

definition any_at :: "any_map \<Rightarrow> string \<Rightarrow> any_val" where
  "any_at m k = (case map_of m k of None \<Rightarrow> Any_null | Some v \<Rightarrow> v)"

definition bool_action :: "any_val \<Rightarrow> bool" where
  "bool_action value =
     (case value of
        Any_bool b \<Rightarrow> b
      | Any_str v \<Rightarrow> equal_fold (trim_space v) ''true'' \<or> equal_fold (trim_space v) ''yes'' \<or> trim_space v = ''1''
      | Any_num r _ \<Rightarrow> r \<noteq> 0
      | _ \<Rightarrow> False)"

definition bool_condition :: "bool \<Rightarrow> any_val \<Rightarrow> bool" where
  "bool_condition actual expected =
     (case expected of Any_bool b \<Rightarrow> actual = b | _ \<Rightarrow> actual = bool_action expected)"

definition lower_string :: "any_val \<Rightarrow> string" where
  "lower_string value = (case value of Any_str raw \<Rightarrow> to_lower (trim_space raw) | _ \<Rightarrow> [])"

definition to_string :: "any_val \<Rightarrow> string" where
  "to_string value =
     (case value of
        Any_str v \<Rightarrow> v
      | Any_num _ text \<Rightarrow> text
      | Any_bool b \<Rightarrow> if b then ''true'' else ''false''
      | _ \<Rightarrow> [])"

definition value_string_list :: "any_val \<Rightarrow> string list" where
  "value_string_list value =
     (case value of
        Any_list vs \<Rightarrow> filter (\<lambda>s. s \<noteq> []) (map (\<lambda>v. trim_space (to_string v)) vs)
      | Any_str v \<Rightarrow>
          if contains v '','' then filter (\<lambda>p. p \<noteq> []) (map trim_space (split_char (CHR '','') v))
          else if trim_space v = [] then [] else [trim_space v]
      | _ \<Rightarrow> if trim_space (to_string value) \<noteq> [] then [trim_space (to_string value)] else [])"

section \<open>Globs\<close>

text \<open>
  \<open>matchGlob\<close> of \<open>internal/proxy/server.go\<close>: the loop over the parts between stars, each taken at its
  first place in what is left of the value; the result is what remains behind the last part.
\<close>

fun glob_parts :: "bool \<Rightarrow> string list \<Rightarrow> string \<Rightarrow> string option" where
  "glob_parts first [] rest = Some rest"
| "glob_parts first (p # ps) rest =
     (if p = [] then glob_parts False ps rest
      else case index_of rest p of
             None \<Rightarrow> None
           | Some i \<Rightarrow> if first \<and> i \<noteq> 0 then None else glob_parts False ps (drop (i + length p) rest))"

definition match_glob :: "string \<Rightarrow> string \<Rightarrow> bool" where
  "match_glob pat value =
     (if pat = ''*'' then True
      else if \<not> contains pat ''*'' then pat = value
      else case glob_parts True (split_char (CHR ''*'') pat) value of
             None \<Rightarrow> False
           | Some rest \<Rightarrow> has_suffix pat ''*'' \<or> rest = [])"

definition list_matches_any :: "string \<Rightarrow> string list \<Rightarrow> bool" where
  "list_matches_any actual patterns =
     (let actual = to_lower (trim_space actual)
      in list_ex (\<lambda>pat. to_lower (trim_space pat) \<noteq> [] \<and> match_glob (to_lower (trim_space pat)) actual) patterns)"

definition list_intersects :: "string list \<Rightarrow> string list \<Rightarrow> bool" where
  "list_intersects actual expected =
     (if expected = [] then False else list_ex (\<lambda>a. list_matches_any a expected) actual)"

definition match_string_condition :: "string \<Rightarrow> any_val \<Rightarrow> bool" where
  "match_string_condition actual expected =
     (let actual = trim_space actual; values = value_string_list expected
      in actual \<noteq> [] \<and> values \<noteq> [] \<and> list_matches_any actual values)"

definition match_any_string_condition :: "string list \<Rightarrow> any_val \<Rightarrow> bool" where
  "match_any_string_condition actuals expected = list_ex (\<lambda>a. match_string_condition a expected) actuals"

section \<open>Numbers\<close>

text \<open>
  \<open>strconv.ParseFloat\<close> for decimal literals, \<open>inf\<close> and \<open>nan\<close>; a value that rounds beyond the largest
  \<open>float64\<close> is an error.
\<close>

datatype go_float = F_num rat | F_inf bool | F_nan

definition take_sign :: "string \<Rightarrow> bool \<times> string" where
  "take_sign s = (if take 1 s = ''-'' then (True, drop 1 s) else if take 1 s = ''+'' then (False, drop 1 s) else (False, s))"

definition parse_exponent :: "string \<Rightarrow> int option" where
  "parse_exponent s =
     (if s = [] then Some 0
      else if to_lower (take 1 s) \<noteq> ''e'' then None
      else let (neg, ds) = take_sign (drop 1 s)
           in if ds = [] \<or> \<not> list_all is_digit ds then None
              else Some (if neg then - digits_val ds else digits_val ds))"

definition scale10 :: "rat \<Rightarrow> int \<Rightarrow> rat" where
  "scale10 m e = (if 0 \<le> e then m * 10 ^ nat e else m / 10 ^ nat (- e))"

definition parse_float :: "string \<Rightarrow> go_float option" where
  "parse_float s =
     (let (neg, u) = take_sign s
      in if to_lower u = ''inf'' \<or> to_lower u = ''infinity'' then Some (F_inf neg)
         else if to_lower s = ''nan'' then Some F_nan
         else
           let whole = takeWhile is_digit u; r = dropWhile is_digit u;
               frac = (if take 1 r = ''.'' then takeWhile is_digit (drop 1 r) else []);
               r = (if take 1 r = ''.'' then dropWhile is_digit (drop 1 r) else r)
           in if whole @ frac = [] then None
              else case parse_exponent r of
                     None \<Rightarrow> None
                   | Some e \<Rightarrow>
                       let m = scale10 (of_int (digits_val (whole @ frac))) (e - int (length frac))
                       in if 2 ^ 1024 - 2 ^ 970 \<le> m then None else Some (F_num (if neg then - m else m)))"

definition float_le :: "rat \<Rightarrow> go_float \<Rightarrow> bool" where
  "float_le a f = (case f of F_num r \<Rightarrow> a \<le> r | F_inf neg \<Rightarrow> \<not> neg | F_nan \<Rightarrow> False)"

definition float_ge :: "rat \<Rightarrow> go_float \<Rightarrow> bool" where
  "float_ge a f = (case f of F_num r \<Rightarrow> r \<le> a | F_inf neg \<Rightarrow> neg | F_nan \<Rightarrow> False)"

definition float_eq :: "rat \<Rightarrow> go_float \<Rightarrow> bool" where
  "float_eq a f = (f = F_num a)"

text \<open>The operators in the order the code tries them; \<open>==\<close> before \<open>=\<close>-free ones, two-letter ones first.\<close>

definition compare_number_expression :: "rat \<Rightarrow> string \<Rightarrow> bool" where
  "compare_number_expression actual raw =
     (let expr = trim_space raw;
          cmp = (\<lambda>n P. case parse_float (trim_space (drop n expr)) of None \<Rightarrow> False | Some f \<Rightarrow> P f)
      in if has_prefix expr ''>='' then cmp 2 (float_ge actual)
         else if has_prefix expr ''<='' then cmp 2 (float_le actual)
         else if has_prefix expr ''=='' then cmp 2 (float_eq actual)
         else if has_prefix expr ''!='' then cmp 2 (\<lambda>f. \<not> float_eq actual f)
         else if has_prefix expr ''>'' then cmp 1 (\<lambda>f. float_ge actual f \<and> \<not> float_eq actual f)
         else if has_prefix expr ''<'' then cmp 1 (\<lambda>f. float_le actual f \<and> \<not> float_eq actual f)
         else (case parse_float expr of None \<Rightarrow> False | Some f \<Rightarrow> float_ge actual f))"

definition number_condition :: "rat \<Rightarrow> any_val \<Rightarrow> bool" where
  "number_condition actual expected =
     (case expected of
        Any_num r _ \<Rightarrow> r \<le> actual
      | Any_number r _ \<Rightarrow> r \<le> actual
      | Any_str v \<Rightarrow> compare_number_expression actual v
      | _ \<Rightarrow> False)"

section \<open>Rules and requests\<close>

record policy_rule =
  pr_id :: string
  pr_policy_id :: string
  pr_name :: string
  pr_enabled :: bool
  pr_priority :: int
  pr_conditions :: any_map
  pr_actions :: any_map
  pr_rollout_percent :: int

record governance_context =
  gc_request_id :: string
  gc_api_key_id :: string
  gc_user_id :: string
  gc_team_id :: string
  gc_team_name :: string
  gc_role :: string
  gc_endpoint :: string
  gc_phase :: string
  gc_model :: string
  gc_provider :: string
  gc_risk_score :: int
  gc_complexity_score :: int
  gc_cost_krw :: rat
  gc_contains_secret :: bool
  gc_secret_types :: "string list"
  gc_mcp_server :: string
  gc_mcp_tool :: string
  gc_subject_type :: string
  gc_subject_id :: string

record policy_decision_event =
  pde_request_id :: string
  pde_api_key_id :: string
  pde_user_id :: string
  pde_team_id :: string
  pde_endpoint :: string
  pde_phase :: string
  pde_policy_id :: string
  pde_rule_id :: string
  pde_rule_name :: string
  pde_decision :: string
  pde_reason :: string
  pde_model :: string
  pde_provider :: string
  pde_risk_score :: int
  pde_complexity_score :: int
  pde_cost_krw :: rat

definition rule_name :: "policy_rule \<Rightarrow> string" where
  "rule_name rule = (if trim_space (pr_name rule) \<noteq> [] then pr_name rule else pr_id rule)"

text \<open>One condition; an unknown key never holds.\<close>

definition condition_holds :: "governance_context \<Rightarrow> string \<times> any_val \<Rightarrow> bool" where
  "condition_holds g c =
     (let key = to_lower (trim_space (fst c)); expected = snd c
      in if key \<in> {''user'', ''user_id''} then match_string_condition (gc_user_id g) expected
         else if key = ''team'' then match_any_string_condition [gc_team_id g, gc_team_name g] expected
         else if key = ''team_id'' then match_string_condition (gc_team_id g) expected
         else if key = ''team_name'' then match_string_condition (gc_team_name g) expected
         else if key = ''role'' then match_string_condition (gc_role g) expected
         else if key = ''model'' then match_string_condition (gc_model g) expected
         else if key = ''provider'' then match_string_condition (gc_provider g) expected
         else if key = ''endpoint'' then match_string_condition (gc_endpoint g) expected
         else if key = ''risk_score'' then number_condition (of_int (gc_risk_score g)) expected
         else if key = ''complexity_score'' then number_condition (of_int (gc_complexity_score g)) expected
         else if key \<in> {''cost'', ''cost_krw''} then 0 < gc_cost_krw g \<and> number_condition (gc_cost_krw g) expected
         else if key = ''contains_secret'' then bool_condition (gc_contains_secret g) expected
         else if key = ''secret_type'' then list_intersects (gc_secret_types g) (value_string_list expected)
         else if key = ''mcp_server'' then match_string_condition (gc_mcp_server g) expected
         else if key = ''mcp_tool'' then match_string_condition (gc_mcp_tool g) expected
         else False)"

definition governance_rule_matches :: "any_map \<Rightarrow> governance_context \<Rightarrow> bool" where
  "governance_rule_matches conditions g = list_all (condition_holds g) conditions"

section \<open>Canary rollout\<close>

text \<open>\<open>fnv.New32a\<close>.\<close>

definition fnv32a :: "string \<Rightarrow> 32 word" where
  "fnv32a s = foldl (\<lambda>h c. (h XOR word_of_nat (of_char c)) * 16777619) 2166136261 s"

definition canary_bucket :: "string \<Rightarrow> int" where
  "canary_bucket subject_id = uint (fnv32a subject_id) mod 100"

definition outside_canary :: "governance_context \<Rightarrow> policy_rule \<Rightarrow> bool" where
  "outside_canary g rule \<longleftrightarrow>
     gc_subject_id g \<noteq> [] \<and> 1 \<le> pr_rollout_percent rule \<and> pr_rollout_percent rule < 100 \<and>
     pr_rollout_percent rule \<le> canary_bucket (gc_subject_id g)"

definition rule_would_act :: "policy_rule \<Rightarrow> bool" where
  "rule_would_act rule =
     (let a = any_at (pr_actions rule)
      in bool_action (a ''block'') \<or> bool_action (a ''require_approval'') \<or>
         lower_string (a ''secret_action'') \<in> {''mask'', ''block''} \<or>
         list_ex (\<lambda>k. value_string_list (a k) \<noteq> [])
           [''deny_models'', ''allow_models'', ''deny_providers'', ''allow_providers''])"

section \<open>The decision\<close>

definition first_phase :: "governance_context \<Rightarrow> string" where
  "first_phase g = first_non_empty_raw [gc_phase g, ''request'']"

definition policy_decision_event_of :: "governance_context \<Rightarrow> policy_rule \<Rightarrow> string \<Rightarrow> string \<Rightarrow> policy_decision_event" where
  "policy_decision_event_of g rule decision reason =
     \<lparr>pde_request_id = gc_request_id g, pde_api_key_id = gc_api_key_id g, pde_user_id = gc_user_id g,
      pde_team_id = gc_team_id g, pde_endpoint = gc_endpoint g, pde_phase = first_phase g,
      pde_policy_id = pr_policy_id rule, pde_rule_id = pr_id rule, pde_rule_name = rule_name rule,
      pde_decision = decision, pde_reason = reason, pde_model = gc_model g, pde_provider = gc_provider g,
      pde_risk_score = gc_risk_score g, pde_complexity_score = gc_complexity_score g, pde_cost_krw = gc_cost_krw g\<rparr>"

definition default_policy_decision_event :: "governance_context \<Rightarrow> policy_decision_event" where
  "default_policy_decision_event g =
     \<lparr>pde_request_id = gc_request_id g, pde_api_key_id = gc_api_key_id g, pde_user_id = gc_user_id g,
      pde_team_id = gc_team_id g, pde_endpoint = gc_endpoint g, pde_phase = first_phase g,
      pde_policy_id = ''default'', pde_rule_id = ''default'', pde_rule_name = ''DEFAULT'',
      pde_decision = ''default'', pde_reason = ''no governance policy matched; default allow'',
      pde_model = gc_model g, pde_provider = gc_provider g, pde_risk_score = gc_risk_score g,
      pde_complexity_score = gc_complexity_score g, pde_cost_krw = gc_cost_krw g\<rparr>"

text \<open>The decision with the list of reasons, as the loop carries them.\<close>

record governance_state =
  gs_blocked :: bool
  gs_require_approval :: bool
  gs_secret_action :: string
  gs_reasons :: "string list"
  gs_events :: "policy_decision_event list"

definition note_decision ::
  "governance_context \<Rightarrow> policy_rule \<Rightarrow> string \<Rightarrow> string \<Rightarrow> governance_state \<Rightarrow> governance_state" where
  "note_decision g rule decision rest st =
     (let reason = ''rule '' @ rule_name rule @ rest
      in st\<lparr>gs_reasons := gs_reasons st @ [reason],
            gs_events := gs_events st @ [policy_decision_event_of g rule decision reason]\<rparr>)"

definition secret_action_decision :: "string \<Rightarrow> string" where
  "secret_action_decision action =
     (if action = ''mask'' then ''mask'' else if action = ''block'' then ''block'' else ''detect'')"

definition apply_secret :: "governance_context \<Rightarrow> policy_rule \<Rightarrow> governance_state \<Rightarrow> governance_state" where
  "apply_secret g rule st =
     (let action = lower_string (any_at (pr_actions rule) ''secret_action'')
      in if action \<in> {''detect'', ''mask'', ''block''}
         then note_decision g rule (secret_action_decision action) ('' secret_action='' @ action)
                (st\<lparr>gs_secret_action := action\<rparr>)
         else st)"

text \<open>The allow and deny lists of one kind, models or providers, on the trimmed name.\<close>

definition apply_lists ::
  "string \<Rightarrow> governance_context \<Rightarrow> policy_rule \<Rightarrow> string \<Rightarrow> governance_state \<Rightarrow> governance_state" where
  "apply_lists kind g rule raw st =
     (let name = trim_space raw;
          denied = value_string_list (any_at (pr_actions rule) (''deny_'' @ kind @ ''s''));
          allowed = value_string_list (any_at (pr_actions rule) (''allow_'' @ kind @ ''s''))
      in if name = [] then st
         else
           let st = (if denied \<noteq> [] \<and> list_matches_any name denied
                     then note_decision g rule (''deny_'' @ kind) ('' denied '' @ kind @ '' '' @ name)
                            (st\<lparr>gs_blocked := True\<rparr>)
                     else st)
           in if allowed \<noteq> [] \<and> \<not> list_matches_any name allowed
              then note_decision g rule (''deny_'' @ kind) ('' did not allow '' @ kind @ '' '' @ name)
                     (st\<lparr>gs_blocked := True\<rparr>)
              else if allowed \<noteq> []
              then note_decision g rule (''allow_'' @ kind) ('' allowed '' @ kind @ '' '' @ name) st
              else st)"

definition apply_flags :: "governance_context \<Rightarrow> policy_rule \<Rightarrow> governance_state \<Rightarrow> governance_state" where
  "apply_flags g rule st =
     (let a = any_at (pr_actions rule);
          st = (if bool_action (a ''block'')
                then note_decision g rule ''block'' '' requested block'' (st\<lparr>gs_blocked := True\<rparr>) else st);
          st = (if bool_action (a ''require_approval'')
                then note_decision g rule ''require_approval'' '' requested approval'' (st\<lparr>gs_require_approval := True\<rparr>)
                else st)
      in if bool_action (a ''allow'') then note_decision g rule ''allow'' '' requested allow'' st else st)"

text \<open>The text behind the percentage is UTF-8: a dash, \<open>shadow\<close>, and the Korean for ``not applied''.\<close>

definition shadow_suffix :: string where
  "shadow_suffix = ''% '' @ [CHR 0xE2, CHR 0x80, CHR 0x94] @ '' shadow('' @
     [CHR 0xEB, CHR 0xAF, CHR 0xB8, CHR 0xEC, CHR 0xA0, CHR 0x81, CHR 0xEC, CHR 0x9A, CHR 0xA9] @ '')''"

definition shadow_decision :: "governance_context \<Rightarrow> policy_rule \<Rightarrow> governance_state \<Rightarrow> governance_state" where
  "shadow_decision g rule st =
     (if rule_would_act rule
      then st\<lparr>gs_events := gs_events st @
             [policy_decision_event_of g rule ''canary_shadow''
                (''rule '' @ rule_name rule @ '' canary '' @ itoa (pr_rollout_percent rule) @ shadow_suffix)]\<rparr>
      else st)"

definition apply_rule :: "governance_context \<Rightarrow> governance_state \<Rightarrow> policy_rule \<Rightarrow> governance_state" where
  "apply_rule g st rule =
     (if \<not> governance_rule_matches (pr_conditions rule) g then st
      else if outside_canary g rule then shadow_decision g rule st
      else apply_flags g rule
             (apply_lists ''provider'' g rule (gc_provider g)
               (apply_lists ''model'' g rule (gc_model g) (apply_secret g rule st))))"

record governance_decision =
  gd_blocked :: bool
  gd_require_approval :: bool
  gd_secret_action :: string
  gd_reason :: string
  gd_events :: "policy_decision_event list"

definition initial_state :: governance_state where
  "initial_state = \<lparr>gs_blocked = False, gs_require_approval = False, gs_secret_action = ''detect'',
     gs_reasons = [], gs_events = []\<rparr>"

definition evaluate_policy_rules :: "policy_rule list \<Rightarrow> governance_context \<Rightarrow> governance_decision" where
  "evaluate_policy_rules rules g =
     (let st = foldl (apply_rule g) initial_state rules
      in \<lparr>gd_blocked = gs_blocked st, gd_require_approval = gs_require_approval st \<and> \<not> gs_blocked st,
          gd_secret_action = gs_secret_action st, gd_reason = join ''; '' (gs_reasons st),
          gd_events = (if gs_events st = [] then [default_policy_decision_event g] else gs_events st)\<rparr>)"

text \<open>\<open>evaluateGovernance\<close>: without the rules, the gateway only detects.\<close>

definition evaluate_governance :: "policy_rule list result \<Rightarrow> governance_context \<Rightarrow> governance_decision" where
  "evaluate_governance rules g =
     (case rules of
        Inl _ \<Rightarrow> \<lparr>gd_blocked = False, gd_require_approval = False, gd_secret_action = ''detect'',
                  gd_reason = [], gd_events = []\<rparr>
      | Inr rs \<Rightarrow> evaluate_policy_rules rs g)"

end
