(* ===== verification/PolicyProperties.thy ===== *)
theory PolicyProperties
  imports PolicyRules
begin

text \<open>
  What the governance rules decide: the decision of the loop as one statement over the rules in
  force, the canary slice, and the glob matcher against the meaning of a pattern.
\<close>

section \<open>The decision of a rule set\<close>

definition in_force :: "governance_context \<Rightarrow> policy_rule \<Rightarrow> bool" where
  "in_force g rule \<longleftrightarrow> governance_rule_matches (pr_conditions rule) g \<and> \<not> outside_canary g rule"

definition list_denies :: "string \<Rightarrow> policy_rule \<Rightarrow> string \<Rightarrow> bool" where
  "list_denies kind rule raw \<longleftrightarrow>
     (let denied = value_string_list (any_at (pr_actions rule) (''deny_'' @ kind @ ''s''));
          allowed = value_string_list (any_at (pr_actions rule) (''allow_'' @ kind @ ''s''))
      in trim_space raw \<noteq> [] \<and>
         (denied \<noteq> [] \<and> list_matches_any (trim_space raw) denied \<or>
          allowed \<noteq> [] \<and> \<not> list_matches_any (trim_space raw) allowed))"

definition rule_blocks :: "governance_context \<Rightarrow> policy_rule \<Rightarrow> bool" where
  "rule_blocks g rule \<longleftrightarrow>
     list_denies ''model'' rule (gc_model g) \<or> list_denies ''provider'' rule (gc_provider g) \<or>
     bool_action (any_at (pr_actions rule) ''block'')"

definition rule_secret :: "policy_rule \<Rightarrow> string option" where
  "rule_secret rule =
     (let action = lower_string (any_at (pr_actions rule) ''secret_action'')
      in if action \<in> {''detect'', ''mask'', ''block''} then Some action else None)"

lemma note_decision_fields [simp]:
  "gs_blocked (note_decision g rule d r st) = gs_blocked st"
  "gs_require_approval (note_decision g rule d r st) = gs_require_approval st"
  "gs_secret_action (note_decision g rule d r st) = gs_secret_action st"
  by (simp_all add: note_decision_def Let_def)

lemma apply_secret_fields [simp]:
  "gs_blocked (apply_secret g rule st) = gs_blocked st"
  "gs_require_approval (apply_secret g rule st) = gs_require_approval st"
  "gs_secret_action (apply_secret g rule st) =
     (case rule_secret rule of None \<Rightarrow> gs_secret_action st | Some a \<Rightarrow> a)"
  by (simp_all add: apply_secret_def rule_secret_def Let_def)

lemma apply_lists_fields [simp]:
  "gs_blocked (apply_lists kind g rule raw st) \<longleftrightarrow> gs_blocked st \<or> list_denies kind rule raw"
  "gs_require_approval (apply_lists kind g rule raw st) = gs_require_approval st"
  "gs_secret_action (apply_lists kind g rule raw st) = gs_secret_action st"
  by (simp_all add: apply_lists_def list_denies_def Let_def)

lemma apply_flags_fields [simp]:
  "gs_blocked (apply_flags g rule st) \<longleftrightarrow> gs_blocked st \<or> bool_action (any_at (pr_actions rule) ''block'')"
  "gs_require_approval (apply_flags g rule st) \<longleftrightarrow>
     gs_require_approval st \<or> bool_action (any_at (pr_actions rule) ''require_approval'')"
  "gs_secret_action (apply_flags g rule st) = gs_secret_action st"
  by (simp_all add: apply_flags_def Let_def)

lemma shadow_decision_fields [simp]:
  "gs_blocked (shadow_decision g rule st) = gs_blocked st"
  "gs_require_approval (shadow_decision g rule st) = gs_require_approval st"
  "gs_secret_action (shadow_decision g rule st) = gs_secret_action st"
  "gs_reasons (shadow_decision g rule st) = gs_reasons st"
  by (simp_all add: shadow_decision_def)

lemma apply_rule_fields:
  "gs_blocked (apply_rule g st rule) \<longleftrightarrow> gs_blocked st \<or> in_force g rule \<and> rule_blocks g rule"
  "gs_require_approval (apply_rule g st rule) \<longleftrightarrow>
     gs_require_approval st \<or> in_force g rule \<and> bool_action (any_at (pr_actions rule) ''require_approval'')"
  "gs_secret_action (apply_rule g st rule) =
     (if in_force g rule then case rule_secret rule of None \<Rightarrow> gs_secret_action st | Some a \<Rightarrow> a
      else gs_secret_action st)"
  by (auto simp: apply_rule_def in_force_def rule_blocks_def)

definition secret_choice :: "string \<Rightarrow> governance_context \<Rightarrow> policy_rule list \<Rightarrow> string" where
  "secret_choice start g rules =
     (case rev (List.map_filter rule_secret (filter (in_force g) rules)) of [] \<Rightarrow> start | a # _ \<Rightarrow> a)"

lemma secret_choice_Cons:
  "secret_choice start g (rule # rules) =
     secret_choice (if in_force g rule then case rule_secret rule of None \<Rightarrow> start | Some a \<Rightarrow> a else start) g rules"
proof (cases "rev (List.map_filter rule_secret (filter (in_force g) rules))")
  case Nil
  then show ?thesis
    by (simp add: secret_choice_def List.map_filter_def split: option.split)
next
  case (Cons a as)
  then show ?thesis
    by (simp add: secret_choice_def List.map_filter_def split: option.split)
qed

lemma foldl_apply_rule:
  "gs_blocked (foldl (apply_rule g) st rules) \<longleftrightarrow>
     gs_blocked st \<or> (\<exists>rule \<in> set rules. in_force g rule \<and> rule_blocks g rule)"
  "gs_require_approval (foldl (apply_rule g) st rules) \<longleftrightarrow>
     gs_require_approval st \<or>
     (\<exists>rule \<in> set rules. in_force g rule \<and> bool_action (any_at (pr_actions rule) ''require_approval''))"
  "gs_secret_action (foldl (apply_rule g) st rules) = secret_choice (gs_secret_action st) g rules"
proof (induction rules arbitrary: st)
  case Nil
  { case 1 show ?case by simp }
  { case 2 show ?case by simp }
  { case 3 show ?case by (simp add: secret_choice_def List.map_filter_def) }
next
  case (Cons rule rules)
  { case 1 show ?case by (auto simp: Cons.IH(1) apply_rule_fields) }
  { case 2 show ?case by (auto simp: Cons.IH(2) apply_rule_fields) }
  { case 3 show ?case by (simp add: Cons.IH(3) apply_rule_fields secret_choice_Cons) }
qed

lemma evaluate_policy_rules_blocked:
  "gd_blocked (evaluate_policy_rules rules g) \<longleftrightarrow> (\<exists>rule \<in> set rules. in_force g rule \<and> rule_blocks g rule)"
  by (simp add: evaluate_policy_rules_def Let_def foldl_apply_rule(1)) (simp add: initial_state_def)

lemma evaluate_policy_rules_approval:
  "gd_require_approval (evaluate_policy_rules rules g) \<longleftrightarrow>
     \<not> gd_blocked (evaluate_policy_rules rules g) \<and>
     (\<exists>rule \<in> set rules. in_force g rule \<and> bool_action (any_at (pr_actions rule) ''require_approval''))"
  by (simp add: evaluate_policy_rules_def Let_def foldl_apply_rule(2)) (auto simp: initial_state_def)

text \<open>
  C29. The decision of a rule set (\<open>evaluatePolicyRules\<close>), whatever the order and number of its rules: a
  rule is in force when all its conditions hold and the request lies in its rollout slice; the request
  is blocked exactly when some rule in force denies its model or provider (deny list, or absent from a
  non-empty allow list) or asks to block; it needs approval exactly when it is not blocked and some rule
  in force asks for approval; its secret action is that of the last rule in force that names a valid
  one, and \<open>detect\<close> otherwise.  At least one decision event is always recorded.
\<close>
theorem policy_decision_exact:
  "(gd_blocked (evaluate_policy_rules rules g) \<longleftrightarrow>
      (\<exists>rule \<in> set rules. in_force g rule \<and> rule_blocks g rule)) \<and>
   (gd_require_approval (evaluate_policy_rules rules g) \<longleftrightarrow>
      (\<nexists>rule. rule \<in> set rules \<and> in_force g rule \<and> rule_blocks g rule) \<and>
      (\<exists>rule \<in> set rules. in_force g rule \<and> bool_action (any_at (pr_actions rule) ''require_approval''))) \<and>
   gd_secret_action (evaluate_policy_rules rules g) =
     (case rev (List.map_filter rule_secret (filter (in_force g) rules)) of [] \<Rightarrow> ''detect'' | a # _ \<Rightarrow> a) \<and>
   gd_events (evaluate_policy_rules rules g) \<noteq> []"
proof -
  have "gs_secret_action initial_state = ''detect''" by (simp add: initial_state_def)
  then have "gd_secret_action (evaluate_policy_rules rules g) = secret_choice ''detect'' g rules"
    by (simp add: evaluate_policy_rules_def Let_def foldl_apply_rule(3))
  moreover have "gd_events (evaluate_policy_rules rules g) \<noteq> []"
    by (simp add: evaluate_policy_rules_def Let_def)
  ultimately show ?thesis
    by (auto simp: evaluate_policy_rules_blocked evaluate_policy_rules_approval secret_choice_def)
qed

section \<open>The canary slice\<close>

lemma canary_bucket_range: "0 \<le> canary_bucket s \<and> canary_bucket s < 100"
  by (simp add: canary_bucket_def)

text \<open>
  Ramping a canary up is monotone: every subject lies in one of a hundred buckets that depend on
  nothing but the subject; a rule at rollout \<open>p\<close> enforces on buckets below \<open>p\<close> alone, so that raising the
  percentage from \<open>p\<close> to \<open>q\<close> never drops a subject, and a rule at 100 enforces on every subject.
\<close>
lemma canary_ramp_is_monotone:
  assumes "1 \<le> p" "p \<le> q" "\<not> outside_canary g (rule\<lparr>pr_rollout_percent := p\<rparr>)"
  shows "\<not> outside_canary g (rule\<lparr>pr_rollout_percent := q\<rparr>) \<and>
    \<not> outside_canary g (rule\<lparr>pr_rollout_percent := 100\<rparr>) \<and>
    (gc_subject_id g = [] \<or> 100 \<le> p \<or> canary_bucket (gc_subject_id g) < p) \<and>
    canary_bucket (gc_subject_id g) \<in> {0..99}"
  using assms canary_bucket_range [of "gc_subject_id g"] by (auto simp: outside_canary_def)

definition sample_context :: governance_context where
  "sample_context =
     \<lparr>gc_request_id = ''r'', gc_api_key_id = ''k'', gc_user_id = ''u'', gc_team_id = ''t'', gc_team_name = ''T'',
      gc_role = ''dev'', gc_endpoint = ''/v1'', gc_phase = [], gc_model = ''m-mini-mini'', gc_provider = ''p'',
      gc_risk_score = 10, gc_complexity_score = 1, gc_cost_krw = 0, gc_contains_secret = False,
      gc_secret_types = [], gc_mcp_server = [], gc_mcp_tool = [], gc_subject_type = [], gc_subject_id = ''a''\<rparr>"

definition sample_rule :: policy_rule where
  "sample_rule =
     \<lparr>pr_id = ''r1'', pr_policy_id = ''p1'', pr_name = [], pr_enabled = True, pr_priority = 1,
      pr_conditions = [], pr_actions = [(''deny_models'', Any_list [Any_str ''*-mini''])], pr_rollout_percent = 100\<rparr>"

lemma fnv32a_a: "fnv32a ''a'' = 0xe40c292c"
  by (simp add: fnv32a_def)

lemma canary_ramp_is_monotone_witness:
  "\<not> outside_canary sample_context (sample_rule\<lparr>pr_rollout_percent := 60\<rparr>) \<and>
   outside_canary sample_context (sample_rule\<lparr>pr_rollout_percent := 20\<rparr>)"
proof -
  have b: "canary_bucket ''a'' = 20"
    by (simp add: canary_bucket_def fnv32a_a)
  have "\<not> outside_canary sample_context (sample_rule\<lparr>pr_rollout_percent := 21\<rparr>)"
    by (simp add: outside_canary_def sample_context_def b)
  then show ?thesis
    using canary_ramp_is_monotone [of 21 60 sample_context sample_rule]
    by (simp add: outside_canary_def sample_context_def b)
qed

section \<open>Globs\<close>

text \<open>
  The meaning of a pattern with stars: its parts in order, the first at the front of the value, the last
  at its end, with anything between them.
\<close>

fun gaps :: "string list \<Rightarrow> string \<Rightarrow> string \<Rightarrow> bool" where
  "gaps [] v r \<longleftrightarrow> v = r"
| "gaps (p # ps) v r \<longleftrightarrow> (\<exists>u w. v = u @ p @ w \<and> gaps ps w r)"

definition glob_means :: "string list \<Rightarrow> string \<Rightarrow> bool" where
  "glob_means parts v \<longleftrightarrow> (\<exists>w. v = hd parts @ w \<and> gaps (tl parts) w [])"

lemma index_of_Some:
  "index_of s p = Some i \<Longrightarrow> s = take i s @ p @ drop (i + length p) s"
proof (induction s p arbitrary: i rule: index_of.induct)
  case (1 p)
  then show ?case by (auto split: if_splits)
next
  case (2 c s p)
  show ?case
  proof (cases "prefix p (c # s)")
    case True
    then show ?thesis using 2(2) by (auto simp: prefix_def)
  next
    case False
    then obtain j where j: "index_of s p = Some j" "i = Suc j" using 2(2) by (auto split: if_splits)
    show ?thesis using 2(1) [OF False j(1)] j(2) by simp
  qed
qed

lemma index_of_leftmost: "\<exists>i \<le> length a. index_of (a @ p @ w) p = Some i"
proof (induction a)
  case Nil
  show ?case by (cases "p @ w") (auto intro: prefixI [OF sym])
next
  case (Cons c a)
  then obtain i where "i \<le> length a" "index_of (a @ p @ w) p = Some i" by blast
  then show ?case by auto
qed

lemma glob_parts_gaps: "glob_parts False ps v = Some r \<Longrightarrow> gaps ps v r"
proof (induction ps arbitrary: v)
  case Nil
  then show ?case by simp
next
  case (Cons p ps)
  show ?case
  proof (cases "p = []")
    case True
    then show ?thesis using Cons by (auto intro: exI [of _ "[]"])
  next
    case False
    then obtain i where i: "index_of v p = Some i" "glob_parts False ps (drop (i + length p) v) = Some r"
      using Cons.prems by (auto split: option.splits)
    then show ?thesis using index_of_Some [OF i(1)] Cons.IH [OF i(2)] by auto
  qed
qed

lemma gaps_glob_parts:
  "gaps ps v r \<Longrightarrow> suffix v v' \<Longrightarrow> \<exists>r'. glob_parts False ps v' = Some r' \<and> suffix r r'"
proof (induction ps arbitrary: v v')
  case Nil
  then show ?case by simp
next
  case (Cons p ps)
  then obtain x u w where v': "v' = x @ u @ p @ w" and w: "gaps ps w r" by (auto simp: suffix_def)
  show ?case
  proof (cases "p = []")
    case True
    then show ?thesis using Cons.IH [OF w, of v'] v' by (simp add: suffix_def)
  next
    case False
    obtain i where i: "i \<le> length (x @ u)" "index_of v' p = Some i"
      using index_of_leftmost [of "x @ u" p w] v' by auto
    have "suffix w (drop (i + length p) v')"
      using i(1) v' by (auto simp: suffix_def intro!: exI [of _ "drop (i + length p) (x @ u @ p)"])
    then show ?thesis using Cons.IH [OF w] i(2) False by simp
  qed
qed

lemma gaps_drop_last: "gaps (ps @ [[]]) v r \<Longrightarrow> gaps (ps @ [[]]) v []"
  by (induction ps arbitrary: v) auto

lemma split_by_snoc: "P c \<Longrightarrow> split_by P (s @ [c]) = split_by P s @ [[]]"
  by (induction s) (auto split: list.splits)

lemma split_char_star: "split_char (CHR ''*'') (pat @ ''*'') = split_char (CHR ''*'') pat @ [[]]"
  by (simp add: split_char_def split_by_snoc)

text \<open>The first part is anchored: it is nothing, or it is at place 0.\<close>

lemma glob_parts_first:
  "glob_parts True (p # ps) v = Some r \<longleftrightarrow> (\<exists>w. v = p @ w \<and> glob_parts False ps w = Some r)"
proof (cases "p = []")
  case True
  then show ?thesis by simp
next
  case False
  have front: "index_of (p @ w) p = Some 0" for w
    using index_of_leftmost [of "[]" p w] by simp
  show ?thesis
  proof (cases "\<exists>w. v = p @ w")
    case True
    then show ?thesis using False front by auto
  next
    case no: False
    have "index_of v p \<noteq> Some 0"
      using index_of_Some [of v p 0] no by auto
    then show ?thesis using False no by (auto split: option.splits)
  qed
qed

lemma match_glob_parts:
  "contains pat ''*'' \<Longrightarrow> match_glob pat v \<longleftrightarrow>
     (\<exists>r. glob_parts True (split_char (CHR ''*'') pat) v = Some r \<and> (has_suffix pat ''*'' \<or> r = []))"
  by (auto simp: match_glob_def has_suffix_def split_char_def split: option.splits)

lemma has_suffix_star: "has_suffix pat ''*'' \<longleftrightarrow> (\<exists>q. pat = q @ ''*'')"
  by (cases pat rule: rev_cases) (auto simp: has_suffix_def)

lemma split_char_Cons: "\<exists>p ps. split_char c s = p # ps"
  by (metis list.exhaust split_by_not_Nil split_char_def)

text \<open>A match is always one that the pattern means.\<close>

lemma match_glob_sound:
  assumes "contains pat ''*''" "match_glob pat v"
  shows "glob_means (split_char (CHR ''*'') pat) v"
proof -
  obtain p ps where s: "split_char (CHR ''*'') pat = p # ps" using split_char_Cons by blast
  obtain r w where r: "v = p @ w" "gaps ps w r" "has_suffix pat ''*'' \<or> r = []"
    using assms s by (auto simp: match_glob_parts glob_parts_first dest: glob_parts_gaps simp del: glob_parts.simps)
  have "gaps ps w []"
  proof (cases "r = []")
    case False
    then obtain q where "p # ps = split_char (CHR ''*'') q @ [[]]"
      using r(3) s has_suffix_star split_char_star by metis
    then obtain ps' where "ps = ps' @ [[]]"
      by (metis append_eq_Cons_conv list.sel(3) split_by_not_Nil split_char_def)
    then show ?thesis using gaps_drop_last r(2) by metis
  qed (use r in simp)
  then show ?thesis using r(1) s by (auto simp: glob_means_def)
qed

text \<open>
  The glob matcher (\<open>matchGlob\<close>, used for every model, provider, user, team and endpoint list of a
  rule) is exact on every pattern that ends in a star: it accepts exactly the values that are the parts
  of the pattern in order, the first at the front, with anything between and behind them, however many
  stars the pattern has and however often its parts occur in the value.
\<close>
lemma trailing_star_glob_exact:
  "match_glob (pat @ ''*'') v \<longleftrightarrow> glob_means (split_char (CHR ''*'') (pat @ ''*'')) v"
proof
  have c: "contains (pat @ ''*'') ''*''" by (simp add: contains_append_left)
  then show "match_glob (pat @ ''*'') v \<Longrightarrow> glob_means (split_char (CHR ''*'') (pat @ ''*'')) v"
    by (rule match_glob_sound)
  assume m: "glob_means (split_char (CHR ''*'') (pat @ ''*'')) v"
  obtain p ps where s: "split_char (CHR ''*'') (pat @ ''*'') = p # ps" using split_char_Cons by blast
  then obtain w where w: "v = p @ w" "gaps ps w []" using m by (auto simp: glob_means_def)
  obtain r where "glob_parts False ps w = Some r" using gaps_glob_parts [OF w(2), of w] by auto
  then show "match_glob (pat @ ''*'') v"
    using c s w(1) by (auto simp: match_glob_parts glob_parts_first has_suffix_star simp del: glob_parts.simps)
qed

text \<open>
  A pattern whose last part is anchored at the end can miss: the matcher takes the last part at its
  first place and then demands that nothing follows.  So a rule that denies the models \<open>*-mini\<close> neither
  matches nor blocks the model \<open>m-mini-mini\<close>, which ends in \<open>-mini\<close>.
\<close>
lemma suffix_glob_can_miss:
  "glob_means (split_char (CHR ''*'') ''*-mini'') ''m-mini-mini'' \<and>
   \<not> match_glob ''*-mini'' ''m-mini-mini'' \<and>
   match_glob ''*-mini'' ''m-mini'' \<and>
   \<not> gd_blocked (evaluate_policy_rules [sample_rule] sample_context) \<and>
   gd_blocked (evaluate_policy_rules [sample_rule] (sample_context\<lparr>gc_model := ''m-mini''\<rparr>))"
proof -
  have s: "split_char (CHR ''*'') ''*-mini'' = [[], ''-mini'']" by code_simp
  have "glob_means (split_char (CHR ''*'') ''*-mini'') ''m-mini-mini''"
    unfolding s by (auto simp: glob_means_def intro!: exI [of _ "''m-mini''"])
  moreover have "\<not> match_glob ''*-mini'' ''m-mini-mini''" by code_simp
  moreover have "match_glob ''*-mini'' ''m-mini''" by code_simp
  moreover have "\<not> gd_blocked (evaluate_policy_rules [sample_rule] sample_context)" by code_simp
  moreover have "gd_blocked (evaluate_policy_rules [sample_rule] (sample_context\<lparr>gc_model := ''m-mini''\<rparr>))"
    by code_simp
  ultimately show ?thesis by blast
qed

end
