(* ===== verification/PolicyStore.thy ===== *)
theory PolicyStore
  imports PolicyProperties Tables GoTime
begin

text \<open>
  The policies and rules behind the decision: their tables (\<open>internal/store/governance.go\<close>), the
  payloads that fill them, and the two handlers that write them
  (\<open>internal/proxy/admin_governance.go\<close>).  A \<open>time.Time\<close> that is only written and compared as text is
  kept as that text, \<open>[]\<close> for the zero time; the JSON columns keep the maps they encode.
\<close>

section \<open>Tables\<close>

record policy =
  po_id :: string
  po_name :: string
  po_description :: string
  po_enabled :: bool
  po_priority :: int
  po_rollout_percent :: int
  po_created_at :: string
  po_updated_at :: string

record rule_row =
  rr_rule :: policy_rule
  rr_created_at :: string
  rr_updated_at :: string

record policy_tables =
  pt_policies :: "policy list"
  pt_rules :: "rule_row list"

abbreviation rr_id :: "rule_row \<Rightarrow> string" where
  "rr_id r \<equiv> pr_id (rr_rule r)"

abbreviation rr_policy_id :: "rule_row \<Rightarrow> string" where
  "rr_policy_id r \<equiv> pr_policy_id (rr_rule r)"

definition merge_policy :: "policy \<Rightarrow> policy \<Rightarrow> policy" where
  "merge_policy old new = new\<lparr>po_created_at := po_created_at old\<rparr>"

interpretation policies: replacing_store po_id "find_row po_id" "upsert_row po_id merge_policy" merge_policy
  unfolding replacing_store_def replacing_store_axioms_def
  by (auto simp: merge_policy_def intro!: row_store_upsert)

definition policy_defaults :: "string \<Rightarrow> policy \<Rightarrow> policy" where
  "policy_defaults now p =
     p\<lparr>po_created_at := (if po_created_at p = [] then now else po_created_at p),
       po_updated_at := now,
       po_priority := (if po_priority p = 0 then 100 else po_priority p),
       po_rollout_percent := (if po_rollout_percent p \<le> 0 \<or> 100 < po_rollout_percent p then 100
                              else po_rollout_percent p)\<rparr>"

text \<open>
  The maps of a rule go through a JSON column: a \<open>json.Number\<close> comes back as a \<open>float64\<close>, whose text
  \<open>float_text\<close> is Go's \<open>FormatFloat\<close>.
\<close>

fun reread :: "(rat \<Rightarrow> string) \<Rightarrow> any_val \<Rightarrow> any_val" where
  "reread float_text (Any_number r _) = Any_num r (float_text r)"
| "reread float_text (Any_list vs) = Any_list (map (reread float_text) vs)"
| "reread float_text (Any_obj m) = Any_obj (map (\<lambda>(k, v). (k, reread float_text v)) m)"
| "reread float_text v = v"

definition reread_map :: "(rat \<Rightarrow> string) \<Rightarrow> any_map \<Rightarrow> any_map" where
  "reread_map float_text m = map (\<lambda>(k, v). (k, reread float_text v)) m"

definition rule_defaults :: "(rat \<Rightarrow> string) \<Rightarrow> string \<Rightarrow> string \<Rightarrow> rule_row \<Rightarrow> rule_row" where
  "rule_defaults float_text now policy_id r =
     \<lparr>rr_rule = (rr_rule r)
        \<lparr>pr_policy_id := (if pr_policy_id (rr_rule r) = [] then policy_id else pr_policy_id (rr_rule r)),
         pr_priority := (if pr_priority (rr_rule r) = 0 then 100 else pr_priority (rr_rule r)),
         pr_conditions := reread_map float_text (pr_conditions (rr_rule r)),
         pr_actions := reread_map float_text (pr_actions (rr_rule r))\<rparr>,
      rr_created_at = (if rr_created_at r = [] then now else rr_created_at r),
      rr_updated_at = now\<rparr>"

text \<open>A plain \<open>INSERT\<close> fails on a key that is taken.\<close>

definition insert_row :: "('r \<Rightarrow> 'k) \<Rightarrow> 'r \<Rightarrow> 'r list \<Rightarrow> 'r list result" where
  "insert_row key r rs = (if key r \<in> set (map key rs) then Inl ''UNIQUE constraint failed'' else Inr (rs @ [r]))"

fun insert_rows :: "('r \<Rightarrow> 'k) \<Rightarrow> 'r list \<Rightarrow> 'r list \<Rightarrow> 'r list result" where
  "insert_rows key [] rs = Inr rs"
| "insert_rows key (n # ns) rs =
     (case insert_row key n rs of Inl e \<Rightarrow> Inl e | Inr rs' \<Rightarrow> insert_rows key ns rs')"

text \<open>
  \<open>UpsertPolicyWithRules\<close>, one transaction: an error rolls everything back.  \<open>None\<close> is the nil slice,
  which leaves the rules alone.
\<close>

definition upsert_policy_with_rules ::
  "(rat \<Rightarrow> string) \<Rightarrow> go_time \<Rightarrow> policy \<Rightarrow> rule_row list option \<Rightarrow> policy_tables \<Rightarrow> policy_tables result" where
  "upsert_policy_with_rules float_text now p rules t =
     (let ts = format_time now; policies = upsert_row po_id merge_policy (policy_defaults ts p) (pt_policies t)
      in case rules of
           None \<Rightarrow> Inr (t\<lparr>pt_policies := policies\<rparr>)
         | Some rs \<Rightarrow>
             (case insert_rows rr_id (map (rule_defaults float_text ts (po_id p)) rs)
                     (filter (\<lambda>r. rr_policy_id r \<noteq> po_id p) (pt_rules t)) of
                Inl e \<Rightarrow> Inl e
              | Inr rows \<Rightarrow> Inr (t\<lparr>pt_policies := policies, pt_rules := rows\<rparr>)))"

text \<open>The stored rollout percentage; 0 reads as 100.\<close>

definition read_rollout :: "int \<Rightarrow> int" where
  "read_rollout percent = (if percent = 0 then 100 else percent)"

text \<open>\<open>ActivePolicyRules\<close>: the enabled rules of enabled policies, with the rollout of their policy.\<close>

definition joined_rules :: "policy_tables \<Rightarrow> (policy \<times> rule_row) list" where
  "joined_rules t =
     List.map_filter
       (\<lambda>r. map_option (\<lambda>p. (p, r)) (find_row po_id (pt_policies t) (rr_policy_id r))) (pt_rules t)"

definition active_order :: "policy \<times> rule_row \<Rightarrow> policy \<times> rule_row \<Rightarrow> bool" where
  "active_order = order_then (by_key (\<lambda>(p, r). po_priority p))
     (order_then (by_key (\<lambda>(p, r). pr_priority (rr_rule r))) (by_key (\<lambda>(p, r). rr_created_at r)))"

definition active_policy_rules :: "policy_tables \<Rightarrow> policy_rule list" where
  "active_policy_rules t =
     map (\<lambda>(p, r). (rr_rule r)\<lparr>pr_rollout_percent := read_rollout (po_rollout_percent p)\<rparr>)
       (select_rows (\<lambda>(p, r). po_enabled p \<and> pr_enabled (rr_rule r)) active_order (joined_rules t))"

text \<open>\<open>policyRules\<close> and \<open>ListPolicies\<close>.\<close>

definition policy_rules :: "string \<Rightarrow> bool \<Rightarrow> policy_tables \<Rightarrow> rule_row list" where
  "policy_rules policy_id active_only t =
     select_rows (\<lambda>r. rr_policy_id r = policy_id \<and> (active_only \<longrightarrow> pr_enabled (rr_rule r)))
       (order_then (by_key (\<lambda>r. pr_priority (rr_rule r))) (by_key rr_created_at)) (pt_rules t)"

definition list_policies :: "policy_tables \<Rightarrow> (policy \<times> rule_row list) list" where
  "list_policies t =
     map (\<lambda>p. (p\<lparr>po_rollout_percent := read_rollout (po_rollout_percent p)\<rparr>, policy_rules (po_id p) False t))
       (select_rows (\<lambda>_. True) (order_then (by_key po_priority) (by_key_desc po_created_at)) (pt_policies t))"

section \<open>Payloads\<close>

text \<open>\<open>strconv.Atoi\<close> and \<open>json.Number.Int64\<close>.\<close>

definition parse_int64 :: "string \<Rightarrow> int option" where
  "parse_int64 s =
     (let (neg, u) = take_sign s; n = (if neg then - digits_val u else digits_val u)
      in if u = [] \<or> \<not> list_all is_digit u \<or> n < - (2 ^ 63) \<or> 2 ^ 63 \<le> n then None else Some n)"

definition or_fallback :: "int \<Rightarrow> int option \<Rightarrow> int" where
  "or_fallback fallback n = (case n of None \<Rightarrow> fallback | Some i \<Rightarrow> if i = 0 then fallback else i)"

definition int_from_any :: "any_val \<Rightarrow> int \<Rightarrow> int" where
  "int_from_any value fallback =
     (case value of
        Any_num v _ \<Rightarrow> if v = 0 then fallback else if 0 \<le> v then \<lfloor>v\<rfloor> else \<lceil>v\<rceil>
      | Any_number _ literal \<Rightarrow> or_fallback fallback (parse_int64 literal)
      | Any_str v \<Rightarrow> or_fallback fallback (parse_int64 (trim_space v))
      | _ \<Rightarrow> fallback)"

fun any_put :: "string \<Rightarrow> any_val \<Rightarrow> any_map \<Rightarrow> any_map" where
  "any_put k v [] = [(k, v)]"
| "any_put k v ((k', v') # m) = (if k' = k then (k, v) # m else (k', v') # any_put k v m)"

definition map_key :: "string \<Rightarrow> string" where
  "map_key key = to_lower (trim_space key)"

definition map_from_any :: "any_val \<Rightarrow> any_map" where
  "map_from_any value =
     (case value of Any_obj m \<Rightarrow> foldl (\<lambda>out (k, v). any_put (map_key k) v out) [] m | _ \<Rightarrow> [])"

definition governance_condition_keys :: "string list" where
  "governance_condition_keys =
     [''user'', ''user_id'', ''team'', ''team_id'', ''role'', ''team_name'', ''model'', ''provider'', ''endpoint'',
      ''risk_score'', ''complexity_score'', ''cost'', ''cost_krw'', ''contains_secret'', ''secret_type'',
      ''mcp_server'', ''mcp_tool'']"

definition governance_action_keys :: "string list" where
  "governance_action_keys =
     [''block'', ''require_approval'', ''secret_action'', ''allow_models'', ''deny_models'', ''allow_providers'',
      ''deny_providers'', ''allow'']"

text \<open>The top-level members of a rule that name a condition or an action join its maps.\<close>

definition collect_keys :: "string list \<Rightarrow> any_map \<Rightarrow> any_map \<Rightarrow> any_map" where
  "collect_keys keys raw m =
     foldl (\<lambda>out (k, v). if map_key k \<in> set keys then any_put (map_key k) v out else out) m raw"

definition enabled_flag :: "any_map \<Rightarrow> bool" where
  "enabled_flag raw = (case map_of raw ''enabled'' of None \<Rightarrow> True | Some v \<Rightarrow> bool_action v)"

definition payload_id :: "string \<Rightarrow> any_map \<Rightarrow> string" where
  "payload_id fresh raw =
     (let given = trim_space (to_string (any_at raw ''id'')) in if given = [] then fresh else given)"

definition decode_policy_rule_map :: "string \<Rightarrow> string \<Rightarrow> string \<Rightarrow> any_map \<Rightarrow> rule_row" where
  "decode_policy_rule_map fresh now policy_id raw =
     \<lparr>rr_rule =
        \<lparr>pr_id = payload_id fresh raw, pr_policy_id = policy_id,
         pr_name = trim_space (to_string (any_at raw ''name'')), pr_enabled = enabled_flag raw,
         pr_priority = int_from_any (any_at raw ''priority'') 100,
         pr_conditions = collect_keys governance_condition_keys raw (map_from_any (any_at raw ''conditions'')),
         pr_actions = collect_keys governance_action_keys raw (map_from_any (any_at raw ''actions'')),
         pr_rollout_percent = 0\<rparr>,
      rr_created_at = now, rr_updated_at = []\<rparr>"

definition decoded_policy :: "string \<Rightarrow> string \<Rightarrow> any_map \<Rightarrow> policy" where
  "decoded_policy fresh now raw =
     (let pid = payload_id fresh raw; name = trim_space (to_string (any_at raw ''name''))
      in \<lparr>po_id = pid, po_name = (if name = [] then pid else name),
          po_description = trim_space (to_string (any_at raw ''description'')),
          po_enabled = enabled_flag raw, po_priority = int_from_any (any_at raw ''priority'') 100,
          po_rollout_percent = int_from_any (any_at raw ''rollout_percent'') 100,
          po_created_at = now, po_updated_at = []\<rparr>)"

text \<open>The list of rules, whose members that are no objects are skipped, or the payload as one rule.\<close>

definition decoded_rules ::
  "(nat \<Rightarrow> string) \<Rightarrow> (nat \<Rightarrow> string) \<Rightarrow> string \<Rightarrow> any_map \<Rightarrow> rule_row list" where
  "decoded_rules fresh now policy_id raw =
     (case any_at raw ''rules'' of
        Any_list items \<Rightarrow>
          List.map_filter
            (\<lambda>(i, item). case item of
               Any_obj m \<Rightarrow> Some (decode_policy_rule_map (fresh i) (now i) policy_id m) | _ \<Rightarrow> None)
            (zip [0 ..< length items] items)
      | _ \<Rightarrow>
          let r = decode_policy_rule_map (fresh 0) (now 0) policy_id raw
          in if pr_conditions (rr_rule r) \<noteq> [] \<or> pr_actions (rr_rule r) \<noteq> [] then [r] else [])"

text \<open>
  \<open>decodePolicyPayload\<close>; the ids and clock readings are those the handler draws, the first for the
  policy and the others for its rules.
\<close>

definition decode_policy_payload ::
  "(nat \<Rightarrow> string) \<Rightarrow> (nat \<Rightarrow> go_time) \<Rightarrow> any_map \<Rightarrow> policy \<times> rule_row list" where
  "decode_policy_payload fresh clock raw =
     (let p = decoded_policy (fresh 0) (format_time (clock 0)) raw
      in (p, decoded_rules (\<lambda>i. fresh (Suc i)) (\<lambda>i. format_time (clock (Suc i))) (po_id p) raw))"

section \<open>The handlers\<close>

text \<open>The \<open>POST\<close> branch of \<open>handlePolicies\<close>, for an authorised caller; \<open>Inl\<close> is the decoder's error.\<close>

definition post_policy ::
  "(rat \<Rightarrow> string) \<Rightarrow> (nat \<Rightarrow> string) \<Rightarrow> (nat \<Rightarrow> go_time) \<Rightarrow> go_time \<Rightarrow> any_map result \<Rightarrow> policy_tables \<Rightarrow>
   (admin_error + policy \<times> rule_row list) \<times> policy_tables" where
  "post_policy float_text fresh clock now body t =
     (case body of
        Inl e \<Rightarrow> (admin_fail 400 e ''invalid_policy'', t)
      | Inr raw \<Rightarrow>
          let (p, rules) = decode_policy_payload fresh clock raw
          in case upsert_policy_with_rules float_text now p (Some rules) t of
               Inl e \<Rightarrow> (admin_fail 500 e ''policy_save_failed'', t)
             | Inr t' \<Rightarrow> (Inr (p, rules), t'))"

record plan_line =
  pl_id :: string
  pl_name :: string
  pl_action :: string
  pl_rules :: nat

record import_report =
  ir_dry_run :: bool
  ir_created :: nat
  ir_updated :: nat
  ir_plan :: "plan_line list"

definition plan_step :: "string list \<Rightarrow> policy \<times> rule_row list option \<Rightarrow> import_report \<Rightarrow> import_report" where
  "plan_step existing item report =
     (let p = fst item; known = po_id p \<in> set existing;
          line = \<lparr>pl_id = po_id p, pl_name = po_name p,
                  pl_action = (if known then ''update'' else ''create''),
                  pl_rules = (case snd item of None \<Rightarrow> 0 | Some rs \<Rightarrow> length rs)\<rparr>
      in report\<lparr>ir_created := ir_created report + (if known then 0 else 1),
                ir_updated := ir_updated report + (if known then 1 else 0),
                ir_plan := ir_plan report @ [line]\<rparr>)"

text \<open>The loop over the policies of the document; an error leaves what was written before it.\<close>

fun import_loop ::
  "(rat \<Rightarrow> string) \<Rightarrow> (nat \<Rightarrow> go_time) \<Rightarrow> string list \<Rightarrow> (policy \<times> rule_row list option) list \<Rightarrow> import_report \<Rightarrow>
   policy_tables \<Rightarrow> (admin_error + import_report) \<times> policy_tables" where
  "import_loop float_text clock existing [] report t = (Inr report, t)"
| "import_loop float_text clock existing (item # items) report t =
     (if trim_space (po_id (fst item)) = [] \<or> trim_space (po_name (fst item)) = []
      then (admin_fail 400 ''each policy needs id and name'' ''invalid_policy'', t)
      else
        let report' = plan_step existing item report
        in if ir_dry_run report then import_loop float_text (\<lambda>i. clock (Suc i)) existing items report' t
           else case upsert_policy_with_rules float_text (clock 0) (fst item) (snd item) t of
                  Inl e \<Rightarrow> (admin_fail 500 e ''policy_import_failed'', t)
                | Inr t' \<Rightarrow> import_loop float_text (\<lambda>i. clock (Suc i)) existing items report' t')"

definition handle_policy_import ::
  "(rat \<Rightarrow> string) \<Rightarrow> (nat \<Rightarrow> go_time) \<Rightarrow> string \<Rightarrow> (policy \<times> rule_row list option) list option \<Rightarrow>
   policy_tables \<Rightarrow> (admin_error + import_report) \<times> policy_tables" where
  "handle_policy_import float_text clock dry_run body t =
     (case body of
        None \<Rightarrow> (admin_fail 400 ''invalid JSON body'' ''invalid_body'', t)
      | Some items \<Rightarrow>
          if items = [] then (admin_fail 400 ''no policies in payload'' ''empty_payload'', t)
          else import_loop float_text clock (map (\<lambda>(p, _). po_id p) (list_policies t)) items
                 \<lparr>ir_dry_run = (dry_run = ''1''), ir_created = 0, ir_updated = 0, ir_plan = []\<rparr> t)"

section \<open>What the tables keep\<close>

lemma insert_rows_result:
  "insert_rows key ns rs =
     (if distinct (map key ns) \<and> set (map key ns) \<inter> set (map key rs) = {} then Inr (rs @ ns)
      else Inl ''UNIQUE constraint failed'')"
  by (induction key ns rs rule: insert_rows.induct) (auto simp: insert_row_def)

definition tables_ok :: "policy_tables \<Rightarrow> bool" where
  "tables_ok t \<longleftrightarrow> distinct (map po_id (pt_policies t)) \<and> distinct (map rr_id (pt_rules t))"

lemma policy_defaults_id [simp]: "po_id (policy_defaults ts p) = po_id p"
  by (simp add: policy_defaults_def)

lemma rule_defaults_id [simp]: "rr_id (rule_defaults ft ts pid r) = rr_id r"
  by (simp add: rule_defaults_def)

lemma rule_defaults_policy_id [simp]:
  "rr_policy_id (rule_defaults ft ts pid r) = (if rr_policy_id r = [] then pid else rr_policy_id r)"
  by (simp add: rule_defaults_def)

lemma upsert_policy_Inr_None:
  "upsert_policy_with_rules ft now p None t = Inr t' \<longleftrightarrow>
     t' = t\<lparr>pt_policies := upsert_row po_id merge_policy (policy_defaults (format_time now) p) (pt_policies t)\<rparr>"
  by (auto simp: upsert_policy_with_rules_def Let_def)

definition rules_fit :: "string \<Rightarrow> rule_row list \<Rightarrow> policy_tables \<Rightarrow> bool" where
  "rules_fit pid rs t \<longleftrightarrow>
     distinct (map rr_id rs) \<and>
     set (map rr_id rs) \<inter> rr_id ` {r \<in> set (pt_rules t). rr_policy_id r \<noteq> pid} = {}"

lemma upsert_policy_Some:
  "upsert_policy_with_rules ft now p (Some rs) t =
     (if rules_fit (po_id p) rs t
      then Inr (t\<lparr>pt_policies := upsert_row po_id merge_policy (policy_defaults (format_time now) p) (pt_policies t),
                 pt_rules := filter (\<lambda>r. rr_policy_id r \<noteq> po_id p) (pt_rules t)
                   @ map (rule_defaults ft (format_time now) (po_id p)) rs\<rparr>)
      else Inl ''UNIQUE constraint failed'')"
proof -
  have m: "map (pr_id \<circ> (rr_rule \<circ> rule_defaults ft ts pid)) rs = map rr_id rs" for ts pid
    by (simp add: comp_def)
  have i: "(\<lambda>x. pr_id (rr_rule (rule_defaults ft ts pid x))) ` A = rr_id ` A" for ts pid A
    by simp
  show ?thesis
    by (simp add: upsert_policy_with_rules_def Let_def insert_rows_result rules_fit_def m i comp_def image_image)
qed

lemma upsert_policy_ok:
  assumes "tables_ok t" "upsert_policy_with_rules ft now p rules t = Inr t'"
  shows "tables_ok t'"
proof -
  have d: "distinct (map po_id (upsert_row po_id merge_policy (policy_defaults ts p) (pt_policies t)))" for ts
    using assms(1) by (auto simp: tables_ok_def merge_policy_def intro!: upsert_row_distinct)
  show ?thesis
  proof (cases rules)
    case None
    then show ?thesis using assms d by (auto simp: upsert_policy_Inr_None tables_ok_def)
  next
    case (Some rs)
    then have fit: "rules_fit (po_id p) rs t" and t': "pt_policies t' =
        upsert_row po_id merge_policy (policy_defaults (format_time now) p) (pt_policies t)"
      "pt_rules t' = filter (\<lambda>r. rr_policy_id r \<noteq> po_id p) (pt_rules t)
         @ map (rule_defaults ft (format_time now) (po_id p)) rs"
      using assms(2) by (auto simp: upsert_policy_Some split: if_splits)
    have "distinct (map rr_id (pt_rules t'))"
      using fit assms(1) unfolding t' rules_fit_def tables_ok_def
      by (auto simp: comp_def distinct_map_filter)
    then show ?thesis using d t'(1) by (simp add: tables_ok_def)
  qed
qed

lemma post_policy_ok:
  "tables_ok t \<Longrightarrow> tables_ok (snd (post_policy ft fresh clock now body t))"
  by (auto simp: post_policy_def split: sum.split prod.split intro: upsert_policy_ok)

lemma import_loop_ok:
  "tables_ok t \<Longrightarrow> tables_ok (snd (import_loop ft clock existing items report t))"
  by (induction ft clock existing items report t rule: import_loop.induct)
    (auto simp: Let_def split: sum.split dest: upsert_policy_ok)

text \<open>
  Writing a policy with its rules is one transaction.  It fails exactly when two of the new rules
  share an id or one has the id of a rule of another policy.  When it succeeds, the policy owns exactly
  the rules written, in their order, with defaults filled in (those of its old rules that are not
  among them are gone); the rules of every other policy, and every other policy, are untouched; the
  rollout percentage stored lies in 1 to 100.
\<close>
lemma policy_write_exact:
  assumes "\<forall>r \<in> set rs. rr_policy_id r \<in> {[], po_id p}" "po_id p \<noteq> []"
  shows "(case upsert_policy_with_rules ft now p (Some rs) t of
     Inl _ \<Rightarrow> \<not> rules_fit (po_id p) rs t
   | Inr t' \<Rightarrow> rules_fit (po_id p) rs t \<and>
       filter (\<lambda>r. rr_policy_id r = po_id p) (pt_rules t') = map (rule_defaults ft (format_time now) (po_id p)) rs \<and>
       filter (\<lambda>r. rr_policy_id r \<noteq> po_id p) (pt_rules t') = filter (\<lambda>r. rr_policy_id r \<noteq> po_id p) (pt_rules t) \<and>
       (\<forall>k. k = po_id p \<or> find_row po_id (pt_policies t') k = find_row po_id (pt_policies t) k) \<and>
       (\<exists>row. find_row po_id (pt_policies t') (po_id p) = Some row \<and>
          po_enabled row = po_enabled p \<and> po_name row = po_name p \<and> po_rollout_percent row \<in> {1..100}))"
proof -
  let ?f = "rule_defaults ft (format_time now) (po_id p)"
  have own: "rr_policy_id (?f r) = po_id p" if "r \<in> set rs" for r
    using assms(1) that by auto
  have own_all: "filter (\<lambda>r. rr_policy_id r = po_id p) (map ?f rs) = map ?f rs"
    "filter (\<lambda>r. rr_policy_id r \<noteq> po_id p) (map ?f rs) = []"
    using own by (simp_all add: filter_id_conv filter_empty_conv)
  show ?thesis
  proof (cases "rules_fit (po_id p) rs t")
    case False
    then show ?thesis by (simp add: upsert_policy_Some)
  next
    case True
    have row: "find_row po_id (upsert_row po_id merge_policy (policy_defaults (format_time now) p) ps) k =
      (if k = po_id p then Some (case find_row po_id ps k of
          None \<Rightarrow> policy_defaults (format_time now) p
        | Some old \<Rightarrow> merge_policy old (policy_defaults (format_time now) p))
       else find_row po_id ps k)" for ps k
      by (simp add: policies.get_put)
    show ?thesis
      using True by (simp add: upsert_policy_Some own_all row)
        (auto simp: merge_policy_def policy_defaults_def split: option.split)
  qed
qed

definition sample_policy :: policy where
  "sample_policy = \<lparr>po_id = ''p'', po_name = ''n'', po_description = [], po_enabled = True, po_priority = 0,
     po_rollout_percent = 0, po_created_at = ''c'', po_updated_at = []\<rparr>"

definition sample_row :: rule_row where
  "sample_row = \<lparr>rr_rule = sample_rule\<lparr>pr_policy_id := []\<rparr>, rr_created_at = ''c'', rr_updated_at = []\<rparr>"

definition no_tables :: policy_tables where
  "no_tables = \<lparr>pt_policies = [], pt_rules = []\<rparr>"

lemma policy_write_exact_witness:
  "\<exists>t'. upsert_policy_with_rules (\<lambda>_. []) 0 sample_policy (Some [sample_row]) no_tables = Inr t' \<and>
     map rr_id (filter (\<lambda>r. rr_policy_id r = ''p'') (pt_rules t')) = [''r1'']"
  using policy_write_exact [where rs = "[sample_row]" and p = sample_policy and ft = "\<lambda>_. []" and now = 0
      and t = no_tables]
  by (auto simp: sample_policy_def sample_row_def sample_rule_def no_tables_def rules_fit_def split: sum.splits)

text \<open>A rule as enforcement sees it: with the rollout of its policy.\<close>

definition live_rule :: "policy \<Rightarrow> rule_row \<Rightarrow> policy_rule" where
  "live_rule p r = (rr_rule r)\<lparr>pr_rollout_percent := read_rollout (po_rollout_percent p)\<rparr>"

lemma set_active_policy_rules:
  "set (active_policy_rules t) =
     {live_rule p r |p r. r \<in> set (pt_rules t) \<and> find_row po_id (pt_policies t) (rr_policy_id r) = Some p \<and>
        po_enabled p \<and> pr_enabled (rr_rule r)}"
  by (force simp: active_policy_rules_def joined_rules_def live_rule_def List.map_filter_def image_iff)

text \<open>
  C37. From the tables to the decision: a request is blocked exactly when some stored rule, enabled and
  of an enabled policy that exists, is in force for it at the rollout of that policy and blocks it;
  disabled rules, rules of disabled or deleted policies and rules outside their rollout slice never
  block.  When the rules cannot be read, nothing is blocked.
\<close>
theorem stored_rules_decide:
  "(gd_blocked (evaluate_governance (Inr (active_policy_rules t)) g) \<longleftrightarrow>
     (\<exists>r p. r \<in> set (pt_rules t) \<and> find_row po_id (pt_policies t) (rr_policy_id r) = Some p \<and>
        po_enabled p \<and> pr_enabled (rr_rule r) \<and> in_force g (live_rule p r) \<and> rule_blocks g (live_rule p r))) \<and>
   \<not> gd_blocked (evaluate_governance (Inl err) g)"
  unfolding evaluate_governance_def
  by (simp add: evaluate_policy_rules_blocked set_active_policy_rules) blast

text \<open>The report of a real import is that of its dry run.\<close>

lemma plan_step_dry:
  "plan_step existing item (report\<lparr>ir_dry_run := b\<rparr>) = (plan_step existing item report)\<lparr>ir_dry_run := b\<rparr>"
  by (simp add: plan_step_def Let_def)

lemma plan_step_flag [simp]: "ir_dry_run (plan_step existing item report) = ir_dry_run report"
  by (simp add: plan_step_def Let_def)

lemma import_loop_dry:
  "import_loop ft clock existing items report t = (Inr final, t') \<Longrightarrow> \<not> ir_dry_run report \<Longrightarrow>
     import_loop ft clock' existing items (report\<lparr>ir_dry_run := True\<rparr>) s = (Inr (final\<lparr>ir_dry_run := True\<rparr>), s)"
proof (induction ft clock existing items report t arbitrary: clock' rule: import_loop.induct)
  case (1 ft clock existing report t)
  then show ?case by simp
next
  case (2 ft clock existing item items report t)
  from 2(3,4) obtain t1 where
    n: "\<not> (trim_space (po_id (fst item)) = [] \<or> trim_space (po_name (fst item)) = [])" and
    u: "upsert_policy_with_rules ft (clock 0) (fst item) (snd item) t = Inr t1" and
    r: "import_loop ft (\<lambda>i. clock (Suc i)) existing items (plan_step existing item report) t1 = (Inr final, t')"
    by (auto simp: Let_def admin_fail_def split: if_splits sum.splits)
  show ?case
    using 2(2) [OF n refl 2(4) u r] n 2(4) by (simp add: plan_step_dry)
qed

text \<open>
  The plan of an import is honest: whenever the import of a document succeeds, its dry run on the
  same tables writes nothing and reports the same policies created and updated, with the same rule
  counts.
\<close>
lemma dry_run_tells_the_plan:
  assumes "dry \<noteq> ''1''" "handle_policy_import ft clock dry (Some items) t = (Inr report, t')"
  shows "handle_policy_import ft clock' ''1'' (Some items) t = (Inr (report\<lparr>ir_dry_run := True\<rparr>), t)"
proof (cases "items = []")
  case True
  then show ?thesis using assms by (simp add: handle_policy_import_def)
next
  case False
  then show ?thesis
    using assms import_loop_dry
      [of ft clock _ items "\<lparr>ir_dry_run = False, ir_created = 0, ir_updated = 0, ir_plan = []\<rparr>" t report t' clock' t]
    by (simp add: handle_policy_import_def)
qed

lemma dry_run_tells_the_plan_witness:
  "\<exists>report t'. handle_policy_import (\<lambda>_. []) (\<lambda>_. 0) [] (Some [(sample_policy, None)]) no_tables = (Inr report, t') \<and>
     handle_policy_import (\<lambda>_. []) (\<lambda>_. 0) ''1'' (Some [(sample_policy, None)]) no_tables =
       (Inr (report\<lparr>ir_dry_run := True\<rparr>), no_tables)"
proof -
  have n: "trim_space ''p'' = ''p''" "trim_space ''n'' = ''n''" by code_simp+
  obtain report t' where
    r: "handle_policy_import (\<lambda>_. []) (\<lambda>_. 0) [] (Some [(sample_policy, None)]) no_tables = (Inr report, t')"
    by (simp add: handle_policy_import_def no_tables_def sample_policy_def n Let_def upsert_policy_with_rules_def)
  show ?thesis
    using dry_run_tells_the_plan [OF _ r, of "\<lambda>_. 0"] r by auto
qed

text \<open>
  An import is not one transaction: when a later policy of the document is refused, the response is
  an error and the policies before it stay written.
\<close>
lemma failed_import_keeps_its_prefix:
  "\<exists>err t'. handle_policy_import (\<lambda>_. []) (\<lambda>_. 0) []
       (Some [(sample_policy, None), (sample_policy\<lparr>po_id := ''q'', po_name := []\<rparr>, None)]) no_tables = (Inl err, t') \<and>
     aerr_status err = 400 \<and> map po_id (pt_policies t') = [''p'']"
proof -
  have n: "trim_space ''p'' = ''p''" "trim_space ''n'' = ''n''" "trim_space ''q'' = ''q''" by code_simp+
  show ?thesis
    by (simp add: handle_policy_import_def no_tables_def sample_policy_def n Let_def upsert_policy_with_rules_def
        admin_fail_def policy_defaults_def)
qed

text \<open>
  A payload is decoded with \<open>UseNumber\<close>, whose numbers \<open>boolAction\<close> does not know: a policy posted
  with \<open>"enabled": 1\<close> is stored disabled, while the text \<open>"1"\<close> and \<open>true\<close> enable it, and the number 1
  would enable it anywhere else.
\<close>
lemma numeric_enabled_disables:
  "\<not> po_enabled (fst (decode_policy_payload fresh clock [(''enabled'', Any_number 1 ''1'')])) \<and>
   po_enabled (fst (decode_policy_payload fresh clock [(''enabled'', Any_str ''1'')])) \<and>
   po_enabled (fst (decode_policy_payload fresh clock [(''enabled'', Any_bool True)])) \<and>
   bool_action (Any_num 1 ''1'')"
proof -
  have "trim_space ''1'' = ''1''" by code_simp
  then show ?thesis
    by (simp add: decode_policy_payload_def Let_def decoded_policy_def enabled_flag_def bool_action_def)
qed

end
