(* ===== verification/ToolGovernance.thy ===== *)
theory ToolGovernance
  imports PolicyStore
begin

text \<open>
  Who may call which MCP tool: risk profiles and least-privilege scopes of tools, approvals, and the
  check of a call (\<open>internal/proxy/governance.go\<close>, \<open>internal/proxy/mcp_scope.go\<close>, their tables in
  \<open>internal/store\<close>, and the handlers that write them).  What the secret detectors find in the
  arguments of a call is part of the call; the hash and \<open>fmt.Sprint\<close> are parameters.
\<close>

section \<open>Tables\<close>

record tool_risk_profile =
  tp_id :: string
  tp_server_label :: string
  tp_tool_name :: string
  tp_risk_level :: string
  tp_action :: string
  tp_note :: string
  tp_created_at :: string
  tp_updated_at :: string

record mcp_tool_scope =
  ts_id :: string
  ts_server_label :: string
  ts_tool_name :: string
  ts_allowed_roles :: string
  ts_allowed_namespaces :: string
  ts_allowed_clusters :: string
  ts_masking_level :: string
  ts_approval_rule :: string
  ts_enabled :: bool
  ts_note :: string
  ts_created_at :: string
  ts_updated_at :: string

record approval =
  ap_id :: string
  ap_request_id :: string
  ap_api_key_id :: string
  ap_user_id :: string
  ap_team_id :: string
  ap_subject_type :: string
  ap_subject_id :: string
  ap_status :: string
  ap_reason :: string
  ap_risk_score :: int
  ap_cost_krw :: rat
  ap_payload :: string
  ap_expires_at :: string
  ap_decided_by :: string
  ap_decided_at :: string
  ap_created_at :: string

record tool_tables =
  tt_profiles :: "tool_risk_profile list"
  tt_scopes :: "mcp_tool_scope list"
  tt_approvals :: "approval list"
  tt_events :: "policy_decision_event list"

definition format_optional_time :: "go_time \<Rightarrow> string" where
  "format_optional_time value = (if value = zero_time then [] else format_time value)"

definition parse_optional_time :: "string \<Rightarrow> go_time" where
  "parse_optional_time raw =
     (if raw = [] then zero_time else case parse_rfc3339 raw of None \<Rightarrow> zero_time | Some t \<Rightarrow> t)"

text \<open>Scopes and profiles are unique by server and tool; the new row keeps the id and creation time of the old.\<close>

definition scope_key :: "mcp_tool_scope \<Rightarrow> string \<times> string" where
  "scope_key p = (ts_server_label p, ts_tool_name p)"

definition profile_key :: "tool_risk_profile \<Rightarrow> string \<times> string" where
  "profile_key p = (tp_server_label p, tp_tool_name p)"

definition merge_scope :: "mcp_tool_scope \<Rightarrow> mcp_tool_scope \<Rightarrow> mcp_tool_scope" where
  "merge_scope old new = new\<lparr>ts_id := ts_id old, ts_created_at := ts_created_at old\<rparr>"

definition merge_profile :: "tool_risk_profile \<Rightarrow> tool_risk_profile \<Rightarrow> tool_risk_profile" where
  "merge_profile old new = new\<lparr>tp_id := tp_id old, tp_created_at := tp_created_at old\<rparr>"

interpretation scopes: replacing_store scope_key "find_row scope_key" "upsert_row scope_key merge_scope" merge_scope
  unfolding replacing_store_def replacing_store_axioms_def
  by (auto simp: merge_scope_def scope_key_def intro!: row_store_upsert)

interpretation profiles: replacing_store profile_key "find_row profile_key"
  "upsert_row profile_key merge_profile" merge_profile
  unfolding replacing_store_def replacing_store_axioms_def
  by (auto simp: merge_profile_def profile_key_def intro!: row_store_upsert)

text \<open>A row whose id a row with another key has breaks the primary key.\<close>

definition upsert_mcp_tool_scope ::
  "(string \<Rightarrow> string) \<Rightarrow> go_time \<Rightarrow> mcp_tool_scope \<Rightarrow> tool_tables \<Rightarrow> tool_tables result" where
  "upsert_mcp_tool_scope audit_hash now p t =
     (let ts = format_time now;
          p = p\<lparr>ts_created_at := (if ts_created_at p = [] then ts else ts_created_at p), ts_updated_at := ts,
                ts_id := (if ts_id p = [] then ''mts_'' @ audit_hash (ts_server_label p @ ''|'' @ ts_tool_name p)
                          else ts_id p),
                ts_masking_level := (if ts_masking_level p = [] then ''none'' else ts_masking_level p),
                ts_approval_rule := (if ts_approval_rule p = [] then ''inherit'' else ts_approval_rule p)\<rparr>
      in if list_ex (\<lambda>q. ts_id q = ts_id p \<and> scope_key q \<noteq> scope_key p) (tt_scopes t)
         then Inl ''UNIQUE constraint failed''
         else Inr (t\<lparr>tt_scopes := upsert_row scope_key merge_scope p (tt_scopes t)\<rparr>))"

definition delete_mcp_tool_scope :: "string \<Rightarrow> string \<Rightarrow> tool_tables \<Rightarrow> tool_tables" where
  "delete_mcp_tool_scope server tool t =
     t\<lparr>tt_scopes := filter (\<lambda>p. scope_key p \<noteq> (server, tool)) (tt_scopes t)\<rparr>"

definition upsert_tool_risk_profile ::
  "(string \<Rightarrow> string) \<Rightarrow> go_time \<Rightarrow> tool_risk_profile \<Rightarrow> tool_tables \<Rightarrow> tool_tables result" where
  "upsert_tool_risk_profile audit_hash now p t =
     (let ts = format_time now;
          p = p\<lparr>tp_created_at := (if tp_created_at p = [] then ts else tp_created_at p), tp_updated_at := ts,
                tp_id := (if tp_id p = [] then ''trp_'' @ audit_hash (tp_server_label p @ ''|'' @ tp_tool_name p)
                          else tp_id p)\<rparr>
      in if list_ex (\<lambda>q. tp_id q = tp_id p \<and> profile_key q \<noteq> profile_key p) (tt_profiles t)
         then Inl ''UNIQUE constraint failed''
         else Inr (t\<lparr>tt_profiles := upsert_row profile_key merge_profile p (tt_profiles t)\<rparr>))"

text \<open>Most specific first: the exact pair, the server with any tool, the tool on any server, everything.\<close>

definition candidates :: "string \<Rightarrow> string \<Rightarrow> (string \<times> string) list" where
  "candidates server tool = [(server, tool), (server, ''*''), (''*'', tool), (''*'', ''*'')]"

fun first_found :: "('k \<Rightarrow> 'r option) \<Rightarrow> 'k list \<Rightarrow> 'r option" where
  "first_found get [] = None"
| "first_found get (k # ks) = (case get k of Some r \<Rightarrow> Some r | None \<Rightarrow> first_found get ks)"

definition mcp_tool_scope_for :: "string \<Rightarrow> string \<Rightarrow> tool_tables \<Rightarrow> mcp_tool_scope option" where
  "mcp_tool_scope_for server tool t = first_found (find_row scope_key (tt_scopes t)) (candidates server tool)"

definition tool_risk_profile_for :: "string \<Rightarrow> string \<Rightarrow> tool_tables \<Rightarrow> tool_risk_profile option" where
  "tool_risk_profile_for server tool t = first_found (find_row profile_key (tt_profiles t)) (candidates server tool)"

section \<open>Risk of a tool\<close>

definition secret_words :: "string list" where
  "secret_words =
     [''secret'', ''credential'', ''password'', ''vault'', ''apikey'', ''api_key'', ''access key'',
      ''access_key'', ''token'', ''private key'', ''private_key'', ''env var'',
      [CHR 0xED, CHR 0x99, CHR 0x98, CHR 0xEA, CHR 0xB2, CHR 0xBD] @ '' '' @ [CHR 0xEB, CHR 0xB3, CHR 0x80, CHR 0xEC, CHR 0x88, CHR 0x98],
      [CHR 0xEB, CHR 0xB9, CHR 0x84, CHR 0xEB, CHR 0xB0, CHR 0x80]]"

definition execute_words :: "string list" where
  "execute_words =
     [''shell'', ''exec'', ''bash'', ''powershell'', ''terminal'', ''command'', ''run_'', ''kubectl'',
      ''terraform'', ''docker'', ''deploy'', ''ssh'', ''systemctl'', ''sudo'']"

definition network_words :: "string list" where
  "network_words =
     [''http'', ''fetch'', ''request'', ''curl'', ''url'', ''web'', ''browse'', ''download'', ''upload'',
      ''webhook'', ''email'', ''send_'', ''smtp'', ''network'', ''socket'']"

definition write_words :: "string list" where
  "write_words =
     [''write'', ''create'', ''update'', ''delete'', ''remove'', ''put'', ''post'', ''commit'', ''push'',
      ''mkdir'', ''edit'', ''modify'', ''insert'', ''drop'', ''migrate'', ''save'', ''rename'', ''db_'',
      ''database'', ''sql'', ''git'']"

definition infer_tool_access_class :: "string \<Rightarrow> string \<Rightarrow> string" where
  "infer_tool_access_class server tool =
     (let lower = to_lower (server @ '' '' @ tool); has = list_ex (contains lower)
      in if has secret_words then ''secret''
         else if has execute_words then ''execute''
         else if has network_words then ''network''
         else if has write_words then ''write''
         else ''read'')"

definition access_class_defaults :: "string \<Rightarrow> string \<times> string" where
  "access_class_defaults class =
     (if class = ''secret'' then (''critical'', ''require_approval'')
      else if class = ''execute'' then (''critical'', ''require_approval'')
      else if class = ''network'' then (''high'', ''require_approval'')
      else if class = ''write'' then (''medium'', ''allow'')
      else (''low'', ''allow''))"

definition infer_mcp_risk :: "string \<Rightarrow> string \<Rightarrow> string \<times> string" where
  "infer_mcp_risk server tool = (fst (access_class_defaults (infer_tool_access_class server tool)), ''allow'')"

definition risk_level_score :: "string \<Rightarrow> int" where
  "risk_level_score level =
     (let l = to_lower (trim_space level)
      in if l = ''critical'' then 95 else if l = ''high'' then 75 else if l = ''medium'' then 50 else 20)"

definition normalize_risk_level :: "string \<Rightarrow> string \<Rightarrow> string" where
  "normalize_risk_level value fallback =
     (let l = to_lower (trim_space value)
      in if l \<in> {''low'', ''medium'', ''high'', ''critical''} then l else fallback)"

definition normalize_tool_risk_action :: "string \<Rightarrow> string \<Rightarrow> string" where
  "normalize_tool_risk_action value fallback =
     (let l = to_lower (trim_space value)
      in if l \<in> {''allow'', ''block'', ''require_approval''} then l
         else if l \<in> {''approval'', ''approve''} then ''require_approval''
         else fallback)"

section \<open>The administrator's writes\<close>

text \<open>The \<open>POST\<close> branches behind authorisation; \<open>None\<close> is a body that does not decode.\<close>

definition coalesce_str :: "string \<Rightarrow> string \<Rightarrow> string" where
  "coalesce_str a b = (if a \<noteq> [] then a else b)"

definition valid_masking_levels :: "string list" where
  "valid_masking_levels = [''none'', ''partial'', ''strict'']"

definition valid_approval_rules :: "string list" where
  "valid_approval_rules = [''inherit'', ''always'', ''never'']"

definition scope_from_payload :: "mcp_tool_scope \<Rightarrow> bool option \<Rightarrow> mcp_tool_scope" where
  "scope_from_payload p enabled =
     \<lparr>ts_id = [], ts_server_label = coalesce_str (trim_space (ts_server_label p)) ''*'',
      ts_tool_name = coalesce_str (trim_space (ts_tool_name p)) ''*'',
      ts_allowed_roles = trim_space (ts_allowed_roles p), ts_allowed_namespaces = trim_space (ts_allowed_namespaces p),
      ts_allowed_clusters = trim_space (ts_allowed_clusters p),
      ts_masking_level = coalesce_str (to_lower (trim_space (ts_masking_level p))) ''none'',
      ts_approval_rule = coalesce_str (to_lower (trim_space (ts_approval_rule p))) ''inherit'',
      ts_enabled = (case enabled of None \<Rightarrow> True | Some b \<Rightarrow> b), ts_note = trim_space (ts_note p),
      ts_created_at = [], ts_updated_at = []\<rparr>"

definition post_mcp_tool_scope ::
  "(string \<Rightarrow> string) \<Rightarrow> go_time \<Rightarrow> (mcp_tool_scope \<times> bool option) option \<Rightarrow> tool_tables \<Rightarrow>
   (admin_error + mcp_tool_scope) \<times> tool_tables" where
  "post_mcp_tool_scope audit_hash now body t =
     (case body of
        None \<Rightarrow> (admin_fail 400 ''invalid JSON body'' ''invalid_body'', t)
      | Some (p, enabled) \<Rightarrow>
          let scope = scope_from_payload p enabled
          in if ts_masking_level scope \<notin> set valid_masking_levels
             then (admin_fail 400 ''masking_level must be none/partial/strict'' ''invalid_masking'', t)
             else if ts_approval_rule scope \<notin> set valid_approval_rules
             then (admin_fail 400 ''approval_rule must be inherit/always/never'' ''invalid_approval_rule'', t)
             else case upsert_mcp_tool_scope audit_hash now scope t of
                    Inl e \<Rightarrow> (admin_fail 500 e ''mcp_scope_save_failed'', t)
                  | Inr t' \<Rightarrow> (Inr scope, t'))"

definition post_tool_risk ::
  "(string \<Rightarrow> string) \<Rightarrow> string \<Rightarrow> go_time \<Rightarrow> tool_risk_profile option \<Rightarrow> tool_tables \<Rightarrow>
   (admin_error + tool_risk_profile) \<times> tool_tables" where
  "post_tool_risk audit_hash new_id now body t =
     (case body of
        None \<Rightarrow> (admin_fail 400 ''invalid JSON body'' ''invalid_body'', t)
      | Some p \<Rightarrow>
          let server = trim_space (tp_server_label p); tool = trim_space (tp_tool_name p);
              level = normalize_risk_level (tp_risk_level p) []; action = normalize_tool_risk_action (tp_action p) []
          in if server = [] \<or> tool = []
             then (admin_fail 400 ''server_label and tool_name are required'' ''missing_tool'', t)
             else if level = [] then (admin_fail 400 ''risk_level must be low/medium/high/critical'' ''invalid_risk_level'', t)
             else if action = [] then (admin_fail 400 ''action must be allow/require_approval/block'' ''invalid_action'', t)
             else
               let profile = \<lparr>tp_id = new_id, tp_server_label = server, tp_tool_name = tool, tp_risk_level = level,
                              tp_action = action, tp_note = trim_space (tp_note p), tp_created_at = [], tp_updated_at = []\<rparr>
               in case upsert_tool_risk_profile audit_hash now profile t of
                    Inl e \<Rightarrow> (admin_fail 500 e ''mcp_tool_risk_save_failed'', t)
                  | Inr t' \<Rightarrow> (Inr profile, t'))"

section \<open>Scopes\<close>

definition csv_allows :: "string \<Rightarrow> string \<Rightarrow> bool" where
  "csv_allows csv value =
     (let csv = trim_space csv; value = trim_space value
      in csv = [] \<or>
         list_ex (\<lambda>item. let item = trim_space item in item \<noteq> [] \<and> (item = ''*'' \<or> equal_fold item value))
           (split_char (CHR '','') csv))"

record mcp_scope_decision =
  sd_blocked :: bool
  sd_reason :: string
  sd_force_approval :: bool
  sd_skip_approval :: bool
  sd_masking_level :: string

definition evaluate_mcp_tool_scope ::
  "mcp_tool_scope \<Rightarrow> string \<Rightarrow> string \<Rightarrow> string \<Rightarrow> mcp_scope_decision" where
  "evaluate_mcp_tool_scope scope role namespace cluster =
     (let d = \<lparr>sd_blocked = False, sd_reason = [], sd_force_approval = False, sd_skip_approval = False,
               sd_masking_level = ts_masking_level scope\<rparr>;
          rule = to_lower (trim_space (ts_approval_rule scope))
      in if \<not> ts_enabled scope then d
         else if \<not> csv_allows (ts_allowed_roles scope) role
         then d\<lparr>sd_blocked := True, sd_reason := ''role '' @ [CHR 0x27] @ role @ [CHR 0x27] @ '' is not allowed for this tool''\<rparr>
         else if namespace \<noteq> [] \<and> \<not> csv_allows (ts_allowed_namespaces scope) namespace
         then d\<lparr>sd_blocked := True,
                sd_reason := ''namespace '' @ [CHR 0x27] @ namespace @ [CHR 0x27] @ '' is outside this tool'' @ [CHR 0x27] @ ''s allowed scope''\<rparr>
         else if cluster \<noteq> [] \<and> \<not> csv_allows (ts_allowed_clusters scope) cluster
         then d\<lparr>sd_blocked := True,
                sd_reason := ''cluster '' @ [CHR 0x27] @ cluster @ [CHR 0x27] @ '' is outside this tool'' @ [CHR 0x27] @ ''s allowed scope''\<rparr>
         else d\<lparr>sd_force_approval := (rule = ''always''), sd_skip_approval := (rule = ''never'')\<rparr>)"

text \<open>\<open>strAny\<close>: \<open>sprint\<close> is \<open>fmt.Sprint\<close>, used for booleans, lists and objects.\<close>

definition str_any :: "(any_val \<Rightarrow> string) \<Rightarrow> any_val \<Rightarrow> string" where
  "str_any sprint v =
     (case v of
        Any_str s \<Rightarrow> s
      | Any_num r text \<Rightarrow> if r = 0 then ''0'' else text
      | Any_null \<Rightarrow> []
      | _ \<Rightarrow> sprint v)"

text \<open>The arguments are the decoded object, empty when there is none.\<close>

definition extract_scope_targets :: "(any_val \<Rightarrow> string) \<Rightarrow> any_map \<Rightarrow> string \<times> string" where
  "extract_scope_targets sprint m =
     (let text = (\<lambda>k. str_any sprint (any_at m k));
          ns = trim_space (text ''namespace'')
      in (if ns = [] then trim_space (text ''ns'') else ns,
          trim_space (first_non_empty_raw [text ''cluster_id'', text ''cluster'', text ''clusterId''])))"

section \<open>Approvals\<close>

definition approval_defaults :: "go_time \<Rightarrow> approval \<Rightarrow> approval" where
  "approval_defaults now a =
     (let status = (if ap_status a = [] then ''pending'' else ap_status a)
      in a\<lparr>ap_created_at := (if ap_created_at a = [] then format_time now else ap_created_at a),
           ap_status := status,
           ap_expires_at := (if ap_expires_at a = [] \<and> status = ''pending'' then format_optional_time (now + 24 * hour)
                             else ap_expires_at a)\<rparr>)"

definition insert_approval :: "go_time \<Rightarrow> approval \<Rightarrow> tool_tables \<Rightarrow> tool_tables result" where
  "insert_approval now a t =
     (case insert_row ap_id (approval_defaults now a) (tt_approvals t) of
        Inl e \<Rightarrow> Inl e
      | Inr rows \<Rightarrow> Inr (t\<lparr>tt_approvals := rows\<rparr>))"

definition get_approval :: "string \<Rightarrow> tool_tables \<Rightarrow> approval option" where
  "get_approval k t = find_row ap_id (tt_approvals t) k"

text \<open>Expiry compares the stored texts, as SQL does.\<close>

definition expire_one :: "string \<Rightarrow> approval \<Rightarrow> approval" where
  "expire_one now a =
     (if ap_status a \<in> {''pending'', ''approved''} \<and> ap_expires_at a \<noteq> [] \<and> ap_expires_at a \<le> now
      then a\<lparr>ap_status := ''expired'',
             ap_decided_by := (if ap_decided_by a = [] then ''system'' else ap_decided_by a),
             ap_decided_at := now\<rparr>
      else a)"

definition expire_approvals :: "go_time \<Rightarrow> tool_tables \<Rightarrow> tool_tables" where
  "expire_approvals now t = t\<lparr>tt_approvals := map (expire_one (format_time now)) (tt_approvals t)\<rparr>"

definition decide :: "go_time \<Rightarrow> string \<Rightarrow> string \<Rightarrow> approval \<Rightarrow> approval" where
  "decide now status decided_by a =
     a\<lparr>ap_status := status, ap_decided_by := decided_by, ap_decided_at := format_time now\<rparr>"

definition set_approval_status :: "go_time \<Rightarrow> string \<Rightarrow> string \<Rightarrow> string \<Rightarrow> tool_tables \<Rightarrow> tool_tables" where
  "set_approval_status now k status decided_by t =
     t\<lparr>tt_approvals := map (\<lambda>a. if ap_id a = k then decide now status decided_by a else a) (tt_approvals t)\<rparr>"

definition set_pending_approval_status ::
  "go_time \<Rightarrow> string \<Rightarrow> string \<Rightarrow> string \<Rightarrow> tool_tables \<Rightarrow> bool \<times> tool_tables" where
  "set_pending_approval_status now k status decided_by t =
     (list_ex (\<lambda>a. ap_id a = k \<and> ap_status a = ''pending'') (tt_approvals t),
      t\<lparr>tt_approvals := map (\<lambda>a. if ap_id a = k \<and> ap_status a = ''pending'' then decide now status decided_by a else a)
           (tt_approvals t)\<rparr>)"

text \<open>\<open>handleApprovalDecision\<close> behind its authorisation and path checks: the id and the verb.\<close>

definition decide_approval ::
  "go_time \<Rightarrow> string \<Rightarrow> string \<Rightarrow> string \<Rightarrow> tool_tables \<Rightarrow> (admin_error + approval option) \<times> tool_tables" where
  "decide_approval now admin k verb t =
     (if verb \<notin> {''approve'', ''reject''} then (admin_fail 404 ''not found'' ''not_found'', t)
      else
        let status = (if verb = ''approve'' then ''approved'' else ''rejected''); t = expire_approvals now t
        in case get_approval k t of
             None \<Rightarrow> (admin_fail 404 ''approval not found'' ''approval_not_found'', t)
           | Some a \<Rightarrow>
               if ap_status a \<noteq> ''pending''
               then (admin_fail 409 (''approval is not pending: '' @ ap_status a) ''approval_not_pending'', t)
               else
                 let (updated, t') = set_pending_approval_status now k status admin t
                 in if \<not> updated then (admin_fail 409 ''approval is not pending'' ''approval_not_pending'', t')
                    else (Inr (get_approval k t'), t'))"

section \<open>The approval gate\<close>

text \<open>Why an approval, past the first expiry check, does not cover a request; \<open>None\<close> when it does.\<close>

definition mismatch :: "string \<Rightarrow> string \<Rightarrow> bool" where
  "mismatch bound actual \<longleftrightarrow> bound \<noteq> [] \<and> actual \<noteq> [] \<and> bound \<noteq> actual"

definition approval_past :: "go_time \<Rightarrow> approval \<Rightarrow> bool" where
  "approval_past now a \<longleftrightarrow>
     parse_optional_time (ap_expires_at a) \<noteq> zero_time \<and> parse_optional_time (ap_expires_at a) < now"

definition approval_refusal :: "go_time \<Rightarrow> governance_context \<Rightarrow> approval \<Rightarrow> string option" where
  "approval_refusal now g a =
     (if ap_status a \<noteq> ''approved'' then Some (''approval status is '' @ ap_status a)
      else if approval_past now a then Some ''approval expired''
      else if ap_subject_type a \<noteq> [] \<and> ap_subject_type a \<noteq> gc_subject_type g
      then Some ''approval subject type does not match this request''
      else if mismatch (ap_api_key_id a) (gc_api_key_id g)
      then Some ''approval api key does not match this request''
      else if mismatch (ap_user_id a) (gc_user_id g)
      then Some ''approval user does not match this request''
      else if mismatch (ap_team_id a) (gc_team_id g)
      then Some ''approval team does not match this request''
      else if ap_subject_id a \<noteq> [] \<and> ap_subject_id a \<noteq> gc_subject_id g
      then Some ''approval subject does not match this request''
      else None)"

definition pending_approval :: "go_time \<Rightarrow> string \<Rightarrow> governance_context \<Rightarrow> string \<Rightarrow> string \<Rightarrow> approval" where
  "pending_approval now new_id g reason payload =
     \<lparr>ap_id = new_id, ap_request_id = gc_request_id g, ap_api_key_id = gc_api_key_id g, ap_user_id = gc_user_id g,
      ap_team_id = gc_team_id g, ap_subject_type = gc_subject_type g, ap_subject_id = gc_subject_id g,
      ap_status = ''pending'', ap_reason = reason, ap_risk_score = gc_risk_score g, ap_cost_krw = gc_cost_krw g,
      ap_payload = payload, ap_expires_at = format_optional_time (now + 24 * hour), ap_decided_by = [],
      ap_decided_at = [], ap_created_at = format_time now\<rparr>"

record gate_answer =
  ga_allowed :: bool
  ga_approval_id :: string
  ga_message :: string

text \<open>The errors of the writes are dropped, as the code drops them; \<open>payload\<close> is the JSON of the request.\<close>

definition governance_approval_gate ::
  "go_time \<Rightarrow> string \<Rightarrow> string \<Rightarrow> string \<Rightarrow> governance_context \<Rightarrow> string \<Rightarrow> tool_tables \<Rightarrow> gate_answer \<times> tool_tables" where
  "governance_approval_gate now new_id payload header g reason t =
     (let header = trim_space header; answer = (\<lambda>ok k m. \<lparr>ga_allowed = ok, ga_approval_id = k, ga_message = m\<rparr>)
      in if header \<noteq> [] then
           let t = expire_approvals now t
           in case get_approval header t of
                None \<Rightarrow> (answer False header ''approval id is invalid or not found'', t)
              | Some a \<Rightarrow>
                  if ap_status a = ''pending'' \<and> approval_past now a
                  then (answer False (ap_id a) ''approval expired'',
                        set_approval_status now (ap_id a) ''expired'' ''system'' t)
                  else case approval_refusal now g a of
                         Some m \<Rightarrow> (answer False (ap_id a) m, t)
                       | None \<Rightarrow> (answer True (ap_id a) [], t)
         else
           (answer False new_id (''approval required: '' @ reason),
            case insert_approval now (pending_approval now new_id g reason payload) t of Inl _ \<Rightarrow> t | Inr t' \<Rightarrow> t'))"

section \<open>The check of a tool call\<close>

record auth_context =
  ac_user_id :: string
  ac_team_id :: string
  ac_team_name :: string
  ac_role :: string

record tool_call =
  tc_server :: string
  tc_tool :: string
  tc_api_key_id :: string
  tc_auth :: "auth_context option"
  tc_args :: string
  tc_arg_map :: any_map
  tc_secret_types :: "string list"
  tc_approval_header :: string

definition auth_field :: "(auth_context \<Rightarrow> string) \<Rightarrow> tool_call \<Rightarrow> string" where
  "auth_field f call = (case tc_auth call of None \<Rightarrow> [] | Some a \<Rightarrow> f a)"

text \<open>The context the rules see: \<open>hash_text\<close> is \<open>audit.HashText\<close>.\<close>

definition tool_context :: "(string \<Rightarrow> string) \<Rightarrow> string \<Rightarrow> tool_call \<Rightarrow> governance_context" where
  "tool_context hash_text risk_level call =
     \<lparr>gc_request_id = [], gc_api_key_id = tc_api_key_id call, gc_user_id = auth_field ac_user_id call,
      gc_team_id = auth_field ac_team_id call, gc_team_name = auth_field ac_team_name call,
      gc_role = auth_field ac_role call, gc_endpoint = ''/mcp'', gc_phase = ''mcp_tool'',
      gc_model = ''mcp:'' @ tc_server call, gc_provider = tc_server call,
      gc_risk_score = risk_level_score risk_level, gc_complexity_score = 0, gc_cost_krw = 0,
      gc_contains_secret = (tc_secret_types call \<noteq> []), gc_secret_types = tc_secret_types call,
      gc_mcp_server = tc_server call, gc_mcp_tool = tc_tool call, gc_subject_type = ''mcp_tool'',
      gc_subject_id = take 24 (hash_text (join ''|'' [tc_api_key_id call, tc_server call, tc_tool call, tc_args call]))\<rparr>"

definition tool_risk_decision_event ::
  "governance_context \<Rightarrow> tool_risk_profile option \<Rightarrow> string \<Rightarrow> string \<Rightarrow> policy_decision_event" where
  "tool_risk_decision_event g profile decision reason =
     \<lparr>pde_request_id = gc_request_id g, pde_api_key_id = gc_api_key_id g, pde_user_id = gc_user_id g,
      pde_team_id = gc_team_id g, pde_endpoint = gc_endpoint g,
      pde_phase = first_non_empty_raw [gc_phase g, ''mcp_tool''], pde_policy_id = ''tool_risk_profile'',
      pde_rule_id = (case profile of None \<Rightarrow> gc_mcp_server g @ ''/'' @ gc_mcp_tool g | Some p \<Rightarrow> tp_id p),
      pde_rule_name = (case profile of None \<Rightarrow> gc_mcp_server g @ ''/'' @ gc_mcp_tool g
                       | Some p \<Rightarrow> tp_server_label p @ ''/'' @ tp_tool_name p),
      pde_decision = decision, pde_reason = reason, pde_model = gc_model g, pde_provider = gc_provider g,
      pde_risk_score = gc_risk_score g, pde_complexity_score = gc_complexity_score g, pde_cost_krw = gc_cost_krw g\<rparr>"

definition with_policy_decision_request_id ::
  "policy_decision_event list \<Rightarrow> string \<Rightarrow> policy_decision_event list" where
  "with_policy_decision_request_id events request_id =
     map (\<lambda>e. if pde_request_id e = [] then e\<lparr>pde_request_id := request_id\<rparr> else e) events"

definition record_policy_decision_events :: "policy_decision_event list \<Rightarrow> tool_tables \<Rightarrow> tool_tables" where
  "record_policy_decision_events events t =
     t\<lparr>tt_events := tt_events t @ filter (\<lambda>e. trim_space (pde_decision e) \<noteq> []) events\<rparr>"

text \<open>Risk level, action and note of the tool: the profile over what the name suggests.\<close>

definition profile_risk :: "tool_call \<Rightarrow> tool_risk_profile option \<Rightarrow> string \<times> string \<times> string" where
  "profile_risk call profile =
     (let (level, action) = infer_mcp_risk (tc_server call) (tc_tool call)
      in case profile of
           None \<Rightarrow> (level, action, [])
         | Some p \<Rightarrow> (normalize_risk_level (tp_risk_level p) level, normalize_tool_risk_action (tp_action p) action, tp_note p))"

definition scope_decision ::
  "(any_val \<Rightarrow> string) \<Rightarrow> tool_call \<Rightarrow> mcp_tool_scope option \<Rightarrow> mcp_scope_decision option" where
  "scope_decision sprint call scope =
     map_option (\<lambda>sc. let (ns, cl) = extract_scope_targets sprint (tc_arg_map call)
                      in evaluate_mcp_tool_scope sc (auth_field ac_role call) ns cl) scope"

definition scoped_action :: "mcp_scope_decision option \<Rightarrow> string \<Rightarrow> string" where
  "scoped_action sd action =
     (case sd of
        None \<Rightarrow> action
      | Some d \<Rightarrow>
          let action = (if sd_force_approval d then ''require_approval'' else action)
          in if sd_skip_approval d \<and> action = ''require_approval'' then ''allow'' else action)"

text \<open>The profile's action on top of what the rules decided.\<close>

definition tool_label :: "tool_call \<Rightarrow> string" where
  "tool_label call = tc_server call @ ''/'' @ tc_tool call"

definition profile_decision ::
  "governance_context \<Rightarrow> tool_call \<Rightarrow> tool_risk_profile option \<Rightarrow> string \<Rightarrow> string \<Rightarrow> governance_decision \<Rightarrow>
   governance_decision" where
  "profile_decision g call profile note action d =
     (if action = ''block'' then
        let reason = first_non_empty_raw [note, ''MCP tool risk profile blocked '' @ tool_label call]
        in d\<lparr>gd_blocked := True, gd_reason := reason,
             gd_events := gd_events d @ [tool_risk_decision_event g profile ''block'' reason]\<rparr>
      else if action = ''require_approval'' then
        let reason = (if gd_reason d = []
                      then first_non_empty_raw [note, ''MCP tool risk profile requires approval '' @ tool_label call]
                      else gd_reason d)
        in d\<lparr>gd_require_approval := True, gd_reason := reason,
             gd_events := gd_events d @ [tool_risk_decision_event g profile ''require_approval'' reason]\<rparr>
      else d)"

datatype tool_outcome =
  Tool_pass | Scope_block string | Policy_block string | Approval_needed string string

text \<open>
  \<open>enforceMCPToolGovernance\<close>.  The three reads may fail: an unreadable profile lets the call pass, an
  unreadable scope does not bind, unreadable rules decide nothing.
\<close>

definition enforce_decision ::
  "go_time \<Rightarrow> string \<Rightarrow> string \<Rightarrow> string \<Rightarrow> tool_call \<Rightarrow> governance_context \<Rightarrow> governance_decision \<Rightarrow> tool_tables \<Rightarrow>
   tool_outcome \<times> tool_tables" where
  "enforce_decision now new_id req_id payload call g d t =
     (if gd_blocked d then
        (Policy_block (first_non_empty_raw [gd_reason d, ''mcp_tool_blocked'']),
         record_policy_decision_events (with_policy_decision_request_id (gd_events d) req_id) t)
      else if gd_require_approval d then
        let (answer, t) = governance_approval_gate now new_id payload (tc_approval_header call) g
              (first_non_empty_raw [gd_reason d, ''MCP tool approval required'']) t
        in if ga_allowed answer then (Tool_pass, record_policy_decision_events (gd_events d) t)
           else (Approval_needed (ga_message answer) (ga_approval_id answer),
                 record_policy_decision_events (with_policy_decision_request_id (gd_events d) req_id) t)
      else (Tool_pass, record_policy_decision_events (gd_events d) t))"

definition enforce_mcp_tool_governance ::
  "(string \<Rightarrow> string) \<Rightarrow> (any_val \<Rightarrow> string) \<Rightarrow> go_time \<Rightarrow> string \<Rightarrow> string \<Rightarrow> string \<Rightarrow>
   tool_risk_profile option result \<Rightarrow> mcp_tool_scope option result \<Rightarrow> policy_rule list result \<Rightarrow>
   tool_call \<Rightarrow> tool_tables \<Rightarrow> tool_outcome \<times> tool_tables" where
  "enforce_mcp_tool_governance hash_text sprint now new_id req_id payload profile scope rules call t =
     (case profile of
        Inl _ \<Rightarrow> (Tool_pass, t)
      | Inr profile \<Rightarrow>
          let (level, action, note) = profile_risk call profile;
              sd = scope_decision sprint call (case scope of Inl _ \<Rightarrow> None | Inr sc \<Rightarrow> sc);
              action = scoped_action sd action;
              g = tool_context hash_text level call
          in case sd of
               Some d \<Rightarrow>
                 if sd_blocked d then (Scope_block (sd_reason d), t)
                 else enforce_decision now new_id req_id payload call g
                        (profile_decision g call profile note action (evaluate_governance rules g)) t
             | None \<Rightarrow> enforce_decision now new_id req_id payload call g
                        (profile_decision g call profile note action (evaluate_governance rules g)) t)"

end
