(* ===== verification/TimeRoundTrip.thy ===== *)
theory TimeRoundTrip
  imports GoTime
begin

text \<open>
  A time that \<open>formatTime\<close> writes is read back by \<open>parseStoredTime\<close> as the same instant: the padded
  digits, the calendar and the fraction are inverted one by one.
\<close>

section \<open>Digits\<close>

lemma digit_char: "0 \<le> d \<Longrightarrow> d < 10 \<Longrightarrow> is_digit (char_of (48 + nat d)) \<and> digit_val (char_of (48 + nat d)) = d"
  by (auto simp: is_digit_def digit_val_def)

lemma length_pad_digits [simp]: "length (pad_digits k n) = k"
  by (induction k arbitrary: n) auto

lemma pad_digits_digits: "list_all is_digit (pad_digits k n)"
  by (induction k arbitrary: n) (auto simp: digit_char)

lemma digits_val_snoc: "digits_val (s @ [c]) = digits_val s * 10 + digit_val c"
  by (simp add: digits_val_def)

lemma digits_val_pad: "0 \<le> n \<Longrightarrow> n < 10 ^ k \<Longrightarrow> digits_val (pad_digits k n) = n"
proof (induction k arbitrary: n)
  case 0
  then show ?case by (simp add: digits_val_def)
next
  case (Suc k)
  then have "digits_val (pad_digits k (n div 10)) = n div 10" by simp
  then show ?case by (simp add: digits_val_snoc digit_char)
qed

lemma take_digits_pad: "0 \<le> n \<Longrightarrow> n < 10 ^ k \<Longrightarrow> take_digits k (pad_digits k n @ s) = Some (n, s)"
  by (simp add: pad_digits_digits digits_val_pad)

section \<open>The calendar\<close>

lemma days_before_year_bounds:
  "146097 * y - 400 \<le> 400 * days_before_year y" "400 * days_before_year y \<le> 146097 * y + 700"
  by (simp_all add: days_before_year_def)

lemma year_of_day_spec: "days_before_year (year_of_day n) \<le> n \<and> n < days_before_year (year_of_day n + 1)"
proof -
  define y where "y = n * 400 div 146097"
  have b: "146097 * y \<le> n * 400" "n * 400 < 146097 * y + 146097" by (simp_all add: y_def)
  have "days_before_year (y - 1) \<le> n" using b(1) days_before_year_bounds(2) [of "y - 1"] by simp
  moreover have "n < days_before_year (y + 2)" using b(2) days_before_year_bounds(1) [of "y + 2"] by simp
  ultimately show ?thesis unfolding year_of_day_def Let_def y_def [symmetric] by (simp add: add.commute)
qed

lemma ceil_div_step:
  fixes y :: int
  assumes "0 < k"
  shows "(y + k) div k = (y + (k - 1)) div k + (if k dvd y then 1 else 0)"
proof -
  obtain q r where y: "y = k * q + r" "0 \<le> r" "r < k"
    using assms that [of "y div k" "y mod k"] by simp
  have a: "(k * q + r + k) div k = q + 1"
    using y by (intro int_div_pos_eq [of _ _ _ r]) (simp_all add: distrib_left)
  show ?thesis
  proof (cases "r = 0")
    case True
    have "(k * q + (k - 1)) div k = q" using assms by (intro int_div_pos_eq [of _ _ _ "k - 1"]) simp_all
    then show ?thesis using a True y(1) by simp
  next
    case False
    have "(k * q + r + (k - 1)) div k = q + 1"
      using y(2,3) False by (intro int_div_pos_eq [of _ _ _ "r - 1"]) (simp_all add: distrib_left)
    moreover have "\<not> k dvd k * q + r"
      using y(2,3) False zdvd_not_zless [of r k] by (simp add: dvd_add_right_iff)
    ultimately show ?thesis using a y(1) by simp
  qed
qed

lemma leap_sum:
  assumes "b \<Longrightarrow> a" "c \<Longrightarrow> b"
  shows "(if a then 1 else 0) - (if b then 1 else 0) + (if c then 1 else 0) =
    (if a \<and> (\<not> b \<or> c) then 1 else (0 :: int))"
  using assms by (cases a; cases b; cases c) simp_all

lemma year_sum:
  "a - b + c = e \<Longrightarrow> 365 * (y + 1) + (p + a) - (q + b) + (r + c) = 365 * y + p - q + r + (365 + (e :: int))"
  by simp

lemma days_before_year_step: "days_before_year (y + 1) = days_before_year y + sum_list (month_lengths y)"
proof -
  have d: "100 dvd y \<Longrightarrow> 4 dvd y" "400 dvd y \<Longrightarrow> 100 dvd y"
    by (auto intro: dvd_trans [of _ 100] dvd_trans [of _ 400])
  have s: "sum_list (month_lengths y) = 365 + (if is_leap y then 1 else 0)" by (simp add: month_lengths_def)
  have "y + 1 + 3 = y + 4" "y + 1 + 99 = y + 100" "y + 1 + 399 = y + 400" by simp_all
  then have q: "(y + 1 + 3) div 4 = (y + 3) div 4 + (if 4 dvd y then 1 else 0)"
    "(y + 1 + 99) div 100 = (y + 99) div 100 + (if 100 dvd y then 1 else 0)"
    "(y + 1 + 399) div 400 = (y + 399) div 400 + (if 400 dvd y then 1 else 0)"
    using ceil_div_step [of 4 y] ceil_div_step [of 100 y] ceil_div_step [of 400 y] by (simp_all only:)
  have "(if 4 dvd y then 1 else 0) - (if 100 dvd y then 1 else 0) + (if 400 dvd y then 1 else 0)
      = (if is_leap y then 1 else (0 :: int))"
    using leap_sum [OF d] by (simp only: is_leap_def)
  then show ?thesis
    unfolding days_before_year_def q s by (rule year_sum)
qed

lemma days_before_year_mono: "y \<le> z \<Longrightarrow> days_before_year y \<le> days_before_year z"
proof (induction "nat (z - y)" arbitrary: z)
  case 0
  then show ?case by simp
next
  case (Suc k)
  then have "days_before_year y \<le> days_before_year (z - 1)" by simp
  also have "\<dots> \<le> days_before_year z"
    using days_before_year_step [of "z - 1"] by (simp add: month_lengths_def)
  finally show ?case .
qed

lemma split_month_spec:
  "0 \<le> n \<Longrightarrow> n < sum_list ls \<Longrightarrow>
     \<exists>k d. split_month m n ls = (m + int k, d) \<and> k < length ls \<and> 1 \<le> d \<and> d \<le> ls ! k \<and>
       n = sum_list (take k ls) + d - 1"
proof (induction m n ls rule: split_month.induct)
  case (1 m n)
  then show ?case by simp
next
  case (2 m n l ls)
  show ?case
  proof (cases "n < l")
    case True
    then show ?thesis using 2(2) by (intro exI [of _ 0] exI [of _ "n + 1"]) auto
  next
    case False
    then obtain k d where "split_month (m + 1) (n - l) ls = (m + 1 + int k, d)" "k < length ls" "1 \<le> d" "d \<le> ls ! k"
      "n - l = sum_list (take k ls) + d - 1"
      using 2 by auto
    then show ?thesis using False by (intro exI [of _ "Suc k"] exI [of _ d]) auto
  qed
qed

lemma civil_from_days_spec:
  obtains y m d where "civil_from_days n = (y, m, d)" "1 \<le> m" "m \<le> 12" "1 \<le> d" "d \<le> days_in y m"
    "days_from_civil y m d = n" "y = year_of_day (n + 719528)"
proof -
  let ?y = "year_of_day (n + 719528)"
  let ?n = "n + 719528 - days_before_year ?y"
  have "0 \<le> ?n" "?n < sum_list (month_lengths ?y)"
    using year_of_day_spec [of "n + 719528"] days_before_year_step [of ?y] by linarith+
  then obtain k d where s: "split_month 1 ?n (month_lengths ?y) = (1 + int k, d)" "k < length (month_lengths ?y)"
    "1 \<le> d" "d \<le> month_lengths ?y ! k" "?n = sum_list (take k (month_lengths ?y)) + d - 1"
    using split_month_spec by blast
  have "k < 12" using s(2) by (simp add: month_lengths_def)
  show thesis
  proof (rule that)
    show "civil_from_days n = (?y, 1 + int k, d)" using s(1) by (simp add: civil_from_days_def Let_def)
    show "days_from_civil ?y (1 + int k) d = n"
      using s(5) by (simp add: days_from_civil_def days_before_month_def)
    show "d \<le> days_in ?y (1 + int k)" using s(4) \<open>k < 12\<close> by (simp add: days_in_def)
  qed (use s(3) \<open>k < 12\<close> in auto)
qed

text \<open>A day of the years 0 to 9999.\<close>

lemma year_of_day_range: "0 \<le> n \<Longrightarrow> n < days_before_year 10000 \<Longrightarrow> 0 \<le> year_of_day n \<and> year_of_day n \<le> 9999"
proof -
  assume n: "0 \<le> n" "n < days_before_year 10000"
  have "\<not> year_of_day n + 1 \<le> 0"
    using year_of_day_spec [of n] days_before_year_mono [of "year_of_day n + 1" 0] n(1)
    by (auto simp: days_before_year_def [of 0])
  moreover have "\<not> 10000 \<le> year_of_day n"
    using year_of_day_spec [of n] days_before_year_mono [of 10000 "year_of_day n"] n(2) by linarith
  ultimately show ?thesis by linarith
qed

section \<open>The fraction\<close>

lemma digits_val_zeros: "digits_val (s @ replicate k (CHR ''0'')) = digits_val s * 10 ^ k"
proof (induction k)
  case 0
  then show ?case by simp
next
  case (Suc k)
  have "digits_val (s @ replicate (Suc k) (CHR ''0'')) = digits_val ((s @ replicate k (CHR ''0'')) @ [CHR ''0''])"
    by (simp add: replicate_append_same [symmetric])
  then show ?case using Suc by (simp only: digits_val_snoc) (simp add: digit_val_def)
qed

lemma take_fraction_format:
  assumes "0 \<le> ns" "ns < 10 ^ 9"
  shows "take_fraction (format_fraction ns @ ''Z'') = Some (ns, ''Z'')"
proof -
  let ?p = "pad_digits 9 ns"
  let ?ds = "trim_right_char (CHR ''0'') ?p"
  obtain k where k: "?p = ?ds @ replicate k (CHR ''0'')" using trim_right_char_split by blast
  have len: "length ?ds + k = 9" using arg_cong [OF k, of length] by simp
  have dig: "list_all is_digit ?ds"
    using pad_digits_digits [of 9 ns] k by (metis list_all_append)
  have val: "digits_val ?ds * 10 ^ k = ns"
    using digits_val_pad [OF assms] k digits_val_zeros by metis
  show ?thesis
  proof (cases ?ds)
    case Nil
    then have "ns = 0" using val by (simp add: digits_val_def)
    then show ?thesis using Nil by (simp add: format_fraction_def Let_def take_fraction_def)
  next
    case (Cons d ds)
    have "takeWhile is_digit (?ds @ ''Z'') = ?ds"
      using dig by (subst takeWhile_append2) (auto simp: list_all_iff is_digit_def)
    moreover have "9 - length ?ds = k" "take 9 ?ds = ?ds" using len by simp_all
    moreover have "is_digit d" using dig Cons by simp
    ultimately show ?thesis
      using val Cons by (simp add: format_fraction_def Let_def take_fraction_def)
  qed
qed

section \<open>The round trip\<close>

definition four_digit_year :: "go_time \<Rightarrow> bool" where
  "four_digit_year t \<longleftrightarrow> - 719528 \<le> t div (86400 * second) \<and> t div (86400 * second) < 2932897"

lemma two_digits: "0 \<le> n \<Longrightarrow> n < 100 \<Longrightarrow> take_digits 2 (pad_digits 2 n @ s) = Some (n, s)"
  by (rule take_digits_pad) simp_all

lemma four_digits: "0 \<le> n \<Longrightarrow> n < 10000 \<Longrightarrow> take_digits 4 (pad_digits 4 n @ s) = Some (n, s)"
  by (rule take_digits_pad) simp_all

lemma hour_digits: "0 \<le> n \<Longrightarrow> n < 24 \<Longrightarrow> take_hour (pad_digits 2 n @ s) = Some (n, s)"
  unfolding take_hour_def by (subst two_digits) simp_all

lemma expect_Cons [simp]: "expect c (c # s) = Some s"
  by (simp add: expect_def)

lemma check_True [simp]: "check True = Some ()"
  by (simp add: check_def)

lemma days_in_31: "days_in y mo \<le> 31" if "1 \<le> mo" "mo \<le> 12"
proof -
  have "mo = 1 \<or> mo = 2 \<or> mo = 3 \<or> mo = 4 \<or> mo = 5 \<or> mo = 6 \<or> mo = 7 \<or> mo = 8 \<or> mo = 9 \<or> mo = 10 \<or> mo = 11 \<or> mo = 12"
    using that by arith
  then show ?thesis by (elim disjE) (simp_all add: days_in_def month_lengths_def)
qed

lemma parse_parts:
  assumes "0 \<le> y" "y \<le> 9999" "1 \<le> mo" "mo \<le> 12" "1 \<le> d" "d \<le> days_in y mo"
    "0 \<le> h" "h < 24" "0 \<le> mi" "mi < 60" "0 \<le> sec" "sec < 60" "0 \<le> ns" "ns < 10 ^ 9"
  shows "parse_rfc3339 (pad_digits 4 y @ ''-'' @ pad_digits 2 mo @ ''-'' @ pad_digits 2 d @ ''T'' @
      pad_digits 2 h @ '':'' @ pad_digits 2 mi @ '':'' @ pad_digits 2 sec @ format_fraction ns @ ''Z'') =
    Some ((days_from_civil y mo d * 86400 + h * 3600 + mi * 60 + sec) * second + ns)"
proof -
  have "days_in y mo \<le> 31"
    by (rule days_in_31 [OF assms(3,4)])
  then have d: "d < 100" using assms(6) by simp
  have z: "take_zone ''Z'' = Some (0, [])" by (simp add: take_zone_def)
  show ?thesis
    using assms d unfolding parse_rfc3339_def
    by (simp add: four_digits two_digits hour_digits take_fraction_format z del: take_digits.simps pad_digits.simps)
qed

lemma hms_split: "(s :: int) div 3600 * 3600 + s div 60 mod 60 * 60 + s mod 60 = s"
proof -
  have "s div 3600 = s div 60 div 60" by (simp add: zdiv_zmult2_eq [symmetric])
  moreover have "s div 60 div 60 * 60 + s div 60 mod 60 = s div 60" "s div 60 * 60 + s mod 60 = s" by simp_all
  ultimately show ?thesis by linarith
qed

lemma parse_format_rfc3339nano:
  assumes "four_digit_year t"
  shows "parse_rfc3339 (format_rfc3339nano t) = Some t"
proof -
  let ?day = "86400 * second"
  let ?r = "t mod ?day"
  let ?s = "?r div second"
  obtain y m d where c: "civil_from_days (t div ?day) = (y, m, d)" "1 \<le> m" "m \<le> 12" "1 \<le> d" "d \<le> days_in y m"
    "days_from_civil y m d = t div ?day" "y = year_of_day (t div ?day + 719528)"
    by (rule civil_from_days_spec)
  have y: "0 \<le> y" "y \<le> 9999"
    using assms c(7) year_of_day_range [of "t div ?day + 719528"]
    by (simp_all add: four_digit_year_def days_before_year_def)
  have r: "0 \<le> ?r" "?r < ?day" by (simp_all add: second_def)
  then have s: "0 \<le> ?s" "?s < 86400" by (simp_all add: second_def div_less_iff_less_mult)
  have ns: "0 \<le> ?r mod second" "?r mod second < 10 ^ 9" by (simp_all add: second_def)
  have hms: "?s div 3600 * 3600 + ?s div 60 mod 60 * 60 + ?s mod 60 = ?s" by (rule hms_split)
  have h: "0 \<le> ?s div 3600" "?s div 3600 < 24" using s by (simp_all add: pos_imp_zdiv_nonneg_iff div_less_iff_less_mult)
  have mi: "0 \<le> ?s div 60 mod 60" "?s div 60 mod 60 < 60" "0 \<le> ?s mod 60" "?s mod 60 < 60" by simp_all
  have f: "format_rfc3339nano t = pad_digits 4 y @ ''-'' @ pad_digits 2 m @ ''-'' @ pad_digits 2 d @ ''T'' @
      pad_digits 2 (?s div 3600) @ '':'' @ pad_digits 2 (?s div 60 mod 60) @ '':'' @ pad_digits 2 (?s mod 60) @
      format_fraction (?r mod second) @ ''Z''"
    by (simp only: format_rfc3339nano_def format_date_def Let_def c(1) split append.assoc)
  have "parse_rfc3339 (format_rfc3339nano t) =
      Some ((t div ?day * 86400 + ?s div 3600 * 3600 + ?s div 60 mod 60 * 60 + ?s mod 60) * second + ?r mod second)"
    unfolding f parse_parts [OF y c(2-5) h mi ns] c(6) ..
  also have "(t div ?day * 86400 + ?s div 3600 * 3600 + ?s div 60 mod 60 * 60 + ?s mod 60) * second + ?r mod second
      = (t div ?day * 86400 + ?s) * second + ?r mod second"
    using hms by (simp only: add.assoc)
  also have "\<dots> = t div ?day * ?day + (?s * second + ?r mod second)" by (simp add: algebra_simps)
  also have "\<dots> = t" by (simp only: div_mult_mod_eq)
  finally show ?thesis .
qed

text \<open>
  C40. A stored timestamp is the instant it was written from: for every instant of the years 0 to 9999,
  to the nanosecond, what \<open>formatTime\<close> writes (trailing zeros of the fraction dropped) is parsed by
  \<open>parseStoredTime\<close> into the same instant.
\<close>
theorem stored_time_reads_back:
  assumes "four_digit_year t"
  shows "parse_stored_time (format_time t) = Some t"
  using parse_format_rfc3339nano [OF assms] by (simp add: parse_stored_time_eq format_time_def)

theorem stored_time_reads_back_witness:
  "parse_stored_time (format_time (1700000000 * second + 120)) = Some (1700000000 * second + 120)"
  by (rule stored_time_reads_back) (simp add: four_digit_year_def second_def)

section \<open>The order of the texts\<close>

lemma less_append:
  fixes a b :: string
  assumes "length a = length b"
  shows "a @ s < b @ t \<longleftrightarrow> a < b \<or> a = b \<and> s < t"
  using assms by (induction a b rule: list_induct2) auto

lemma digit_less: "0 \<le> d \<Longrightarrow> d < e \<Longrightarrow> e < 10 \<Longrightarrow> (char_of (48 + nat d) :: char) < char_of (48 + nat e)"
  by (simp add: less_char_def)

lemma pad_digits_less: "0 \<le> m \<Longrightarrow> m < n \<Longrightarrow> n < 10 ^ k \<Longrightarrow> pad_digits k m < pad_digits k n"
proof (induction k arbitrary: m n)
  case 0
  then show ?case by simp
next
  case (Suc k)
  show ?case
  proof (cases "m div 10 = n div 10")
    case True
    then have "m mod 10 < n mod 10" using Suc.prems(2) by presburger
    then show ?thesis using True by (simp add: less_append digit_less)
  next
    case False
    then have "m div 10 < n div 10" using Suc.prems(2) by presburger
    then have "pad_digits k (m div 10) < pad_digits k (n div 10)"
      using Suc.prems by (intro Suc.IH) simp_all
    then show ?thesis by (simp add: less_append)
  qed
qed

lemma year_of_day_mono: "m \<le> n \<Longrightarrow> year_of_day m \<le> year_of_day n"
proof (rule ccontr)
  assume "m \<le> n" "\<not> year_of_day m \<le> year_of_day n"
  then have "days_before_year (year_of_day n + 1) \<le> days_before_year (year_of_day m)"
    by (intro days_before_year_mono) simp
  then show False using year_of_day_spec [of m] year_of_day_spec [of n] \<open>m \<le> n\<close> by linarith
qed

lemma take_sum_mono:
  assumes "\<forall>x \<in> set ls. (0 :: int) \<le> x" "i < j" "j \<le> length ls"
  shows "sum_list (take i ls) + ls ! i \<le> sum_list (take j ls)"
proof -
  have "sum_list (take (Suc i) ls) \<le> sum_list (take j ls)"
  proof -
    have "take j ls = take (Suc i) ls @ take (j - Suc i) (drop (Suc i) ls)"
      using assms(2) by (metis Suc_leI le_add_diff_inverse take_add)
    moreover have "0 \<le> sum_list (take (j - Suc i) (drop (Suc i) ls))"
      using assms(1) by (intro sum_list_nonneg) (meson in_set_dropD in_set_takeD)
    ultimately show ?thesis by simp
  qed
  then show ?thesis using assms(2,3) by (simp add: take_Suc_conv_app_nth)
qed

lemma civil_less:
  assumes "m < n" "civil_from_days m = (y, mo, d)" "civil_from_days n = (y', mo', d')"
  shows "y < y' \<or> y = y' \<and> (mo < mo' \<or> mo = mo' \<and> d < d')"
proof -
  have c: "y = year_of_day (m + 719528)" "1 \<le> mo" "mo \<le> 12" "1 \<le> d" "d \<le> days_in y mo" "days_from_civil y mo d = m"
    using civil_from_days_spec [of m] assms(2) by auto
  have c': "y' = year_of_day (n + 719528)" "1 \<le> mo'" "mo' \<le> 12" "1 \<le> d'" "d' \<le> days_in y' mo'"
    "days_from_civil y' mo' d' = n"
    using civil_from_days_spec [of n] assms(3) by auto
  have "y \<le> y'" using c(1) c'(1) assms(1) by (simp add: year_of_day_mono)
  moreover have "mo < mo' \<or> mo = mo' \<and> d < d'" if yy: "y = y'"
  proof (rule ccontr)
    assume n: "\<not> (mo < mo' \<or> mo = mo' \<and> d < d')"
    have lt: "days_before_month y mo + d < days_before_month y mo' + d'"
      using c(6) c'(6) assms(1) yy by (simp add: days_from_civil_def)
    show False
    proof (cases "mo = mo'")
      case True
      then show False using lt n by simp
    next
      case False
      then have "mo' < mo" using n by simp
      then have "days_before_month y mo' + month_lengths y ! nat (mo' - 1) \<le> days_before_month y mo"
        unfolding days_before_month_def using c(3) c'(2)
        by (intro take_sum_mono) (auto simp: month_lengths_def)
      moreover have "d' \<le> month_lengths y ! nat (mo' - 1)" using c'(2,3,5) yy by (simp add: days_in_def)
      ultimately show False using lt c(4) by linarith
    qed
  qed
  ultimately show ?thesis by auto
qed

lemma div_mod_less:
  assumes "(x :: int) < y" "0 < k"
  shows "x div k < y div k \<or> x div k = y div k \<and> x mod k < y mod k"
proof (cases "x div k = y div k")
  case True
  then have "x div k * k = y div k * k" by simp
  then have "x mod k < y mod k" using assms(1) div_mult_mod_eq [of x k] div_mult_mod_eq [of y k] by linarith
  then show ?thesis using True by simp
next
  case False
  then show ?thesis using zdiv_mono1 [of x y k] assms by simp
qed

lemma hms_less:
  assumes "(s :: int) < s'"
  shows "s div 3600 < s' div 3600 \<or> s div 3600 = s' div 3600 \<and>
    (s div 60 mod 60 < s' div 60 mod 60 \<or> s div 60 mod 60 = s' div 60 mod 60 \<and> s mod 60 < s' mod 60)"
proof -
  have h: "x div 3600 = x div 60 div 60" for x :: int by (simp add: zdiv_zmult2_eq [symmetric])
  from div_mod_less [OF assms, of 60]
  consider "s div 60 < s' div 60" | "s div 60 = s' div 60" "s mod 60 < s' mod 60" by auto
  then show ?thesis
  proof cases
    case 1
    then show ?thesis using div_mod_less [of "s div 60" "s' div 60" 60] unfolding h by auto
  qed (simp add: h)
qed

text \<open>Three padded numbers with separators, and the rest.\<close>

lemma blocks_less:
  assumes "a < a' \<or> a = a' \<and> (b < b' \<or> b = b' \<and> e < e')"
    "0 \<le> a" "a' < 10 ^ k" "0 \<le> b" "b' < 10 ^ l" "0 \<le> e" "e' < 10 ^ m"
  shows "pad_digits k a @ c # pad_digits l b @ d # pad_digits m e @ s <
    pad_digits k a' @ c # pad_digits l b' @ d # pad_digits m e' @ t"
  using assms(1)
proof (elim disjE conjE)
  assume "a < a'"
  then show ?thesis using assms(2,3) by (simp add: less_append pad_digits_less)
next
  assume "a = a'" "b < b'"
  then show ?thesis using assms(4,5) by (simp add: less_append pad_digits_less)
next
  assume "a = a'" "b = b'" "e < e'"
  then show ?thesis using assms(6,7) by (simp add: less_append pad_digits_less)
qed

lemma hms_blocks:
  assumes "(x :: int) < y" "0 \<le> x" "x < 86400" "0 \<le> y" "y < 86400"
  shows "pad_digits 2 (x div 3600) @ CHR '':'' # pad_digits 2 (x div 60 mod 60) @ CHR '':'' # pad_digits 2 (x mod 60) @ s <
    pad_digits 2 (y div 3600) @ CHR '':'' # pad_digits 2 (y div 60 mod 60) @ CHR '':'' # pad_digits 2 (y mod 60) @ t"
proof -
  have r: "z mod 60 < 10 ^ 2" for z :: int by (rule less_trans [OF pos_mod_bound]) simp_all
  show ?thesis
    by (rule blocks_less [OF hms_less [OF assms(1)]])
      (rule r | use assms in \<open>simp add: pos_imp_zdiv_nonneg_iff div_less_iff_less_mult\<close>)+
qed

text \<open>The fields of an instant.\<close>

lemma format_fields:
  assumes "four_digit_year t"
  obtains y mo d where "civil_from_days (t div (86400 * second)) = (y, mo, d)"
    "0 \<le> y" "y < 10 ^ 4" "0 \<le> mo" "mo < 10 ^ 2" "0 \<le> d" "d < 10 ^ 2"
    "format_rfc3339nano t = pad_digits 4 y @ CHR ''-'' # pad_digits 2 mo @ CHR ''-'' # pad_digits 2 d @ CHR ''T'' #
       pad_digits 2 (t mod (86400 * second) div second div 3600) @ CHR '':'' #
       pad_digits 2 (t mod (86400 * second) div second div 60 mod 60) @ CHR '':'' #
       pad_digits 2 (t mod (86400 * second) div second mod 60) @
       format_fraction (t mod (86400 * second) mod second) @ ''Z''"
proof -
  obtain y mo d where c: "civil_from_days (t div (86400 * second)) = (y, mo, d)" "1 \<le> mo" "mo \<le> 12" "1 \<le> d"
    "d \<le> days_in y mo" "y = year_of_day (t div (86400 * second) + 719528)"
    by (rule civil_from_days_spec)
  have "0 \<le> y" "y \<le> 9999"
    using assms c(6) year_of_day_range [of "t div (86400 * second) + 719528"]
    by (simp_all add: four_digit_year_def days_before_year_def)
  moreover have "d \<le> 31" using days_in_31 [OF c(2,3), of y] c(5) by linarith
  ultimately show thesis
    using c(1-4) by (intro that [of y mo d]) (simp_all add: format_rfc3339nano_def format_date_def Let_def)
qed

lemma second_in_day: "t mod (86400 * second) div second = t div second mod 86400"
proof -
  have "t mod (second * 86400) = second * (t div second mod 86400) + t mod second"
    by (rule zmod_zmult2_eq) simp
  moreover have "0 < second" by (simp add: second_def)
  ultimately show ?thesis by (simp add: mult.commute)
qed

lemma second_div_day: "t div (86400 * second) = t div second div 86400"
  by (metis mult.commute zdiv_zmult2_eq zero_le_numeral)

lemma format_less:
  assumes "four_digit_year t" "four_digit_year u" "t div second < u div second"
  shows "format_rfc3339nano t < format_rfc3339nano u"
proof -
  let ?st = "t mod (86400 * second) div second"
  let ?su = "u mod (86400 * second) div second"
  obtain y mo d where f: "civil_from_days (t div (86400 * second)) = (y, mo, d)"
    "0 \<le> y" "y < 10 ^ 4" "0 \<le> mo" "mo < 10 ^ 2" "0 \<le> d" "d < 10 ^ 2"
    "format_rfc3339nano t = pad_digits 4 y @ CHR ''-'' # pad_digits 2 mo @ CHR ''-'' # pad_digits 2 d @ CHR ''T'' #
       pad_digits 2 (?st div 3600) @ CHR '':'' # pad_digits 2 (?st div 60 mod 60) @ CHR '':'' #
       pad_digits 2 (?st mod 60) @ format_fraction (t mod (86400 * second) mod second) @ ''Z''"
    by (rule format_fields [OF assms(1)])
  obtain y' mo' d' where f': "civil_from_days (u div (86400 * second)) = (y', mo', d')"
    "0 \<le> y'" "y' < 10 ^ 4" "0 \<le> mo'" "mo' < 10 ^ 2" "0 \<le> d'" "d' < 10 ^ 2"
    "format_rfc3339nano u = pad_digits 4 y' @ CHR ''-'' # pad_digits 2 mo' @ CHR ''-'' # pad_digits 2 d' @ CHR ''T'' #
       pad_digits 2 (?su div 3600) @ CHR '':'' # pad_digits 2 (?su div 60 mod 60) @ CHR '':'' #
       pad_digits 2 (?su mod 60) @ format_fraction (u mod (86400 * second) mod second) @ ''Z''"
    by (rule format_fields [OF assms(2)])
  have s: "?st = t div second mod 86400" "?su = u div second mod 86400"
    "t div (86400 * second) = t div second div 86400" "u div (86400 * second) = u div second div 86400"
    by (rule second_in_day second_div_day)+
  have b: "0 \<le> ?st" "?st < 86400" "0 \<le> ?su" "?su < 86400" unfolding s by simp_all
  have "t div second div 86400 \<le> u div second div 86400" using assms(3) by (simp add: zdiv_mono1)
  then consider "t div (86400 * second) < u div (86400 * second)"
    | "t div (86400 * second) = u div (86400 * second)" "?st < ?su"
    unfolding s using assms(3) div_mult_mod_eq [of "t div second" 86400] div_mult_mod_eq [of "u div second" 86400]
    by linarith
  then show ?thesis
  proof cases
    case 1
    from civil_less [OF 1 f(1) f'(1)] show ?thesis
      unfolding f(8) f'(8) by (rule blocks_less) (use f(2-7) f'(2-7) in simp_all)
  next
    case 2
    then have e: "y = y'" "mo = mo'" "d = d'" using f(1) f'(1) by auto
    have "pad_digits 2 (?st div 3600) @ CHR '':'' # pad_digits 2 (?st div 60 mod 60) @ CHR '':'' #
        pad_digits 2 (?st mod 60) @ format_fraction (t mod (86400 * second) mod second) @ ''Z'' <
      pad_digits 2 (?su div 3600) @ CHR '':'' # pad_digits 2 (?su div 60 mod 60) @ CHR '':'' #
        pad_digits 2 (?su mod 60) @ format_fraction (u mod (86400 * second) mod second) @ ''Z''"
      by (rule hms_blocks [OF 2(2)]) (use b in simp_all)
    then show ?thesis unfolding f(8) f'(8) e by (simp add: less_append del: pad_digits.simps)
  qed
qed

lemma same_second_misordered: "format_time (5 * 10 ^ 8) < format_time 0"
proof -
  have "civil_from_days 0 = (1970, 1, 1)" by code_simp
  moreover have "format_fraction 500000000 = ''.5''" "format_fraction 0 = []" by code_simp+
  ultimately show ?thesis
    by (simp add: format_time_def format_rfc3339nano_def format_date_def Let_def second_def less_append less_char_def)
qed

text \<open>
  The text order of stored timestamps, which SQL uses to sort, expire and filter, is the order of
  time between different seconds; two instants of the same second can compare the wrong way round: half
  past a second sorts before that second, which is written without a fraction (\<open>Z\<close> sorts behind the
  point).
\<close>
lemma stored_time_order:
  assumes "four_digit_year t" "four_digit_year u" "t div second \<noteq> u div second"
  shows "(format_time t < format_time u \<longleftrightarrow> t < u) \<and> format_time (5 * 10 ^ 8) < format_time 0"
proof (cases "t div second < u div second")
  case True
  then have "\<not> u \<le> t" using zdiv_mono1 [of u t second] by (auto simp: second_def)
  then show ?thesis using format_less [OF assms(1,2) True] same_second_misordered by (simp add: format_time_def)
next
  case False
  then have less: "u div second < t div second" using assms(3) by simp
  then have "\<not> t \<le> u" using zdiv_mono1 [of t u second] by (auto simp: second_def)
  then show ?thesis using format_less [OF assms(2,1) less] same_second_misordered by (auto simp: format_time_def)
qed

end
