(* ===== verification/ToolProperties.thy ===== *)
theory ToolProperties
  imports ToolGovernance TimeRoundTrip
begin

text \<open>
  What the checks of a tool call guarantee: when a call passes, what an approval covers, how an
  approval changes over its life, and which scope binds.
\<close>

section \<open>The gate\<close>

lemma expire_one_id [simp]: "ap_id (expire_one now a) = ap_id a"
  by (simp add: expire_one_def)

lemma get_expire_approvals:
  "get_approval k (expire_approvals now t) = map_option (expire_one (format_time now)) (get_approval k t)"
  by (simp add: get_approval_def expire_approvals_def find_row_map)

lemma get_approval_id: "get_approval k t = Some a \<Longrightarrow> ap_id a = k"
  by (auto simp: get_approval_def dest: find_row_key)

text \<open>An approval covers a request.\<close>

definition covers :: "go_time \<Rightarrow> governance_context \<Rightarrow> approval \<Rightarrow> bool" where
  "covers now g a \<longleftrightarrow>
     ap_status a = ''approved'' \<and>
     (ap_expires_at a = [] \<or> \<not> ap_expires_at a \<le> format_time now) \<and> \<not> approval_past now a \<and>
     ap_subject_type a \<in> {[], gc_subject_type g} \<and> ap_subject_id a \<in> {[], gc_subject_id g} \<and>
     \<not> mismatch (ap_api_key_id a) (gc_api_key_id g) \<and> \<not> mismatch (ap_user_id a) (gc_user_id g) \<and>
     \<not> mismatch (ap_team_id a) (gc_team_id g)"

lemma refusal_covers: "approval_refusal now g (expire_one (format_time now) a) = None \<longleftrightarrow> covers now g a"
  by (auto simp: approval_refusal_def covers_def expire_one_def)

lemma refusal_pending: "approval_refusal now g a = None \<Longrightarrow> ap_status a \<noteq> ''pending''"
  by (auto simp: approval_refusal_def split: if_splits)

lemma gate_allowed_iff:
  "ga_allowed (fst (governance_approval_gate now new_id payload header g reason t)) \<longleftrightarrow>
     trim_space header \<noteq> [] \<and> (\<exists>a. get_approval (trim_space header) t = Some a \<and> covers now g a)"
proof -
  have r: "\<not> covers now g a" if "approval_refusal now g (expire_one (format_time now) a) = Some m" for a m
    using refusal_covers [of now g a] that by simp
  have p: "\<not> covers now g a" if "ap_status (expire_one (format_time now) a) = ''pending''" for a
    using refusal_covers [of now g a] refusal_pending [of now g "expire_one (format_time now) a"] that by auto
  show ?thesis
    by (auto simp: governance_approval_gate_def Let_def get_expire_approvals refusal_covers
        dest: r p split: option.splits)
qed

text \<open>
  An approval opens the gate exactly when the request names it and it covers the request: it is stored
  under that id, approved, past neither its stored nor its parsed expiry, for the subject type and
  subject of the request (or none), and not for another API key, user or team.  Nothing else opens it.
\<close>
lemma approval_gate_exact:
  "ga_allowed (fst (governance_approval_gate now new_id payload header g reason t)) \<longleftrightarrow>
     trim_space header \<noteq> [] \<and> (\<exists>a. find_row ap_id (tt_approvals t) (trim_space header) = Some a \<and> covers now g a)"
  using gate_allowed_iff unfolding get_approval_def .

section \<open>The life of an approval\<close>

text \<open>What one step may do to a stored approval: everything but the status and who decided is fixed.\<close>

definition same_request :: "approval \<Rightarrow> approval \<Rightarrow> bool" where
  "same_request a b \<longleftrightarrow>
     b\<lparr>ap_status := [], ap_decided_by := [], ap_decided_at := []\<rparr> =
     a\<lparr>ap_status := [], ap_decided_by := [], ap_decided_at := []\<rparr>"

definition moves :: "approval \<Rightarrow> approval \<Rightarrow> bool" where
  "moves a b \<longleftrightarrow>
     same_request a b \<and>
     (ap_status b = ap_status a \<or> ap_status a = ''pending'' \<or>
      ap_status a = ''approved'' \<and> ap_status b = ''expired'')"

lemma moves_refl [simp]: "moves a a"
  by (simp add: moves_def same_request_def)

lemma moves_trans: "moves a b \<Longrightarrow> moves b c \<Longrightarrow> moves a c"
  by (auto simp: moves_def same_request_def)

lemma moves_expire_one: "moves a (expire_one now a)"
  by (auto simp: moves_def same_request_def expire_one_def)

lemma moves_decide: "ap_status a = ''pending'' \<Longrightarrow> moves a (decide now status by a)"
  by (simp add: moves_def same_request_def decide_def)

definition tables_move :: "tool_tables \<Rightarrow> tool_tables \<Rightarrow> bool" where
  "tables_move t t' \<longleftrightarrow> (\<forall>k a. get_approval k t = Some a \<longrightarrow> (\<exists>b. get_approval k t' = Some b \<and> moves a b))"

definition none_approved :: "tool_tables \<Rightarrow> tool_tables \<Rightarrow> bool" where
  "none_approved t t' \<longleftrightarrow>
     (\<forall>k b. get_approval k t' = Some b \<longrightarrow> ap_status b = ''approved'' \<longrightarrow>
        (\<exists>a. get_approval k t = Some a \<and> ap_status a = ''approved''))"

lemma tables_move_same: "tt_approvals t' = tt_approvals t \<Longrightarrow> tables_move t t'"
  by (simp add: tables_move_def get_approval_def)

lemma none_approved_same: "tt_approvals t' = tt_approvals t \<Longrightarrow> none_approved t t'"
  by (simp add: none_approved_def get_approval_def)

lemma tables_move_trans: "tables_move t u \<Longrightarrow> tables_move u v \<Longrightarrow> tables_move t v"
  unfolding tables_move_def by (meson moves_trans)

lemma none_approved_trans: "none_approved t u \<Longrightarrow> none_approved u v \<Longrightarrow> none_approved t v"
  unfolding none_approved_def by meson

lemma get_set_approval_status:
  "get_approval k (set_approval_status now j status by t) =
     map_option (\<lambda>a. if k = j then decide now status by a else a) (get_approval k t)"
proof -
  have "ap_id (if ap_id a = j then decide now status by a else a) = ap_id a" for a
    by (simp add: decide_def)
  then show ?thesis
    by (auto simp: get_approval_def set_approval_status_def find_row_map dest: find_row_key
        intro!: option.map_cong0)
qed

lemma get_set_pending:
  "get_approval k (snd (set_pending_approval_status now j status by t)) =
     map_option (\<lambda>a. if k = j \<and> ap_status a = ''pending'' then decide now status by a else a) (get_approval k t)"
proof -
  have "ap_id (if ap_id a = j \<and> ap_status a = ''pending'' then decide now status by a else a) = ap_id a" for a
    by (simp add: decide_def)
  then show ?thesis
    by (auto simp: get_approval_def set_pending_approval_status_def find_row_map dest: find_row_key
        intro!: option.map_cong0)
qed

lemma find_row_append:
  "find_row key (rs @ ss) k = (case find_row key rs k of None \<Rightarrow> find_row key ss k | Some r \<Rightarrow> Some r)"
  by (induction rs) auto

lemma find_row_None: "find_row key rs k = None \<longleftrightarrow> k \<notin> key ` set rs"
  by (induction rs) auto

lemma approval_defaults_id [simp]: "ap_id (approval_defaults now a) = ap_id a"
  by (simp add: approval_defaults_def Let_def)

lemma get_insert_approval:
  "insert_approval now a t = Inr t' \<Longrightarrow>
     get_approval k t' = (if k = ap_id a then Some (approval_defaults now a) else get_approval k t) \<and>
     get_approval (ap_id a) t = None"
  by (auto simp: insert_approval_def insert_row_def get_approval_def find_row_append
      simp flip: find_row_None split: sum.splits option.splits if_splits)

lemma expire_moves: "tables_move t (expire_approvals now t) \<and> none_approved t (expire_approvals now t)"
  by (auto simp: tables_move_def none_approved_def get_expire_approvals moves_expire_one)
    (auto simp: expire_one_def split: if_splits)

lemma set_expired_moves:
  assumes "get_approval k t = Some a" "ap_status a = ''pending''"
  shows "tables_move t (set_approval_status now k ''expired'' by t)"
    "none_approved t (set_approval_status now k ''expired'' by t)"
  using assms moves_decide
  by (auto simp: tables_move_def none_approved_def get_set_approval_status decide_def split: if_splits)

lemma set_pending_moves:
  "tables_move t (snd (set_pending_approval_status now k status by t))"
  "status \<noteq> ''approved'' \<Longrightarrow> none_approved t (snd (set_pending_approval_status now k status by t))"
  using moves_decide
  by (auto simp: tables_move_def none_approved_def get_set_pending decide_def split: if_splits)

lemma insert_moves:
  assumes "insert_approval now a t = Inr t'" "ap_status a = ''pending''"
  shows "tables_move t t'" "none_approved t t'"
  using get_insert_approval [OF assms(1)] assms(2)
  by (auto simp: tables_move_def none_approved_def approval_defaults_def split: if_splits)

lemma gate_moves:
  fixes now new_id payload header g reason t
  defines "t' \<equiv> snd (governance_approval_gate now new_id payload header g reason t)"
  shows "tables_move t t' \<and> none_approved t t'"
proof -
  have refl: "tables_move t t \<and> none_approved t t" by (simp add: tables_move_same none_approved_same)
  have ins: "tables_move t s \<and> none_approved t s"
    if "insert_approval now (pending_approval now new_id g reason payload) t = Inr s" for s
    using insert_moves [OF that] by (simp add: pending_approval_def)
  have exp: "tables_move t (set_approval_status now (ap_id a) ''expired'' ''system'' (expire_approvals now t)) \<and>
      none_approved t (set_approval_status now (ap_id a) ''expired'' ''system'' (expire_approvals now t))"
    if "get_approval k (expire_approvals now t) = Some a" "ap_status a = ''pending''" for k a
    using set_expired_moves [OF that(1) that(2)] get_approval_id [OF that(1)] expire_moves [of t now]
      tables_move_trans none_approved_trans by blast
  show ?thesis
    unfolding t'_def governance_approval_gate_def Let_def
    using refl ins exp expire_moves [of t now] by (simp split: option.split sum.split)
qed

lemma gate_result_moves:
  "governance_approval_gate now new_id payload header g reason t = (answer, u) \<Longrightarrow> tables_move t u \<and> none_approved t u"
  using gate_moves [of t now new_id payload header g reason] by simp

lemma record_events_approvals [simp]: "tt_approvals (record_policy_decision_events es t) = tt_approvals t"
  by (simp add: record_policy_decision_events_def)

lemma record_events_moves:
  "tables_move t u \<and> none_approved t u \<Longrightarrow>
     tables_move t (record_policy_decision_events es u) \<and> none_approved t (record_policy_decision_events es u)"
  by (meson tables_move_same none_approved_same record_events_approvals tables_move_trans none_approved_trans)

lemma refl_moves: "tables_move t t \<and> none_approved t t"
  by (simp add: tables_move_same none_approved_same)

lemma enforce_decision_moves:
  "tables_move t (snd (enforce_decision now new_id req_id payload call g d t)) \<and>
   none_approved t (snd (enforce_decision now new_id req_id payload call g d t))"
  by (auto simp: enforce_decision_def Let_def refl_moves intro!: record_events_moves dest: gate_result_moves
      split: prod.split)

lemma enforce_moves:
  "tables_move t (snd (enforce_mcp_tool_governance h sp now new_id req_id payload profile scope rules call t)) \<and>
   none_approved t (snd (enforce_mcp_tool_governance h sp now new_id req_id payload profile scope rules call t))"
  by (auto simp: enforce_mcp_tool_governance_def Let_def refl_moves enforce_decision_moves
      split: sum.split prod.split option.split)

lemma decide_cases:
  "snd (decide_approval now admin k verb t) \<in>
     {t, expire_approvals now t,
      snd (set_pending_approval_status now k (if verb = ''approve'' then ''approved'' else ''rejected'') admin (expire_approvals now t))}"
  by (simp add: decide_approval_def Let_def admin_fail_def case_prod_beta split: option.split)

lemma decide_moves: "tables_move t (snd (decide_approval now admin k verb t))"
  using decide_cases [of now admin k verb t] expire_moves [of t now] refl_moves [of t]
    tables_move_trans [OF _ set_pending_moves(1)] by auto

lemma reject_approves_none: "verb \<noteq> ''approve'' \<Longrightarrow> none_approved t (snd (decide_approval now admin k verb t))"
  using decide_cases [of now admin k verb t] expire_moves [of t now] refl_moves [of t]
    none_approved_trans [OF _ set_pending_moves(2) [of "''rejected''"]] by auto

text \<open>
  Everything that changes the tool tables: a checked call, the gate of a model request, the expiry of a
  listing, an administrator's decision, and the writes of scopes and profiles.  The flag says whether
  the step is an administrator's \<open>approve\<close>.
\<close>

inductive tool_step :: "bool \<Rightarrow> tool_tables \<Rightarrow> tool_tables \<Rightarrow> bool" where
  call: "tool_step False t
    (snd (enforce_mcp_tool_governance h sp now new_id req_id payload profile scope rules call t))"
| gate: "tool_step False t (snd (governance_approval_gate now new_id payload header g reason t))"
| expire: "tool_step False t (expire_approvals now t)"
| decision: "tool_step (verb = ''approve'') t (snd (decide_approval now admin k verb t))"
| put_scope: "upsert_mcp_tool_scope h now p t = Inr t' \<Longrightarrow> tool_step False t t'"
| drop_scope: "tool_step False t (delete_mcp_tool_scope server tool t)"
| put_profile: "upsert_tool_risk_profile h now q t = Inr t' \<Longrightarrow> tool_step False t t'"

lemma tool_step_moves: "tool_step b t t' \<Longrightarrow> tables_move t t'"
  by (induction rule: tool_step.induct)
    (auto simp: enforce_moves gate_moves expire_moves decide_moves upsert_mcp_tool_scope_def
      delete_mcp_tool_scope_def upsert_tool_risk_profile_def Let_def intro: tables_move_same split: if_splits)

lemma tool_step_approves_none: "tool_step b t t' \<Longrightarrow> \<not> b \<Longrightarrow> none_approved t t'"
  by (induction rule: tool_step.induct)
    (auto simp: enforce_moves gate_moves expire_moves reject_approves_none upsert_mcp_tool_scope_def
      delete_mcp_tool_scope_def upsert_tool_risk_profile_def Let_def intro: none_approved_same split: if_splits)

definition any_step :: "tool_tables \<Rightarrow> tool_tables \<Rightarrow> bool" where
  "any_step t t' \<longleftrightarrow> (\<exists>b. tool_step b t t')"

lemma any_steps_move: "any_step\<^sup>*\<^sup>* t t' \<Longrightarrow> tables_move t t'"
proof (induction rule: rtranclp_induct)
  case base
  show ?case by (simp add: tables_move_same)
next
  case (step u v)
  then show ?case using tables_move_trans tool_step_moves unfolding any_step_def by blast
qed

lemma final_status: "moves a b \<Longrightarrow> ap_status a \<in> {''rejected'', ''expired''} \<Longrightarrow> ap_status b = ap_status a \<and> same_request a b"
  by (auto simp: moves_def)

text \<open>
  C36. A decision is final.  Whatever calls, gates, expiries, administrators' decisions and writes of
  scopes and profiles follow, in any order, an approval that was rejected or has expired keeps that
  status and the request it was made for.
\<close>
theorem decided_approvals_are_final:
  assumes "any_step\<^sup>*\<^sup>* t t'" "get_approval k t = Some a" "ap_status a \<in> {''rejected'', ''expired''}"
  shows "\<exists>b. get_approval k t' = Some b \<and> ap_status b = ap_status a \<and> same_request a b"
  using any_steps_move [OF assms(1)] assms(2,3) final_status unfolding tables_move_def by meson

definition sample_approval :: approval where
  "sample_approval =
     \<lparr>ap_id = ''a'', ap_request_id = [], ap_api_key_id = ''k'', ap_user_id = [], ap_team_id = [],
      ap_subject_type = ''mcp_tool'', ap_subject_id = ''s'', ap_status = ''rejected'', ap_reason = [],
      ap_risk_score = 0, ap_cost_krw = 0, ap_payload = [], ap_expires_at = [], ap_decided_by = [],
      ap_decided_at = [], ap_created_at = []\<rparr>"

definition sample_tables :: tool_tables where
  "sample_tables = \<lparr>tt_profiles = [], tt_scopes = [], tt_approvals = [sample_approval], tt_events = []\<rparr>"

lemma sample_get: "get_approval ''a'' sample_tables = Some sample_approval"
  by (simp add: get_approval_def sample_tables_def sample_approval_def)

theorem decided_approvals_are_final_witness:
  "\<exists>b. get_approval ''a'' (snd (decide_approval 0 ''root'' ''a'' ''approve'' sample_tables)) = Some b \<and>
     ap_status b = ''rejected''"
proof -
  have "any_step sample_tables (snd (decide_approval 0 ''root'' ''a'' ''approve'' sample_tables))"
    unfolding any_step_def by (blast intro: tool_step.decision)
  from decided_approvals_are_final [OF r_into_rtranclp [of any_step, OF this] sample_get]
  show ?thesis by (auto simp: sample_approval_def)
qed

lemma unapproved_steps: "(tool_step False)\<^sup>*\<^sup>* t t' \<Longrightarrow> none_approved t t'"
proof (induction rule: rtranclp_induct)
  case base
  show ?case by (simp add: none_approved_same)
next
  case (step u v)
  then show ?case using none_approved_trans tool_step_approves_none by blast
qed

text \<open>
  Only an administrator approves: after any sequence of steps without an \<open>approve\<close> decision, every
  approval that is approved was approved at the start.
\<close>
lemma only_administrators_approve:
  assumes "(tool_step False)\<^sup>*\<^sup>* t t'" "get_approval k t' = Some b" "ap_status b = ''approved''"
  shows "\<exists>a. get_approval k t = Some a \<and> ap_status a = ''approved''"
  using unapproved_steps [OF assms(1)] assms(2,3) unfolding none_approved_def by blast

section \<open>When a call passes\<close>

definition scope_permits :: "(any_val \<Rightarrow> string) \<Rightarrow> tool_call \<Rightarrow> mcp_tool_scope \<Rightarrow> bool" where
  "scope_permits sprint call sc \<longleftrightarrow>
     (let (ns, cl) = extract_scope_targets sprint (tc_arg_map call)
      in \<not> ts_enabled sc \<or>
         csv_allows (ts_allowed_roles sc) (auth_field ac_role call) \<and>
         (ns = [] \<or> csv_allows (ts_allowed_namespaces sc) ns) \<and>
         (cl = [] \<or> csv_allows (ts_allowed_clusters sc) cl))"

text \<open>What profile and scope together ask for.\<close>

definition asked_action :: "tool_call \<Rightarrow> tool_risk_profile option \<Rightarrow> mcp_tool_scope option \<Rightarrow> string" where
  "asked_action call profile scope =
     (let base = fst (snd (profile_risk call profile));
          rule = (case scope of Some sc \<Rightarrow> if ts_enabled sc then to_lower (trim_space (ts_approval_rule sc)) else []
                  | None \<Rightarrow> [])
      in if rule = ''always'' then ''require_approval''
         else if rule = ''never'' \<and> base = ''require_approval'' then ''allow''
         else base)"

definition gate_covers :: "go_time \<Rightarrow> tool_call \<Rightarrow> governance_context \<Rightarrow> tool_tables \<Rightarrow> bool" where
  "gate_covers now call g t \<longleftrightarrow>
     trim_space (tc_approval_header call) \<noteq> [] \<and>
     (\<exists>a. get_approval (trim_space (tc_approval_header call)) t = Some a \<and> covers now g a)"

definition targets_permitted :: "mcp_tool_scope \<Rightarrow> string \<Rightarrow> string \<Rightarrow> string \<Rightarrow> bool" where
  "targets_permitted sc role ns cl \<longleftrightarrow>
     csv_allows (ts_allowed_roles sc) role \<and> (ns = [] \<or> csv_allows (ts_allowed_namespaces sc) ns) \<and>
     (cl = [] \<or> csv_allows (ts_allowed_clusters sc) cl)"

lemma evaluate_scope_fields:
  "sd_blocked (evaluate_mcp_tool_scope sc role ns cl) \<longleftrightarrow> ts_enabled sc \<and> \<not> targets_permitted sc role ns cl"
  "sd_force_approval (evaluate_mcp_tool_scope sc role ns cl) \<longleftrightarrow>
     ts_enabled sc \<and> targets_permitted sc role ns cl \<and> to_lower (trim_space (ts_approval_rule sc)) = ''always''"
  "sd_skip_approval (evaluate_mcp_tool_scope sc role ns cl) \<longleftrightarrow>
     ts_enabled sc \<and> targets_permitted sc role ns cl \<and> to_lower (trim_space (ts_approval_rule sc)) = ''never''"
  by (simp_all add: evaluate_mcp_tool_scope_def targets_permitted_def Let_def)

lemma scope_decision_spec:
  assumes "scope_decision sprint call (Some sc) = Some d"
  shows "sd_blocked d \<longleftrightarrow> \<not> scope_permits sprint call sc"
    "scope_permits sprint call sc \<Longrightarrow> scoped_action (Some d) (fst (snd (profile_risk call profile))) =
       asked_action call profile (Some sc)"
proof -
  obtain ns cl where e: "extract_scope_targets sprint (tc_arg_map call) = (ns, cl)" by fastforce
  then have d: "d = evaluate_mcp_tool_scope sc (auth_field ac_role call) ns cl"
    using assms by (simp add: scope_decision_def)
  have p: "scope_permits sprint call sc \<longleftrightarrow> \<not> ts_enabled sc \<or> targets_permitted sc (auth_field ac_role call) ns cl"
    by (simp add: scope_permits_def e targets_permitted_def)
  show "sd_blocked d \<longleftrightarrow> \<not> scope_permits sprint call sc"
    by (simp add: d p evaluate_scope_fields)
  assume "scope_permits sprint call sc"
  then show "scoped_action (Some d) (fst (snd (profile_risk call profile))) = asked_action call profile (Some sc)"
    by (auto simp: d p scoped_action_def asked_action_def evaluate_scope_fields Let_def)
qed

lemma asked_action_None: "asked_action call profile None = fst (snd (profile_risk call profile))"
  by (simp add: asked_action_def Let_def)

lemma enforce_decision_passes:
  "fst (enforce_decision now new_id req_id payload call g d t) = Tool_pass \<longleftrightarrow>
     \<not> gd_blocked d \<and> (\<not> gd_require_approval d \<or> gate_covers now call g t)"
proof -
  obtain answer u where e: "governance_approval_gate now new_id payload (tc_approval_header call) g
      (first_non_empty_raw [gd_reason d, ''MCP tool approval required'']) t = (answer, u)" by fastforce
  have "ga_allowed answer \<longleftrightarrow> gate_covers now call g t"
    using gate_allowed_iff [of now new_id payload "tc_approval_header call" g _ t] unfolding gate_covers_def
    by (metis e fst_conv)
  then show ?thesis unfolding enforce_decision_def e by simp
qed

lemma profile_decision_fields:
  "gd_blocked (profile_decision g call profile note action d) \<longleftrightarrow> gd_blocked d \<or> action = ''block''"
  "gd_require_approval (profile_decision g call profile note action d) \<longleftrightarrow>
     gd_require_approval d \<or> action = ''require_approval''"
  by (auto simp: profile_decision_def Let_def)

lemma enforce_unfold:
  "enforce_mcp_tool_governance h sp now new_id req_id payload (Inr profile) (Inr scope) rules call t =
     (case scope_decision sp call scope of
        Some d \<Rightarrow> if sd_blocked d then (Scope_block (sd_reason d), t) else
          enforce_decision now new_id req_id payload call (tool_context h (fst (profile_risk call profile)) call)
            (profile_decision (tool_context h (fst (profile_risk call profile)) call) call profile
               (snd (snd (profile_risk call profile))) (scoped_action (Some d) (fst (snd (profile_risk call profile))))
               (evaluate_governance rules (tool_context h (fst (profile_risk call profile)) call))) t
      | None \<Rightarrow>
          enforce_decision now new_id req_id payload call (tool_context h (fst (profile_risk call profile)) call)
            (profile_decision (tool_context h (fst (profile_risk call profile)) call) call profile
               (snd (snd (profile_risk call profile))) (fst (snd (profile_risk call profile)))
               (evaluate_governance rules (tool_context h (fst (profile_risk call profile)) call))) t)"
  by (simp add: enforce_mcp_tool_governance_def Let_def scoped_action_def split: prod.split option.split)

lemma enforce_passes_iff:
  "fst (enforce_mcp_tool_governance h sp now new_id req_id payload (Inr profile) (Inr scope) rules call t) = Tool_pass \<longleftrightarrow>
     (case scope of None \<Rightarrow> True | Some sc \<Rightarrow> scope_permits sp call sc) \<and>
     (let g = tool_context h (fst (profile_risk call profile)) call; d = evaluate_governance rules g;
          action = asked_action call profile scope
      in \<not> gd_blocked d \<and> action \<noteq> ''block'' \<and>
         (\<not> gd_require_approval d \<and> action \<noteq> ''require_approval'' \<or> gate_covers now call g t))"
proof (cases scope)
  case None
  then show ?thesis
    by (auto simp: enforce_unfold scope_decision_def enforce_decision_passes profile_decision_fields
        asked_action_None Let_def)
next
  case (Some sc)
  then obtain d where d: "scope_decision sp call (Some sc) = Some d" by (simp add: scope_decision_def)
  note spec = scope_decision_spec [OF d]
  show ?thesis
    using spec(1) spec(2) [of profile] Some d
    by (auto simp: enforce_unfold enforce_decision_passes profile_decision_fields Let_def)
qed


section \<open>A request, its approval, and the retry\<close>

lemma format_time_nonempty: "four_digit_year t \<Longrightarrow> format_time t \<noteq> []"
  using parse_format_rfc3339nano [of t] by (auto simp: format_time_def parse_rfc3339_def)

lemma parse_optional_format: "four_digit_year t \<Longrightarrow> parse_optional_time (format_time t) = t"
  using format_time_nonempty [of t] parse_format_rfc3339nano [of t]
  by (simp add: parse_optional_time_def format_time_def)

lemma unexpired_text:
  "four_digit_year t \<Longrightarrow> four_digit_year u \<Longrightarrow> t div second < u div second \<Longrightarrow> \<not> format_time u \<le> format_time t"
  using format_less [of t u] by (simp add: format_time_def)

text \<open>The tables after a request without an approval, and after an administrator approved it.\<close>

definition asked :: "go_time \<Rightarrow> string \<Rightarrow> string \<Rightarrow> governance_context \<Rightarrow> string \<Rightarrow> tool_tables \<Rightarrow> tool_tables" where
  "asked now k payload g reason t = snd (governance_approval_gate now k payload [] g reason t)"

definition granted :: "go_time \<Rightarrow> string \<Rightarrow> string \<Rightarrow> tool_tables \<Rightarrow> tool_tables" where
  "granted now admin k t = snd (decide_approval now admin k ''approve'' t)"

lemma get_asked:
  assumes "get_approval k t = None" "now + 24 * hour \<noteq> zero_time"
  shows "get_approval k (asked now k payload g reason t) = Some (pending_approval now k g reason payload)"
proof -
  obtain t' where t': "insert_approval now (pending_approval now k g reason payload) t = Inr t'"
    using assms(1)
    by (auto simp: insert_approval_def insert_row_def get_approval_def find_row_None pending_approval_def)
  have same: "approval_defaults now (pending_approval now k g reason payload) = pending_approval now k g reason payload"
    by (simp add: approval_defaults_def pending_approval_def Let_def)
  show ?thesis
    using get_insert_approval [OF t', of k] same
    by (simp add: asked_def governance_approval_gate_def t') (simp add: pending_approval_def)
qed

lemma get_granted:
  assumes "get_approval k t = Some a" "ap_status a = ''pending''" "\<not> ap_expires_at a \<le> format_time now"
  shows "get_approval k (granted now admin k t) = Some (decide now ''approved'' admin a)"
proof -
  let ?u = "expire_approvals now t"
  have u: "get_approval k ?u = Some a" using assms by (simp add: get_expire_approvals expire_one_def)
  have upd: "fst (set_pending_approval_status now k ''approved'' admin ?u)"
    using u assms(2)
    by (auto simp: set_pending_approval_status_def get_approval_def list_ex_iff dest: find_row_key)
  have "get_approval k (snd (set_pending_approval_status now k ''approved'' admin ?u)) = Some (decide now ''approved'' admin a)"
    by (simp add: get_set_pending u assms(2))
  moreover obtain v where "set_pending_approval_status now k ''approved'' admin ?u = (True, v)"
    using upd by (metis (full_types) prod.collapse)
  ultimately show ?thesis
    by (simp add: granted_def decide_approval_def Let_def u assms(2))
qed

text \<open>
  Asking, approving and retrying works: a request that names no approval leaves a pending one under
  the fresh id it returns; once an administrator approves it, the same request with that id is let
  through until the second in which 24 hours have passed since it was first made, and is refused when
  they have passed.
\<close>
lemma approved_request_passes:
  assumes "get_approval k t = None" "trim_space k = k" "k \<noteq> []"
    "four_digit_year t1" "four_digit_year t2" "four_digit_year (t0 + 24 * hour)" "t0 + 24 * hour \<noteq> zero_time"
    "t1 div second < (t0 + 24 * hour) div second" "t2 div second < (t0 + 24 * hour) div second"
    "t0 + 24 * hour < t3"
  shows "ga_allowed (fst (governance_approval_gate t2 k' p' k g r' (granted t1 admin k (asked t0 k p g r t)))) \<and>
    \<not> ga_allowed (fst (governance_approval_gate t3 k' p' k g r' (granted t1 admin k (asked t0 k p g r t))))"
proof -
  let ?a = "pending_approval t0 k g r p"
  have e: "ap_expires_at ?a = format_time (t0 + 24 * hour)"
    using assms(7) by (simp add: pending_approval_def format_optional_time_def)
  have "get_approval k (asked t0 k p g r t) = Some ?a" using assms(1,7) by (rule get_asked)
  then have get: "get_approval k (granted t1 admin k (asked t0 k p g r t)) = Some (decide t1 ''approved'' admin ?a)"
    by (rule get_granted) (simp_all only: e unexpired_text [OF assms(4,6,8)], simp_all add: pending_approval_def)
  have past: "approval_past now (decide t1 ''approved'' admin ?a) \<longleftrightarrow> t0 + 24 * hour < now" for now
    using e assms(6,7) by (simp add: approval_past_def decide_def parse_optional_format)
  have "t2 < t0 + 24 * hour" using assms(9) zdiv_mono1 [of "t0 + 24 * hour" t2 second] by (auto simp: second_def)
  then have "covers t2 g (decide t1 ''approved'' admin ?a)"
    using unexpired_text [OF assms(5,6,9)] past [of t2] e
    by (simp add: covers_def) (simp add: decide_def pending_approval_def mismatch_def)
  moreover have "\<not> covers t3 g (decide t1 ''approved'' admin ?a)" using past [of t3] assms(10) by (simp add: covers_def)
  ultimately show ?thesis using get assms(2,3) by (simp add: gate_allowed_iff)
qed

section \<open>Which scope binds\<close>

definition open_call :: tool_call where
  "open_call = \<lparr>tc_server = ''s'', tc_tool = ''t'', tc_api_key_id = ''k'', tc_auth = None, tc_args = [],
     tc_arg_map = [], tc_secret_types = [], tc_approval_header = ''a''\<rparr>"

definition plain_scope :: mcp_tool_scope where
  "plain_scope = \<lparr>ts_id = ''1'', ts_server_label = ''s'', ts_tool_name = ''t'', ts_allowed_roles = [],
     ts_allowed_namespaces = [], ts_allowed_clusters = [], ts_masking_level = ''none'',
     ts_approval_rule = ''inherit'', ts_enabled = True, ts_note = [], ts_created_at = [], ts_updated_at = []\<rparr>"

definition block_profile :: tool_risk_profile where
  "block_profile = \<lparr>tp_id = ''1'', tp_server_label = ''s'', tp_tool_name = ''t'', tp_risk_level = ''high'',
     tp_action = ''block'', tp_note = [], tp_created_at = [], tp_updated_at = []\<rparr>"

definition approved_tables :: tool_tables where
  "approved_tables = sample_tables\<lparr>tt_approvals := [sample_approval\<lparr>ap_status := ''approved''\<rparr>]\<rparr>"

lemma no_rules: "\<not> gd_blocked (evaluate_governance (Inr []) g)" "\<not> gd_require_approval (evaluate_governance (Inr []) g)"
  by (simp_all add: evaluate_governance_def evaluate_policy_rules_def initial_state_def Let_def)

lemma approved_covers:
  "gate_covers 0 open_call (tool_context (\<lambda>_. ''s'') level open_call) approved_tables"
proof -
  have "trim_space ''a'' = ''a''" by code_simp
  then show ?thesis
    by (simp add: gate_covers_def open_call_def approved_tables_def sample_tables_def sample_approval_def
        get_approval_def covers_def approval_past_def parse_optional_time_def tool_context_def auth_field_def
        mismatch_def)
qed

lemma open_targets: "extract_scope_targets sp (tc_arg_map open_call) = ([], [])"
  by (simp add: extract_scope_targets_def open_call_def any_at_def str_any_def Let_def)

lemma blocked_risk: "fst (snd (profile_risk open_call (Some block_profile))) = ''block''"
proof -
  have "normalize_tool_risk_action ''block'' a = ''block''" for a
    by (simp add: normalize_tool_risk_action_def Let_def) code_simp
  then show ?thesis by (simp add: profile_risk_def block_profile_def split: prod.split)
qed

text \<open>
  A scope meant to tighten can loosen: \<open>approval_rule = always\<close> replaces whatever the risk profile
  asks, a \<open>block\<close> included, so that a tool whose profile blocks it becomes callable with an approval.
\<close>
lemma always_scope_lifts_block:
  "fst (enforce_mcp_tool_governance (\<lambda>_. ''s'') sp 0 n r p (Inr (Some block_profile)) (Inr None)
     (Inr []) open_call approved_tables) \<noteq> Tool_pass \<and>
   fst (enforce_mcp_tool_governance (\<lambda>_. ''s'') sp 0 n r p (Inr (Some block_profile))
     (Inr (Some (plain_scope\<lparr>ts_approval_rule := ''always''\<rparr>))) (Inr []) open_call approved_tables) = Tool_pass"
proof -
  have w: "to_lower (trim_space ''always'') = ''always''" by code_simp
  have "scope_permits sp open_call (plain_scope\<lparr>ts_approval_rule := ''always''\<rparr>)"
    by (simp add: scope_permits_def open_targets plain_scope_def csv_allows_def)
  moreover have "asked_action open_call (Some block_profile) (Some (plain_scope\<lparr>ts_approval_rule := ''always''\<rparr>)) =
      ''require_approval''"
    using w by (simp add: asked_action_def plain_scope_def)
  ultimately show ?thesis
    using approved_covers by (simp add: enforce_passes_iff asked_action_None blocked_risk no_rules Let_def)
qed

definition wide_scope :: mcp_tool_scope where
  "wide_scope = plain_scope\<lparr>ts_id := ''2'', ts_server_label := ''*'', ts_tool_name := ''*'', ts_allowed_roles := ''admin''\<rparr>"

definition off_scope :: mcp_tool_scope where
  "off_scope = plain_scope\<lparr>ts_enabled := False\<rparr>"

text \<open>
  The most specific scope binds alone, enabled or not: with a disabled scope for one tool beside it,
  the enabled scope that lets only administrators call any tool no longer binds that tool, and a caller
  without a role passes.
\<close>
lemma disabled_scope_lifts_wildcard:
  "fst (enforce_mcp_tool_governance h sp 0 n r p (Inr None)
     (Inr (mcp_tool_scope_for ''s'' ''t'' (sample_tables\<lparr>tt_scopes := [wide_scope]\<rparr>))) (Inr []) open_call t) \<noteq> Tool_pass \<and>
   fst (enforce_mcp_tool_governance h sp 0 n r p (Inr None)
     (Inr (mcp_tool_scope_for ''s'' ''t'' (sample_tables\<lparr>tt_scopes := [wide_scope, off_scope]\<rparr>))) (Inr []) open_call t) = Tool_pass"
proof -
  have s: "mcp_tool_scope_for ''s'' ''t'' (sample_tables\<lparr>tt_scopes := [wide_scope]\<rparr>) = Some wide_scope"
    "mcp_tool_scope_for ''s'' ''t'' (sample_tables\<lparr>tt_scopes := [wide_scope, off_scope]\<rparr>) = Some off_scope"
    by (simp_all add: mcp_tool_scope_for_def candidates_def scope_key_def wide_scope_def off_scope_def plain_scope_def)
  have "\<not> csv_allows ''admin'' []" by code_simp
  then have "\<not> scope_permits sp open_call wide_scope"
    by (simp add: scope_permits_def open_targets wide_scope_def plain_scope_def auth_field_def open_call_def)
  moreover have "scope_permits sp open_call off_scope"
    by (simp add: scope_permits_def off_scope_def split: prod.split)
  moreover have "fst (snd (profile_risk open_call None)) = ''allow''"
    by (simp add: profile_risk_def infer_mcp_risk_def)
  moreover from this have "asked_action open_call None (Some off_scope) = ''allow''"
    by (simp add: asked_action_def off_scope_def Let_def)
  ultimately show ?thesis by (simp add: s enforce_passes_iff no_rules Let_def)
qed

end
