(* ===== verification/IpAddress.thy ===== *)
theory IpAddress
  imports GoStrings "HOL-Library.Word"
begin

text \<open>
  The addresses and prefixes of Go's \<open>net/netip\<close>, and the older \<open>net.ParseIP\<close> and \<open>net.ParseCIDR\<close>,
  as far as the key policies use them: parsing, canonical text, masking and containment.  The two
  packages differ on IPv4 addresses mapped into IPv6, which \<open>netip\<close> keeps apart and \<open>net\<close> identifies
  with the IPv4 address.
\<close>

section \<open>Addresses\<close>

datatype ip_addr = V4 "32 word" | V6 "128 word" string

definition octet :: "string \<Rightarrow> int option" where
  "octet s =
     (if s = [] \<or> \<not> list_all is_digit s \<or> (1 < length s \<and> hd s = CHR ''0'') \<or> 255 < digits_val s then None
      else Some (digits_val s))"

definition parse_ipv4 :: "string \<Rightarrow> 32 word option" where
  "parse_ipv4 s =
     (case map octet (split_char (CHR ''.'') s) of
        [Some a, Some b, Some c, Some d] \<Rightarrow> Some (word_of_int (((a * 256 + b) * 256 + c) * 256 + d))
      | _ \<Rightarrow> None)"

definition hex_digit :: "char \<Rightarrow> int option" where
  "hex_digit c =
     (let n = of_char c :: int
      in if 48 \<le> n \<and> n \<le> 57 then Some (n - 48)
         else if 97 \<le> n \<and> n \<le> 102 then Some (n - 87)
         else if 65 \<le> n \<and> n \<le> 70 then Some (n - 55)
         else None)"

definition is_hex :: "char \<Rightarrow> bool" where
  "is_hex c \<longleftrightarrow> hex_digit c \<noteq> None"

definition hex_val :: "string \<Rightarrow> int" where
  "hex_val s = foldl (\<lambda>acc c. acc * 16 + the (hex_digit c)) 0 s"

text \<open>
  The loop of \<open>parseIPv6\<close> over at most eight 16-bit groups: the groups so far, and how many of them stand
  before the ellipsis.  The answer carries what is left of the text.
\<close>

fun v6_loop :: "nat \<Rightarrow> string \<Rightarrow> int list \<Rightarrow> nat option \<Rightarrow> (int list \<times> nat option \<times> string) option" where
  "v6_loop 0 s groups ell = Some (groups, ell, s)"
| "v6_loop (Suc k) s groups ell =
     (let hex = takeWhile is_hex s; r = dropWhile is_hex s
      in if hex = [] \<or> 4 < length hex then None
         else if take 1 r = ''.'' then
           (if ell = None \<and> length groups \<noteq> 6 then None
            else if 8 < length groups + 2 then None
            else case parse_ipv4 s of
                   None \<Rightarrow> None
                 | Some w \<Rightarrow> Some (groups @ [uint (drop_bit 16 w), uint w mod 65536], ell, []))
         else
           let groups = groups @ [hex_val hex]
           in if r = [] then Some (groups, ell, [])
              else if take 1 r \<noteq> '':'' \<or> length r = 1 then None
              else if take 1 (drop 1 r) = '':'' then
                (if ell \<noteq> None then None
                 else if drop 2 r = [] then Some (groups, Some (length groups), [])
                 else v6_loop k (drop 2 r) groups (Some (length groups)))
              else v6_loop k (drop 1 r) groups ell)"

definition join_groups :: "int list \<Rightarrow> 128 word" where
  "join_groups gs = foldl (\<lambda>acc g. acc * 65536 + word_of_int g) 0 gs"

definition expand_groups :: "int list \<Rightarrow> nat option \<Rightarrow> 128 word option" where
  "expand_groups gs ell =
     (case ell of
        None \<Rightarrow> if length gs = 8 then Some (join_groups gs) else None
      | Some e \<Rightarrow> if length gs < 8 then Some (join_groups (take e gs @ replicate (8 - length gs) 0 @ drop e gs)) else None)"

definition parse_ipv6 :: "string \<Rightarrow> ip_addr option" where
  "parse_ipv6 input =
     (let s = takeWhile (\<lambda>c. c \<noteq> CHR ''%'') input; zone = drop 1 (dropWhile (\<lambda>c. c \<noteq> CHR ''%'') input);
          lead = (take 2 s = ''::''); r = (if lead then drop 2 s else s)
      in if CHR ''%'' \<in> set input \<and> zone = [] then None
         else if lead \<and> r = [] then Some (V6 0 zone)
         else case v6_loop 8 r [] (if lead then Some 0 else None) of
                None \<Rightarrow> None
              | Some (gs, ell, rest) \<Rightarrow>
                  if rest \<noteq> [] then None else map_option (\<lambda>w. V6 w zone) (expand_groups gs ell))"

text \<open>\<open>netip.ParseAddr\<close>: the first of point, colon and percent sign decides.\<close>

definition parse_addr :: "string \<Rightarrow> ip_addr option" where
  "parse_addr s =
     (case find (\<lambda>c. c \<in> {CHR ''.'', CHR '':'', CHR ''%''}) s of
        None \<Rightarrow> None
      | Some c \<Rightarrow>
          if c = CHR ''.'' then map_option V4 (parse_ipv4 s)
          else if c = CHR '':'' then parse_ipv6 s
          else None)"

fun bit_len :: "ip_addr \<Rightarrow> nat" where
  "bit_len (V4 _) = 32"
| "bit_len (V6 _ _) = 128"

fun zone_of :: "ip_addr \<Rightarrow> string" where
  "zone_of (V4 _) = []"
| "zone_of (V6 _ z) = z"

fun without_zone :: "ip_addr \<Rightarrow> ip_addr" where
  "without_zone (V4 w) = V4 w"
| "without_zone (V6 w _) = V6 w []"

section \<open>Prefixes\<close>

definition clear_low :: "nat \<Rightarrow> ('a :: len) word \<Rightarrow> 'a word" where
  "clear_low n w = push_bit n (drop_bit n w)"

fun masked_addr :: "ip_addr \<Rightarrow> nat \<Rightarrow> ip_addr" where
  "masked_addr (V4 w) bits = V4 (clear_low (32 - bits) w)"
| "masked_addr (V6 w z) bits = V6 (clear_low (128 - bits) w) []"

text \<open>The text behind the last slash: no sign, no leading zero, at most the length of the address.\<close>

definition prefix_bits :: "nat \<Rightarrow> string \<Rightarrow> nat option" where
  "prefix_bits len s =
     (if s = [] \<or> \<not> list_all is_digit s \<or> (1 < length s \<and> hd s = CHR ''0'') \<or> int len < digits_val s then None
      else Some (nat (digits_val s)))"

definition last_slash :: "string \<Rightarrow> string \<times> string" where
  "last_slash s =
     (let tail = rev (takeWhile (\<lambda>c. c \<noteq> CHR ''/'') (rev s))
      in (take (length s - length tail - 1) s, tail))"

definition parse_prefix :: "string \<Rightarrow> (ip_addr \<times> nat) option" where
  "parse_prefix s =
     (if CHR ''/'' \<notin> set s then None
      else case parse_addr (fst (last_slash s)) of
             None \<Rightarrow> None
           | Some a \<Rightarrow> if zone_of a \<noteq> [] then None
                       else map_option (\<lambda>b. (a, b)) (prefix_bits (bit_len a) (snd (last_slash s))))"

text \<open>\<open>Prefix.Contains\<close>.\<close>

fun prefix_contains :: "ip_addr \<times> nat \<Rightarrow> ip_addr \<Rightarrow> bool" where
  "prefix_contains (V4 p, bits) (V4 a) \<longleftrightarrow> drop_bit (32 - bits) a = drop_bit (32 - bits) p"
| "prefix_contains (V6 p _, bits) (V6 a z) \<longleftrightarrow> z = [] \<and> drop_bit (128 - bits) a = drop_bit (128 - bits) p"
| "prefix_contains _ _ \<longleftrightarrow> False"

section \<open>Canonical text\<close>

definition ipv4_text :: "32 word \<Rightarrow> string" where
  "ipv4_text w =
     (let n = uint w
      in join ''.'' (map itoa [n div 16777216, n div 65536 mod 256, n div 256 mod 256, n mod 256]))"

definition hex_char :: "int \<Rightarrow> char" where
  "hex_char n = char_of (nat (if n < 10 then 48 + n else 87 + n))"

definition hex_text :: "int \<Rightarrow> string" where
  "hex_text g =
     (let ds = dropWhile (\<lambda>d. d = 0) [g div 4096 mod 16, g div 256 mod 16, g div 16 mod 16]
      in map hex_char (ds @ [g mod 16]))"

definition groups_of :: "128 word \<Rightarrow> int list" where
  "groups_of w = map (\<lambda>i. uint (drop_bit (16 * (7 - i)) w) mod 65536) [0 ..< 8]"

text \<open>The first longest run of at least two zero groups, as its start and length.\<close>

definition zero_run :: "int list \<Rightarrow> nat \<times> nat" where
  "zero_run gs =
     foldl (\<lambda>(start, len) i.
         let l = length (takeWhile (\<lambda>g. g = 0) (drop i gs)) in if 2 \<le> l \<and> len < l then (i, l) else (start, len))
       (8, 0) [0 ..< 8]"

definition mapped_v4 :: "128 word \<Rightarrow> bool" where
  "mapped_v4 w \<longleftrightarrow> drop_bit 32 w = 0xFFFF"

definition ipv6_text :: "128 word \<Rightarrow> string" where
  "ipv6_text w =
     (if mapped_v4 w then ''::ffff:'' @ ipv4_text (ucast w)
      else
        let gs = groups_of w; (start, len) = zero_run gs; hex = map hex_text gs
        in if len = 0 then join '':'' hex
           else join '':'' (take start hex) @ ''::'' @ join '':'' (drop (start + len) hex))"

fun addr_text :: "ip_addr \<Rightarrow> string" where
  "addr_text (V4 w) = ipv4_text w"
| "addr_text (V6 w z) = ipv6_text w @ (if z = [] then [] else CHR ''%'' # z)"

definition prefix_text :: "ip_addr \<times> nat \<Rightarrow> string" where
  "prefix_text p = addr_text (fst p) @ ''/'' @ nat_digits (snd p)"

section \<open>The older package\<close>

text \<open>\<open>net.IP.To4\<close>: a mapped address is its IPv4 address.\<close>

fun net_ip :: "ip_addr \<Rightarrow> ip_addr" where
  "net_ip (V4 w) = V4 w"
| "net_ip (V6 w z) = (if mapped_v4 w then V4 (ucast w) else V6 w [])"

definition net_parse_ip :: "string \<Rightarrow> ip_addr option" where
  "net_parse_ip s =
     (case parse_addr s of None \<Rightarrow> None | Some a \<Rightarrow> if zone_of a \<noteq> [] then None else Some (net_ip a))"

text \<open>\<open>net.ParseCIDR\<close> splits at the first slash; the mask may have leading zeros.\<close>

definition net_mask_bits :: "nat \<Rightarrow> string \<Rightarrow> nat option" where
  "net_mask_bits len s =
     (if s = [] \<or> \<not> list_all is_digit s \<or> int len < digits_val s then None else Some (nat (digits_val s)))"

text \<open>
  The network of a prefix, as \<open>IPNet.Contains\<close> reads it: a masked address that is a mapped one counts as
  IPv4, with the last 32 bits of the mask.
\<close>

fun net_network :: "ip_addr \<times> nat \<Rightarrow> ip_addr \<times> nat" where
  "net_network (V4 w, bits) = (V4 (clear_low (32 - bits) w), bits)"
| "net_network (V6 w z, bits) =
     (let m = clear_low (128 - bits) w in if mapped_v4 m then (V4 (ucast m), bits - 96) else (V6 m [], bits))"

definition net_parse_cidr :: "string \<Rightarrow> (ip_addr \<times> nat) option" where
  "net_parse_cidr s =
     (if CHR ''/'' \<notin> set s then None
      else case parse_addr (takeWhile (\<lambda>c. c \<noteq> CHR ''/'') s) of
             None \<Rightarrow> None
           | Some a \<Rightarrow>
               if zone_of a \<noteq> [] then None
               else map_option (\<lambda>b. net_network (a, b))
                      (net_mask_bits (bit_len a) (drop 1 (dropWhile (\<lambda>c. c \<noteq> CHR ''/'') s))))"

definition net_contains :: "ip_addr \<times> nat \<Rightarrow> ip_addr \<Rightarrow> bool" where
  "net_contains network ip = prefix_contains network ip"

end
