(* ===== verification/AccessKeys.thy ===== *)
theory AccessKeys
  imports PolicyRules IpAddress ToolGovernance
begin

text \<open>
  API keys: roles and scopes (\<open>internal/proxy/auth.go\<close>), the policy of a key and its patches
  (\<open>internal/proxy/api_key_policy.go\<close>), the key table (\<open>internal/store/sqlstore.go\<close>) and the
  self-service endpoints (\<open>internal/proxy/me_keys.go\<close>).  Times are instants, the zero time standing for
  an empty column; budgets are exact rationals, as JSON yields no infinity.
\<close>

section \<open>Scopes and roles\<close>

definition all_scopes :: "string list" where
  "all_scopes =
     [''chat:completion'', ''embeddings:create'', ''models:read'', ''admin:read'', ''admin:write'', ''routing:read'',
      ''routing:write'', ''observability:read'', ''costs:read'', ''security:read'', ''mcp:use'', ''mcp:admin'',
      ''team:read'']"

definition role_scopes :: "(string \<times> string list) list" where
  "role_scopes =
     [(''super_admin'', all_scopes),
      (''admin'', all_scopes),
      (''team_admin'', [''chat:completion'', ''embeddings:create'', ''models:read'', ''admin:read'', ''routing:read'',
         ''observability:read'', ''costs:read'', ''security:read'', ''mcp:use'', ''team:read'']),
      (''team_manager'', [''chat:completion'', ''embeddings:create'', ''models:read'', ''observability:read'',
         ''costs:read'', ''mcp:use'', ''team:read'']),
      (''developer'', [''chat:completion'', ''embeddings:create'', ''models:read'', ''routing:read'',
         ''observability:read'', ''costs:read'', ''mcp:use'']),
      (''viewer'', [''models:read'', ''admin:read'', ''routing:read'', ''observability:read'', ''costs:read'',
         ''security:read'']),
      (''service_account'', [''chat:completion'', ''embeddings:create'', ''models:read'', ''mcp:use'']),
      (''ops_admin'', [''admin:read'', ''observability:read'', ''costs:read'', ''models:read'']),
      (''ai_admin'', [''admin:read'', ''models:read'', ''routing:read'', ''observability:read'']),
      (''security_admin'', [''admin:read'', ''security:read'']),
      (''billing_admin'', [''admin:read'', ''costs:read'', ''observability:read'', ''models:read'']),
      (''readonly_admin'', [''admin:read'', ''observability:read'', ''costs:read'', ''security:read''])]"

definition has_scope :: "string list \<Rightarrow> string \<Rightarrow> bool" where
  "has_scope scopes scope = list_ex (\<lambda>s. s = scope) scopes"

definition scopes_for_role :: "string \<Rightarrow> string list" where
  "scopes_for_role role =
     (case map_of role_scopes role of Some scopes \<Rightarrow> scopes | None \<Rightarrow> the (map_of role_scopes ''viewer''))"

definition valid_role :: "string \<Rightarrow> bool" where
  "valid_role role \<longleftrightarrow> map_of role_scopes role \<noteq> None"

definition role_rank :: "string \<Rightarrow> int" where
  "role_rank role =
     (if role = ''super_admin'' then 5
      else if role = ''admin'' then 4
      else if role = ''team_admin'' then 3
      else if role \<in> {''ops_admin'', ''ai_admin'', ''security_admin'', ''billing_admin''} then 3
      else if role = ''team_manager'' then 2
      else if role \<in> {''developer'', ''service_account''} then 2
      else if role \<in> {''viewer'', ''readonly_admin''} then 1
      else 0)"

definition custom_role_rank :: "string list \<Rightarrow> int" where
  "custom_role_rank scopes =
     (if has_scope scopes ''admin:write'' then 4
      else if has_scope scopes ''admin:read'' \<or> has_scope scopes ''mcp:admin'' \<or> has_scope scopes ''routing:write'' then 3
      else if has_scope scopes ''team:read'' then 2
      else 1)"

definition scopes_within :: "string list \<Rightarrow> string list \<Rightarrow> bool" where
  "scopes_within requested allowed = list_all (has_scope allowed) requested"

lemma scopes_within_subset: "scopes_within p q \<longleftrightarrow> set p \<subseteq> set q"
  by (auto simp: scopes_within_def has_scope_def list_all_iff list_ex_iff)

text \<open>\<open>None\<close> when some entry is no known scope.\<close>

definition normalize_scopes :: "string list \<Rightarrow> string list option" where
  "normalize_scopes scopes =
     (let given = filter (\<lambda>s. s \<noteq> []) (map trim_space scopes)
      in if list_all (has_scope all_scopes) given then Some (first_by (\<lambda>s. s) [] given) else None)"

definition default_api_key_scopes :: "string \<Rightarrow> bool \<Rightarrow> string list" where
  "default_api_key_scopes role service_account =
     scopes_for_role (if trim_space role = [] then if service_account then ''service_account'' else ''developer'' else role)"

section \<open>Keys and callers\<close>

record key_policy =
  kp_scopes :: "string list"
  kp_allowed_ips :: "string list"
  kp_allowed_models :: "string list"
  kp_denied_models :: "string list"
  kp_allowed_providers :: "string list"
  kp_denied_providers :: "string list"
  kp_budget_limit_krw :: rat
  kp_expires_at :: go_time

record api_key =
  ak_id :: string
  ak_name :: string
  ak_key_hash :: string
  ak_owner :: string
  ak_team :: string
  ak_user_id :: string
  ak_service_account_id :: string
  ak_role :: string
  ak_status :: string
  ak_policy :: key_policy
  ak_revoked_at :: go_time
  ak_created_at :: go_time

record me_identity =
  me_user_id :: string
  me_team_id :: string
  me_role :: string
  me_policy :: key_policy

definition key_role :: "string \<Rightarrow> bool \<Rightarrow> string" where
  "key_role role service_account = (if role = [] then if service_account then ''service_account'' else ''developer'' else role)"

text \<open>
  The caller behind an authenticated key: \<open>authContextFromAPIKey\<close> with the team looked up, and the
  expiry of the key.
\<close>

definition me_of_key :: "(string \<Rightarrow> string) \<Rightarrow> api_key \<Rightarrow> me_identity" where
  "me_of_key resolve_team k =
     \<lparr>me_user_id = ak_user_id k,
      me_team_id = (if trim_space (ak_team k) = [] then ak_team k else resolve_team (ak_team k)),
      me_role = key_role (ak_role k) (ak_service_account_id k \<noteq> []), me_policy = ak_policy k\<rparr>"

section \<open>What a key admits\<close>

definition ip_allowed :: "string \<Rightarrow> string list \<Rightarrow> bool" where
  "ip_allowed ip allowed =
     (allowed = [] \<or>
      list_ex (\<lambda>raw. let raw = trim_space raw in
          raw \<noteq> [] \<and>
          (raw = ip \<or>
           (case (net_parse_cidr raw, net_parse_ip ip) of
              (Some network, Some parsed) \<Rightarrow> net_contains network parsed
            | _ \<Rightarrow> False))) allowed)"

definition list_allows :: "string \<Rightarrow> string list \<Rightarrow> string list \<Rightarrow> bool" where
  "list_allows value allowed denied =
     (let value = to_lower (trim_space value); hit = (\<lambda>pat. match_glob (to_lower (trim_space pat)) value)
      in \<not> list_ex hit denied \<and> (allowed = [] \<or> list_ex hit allowed))"

section \<open>Patches\<close>

record key_patch =
  kt_scopes :: "string list option"
  kt_allowed_ips :: "string list option"
  kt_allowed_models :: "string list option"
  kt_denied_models :: "string list option"
  kt_allowed_providers :: "string list option"
  kt_denied_providers :: "string list option"
  kt_budget_limit_krw :: "rat option"
  kt_expires_at :: "string option"

definition patch_any :: "key_patch \<Rightarrow> bool" where
  "patch_any p \<longleftrightarrow>
     kt_scopes p \<noteq> None \<or> kt_allowed_ips p \<noteq> None \<or> kt_allowed_models p \<noteq> None \<or> kt_denied_models p \<noteq> None \<or>
     kt_allowed_providers p \<noteq> None \<or> kt_denied_providers p \<noteq> None \<or> kt_budget_limit_krw p \<noteq> None \<or>
     kt_expires_at p \<noteq> None"

text \<open>An error is kept as the field it names, which the response code carries.\<close>

definition normal_ip :: "string \<Rightarrow> string option" where
  "normal_ip raw =
     (let value = trim_space raw
      in if value = [] then None
         else if CHR ''/'' \<in> set value then
           map_option (\<lambda>(a, b). prefix_text (masked_addr a b, b)) (parse_prefix value)
         else map_option addr_text (parse_addr value))"

definition normalize_list :: "(string \<Rightarrow> string option) \<Rightarrow> string list \<Rightarrow> string list option" where
  "normalize_list normal values =
     (if 128 < length values \<or> None \<in> set (map normal values) then None
      else Some (first_by (\<lambda>s. s) [] (map (the \<circ> normal) values)))"

definition normalize_ip_constraints :: "string list \<Rightarrow> string list option" where
  "normalize_ip_constraints = normalize_list normal_ip"

text \<open>\<open>unicode.IsControl\<close> or \<open>unicode.IsSpace\<close> for some rune of a UTF-8 text.\<close>

definition has_control_or_space :: "string \<Rightarrow> bool" where
  "has_control_or_space s \<longleftrightarrow>
     list_ex (\<lambda>c. (of_char c :: nat) < 32 \<or> (of_char c :: nat) = 127) s \<or>
     list_ex (contains s) utf8_spaces \<or>
     list_ex (\<lambda>(a, b). (of_char a :: nat) = 0xC2 \<and> 0x80 \<le> (of_char b :: nat) \<and> (of_char b :: nat) \<le> 0x9F) (zip s (drop 1 s))"

definition normal_pattern :: "string \<Rightarrow> string option" where
  "normal_pattern raw =
     (let value = to_lower (trim_space raw)
      in if value = [] \<or> 256 < length value \<or> has_control_or_space value then None else Some value)"

definition normalize_pattern_constraints :: "string list \<Rightarrow> string list option" where
  "normalize_pattern_constraints = normalize_list normal_pattern"

text \<open>One optional field: absent keeps the value, present must normalize.\<close>

definition patched :: "string \<Rightarrow> ('a \<Rightarrow> 'b option) \<Rightarrow> 'a option \<Rightarrow> 'b \<Rightarrow> 'b result" where
  "patched field normal patch old =
     (case patch of None \<Rightarrow> Inr old | Some v \<Rightarrow> (case normal v of None \<Rightarrow> Inl field | Some new \<Rightarrow> Inr new))"

definition normal_budget :: "rat \<Rightarrow> rat option" where
  "normal_budget b = (if b < 0 then None else Some b)"

definition normal_expiry :: "go_time \<Rightarrow> string \<Rightarrow> go_time option" where
  "normal_expiry now raw =
     (let raw = trim_space raw
      in if raw = [] then Some zero_time
         else case parse_rfc3339 raw of
                None \<Rightarrow> None
              | Some parsed \<Rightarrow> if now \<noteq> zero_time \<and> \<not> now < parsed then None else Some parsed)"

definition bind_result :: "'a result \<Rightarrow> ('a \<Rightarrow> 'b result) \<Rightarrow> 'b result" where
  "bind_result r f = (case r of Inl e \<Rightarrow> Inl e | Inr x \<Rightarrow> f x)"

definition apply_api_key_policy_patch :: "go_time \<Rightarrow> key_patch \<Rightarrow> key_policy \<Rightarrow> key_policy result" where
  "apply_api_key_policy_patch now p rec =
     bind_result (patched ''scopes'' normalize_scopes (kt_scopes p) (kp_scopes rec)) (\<lambda>scopes.
     bind_result (patched ''allowed_ips'' normalize_ip_constraints (kt_allowed_ips p) (kp_allowed_ips rec)) (\<lambda>ips.
     bind_result (patched ''allowed_models'' normalize_pattern_constraints (kt_allowed_models p) (kp_allowed_models rec)) (\<lambda>am.
     bind_result (patched ''denied_models'' normalize_pattern_constraints (kt_denied_models p) (kp_denied_models rec)) (\<lambda>dm.
     bind_result (patched ''allowed_providers'' normalize_pattern_constraints (kt_allowed_providers p) (kp_allowed_providers rec)) (\<lambda>ap.
     bind_result (patched ''denied_providers'' normalize_pattern_constraints (kt_denied_providers p) (kp_denied_providers rec)) (\<lambda>dp.
     bind_result (patched ''budget_limit_krw'' normal_budget (kt_budget_limit_krw p) (kp_budget_limit_krw rec)) (\<lambda>budget.
     bind_result (patched ''expires_at'' (normal_expiry now) (kt_expires_at p) (kp_expires_at rec)) (\<lambda>expiry.
     Inr \<lparr>kp_scopes = scopes, kp_allowed_ips = ips, kp_allowed_models = am, kp_denied_models = dm,
          kp_allowed_providers = ap, kp_denied_providers = dp, kp_budget_limit_krw = budget, kp_expires_at = expiry\<rparr>))))))))"

section \<open>Bounds on a grant\<close>

definition constraint_prefix :: "string \<Rightarrow> (ip_addr \<times> nat) option" where
  "constraint_prefix raw =
     (let raw = trim_space raw
      in if CHR ''/'' \<in> set raw then map_option (\<lambda>(a, b). (masked_addr a b, b)) (parse_prefix raw)
         else map_option (\<lambda>a. (without_zone a, bit_len a)) (parse_addr raw))"

definition prefix_covers :: "ip_addr \<times> nat \<Rightarrow> ip_addr \<times> nat \<Rightarrow> bool" where
  "prefix_covers allowed candidate \<longleftrightarrow>
     bit_len (fst allowed) = bit_len (fst candidate) \<and> snd allowed \<le> snd candidate \<and>
     prefix_contains allowed (fst candidate)"

definition ip_allow_list_within :: "string list \<Rightarrow> string list \<Rightarrow> bool" where
  "ip_allow_list_within child parent =
     (if parent = [] then True
      else if child = [] then False
      else
        let parents = map constraint_prefix parent
        in None \<notin> set parents \<and>
           list_all (\<lambda>raw. case constraint_prefix raw of
               None \<Rightarrow> False
             | Some candidate \<Rightarrow> list_ex (\<lambda>p. prefix_covers (the p) candidate) parents) child)"

text \<open>A literal under a glob of the parent, or the same pattern, or anything under a lone star.\<close>

definition pattern_covers :: "string \<Rightarrow> string \<Rightarrow> bool" where
  "pattern_covers bound requested \<longleftrightarrow>
     bound = ''*'' \<or> bound = requested \<or> (\<not> contains requested ''*'' \<and> match_glob bound requested)"

definition pattern_allow_list_within :: "string list \<Rightarrow> string list \<Rightarrow> bool" where
  "pattern_allow_list_within child parent =
     (if parent = [] then True
      else if child = [] then False
      else list_all (\<lambda>requested.
             list_ex (\<lambda>bound. pattern_covers (map_key bound) (map_key requested)) parent) child)"

definition deny_list_preserved :: "string list \<Rightarrow> string list \<Rightarrow> bool" where
  "deny_list_preserved child parent =
     list_all (\<lambda>required. list_ex (\<lambda>denied. pattern_covers (map_key denied) (map_key required)) child) parent"

definition key_denied :: "string \<Rightarrow> string \<Rightarrow> admin_error + 'a" where
  "key_denied message code = admin_fail 403 message code"

definition rank_denied :: "string \<Rightarrow> string \<Rightarrow> bool" where
  "rank_denied target caller \<longleftrightarrow>
     role_rank target = 0 \<or> role_rank caller = 0 \<or> role_rank caller < role_rank target \<or>
     (role_rank target = role_rank caller \<and> target \<noteq> caller)"

definition validate_policy_within_caller :: "api_key \<Rightarrow> me_identity \<Rightarrow> admin_error + unit" where
  "validate_policy_within_caller rec me =
     (let p = ak_policy rec; m = me_policy me;
          target = key_role (trim_space (ak_role rec)) (ak_service_account_id rec \<noteq> []);
          caller = key_role (trim_space (me_role me)) False
      in if rank_denied target caller
         then key_denied ''cannot manage a key with a role beyond your own'' ''role_escalation_denied''
         else if trim_space (ak_team rec) \<noteq> trim_space (me_team_id me)
         then key_denied ''cannot manage a key outside your current team'' ''team_scope_denied''
         else if \<not> scopes_within (kp_scopes p) (kp_scopes m)
         then key_denied ''cannot grant scopes beyond your own'' ''scope_denied''
         else if \<not> ip_allow_list_within (kp_allowed_ips p) (kp_allowed_ips m)
         then key_denied ''allowed_ips would exceed your own key policy'' ''key_policy_denied''
         else if \<not> pattern_allow_list_within (kp_allowed_models p) (kp_allowed_models m)
         then key_denied ''allowed_models would exceed your own key policy'' ''key_policy_denied''
         else if \<not> pattern_allow_list_within (kp_allowed_providers p) (kp_allowed_providers m)
         then key_denied ''allowed_providers would exceed your own key policy'' ''key_policy_denied''
         else if \<not> deny_list_preserved (kp_denied_models p) (kp_denied_models m)
         then key_denied ''denied_models must preserve your own deny policy'' ''key_policy_denied''
         else if \<not> deny_list_preserved (kp_denied_providers p) (kp_denied_providers m)
         then key_denied ''denied_providers must preserve your own deny policy'' ''key_policy_denied''
         else if 0 < kp_budget_limit_krw m \<and>
                 (kp_budget_limit_krw p \<le> 0 \<or> kp_budget_limit_krw m < kp_budget_limit_krw p)
         then key_denied ''budget_limit_krw cannot exceed or remove your own budget'' ''key_policy_denied''
         else if kp_expires_at m \<noteq> zero_time \<and> (kp_expires_at p = zero_time \<or> kp_expires_at m < kp_expires_at p)
         then key_denied ''expires_at cannot outlive or remove your own key expiry'' ''key_policy_denied''
         else Inr ())"

section \<open>The key table\<close>

definition get_api_key :: "string \<Rightarrow> api_key list \<Rightarrow> api_key option" where
  "get_api_key k keys = find_row ak_id keys k"

definition find_active_api_key_by_hash :: "string \<Rightarrow> api_key list \<Rightarrow> api_key option" where
  "find_active_api_key_by_hash h keys = find (\<lambda>k. ak_key_hash k = h \<and> ak_status k = ''active'') keys"

definition has_active_api_keys :: "api_key list \<Rightarrow> bool" where
  "has_active_api_keys keys = list_ex (\<lambda>k. ak_status k = ''active'') keys"

definition merge_api_key :: "api_key \<Rightarrow> api_key \<Rightarrow> api_key" where
  "merge_api_key old new = new\<lparr>ak_created_at := ak_created_at old\<rparr>"

interpretation key_table: replacing_store ak_id "find_row ak_id" "upsert_row ak_id merge_api_key" merge_api_key
  unfolding replacing_store_def replacing_store_axioms_def
  by (auto simp: merge_api_key_def intro!: row_store_upsert)

definition hash_taken :: "api_key \<Rightarrow> api_key list \<Rightarrow> bool" where
  "hash_taken k keys \<longleftrightarrow> list_ex (\<lambda>r. ak_key_hash r = ak_key_hash k \<and> ak_id r \<noteq> ak_id k) keys"

definition upsert_api_key :: "go_time \<Rightarrow> api_key \<Rightarrow> api_key list \<Rightarrow> api_key list result" where
  "upsert_api_key now k keys =
     (let k = k\<lparr>ak_created_at := (if ak_created_at k = zero_time then now else ak_created_at k),
                ak_status := (if ak_status k = [] then ''active'' else ak_status k)\<rparr>
      in if hash_taken k keys then Inl ''UNIQUE constraint failed'' else Inr (upsert_row ak_id merge_api_key k keys))"

definition owned_active :: "string \<Rightarrow> string \<Rightarrow> api_key \<Rightarrow> bool" where
  "owned_active k user r \<longleftrightarrow> ak_id r = k \<and> ak_user_id r = user \<and> ak_status r = ''active''"

definition update_api_key_policy_owned :: "api_key \<Rightarrow> string \<Rightarrow> api_key list \<Rightarrow> bool \<times> api_key list" where
  "update_api_key_policy_owned k user keys =
     (list_ex (owned_active (ak_id k) user) keys,
      map (\<lambda>r. if owned_active (ak_id k) user r then r\<lparr>ak_policy := ak_policy k\<rparr> else r) keys)"

definition revoke_owned :: "go_time \<Rightarrow> string \<Rightarrow> string \<Rightarrow> api_key list \<Rightarrow> api_key list" where
  "revoke_owned now k user keys =
     map (\<lambda>r. if owned_active k user r then r\<lparr>ak_status := ''revoked'', ak_revoked_at := now\<rparr> else r) keys"

definition revoke_api_key_owned :: "go_time \<Rightarrow> string \<Rightarrow> string \<Rightarrow> api_key list \<Rightarrow> bool \<times> api_key list" where
  "revoke_api_key_owned now k user keys = (list_ex (owned_active k user) keys, revoke_owned now k user keys)"

text \<open>\<open>RotateAPIKeyOwned\<close>: insert the replacement and revoke the old key, both or neither.\<close>

definition rotate_api_key_owned ::
  "go_time \<Rightarrow> string \<Rightarrow> string \<Rightarrow> api_key \<Rightarrow> api_key list \<Rightarrow> api_key list result" where
  "rotate_api_key_owned now old user new keys =
     (if ak_id new = [] \<or> ak_id new = old \<or> ak_user_id new \<noteq> user then Inl ''invalid transition''
      else
        let new = new\<lparr>ak_created_at := (if ak_created_at new = zero_time then now else ak_created_at new),
                      ak_status := ''active'', ak_revoked_at := zero_time\<rparr>
        in if ak_id new \<in> set (map ak_id keys) \<or> ak_key_hash new \<in> set (map ak_key_hash keys)
           then Inl ''UNIQUE constraint failed''
           else if \<not> list_ex (owned_active old user) keys then Inl ''invalid transition''
           else Inr (revoke_owned now old user (keys @ [new])))"

section \<open>The self-service endpoints\<close>

text \<open>
  \<open>issueSelfServiceKey\<close>; \<open>key_hash\<close> is the hash of the secret that was drawn, hex digits of which the
  first sixteen name the key.
\<close>

definition issued_key :: "go_time \<Rightarrow> string \<Rightarrow> me_identity \<Rightarrow> string \<Rightarrow> api_key" where
  "issued_key now key_hash me name =
     \<lparr>ak_id = ''key_'' @ take 16 key_hash, ak_name = name, ak_key_hash = key_hash, ak_owner = [],
      ak_team = me_team_id me, ak_user_id = me_user_id me, ak_service_account_id = [], ak_role = me_role me,
      ak_status = ''active'', ak_policy = me_policy me, ak_revoked_at = zero_time, ak_created_at = now\<rparr>"

definition issue_self_service_key ::
  "go_time \<Rightarrow> string \<Rightarrow> me_identity \<Rightarrow> string \<Rightarrow> key_patch \<Rightarrow> api_key list \<Rightarrow> (admin_error + api_key) \<times> api_key list" where
  "issue_self_service_key now key_hash me name patch keys =
     (if name = [] then (admin_fail 400 ''name is required'' ''missing_name'', keys)
      else
        let rec = issued_key now key_hash me name
        in case apply_api_key_policy_patch now patch (ak_policy rec) of
             Inl field \<Rightarrow> (admin_fail 400 [] (''invalid_'' @ field), keys)
           | Inr policy \<Rightarrow>
               let rec = rec\<lparr>ak_policy := policy\<rparr>
               in case validate_policy_within_caller rec me of
                    Inl e \<Rightarrow> (Inl e, keys)
                  | Inr _ \<Rightarrow>
                      (case upsert_api_key now rec keys of
                         Inl e \<Rightarrow> (admin_fail 500 e ''api_key_create_failed'', keys)
                       | Inr keys' \<Rightarrow> (Inr rec, keys')))"

text \<open>The three actions of \<open>handleMyKeyByID\<close> on a key the caller owns.\<close>

datatype key_action = Rotate string | Patch key_patch | Revoke

definition rotated_key :: "go_time \<Rightarrow> string \<Rightarrow> api_key \<Rightarrow> api_key" where
  "rotated_key now key_hash k =
     k\<lparr>ak_id := ''key_'' @ take 16 key_hash, ak_key_hash := key_hash, ak_status := ''active'',
       ak_revoked_at := zero_time, ak_created_at := now\<rparr>"

definition rotate_my_key ::
  "go_time \<Rightarrow> string \<Rightarrow> me_identity \<Rightarrow> api_key \<Rightarrow> api_key list \<Rightarrow> (admin_error + api_key) \<times> api_key list" where
  "rotate_my_key now key_hash me existing keys =
     (if ak_status existing \<noteq> ''active''
      then (admin_fail 409 ''only an active api key can be rotated'' ''key_not_active'', keys)
      else case validate_policy_within_caller existing me of
             Inl e \<Rightarrow> (Inl e, keys)
           | Inr _ \<Rightarrow>
               let rec = rotated_key now key_hash existing
               in case rotate_api_key_owned now (ak_id existing) (me_user_id me) rec keys of
                    Inl e \<Rightarrow> (if e = ''invalid transition''
                              then admin_fail 409 ''api key changed while it was being rotated'' ''key_rotate_conflict''
                              else admin_fail 500 e ''key_rotate_failed'', keys)
                  | Inr keys' \<Rightarrow> (Inr rec, keys'))"

definition patch_my_key ::
  "go_time \<Rightarrow> key_patch \<Rightarrow> me_identity \<Rightarrow> api_key \<Rightarrow> api_key list \<Rightarrow> (admin_error + api_key) \<times> api_key list" where
  "patch_my_key now patch me existing keys =
     (if \<not> patch_any patch then (admin_fail 400 ''at least one key policy field is required'' ''empty_update'', keys)
      else if ak_status existing \<noteq> ''active''
      then (admin_fail 409 ''only an active api key can be updated'' ''key_not_active'', keys)
      else case apply_api_key_policy_patch now patch (ak_policy existing) of
             Inl field \<Rightarrow> (admin_fail 400 [] (''invalid_'' @ field), keys)
           | Inr policy \<Rightarrow>
               let updated = existing\<lparr>ak_policy := policy\<rparr>
               in case validate_policy_within_caller updated me of
                    Inl e \<Rightarrow> (Inl e, keys)
                  | Inr _ \<Rightarrow>
                      let (changed, keys') = update_api_key_policy_owned updated (me_user_id me) keys
                      in if \<not> changed
                         then (admin_fail 409 ''api key changed while it was being updated'' ''key_update_conflict'', keys')
                         else (Inr updated, keys'))"

definition my_key_by_id ::
  "go_time \<Rightarrow> me_identity \<Rightarrow> string \<Rightarrow> key_action \<Rightarrow> api_key list \<Rightarrow> (admin_error + api_key) \<times> api_key list" where
  "my_key_by_id now me k action keys =
     (if k = [] then (admin_fail 400 ''key id required'' ''invalid_id'', keys)
      else case get_api_key k keys of
             None \<Rightarrow> (admin_fail 404 ''api key not found'' ''api_key_not_found'', keys)
           | Some existing \<Rightarrow>
               if ak_user_id existing \<noteq> me_user_id me
               then (admin_fail 404 ''api key not found'' ''api_key_not_found'', keys)
               else case action of
                      Rotate key_hash \<Rightarrow> rotate_my_key now key_hash me existing keys
                    | Patch patch \<Rightarrow> patch_my_key now patch me existing keys
                    | Revoke \<Rightarrow>
                        let (changed, keys') = revoke_api_key_owned now k (me_user_id me) keys
                        in if \<not> changed then (admin_fail 409 ''api key is not active'' ''key_not_active'', keys')
                           else (Inr existing, keys'))"

end
