(* ===== verification/IpLaws.thy ===== *)
theory IpLaws
  imports IpAddress
begin

text \<open>
  The laws of IPv4 addresses that the key policies rest on: the text of an address determines it and is
  determined by it, prefixes nest, and both packages read a prefix without a colon alike.
\<close>

section \<open>Decimal numbers\<close>

lemma digits_val_snoc_char: "digits_val (s @ [c]) = digits_val s * 10 + digit_val c"
  by (simp add: digits_val_def)

lemma char_of_digit: "is_digit c \<Longrightarrow> char_of (48 + nat (digit_val c)) = c"
proof -
  assume "is_digit c"
  then have "48 + nat (digit_val c) = of_char c" by (simp add: is_digit_def digit_val_def nat_diff_distrib)
  then show ?thesis by simp
qed

lemma digit_val_range: "is_digit c \<Longrightarrow> 0 \<le> digit_val c \<and> digit_val c < 10"
  by (auto simp: is_digit_def digit_val_def)

lemma digits_val_pos: "list_all is_digit s \<Longrightarrow> s \<noteq> [] \<Longrightarrow> hd s \<noteq> CHR ''0'' \<Longrightarrow> 0 < digits_val s"
proof (induction s rule: rev_induct)
  case (snoc c s)
  show ?case
  proof (cases "s = []")
    case True
    then have c: "char_of (48 + nat (digit_val c)) = c" "c \<noteq> CHR ''0''"
      using snoc(2,4) char_of_digit [of c] by auto
    have "char_of (48 :: nat) = CHR ''0''" by code_simp
    then have "digit_val c \<noteq> 0" using c by auto
    then show ?thesis using True snoc(2) digit_val_range [of c] by (simp add: digits_val_def)
  next
    case False
    then show ?thesis using snoc digit_val_range [of c] by (simp add: digits_val_snoc_char)
  qed
qed simp

text \<open>A numeral without a leading zero is the decimal text of its value.\<close>

lemma nat_digits_val:
  assumes "list_all is_digit s" "s \<noteq> []" "length s = 1 \<or> hd s \<noteq> CHR ''0''"
  shows "nat_digits (nat (digits_val s)) = s"
  using assms
proof (induction s rule: rev_induct)
  case (snoc c s)
  have c: "is_digit c" "0 \<le> digit_val c" "digit_val c < 10" using snoc(2) digit_val_range [of c] by auto
  show ?case
  proof (cases "s = []")
    case True
    then show ?thesis using c char_of_digit [OF c(1)] by (simp add: digits_val_def nat_digits.simps nat_less_iff)
  next
    case False
    then have h: "hd s \<noteq> CHR ''0''" "list_all is_digit s" using snoc(2,4) by auto
    then have p: "0 < digits_val s" using digits_val_pos False by blast
    have n: "nat (digits_val (s @ [c])) = 10 * nat (digits_val s) + nat (digit_val c)"
      using p c by (simp add: digits_val_snoc_char nat_add_distrib nat_mult_distrib)
    have "nat (digits_val s) \<ge> 1" "nat (digit_val c) < 10" using p c by linarith+
    then show ?thesis
      using snoc(1) h False char_of_digit [OF c(1)] n by (subst nat_digits.simps) auto
  qed
qed simp

lemma octet_text: "octet s = Some n \<Longrightarrow> nat_digits (nat n) = s \<and> 0 \<le> n \<and> n \<le> 255 \<and> list_all is_digit s \<and> s \<noteq> []"
proof -
  assume o: "octet s = Some n"
  then have n: "n = digits_val s" "s \<noteq> []" "list_all is_digit s" "\<not> (1 < length s \<and> hd s = CHR ''0'')" "\<not> 255 < n"
    by (auto simp: octet_def split: if_splits)
  have "length s = 1 \<or> hd s \<noteq> CHR ''0''" using n(2,4) by (cases s) auto
  then show ?thesis using n nat_digits_val [of s] digits_val_nonneg [of s] by simp
qed

section \<open>IPv4 text\<close>

lemma split_char_inverse: "join [c] (split_char c s) = s"
proof (induction s)
  case (Cons d s)
  obtain w ws where s: "split_by (\<lambda>x. x = c) s = w # ws" by (meson neq_Nil_conv split_by_not_Nil)
  then show ?case using Cons by (cases ws) (auto simp: split_char_def)
qed (simp add: split_char_def)

lemma parse_ipv4_parts:
  assumes "parse_ipv4 s = Some w"
  obtains a b c d where "map octet (split_char (CHR ''.'') s) = [Some a, Some b, Some c, Some d]"
    "w = word_of_int (((a * 256 + b) * 256 + c) * 256 + d)"
  using assms by (auto simp: parse_ipv4_def split: list.splits option.splits)

lemma octets_word:
  assumes "0 \<le> a" "a \<le> 255" "0 \<le> b" "b \<le> 255" "0 \<le> c" "c \<le> 255" "0 \<le> d" "d \<le> 255"
  shows "uint (word_of_int (((a * 256 + b) * 256 + c) * 256 + d) :: 32 word) = ((a * 256 + b) * 256 + c) * 256 + d"
proof -
  have "0 \<le> ((a * 256 + b) * 256 + c) * 256 + d" "((a * 256 + b) * 256 + c) * 256 + d < 2 ^ 32"
    using assms by simp_all
  then show ?thesis by (simp only: uint_word_of_int) simp
qed

lemma same_base:
  assumes "0 \<le> d" "d \<le> 255" "0 \<le> d'" "d' \<le> 255" "a * 256 + d = a' * 256 + (d' :: int)"
  shows "a = a' \<and> d = d'"
proof -
  have "d = (a * 256 + d) mod 256" "d' = (a' * 256 + d') mod 256" using assms(1-4) by simp_all
  then have "d = d'" using assms(5) by simp
  then show ?thesis using assms(5) by simp
qed

text \<open>Two texts of the same address are the same text.\<close>

lemma parse_ipv4_inj:
  assumes "parse_ipv4 s = Some w" "parse_ipv4 t = Some w"
  shows "s = t"
proof -
  from assms(1) obtain a b c d where s: "map octet (split_char (CHR ''.'') s) = [Some a, Some b, Some c, Some d]"
    and w: "w = word_of_int (((a * 256 + b) * 256 + c) * 256 + d)" by (rule parse_ipv4_parts)
  from assms(2) obtain a' b' c' d' where t: "map octet (split_char (CHR ''.'') t) = [Some a', Some b', Some c', Some d']"
    and w': "w = word_of_int (((a' * 256 + b') * 256 + c') * 256 + d')" by (rule parse_ipv4_parts)
  obtain A B C D where sp: "split_char (CHR ''.'') s = [A, B, C, D]"
    "octet A = Some a" "octet B = Some b" "octet C = Some c" "octet D = Some d" using s by auto
  obtain A' B' C' D' where tp: "split_char (CHR ''.'') t = [A', B', C', D']"
    "octet A' = Some a'" "octet B' = Some b'" "octet C' = Some c'" "octet D' = Some d'" using t by auto
  note ranges = sp(2-5) [THEN octet_text] tp(2-5) [THEN octet_text]
  have "((a * 256 + b) * 256 + c) * 256 + d = ((a' * 256 + b') * 256 + c') * 256 + d'"
    using arg_cong [OF trans [OF w [symmetric] w'], of uint] octets_word [of a b c d] octets_word [of a' b' c' d'] ranges
    by auto
  then have top: "(a * 256 + b) * 256 + c = (a' * 256 + b') * 256 + c'" and "d = d'"
    using same_base [of d d'] ranges by blast+
  from top have mid: "a * 256 + b = a' * 256 + b'" and "c = c'" using same_base [of c c'] ranges by blast+
  from mid have "a = a'" "b = b'" using same_base [of b b'] ranges by blast+
  then have "split_char (CHR ''.'') s = split_char (CHR ''.'') t" using \<open>d = d'\<close> \<open>c = c'\<close> ranges sp(1) tp(1) by auto
  then show ?thesis by (metis split_char_inverse)
qed

lemma join_set: "set (join sep ws) \<subseteq> set sep \<union> \<Union> (set ` set ws)"
  by (induction sep ws rule: join.induct) auto

lemma parse_ipv4_chars:
  assumes "parse_ipv4 s = Some w"
  shows "set s \<subseteq> {c. is_digit c \<or> c = CHR ''.''}"
proof -
  from assms obtain a b c d where "map octet (split_char (CHR ''.'') s) = [Some a, Some b, Some c, Some d]"
    by (rule parse_ipv4_parts)
  then have "\<forall>p \<in> set (split_char (CHR ''.'') s). octet p \<noteq> None" by (auto simp: map_eq_Cons_conv)
  then have "\<forall>p \<in> set (split_char (CHR ''.'') s). list_all is_digit p" using octet_text by blast
  then show ?thesis
    using join_set [of "''.''" "split_char (CHR ''.'') s"] split_char_inverse [of "CHR ''.''" s]
    by (auto simp: list_all_iff)
qed

section \<open>Prefixes\<close>

lemma drop_clear_low [simp]: "drop_bit n (clear_low n w) = drop_bit n w"
  by (rule bit_word_eqI) (auto simp: clear_low_def bit_simps dest: bit_imp_le_length)

lemma prefix_contains_trans:
  assumes "m \<le> n" "prefix_contains (V4 p, m) (V4 c)" "prefix_contains (V4 c, n) (V4 x)"
  shows "prefix_contains (V4 p, m) (V4 x)"
proof -
  have "32 - m = (m' + (32 - n))" if "m' = 32 - m - (32 - n)" for m' using assms(1) that by simp
  then obtain k where k: "32 - m = k + (32 - n)" by blast
  have "drop_bit (32 - m) x = drop_bit k (drop_bit (32 - n) x)" by (simp add: k drop_bit_drop_bit)
  also have "\<dots> = drop_bit (32 - m) c" using assms(3) by (simp add: k drop_bit_drop_bit)
  finally show ?thesis using assms(2) by simp
qed

text \<open>A text without a colon is read as an IPv4 address or not at all.\<close>

lemma parse_addr_no_colon:
  assumes "CHR '':'' \<notin> set s" "parse_addr s = Some a"
  obtains w where "a = V4 w" "parse_ipv4 s = Some w"
proof -
  from assms(2) obtain c where c: "find (\<lambda>c. c \<in> {CHR ''.'', CHR '':'', CHR ''%''}) s = Some c"
    by (auto simp: parse_addr_def split: option.splits)
  then have "c \<in> set s" "c \<in> {CHR ''.'', CHR '':'', CHR ''%''}" using find_Some_set [OF c] by auto
  then have "c = CHR ''.''" using assms c by (auto simp: parse_addr_def)
  then show thesis using that assms(2) c by (auto simp: parse_addr_def)
qed

lemma parse_addr_ipv4: "parse_ipv4 s = Some w \<Longrightarrow> parse_addr s = Some (V4 w)"
proof -
  assume p: "parse_ipv4 s = Some w"
  have "CHR '':'' \<notin> set s" "CHR ''%'' \<notin> set s" using parse_ipv4_chars [OF p] by (auto simp: is_digit_def)
  moreover have "CHR ''.'' \<in> set s"
  proof (rule ccontr)
    assume "CHR ''.'' \<notin> set s"
    then have "split_char (CHR ''.'') s = [s]" by (auto simp: split_char_def intro: split_by_word)
    then show False using p by (auto simp: parse_ipv4_def split: option.splits)
  qed
  ultimately have "find (\<lambda>c. c \<in> {CHR ''.'', CHR '':'', CHR ''%''}) s = Some (CHR ''.'')"
    by (induction s) auto
  then show ?thesis using p by (simp add: parse_addr_def)
qed

lemma last_slash_split: "CHR ''/'' \<in> set s \<Longrightarrow> s = fst (last_slash s) @ CHR ''/'' # snd (last_slash s) \<and> CHR ''/'' \<notin> set (snd (last_slash s))"
proof -
  assume "CHR ''/'' \<in> set s"
  then obtain u v where s: "s = u @ CHR ''/'' # v" "CHR ''/'' \<notin> set v" using split_list_last by metis
  then have "takeWhile (\<lambda>c. c \<noteq> CHR ''/'') (rev s) = rev v" by (subst s) (auto simp: takeWhile_append2 takeWhile_tail)
  then have "last_slash s = (u, v)" using s by (simp add: last_slash_def)
  then show ?thesis using s by simp
qed

lemma prefix_bits_mask: "prefix_bits len t = Some b \<Longrightarrow> net_mask_bits len t = Some b \<and> b \<le> len"
  using digits_val_nonneg [of t] by (auto simp: prefix_bits_def net_mask_bits_def nat_le_iff split: if_splits)

lemma parse_prefix_no_colon:
  assumes "CHR '':'' \<notin> set s" "parse_prefix s = Some (a, b)"
  obtains w where "a = V4 w" "net_parse_cidr s = Some (V4 (clear_low (32 - b) w), b)" "b \<le> 32"
proof -
  have sl: "CHR ''/'' \<in> set s" using assms(2) by (auto simp: parse_prefix_def split: if_splits)
  obtain u v where uv: "last_slash s = (u, v)" by (cases "last_slash s")
  then have s: "s = u @ CHR ''/'' # v" using last_slash_split [OF sl] by simp
  have a: "parse_addr u = Some a" "prefix_bits (bit_len a) v = Some b"
    using assms(2) uv by (auto simp: parse_prefix_def split: if_splits option.splits)
  obtain w where w: "a = V4 w" "parse_ipv4 u = Some w"
    using parse_addr_no_colon [OF _ a(1)] assms(1) s by auto
  have "CHR ''/'' \<notin> set u" using parse_ipv4_chars [OF w(2)] by (auto simp: is_digit_def)
  then have "\<forall>c \<in> set u. c \<noteq> CHR ''/''" by blast
  then have "takeWhile (\<lambda>c. c \<noteq> CHR ''/'') s = u" "dropWhile (\<lambda>c. c \<noteq> CHR ''/'') s = CHR ''/'' # v"
    unfolding s by (simp_all add: takeWhile_append2 dropWhile_append2)
  then show thesis
    using that [OF w(1)] prefix_bits_mask [OF a(2)] a w sl by (auto simp: net_parse_cidr_def)
qed

end
