(* ===== verification/AccessKeyProperties.thy ===== *)
theory AccessKeyProperties
  imports AccessKeys IpLaws
begin

text \<open>
  What a key may hand on: the checks of \<open>validatePolicyWithinCaller\<close> against what a key admits at run
  time, the self-service endpoints as steps on the key table, and rotation.
\<close>

section \<open>Globs and lists\<close>

lemma pattern_covers_match:
  "pattern_covers bound requested \<Longrightarrow> match_glob requested v \<Longrightarrow> match_glob bound v"
  by (auto simp: pattern_covers_def match_glob_def split: if_splits)

definition hits :: "string list \<Rightarrow> string \<Rightarrow> bool" where
  "hits pats v = list_ex (\<lambda>pat. match_glob (map_key pat) (map_key v)) pats"

lemma list_allows_hits: "list_allows v allowed denied \<longleftrightarrow> \<not> hits denied v \<and> (allowed = [] \<or> hits allowed v)"
  by (simp add: list_allows_def hits_def map_key_def Let_def)

lemma allow_list_narrows:
  assumes "pattern_allow_list_within child parent" "child = [] \<or> hits child v"
  shows "parent = [] \<or> hits parent v"
  using assms pattern_covers_match
  unfolding pattern_allow_list_within_def hits_def list_all_iff list_ex_iff by (meson list.set_intros(1))

lemma deny_list_widens:
  assumes "deny_list_preserved child parent" "hits parent v"
  shows "hits child v"
  using assms pattern_covers_match unfolding deny_list_preserved_def hits_def list_all_iff list_ex_iff by meson

section \<open>IPv4 allow lists\<close>

text \<open>The IPv4 clients a list admits through its entries without a colon.\<close>

definition v4_admits :: "string \<Rightarrow> string list \<Rightarrow> bool" where
  "v4_admits ip ips \<longleftrightarrow> ips = [] \<or> list_ex (\<lambda>raw. CHR '':'' \<notin> set (trim_space raw) \<and> ip_allowed ip [raw]) ips"

lemma v4_admits_allowed: "v4_admits ip ips \<Longrightarrow> ip_allowed ip ips"
  unfolding v4_admits_def ip_allowed_def list_ex_iff by (auto simp: Let_def)

lemma allowed_v4_admits:
  "\<forall>raw \<in> set ips. CHR '':'' \<notin> set raw \<Longrightarrow> ip_allowed ip ips \<Longrightarrow> v4_admits ip ips"
  unfolding v4_admits_def ip_allowed_def list_ex_iff using trim_space_set by (auto simp: Let_def)

lemma ip_parse:
  assumes "parse_ipv4 ip = Some w"
  shows "net_parse_ip ip = Some (V4 w)" "CHR ''/'' \<notin> set ip" "CHR '':'' \<notin> set ip" "ip \<noteq> []"
  using parse_addr_ipv4 [OF assms] parse_ipv4_chars [OF assms] assms
  by (auto simp: net_parse_ip_def is_digit_def parse_addr_def)

text \<open>An entry without a colon admits the addresses of its prefix, and nothing else.\<close>

lemma entry_admits:
  assumes ip: "parse_ipv4 ip = Some w" and nc: "CHR '':'' \<notin> set (trim_space raw)"
    and p: "constraint_prefix raw = Some p"
  shows "ip_allowed ip [raw] \<longleftrightarrow> prefix_contains p (V4 w)"
proof -
  let ?r = "trim_space raw"
  show ?thesis
  proof (cases "CHR ''/'' \<in> set ?r")
    case True
    then obtain a b where ab: "parse_prefix ?r = Some (a, b)" "p = (masked_addr a b, b)"
      using p by (auto simp: constraint_prefix_def Let_def)
    obtain x where x: "a = V4 x" "net_parse_cidr ?r = Some (V4 (clear_low (32 - b) x), b)"
      using parse_prefix_no_colon [OF nc ab(1)] by blast
    have "?r \<noteq> ip" using True ip_parse [OF ip] by auto
    moreover have "?r \<noteq> []" using True by auto
    ultimately show ?thesis using x ab(2) ip_parse [OF ip] by (simp add: ip_allowed_def net_contains_def)
  next
    case False
    then obtain a where a: "parse_addr ?r = Some a" "p = (without_zone a, bit_len a)"
      using p by (auto simp: constraint_prefix_def Let_def)
    obtain x where x: "a = V4 x" "parse_ipv4 ?r = Some x" using parse_addr_no_colon [OF nc a(1)] by blast
    have "?r \<noteq> []" using ip_parse [OF x(2)] by simp
    moreover have "?r = ip \<longleftrightarrow> x = w" using parse_ipv4_inj x(2) ip by auto
    ultimately show ?thesis using False x a(2) by (auto simp: ip_allowed_def net_parse_cidr_def split: option.splits)
  qed
qed

lemma constraint_prefix_bits:
  assumes nc: "CHR '':'' \<notin> set (trim_space raw)" and p: "constraint_prefix raw = Some p"
  obtains x b where "p = (V4 x, b)"
proof (cases "CHR ''/'' \<in> set (trim_space raw)")
  case True
  then obtain a b where ab: "parse_prefix (trim_space raw) = Some (a, b)" "p = (masked_addr a b, b)"
    using p by (auto simp: constraint_prefix_def Let_def)
  obtain w where "a = V4 w" using parse_prefix_no_colon [OF nc ab(1)] by blast
  then show thesis using that ab(2) by simp
next
  case False
  then obtain a where a: "parse_addr (trim_space raw) = Some a" "p = (without_zone a, bit_len a)"
    using p by (auto simp: constraint_prefix_def Let_def)
  obtain w where "a = V4 w" using parse_addr_no_colon [OF nc a(1)] by blast
  then show thesis using that a(2) by simp
qed

lemma parse_addr_v4_text: "parse_addr s = Some (V4 w) \<Longrightarrow> parse_ipv4 s = Some w"
  by (auto simp: parse_addr_def parse_ipv6_def Let_def split: option.splits if_splits)

lemma covering_entry_no_colon:
  assumes "constraint_prefix raw = Some p" "bit_len (fst p) = 32"
  shows "CHR '':'' \<notin> set (trim_space raw)"
proof -
  let ?r = "trim_space raw"
  show ?thesis
  proof (cases "CHR ''/'' \<in> set ?r")
    case True
    obtain u v where uv: "last_slash ?r = (u, v)" by (cases "last_slash ?r")
    then have r: "?r = u @ CHR ''/'' # v" using last_slash_split [OF True] by simp
    obtain a b where ab: "parse_addr u = Some a" "prefix_bits (bit_len a) v = Some b" "p = (masked_addr a b, b)"
      using assms(1) True uv by (auto simp: constraint_prefix_def Let_def parse_prefix_def split: if_splits option.splits)
    have "\<exists>w. a = V4 w" using assms(2) ab(3) by (cases a) auto
    then have "CHR '':'' \<notin> set u" using parse_addr_v4_text ab(1) ip_parse(3) by blast
    moreover have "CHR '':'' \<notin> set v" using ab(2) by (auto simp: prefix_bits_def list_all_iff is_digit_def split: if_splits)
    ultimately show ?thesis using r by simp
  next
    case False
    then obtain a where a: "parse_addr ?r = Some a" "p = (without_zone a, bit_len a)"
      using assms(1) by (auto simp: constraint_prefix_def Let_def)
    then have "\<exists>w. a = V4 w" using assms(2) by (cases a) auto
    then show ?thesis using parse_addr_v4_text a(1) ip_parse(3) by blast
  qed
qed

lemma ip_list_narrows:
  assumes within: "ip_allow_list_within child parent" and ip: "parse_ipv4 ip = Some w" and c: "v4_admits ip child"
  shows "v4_admits ip parent"
proof (cases "parent = []")
  case False
  then have ne: "child \<noteq> []" and parse: "None \<notin> set (map constraint_prefix parent)"
    and cov: "\<forall>raw \<in> set child. case constraint_prefix raw of None \<Rightarrow> False
       | Some cand \<Rightarrow> \<exists>q \<in> set parent. prefix_covers (the (constraint_prefix q)) cand"
    using within False by (simp_all add: ip_allow_list_within_def Let_def list_all_iff list_ex_iff split: if_splits cong: option.case_cong)
  obtain raw where raw: "raw \<in> set child" "CHR '':'' \<notin> set (trim_space raw)" "ip_allowed ip [raw]"
    using c ne by (auto simp: v4_admits_def list_ex_iff)
  then obtain cand q where q: "constraint_prefix raw = Some cand" "q \<in> set parent"
    "prefix_covers (the (constraint_prefix q)) cand"
    using bspec [OF cov raw(1)] by (auto split: option.splits)
  obtain p where p: "constraint_prefix q = Some p" using parse q(2) by (metis image_eqI list.set_map not_None_eq)
  obtain x b where cand: "cand = (V4 x, b)" using constraint_prefix_bits [OF raw(2) q(1)] .
  have len: "bit_len (fst p) = 32" using q(3) p cand by (simp add: prefix_covers_def)
  have nc: "CHR '':'' \<notin> set (trim_space q)" using covering_entry_no_colon [OF p len] .
  obtain y m where pm: "p = (V4 y, m)" using constraint_prefix_bits [OF nc p] .
  have "prefix_contains cand (V4 w)" using entry_admits [OF ip raw(2) q(1)] raw(3) by simp
  then have "prefix_contains p (V4 w)"
    using q(3) p cand pm prefix_contains_trans [of m b y x w] by (simp add: prefix_covers_def)
  then have "ip_allowed ip [q]" using entry_admits [OF ip nc p] by simp
  then show ?thesis using nc q(2) by (auto simp: v4_admits_def list_ex_iff)
qed (simp add: v4_admits_def)

section \<open>What a key may hand on\<close>

definition narrower :: "key_policy \<Rightarrow> key_policy \<Rightarrow> bool" where
  "narrower p q \<longleftrightarrow>
     set (kp_scopes p) \<subseteq> set (kp_scopes q) \<and>
     (\<forall>v. list_allows v (kp_allowed_models p) (kp_denied_models p) \<longrightarrow>
          list_allows v (kp_allowed_models q) (kp_denied_models q)) \<and>
     (\<forall>v. list_allows v (kp_allowed_providers p) (kp_denied_providers p) \<longrightarrow>
          list_allows v (kp_allowed_providers q) (kp_denied_providers q)) \<and>
     (\<forall>ip. parse_ipv4 ip \<noteq> None \<longrightarrow> v4_admits ip (kp_allowed_ips p) \<longrightarrow> v4_admits ip (kp_allowed_ips q)) \<and>
     (0 < kp_budget_limit_krw q \<longrightarrow>
        0 < kp_budget_limit_krw p \<and> kp_budget_limit_krw p \<le> kp_budget_limit_krw q) \<and>
     (kp_expires_at q \<noteq> zero_time \<longrightarrow> kp_expires_at p \<noteq> zero_time \<and> kp_expires_at p \<le> kp_expires_at q)"

lemma narrower_refl [simp]: "narrower p p"
  by (simp add: narrower_def)

lemma narrower_trans: "narrower p q \<Longrightarrow> narrower q r \<Longrightarrow> narrower p r"
  unfolding narrower_def by (intro conjI) (blast | force)+

lemma key_denied_not_Inr [simp]: "key_denied m c \<noteq> Inr x"
  by (simp add: key_denied_def)

lemma validated_parts:
  assumes "validate_policy_within_caller rec me = Inr ()"
  shows "\<not> rank_denied (key_role (trim_space (ak_role rec)) (ak_service_account_id rec \<noteq> []))
           (key_role (trim_space (me_role me)) False)"
    "scopes_within (kp_scopes (ak_policy rec)) (kp_scopes (me_policy me))"
    "ip_allow_list_within (kp_allowed_ips (ak_policy rec)) (kp_allowed_ips (me_policy me))"
    "pattern_allow_list_within (kp_allowed_models (ak_policy rec)) (kp_allowed_models (me_policy me))"
    "pattern_allow_list_within (kp_allowed_providers (ak_policy rec)) (kp_allowed_providers (me_policy me))"
    "deny_list_preserved (kp_denied_models (ak_policy rec)) (kp_denied_models (me_policy me))"
    "deny_list_preserved (kp_denied_providers (ak_policy rec)) (kp_denied_providers (me_policy me))"
    "0 < kp_budget_limit_krw (me_policy me) \<Longrightarrow>
       0 < kp_budget_limit_krw (ak_policy rec) \<and>
       kp_budget_limit_krw (ak_policy rec) \<le> kp_budget_limit_krw (me_policy me)"
    "kp_expires_at (me_policy me) \<noteq> zero_time \<Longrightarrow>
       kp_expires_at (ak_policy rec) \<noteq> zero_time \<and> kp_expires_at (ak_policy rec) \<le> kp_expires_at (me_policy me)"
  using assms by (auto simp: validate_policy_within_caller_def Let_def not_less split: if_splits)

lemma validated_narrower:
  assumes "validate_policy_within_caller rec me = Inr ()"
  shows "narrower (ak_policy rec) (me_policy me)"
proof -
  note v = validated_parts [OF assms]
  have lists: "list_allows m am dm \<Longrightarrow> list_allows m am' dm'"
    if "pattern_allow_list_within am am'" "deny_list_preserved dm dm'" for m am dm am' dm'
    using that allow_list_narrows [of am am' m] deny_list_widens [of dm dm' m] by (auto simp: list_allows_hits)
  show ?thesis
    unfolding narrower_def
  proof (intro conjI)
    show "set (kp_scopes (ak_policy rec)) \<subseteq> set (kp_scopes (me_policy me))"
      using v(2) by (simp add: scopes_within_subset)
    show "\<forall>ip. parse_ipv4 ip \<noteq> None \<longrightarrow> v4_admits ip (kp_allowed_ips (ak_policy rec)) \<longrightarrow>
        v4_admits ip (kp_allowed_ips (me_policy me))"
      using ip_list_narrows [OF v(3)] by auto
  qed (use v(8,9) lists [OF v(4) v(6)] lists [OF v(5) v(7)] in auto)
qed

definition rank_of :: "api_key \<Rightarrow> int" where
  "rank_of k = role_rank (key_role (trim_space (ak_role k)) (ak_service_account_id k \<noteq> []))"

lemma me_rank: "role_rank (key_role (trim_space (me_role (me_of_key resolve k))) False) = rank_of k"
proof (cases "ak_role k = []")
  case True
  have t: "trim_space ''service_account'' = ''service_account''" "trim_space ''developer'' = ''developer''" by code_simp+
  show ?thesis using True t by (simp add: me_of_key_def rank_of_def key_role_def)
next
  case False
  then show ?thesis by (simp add: me_of_key_def rank_of_def key_role_def role_rank_def)
qed

lemma validated_rank:
  "validate_policy_within_caller rec (me_of_key resolve k) = Inr () \<Longrightarrow> rank_of rec \<le> rank_of k"
  using validated_parts(1) [of rec "me_of_key resolve k"] me_rank [of resolve k]
  by (auto simp: rank_denied_def rank_of_def)

section \<open>The self-service endpoints as steps\<close>

datatype me_request = Issue string string key_patch | On string key_action

definition serve_me ::
  "go_time \<Rightarrow> me_identity \<Rightarrow> me_request \<Rightarrow> api_key list \<Rightarrow> (admin_error + api_key) \<times> api_key list" where
  "serve_me now me req keys =
     (case req of
        Issue key_hash name patch \<Rightarrow> issue_self_service_key now key_hash me name patch keys
      | On k action \<Rightarrow> my_key_by_id now me k action keys)"

text \<open>A request is authenticated by some active key of the table that belongs to a user.\<close>

inductive me_step :: "(string \<Rightarrow> string) \<Rightarrow> api_key list \<Rightarrow> api_key list \<Rightarrow> bool" for resolve where
  "caller \<in> set keys \<Longrightarrow> ak_status caller = ''active'' \<Longrightarrow> trim_space (ak_user_id caller) \<noteq> [] \<Longrightarrow>
    me_step resolve keys (snd (serve_me now (me_of_key resolve caller) req keys))"

inductive_cases me_stepE: "me_step resolve keys keys'"

definition active_key :: "api_key \<Rightarrow> bool" where
  "active_key k \<longleftrightarrow> ak_status k = ''active''"

text \<open>A key bounded by another: same user, no higher role, narrower policy.\<close>

definition bounded_by :: "api_key \<Rightarrow> api_key \<Rightarrow> bool" where
  "bounded_by k p \<longleftrightarrow>
     ak_user_id k = ak_user_id p \<and> rank_of k \<le> rank_of p \<and> narrower (ak_policy k) (ak_policy p)"

lemma bounded_by_refl [simp]: "bounded_by k k"
  by (simp add: bounded_by_def)

lemma bounded_by_trans: "bounded_by k p \<Longrightarrow> bounded_by p q \<Longrightarrow> bounded_by k q"
  using narrower_trans by (auto simp: bounded_by_def)

lemma validated_bounded:
  assumes "validate_policy_within_caller rec (me_of_key resolve c) = Inr ()" "ak_user_id rec = ak_user_id c"
  shows "bounded_by rec c"
  using validated_rank [OF assms(1)] validated_narrower [OF assms(1)] assms(2) by (simp add: bounded_by_def me_of_key_def)

lemma bounded_by_more:
  "bounded_by k p \<Longrightarrow> ak_user_id k' = ak_user_id k \<Longrightarrow> ak_role k' = ak_role k \<Longrightarrow>
    ak_service_account_id k' = ak_service_account_id k \<Longrightarrow> ak_policy k' = ak_policy k \<Longrightarrow> bounded_by k' p"
  by (simp add: bounded_by_def rank_of_def)

lemma revoke_owned_active:
  "r \<in> set (revoke_owned now k user keys) \<Longrightarrow> active_key r \<Longrightarrow> r \<in> set keys"
  by (auto simp: revoke_owned_def active_key_def split: if_splits)

lemma map_ids_revoke [simp]: "map ak_id (revoke_owned now k user keys) = map ak_id keys"
  by (simp add: revoke_owned_def o_def if_distrib [of ak_id] cong: if_cong)

lemma map_ids_update [simp]: "map ak_id (snd (update_api_key_policy_owned k user keys)) = map ak_id keys"
  by (simp add: update_api_key_policy_owned_def o_def if_distrib [of ak_id] cong: if_cong)

lemma merge_api_key_id [simp]: "ak_id (merge_api_key old new) = ak_id new"
  by (simp add: merge_api_key_def)

lemma upsert_api_key_rows:
  assumes "upsert_api_key now k keys = Inr keys'" "ak_status k \<noteq> []"
  shows "distinct (map ak_id keys) \<Longrightarrow> distinct (map ak_id keys')"
    and "r \<in> set keys' \<Longrightarrow> r \<in> set keys \<or> (\<exists>t. r = k\<lparr>ak_created_at := t\<rparr>)"
proof -
  have keys': "\<exists>t. keys' = upsert_row ak_id merge_api_key (k\<lparr>ak_created_at := t\<rparr>) keys"
    using assms by (auto simp: upsert_api_key_def Let_def split: if_splits intro: exI [of _ "ak_created_at k"])
  then show "distinct (map ak_id keys) \<Longrightarrow> distinct (map ak_id keys')"
    using upsert_row_distinct [where key = ak_id and merge = merge_api_key, OF merge_api_key_id] by blast
  show "r \<in> set keys' \<Longrightarrow> r \<in> set keys \<or> (\<exists>t. r = k\<lparr>ak_created_at := t\<rparr>)"
    using keys' upsert_row_elem by (fastforce simp: merge_api_key_def)
qed

lemma issue_success:
  assumes "issue_self_service_key now h me name patch keys = (Inr rec, keys')"
  obtains policy where "rec = (issued_key now h me name)\<lparr>ak_policy := policy\<rparr>"
    "apply_api_key_policy_patch now patch (me_policy me) = Inr policy"
    "validate_policy_within_caller rec me = Inr ()" "upsert_api_key now rec keys = Inr keys'" "name \<noteq> []"
  using assms
  by (auto simp: issue_self_service_key_def Let_def issued_key_def split: if_splits sum.splits)

lemma issue_failure: "fst (issue_self_service_key now h me name patch keys) = Inl e \<Longrightarrow>
    snd (issue_self_service_key now h me name patch keys) = keys"
  by (auto simp: issue_self_service_key_def Let_def split: if_splits sum.splits)

lemma rotate_success:
  assumes "rotate_my_key now h me k keys = (Inr rec, keys')"
  obtains t where "rec = rotated_key now h k" "ak_status k = ''active''" "validate_policy_within_caller k me = Inr ()"
    "keys' = revoke_owned now (ak_id k) (me_user_id me) (keys @ [rec\<lparr>ak_created_at := t\<rparr>])"
    "ak_id rec \<notin> ak_id ` set keys" "h \<notin> ak_key_hash ` set keys" "list_ex (owned_active (ak_id k) (me_user_id me)) keys"
    "ak_id rec \<noteq> ak_id k" "ak_user_id k = me_user_id me"
proof -
  have k: "ak_status k = ''active''" "validate_policy_within_caller k me = Inr ()" "rec = rotated_key now h k"
    and rot: "rotate_api_key_owned now (ak_id k) (me_user_id me) (rotated_key now h k) keys = Inr keys'"
    using assms by (auto simp: rotate_my_key_def Let_def split: if_splits sum.splits)
  have f: "(rotated_key now h k)\<lparr>ak_created_at := t, ak_status := ''active'', ak_revoked_at := zero_time\<rparr>
      = (rotated_key now h k)\<lparr>ak_created_at := t\<rparr>" for t by (simp add: rotated_key_def)
  have g: "ak_key_hash (rotated_key now h k) = h" "ak_user_id (rotated_key now h k) = ak_user_id k" by (simp_all add: rotated_key_def)
  have "\<exists>t. keys' = revoke_owned now (ak_id k) (me_user_id me) (keys @ [(rotated_key now h k)\<lparr>ak_created_at := t\<rparr>])"
    using rot f by (intro exI [of _ "if ak_created_at (rotated_key now h k) = zero_time then now else ak_created_at (rotated_key now h k)"])
      (simp only: rotate_api_key_owned_def Let_def f split: if_splits, simp_all)
  moreover have "ak_id (rotated_key now h k) \<notin> ak_id ` set keys" "h \<notin> ak_key_hash ` set keys"
    "list_ex (owned_active (ak_id k) (me_user_id me)) keys" "ak_id (rotated_key now h k) \<noteq> ak_id k"
    "ak_user_id k = me_user_id me"
    using rot g by (simp_all add: rotate_api_key_owned_def Let_def split: if_splits)
  ultimately show thesis using that k by blast
qed

lemma rotate_failure: "fst (rotate_my_key now h me k keys) = Inl e \<Longrightarrow> snd (rotate_my_key now h me k keys) = keys"
  by (auto simp: rotate_my_key_def Let_def split: if_splits sum.splits)

lemma patch_rows:
  assumes "patch_my_key now patch me k keys = (res, keys')"
  shows "keys' = keys \<or>
    (\<exists>policy. validate_policy_within_caller (k\<lparr>ak_policy := policy\<rparr>) me = Inr () \<and>
       apply_api_key_policy_patch now patch (ak_policy k) = Inr policy \<and>
       keys' = map (\<lambda>r. if owned_active (ak_id k) (me_user_id me) r then r\<lparr>ak_policy := policy\<rparr> else r) keys)"
  using assms
  by (auto simp: patch_my_key_def update_api_key_policy_owned_def Let_def split: if_splits sum.splits)


section \<open>No escalation\<close>

lemma own_key_rows:
  assumes ids: "distinct (map ak_id keys)" and e: "find_row ak_id keys k = Some existing"
    and own: "ak_user_id existing = me_user_id (me_of_key resolve caller)"
    and keys': "keys' = snd (case action of
                      Rotate h \<Rightarrow> rotate_my_key now h (me_of_key resolve caller) existing keys
                    | Patch patch \<Rightarrow> patch_my_key now patch (me_of_key resolve caller) existing keys
                    | Revoke \<Rightarrow>
                        let (changed, keys') = revoke_api_key_owned now k (me_user_id (me_of_key resolve caller)) keys
                        in if \<not> changed then (admin_fail 409 ''api key is not active'' ''key_not_active'', keys')
                           else (Inr existing, keys'))"
  shows "distinct (map ak_id keys') \<and> (\<forall>r \<in> set keys'. active_key r \<longrightarrow> r \<in> set keys \<or> bounded_by r caller)"
proof -
  let ?me = "me_of_key resolve caller"
  have user: "me_user_id ?me = ak_user_id caller" by (simp add: me_of_key_def)
  have ex: "ak_id existing = k" "existing \<in> set keys" using find_row_key [OF e] by auto
  show ?thesis
  proof (cases action)
    case (Rotate h)
    show ?thesis
    proof (cases "rotate_my_key now h ?me existing keys")
      case (Pair res out)
      then have out: "out = keys'" using keys' Rotate by simp
      show ?thesis
      proof (cases res)
        case (Inl er)
        then show ?thesis using rotate_failure [of now h ?me existing keys er] Pair out ids by simp
      next
        case (Inr rec)
        obtain t where t: "rec = rotated_key now h existing" "validate_policy_within_caller existing ?me = Inr ()"
          "keys' = revoke_owned now k (me_user_id ?me) (keys @ [rec\<lparr>ak_created_at := t\<rparr>])" "ak_id rec \<notin> ak_id ` set keys"
          using rotate_success [OF Pair [unfolded Inr]] out ex(1) by metis
        have "bounded_by existing caller" using validated_bounded [OF t(2)] own user by simp
        then have "bounded_by (rec\<lparr>ak_created_at := t\<rparr>) caller"
          by (rule bounded_by_more) (simp_all add: t(1) rotated_key_def)
        moreover have "\<forall>r \<in> set keys'. active_key r \<longrightarrow> r \<in> set keys \<or> r = rec\<lparr>ak_created_at := t\<rparr>"
          using revoke_owned_active [of _ now k "me_user_id ?me" "keys @ [rec\<lparr>ak_created_at := t\<rparr>]"]
          unfolding t(3) set_append by force
        moreover have "distinct (map ak_id keys')" unfolding t(3) map_ids_revoke using t(4) ids by simp
        ultimately show ?thesis by blast
      qed
    qed
  next
    case (Patch patch)
    obtain res where "patch_my_key now patch ?me existing keys = (res, keys')" using keys' Patch by (simp add: prod_eq_iff)
    from patch_rows [OF this] consider "keys' = keys" | policy where "validate_policy_within_caller (existing\<lparr>ak_policy := policy\<rparr>) ?me = Inr ()"
      "keys' = map (\<lambda>r. if owned_active k (me_user_id ?me) r then r\<lparr>ak_policy := policy\<rparr> else r) keys"
      unfolding ex(1) by blast
    then show ?thesis
    proof cases
      case 1
      then show ?thesis using ids by simp
    next
      case 2
      have b: "bounded_by (existing\<lparr>ak_policy := policy\<rparr>) caller" using validated_bounded [OF 2(1)] own user by simp
      have "r = existing" if "r \<in> set keys" "ak_id r = k" for r
        using that ex ids by (metis e find_row_self option.inject)
      then have "\<forall>r \<in> set keys'. r \<in> set keys \<or> r = existing\<lparr>ak_policy := policy\<rparr>"
        using 2(2) by (auto simp: owned_active_def)
      moreover have "map ak_id keys' = map ak_id keys" using 2(2) by auto
      ultimately show ?thesis using b ids by metis
    qed
  next
    case Revoke
    then have "keys' = revoke_owned now k (me_user_id ?me) keys"
      using keys' by (auto simp: revoke_api_key_owned_def Let_def split: if_splits)
    then show ?thesis using ids revoke_owned_active by auto
  qed
qed

text \<open>What one request leaves: rows that were there, and rows bounded by the calling key.\<close>

lemma serve_me_rows:
  assumes ids: "distinct (map ak_id keys)" and c: "caller \<in> set keys"
    and keys': "keys' = snd (serve_me now (me_of_key resolve caller) req keys)"
  shows "distinct (map ak_id keys') \<and> (\<forall>r \<in> set keys'. active_key r \<longrightarrow> r \<in> set keys \<or> bounded_by r caller)"
proof -
  let ?me = "me_of_key resolve caller"
  have user: "me_user_id ?me = ak_user_id caller" by (simp add: me_of_key_def)
  show ?thesis
  proof (cases req)
    case (Issue h name patch)
    show ?thesis
    proof (cases "issue_self_service_key now h ?me name patch keys")
      case (Pair res out)
      then have out: "out = keys'" using keys' Issue by (simp add: serve_me_def)
      show ?thesis
      proof (cases res)
        case (Inl e)
        then show ?thesis using issue_failure [of now h ?me name patch keys e] Pair out ids by simp
      next
        case (Inr rec)
        obtain policy where rec: "rec = (issued_key now h ?me name)\<lparr>ak_policy := policy\<rparr>"
          "validate_policy_within_caller rec ?me = Inr ()" "upsert_api_key now rec keys = Inr keys'"
          using issue_success [OF Pair [unfolded Inr]] out by metis
        have "bounded_by rec caller"
          using validated_bounded [OF rec(2)] rec(1) user by (simp add: issued_key_def)
        then have "bounded_by (rec\<lparr>ak_created_at := t\<rparr>) caller" for t by (rule bounded_by_more) simp_all
        then show ?thesis
          using upsert_api_key_rows [OF rec(3)] ids rec(1) by (auto simp: issued_key_def)
      qed
    qed
  next
    case (On k action)
    have "distinct (map ak_id keys') \<and> (\<forall>r \<in> set keys'. active_key r \<longrightarrow> r \<in> set keys \<or> bounded_by r caller)"
      if e: "find_row ak_id keys k = Some existing" "ak_user_id existing = me_user_id ?me"
        "keys' = snd (case action of
                      Rotate h \<Rightarrow> rotate_my_key now h ?me existing keys
                    | Patch patch \<Rightarrow> patch_my_key now patch ?me existing keys
                    | Revoke \<Rightarrow>
                        let (changed, keys') = revoke_api_key_owned now k (me_user_id ?me) keys
                        in if \<not> changed then (admin_fail 409 ''api key is not active'' ''key_not_active'', keys')
                           else (Inr existing, keys'))" for existing
      using own_key_rows [OF ids e(1) e(2) e(3)] .
    then show ?thesis
      using keys' On ids by (auto simp: serve_me_def my_key_by_id_def get_api_key_def split: if_splits option.splits)
  qed
qed

lemma me_steps_bounded:
  assumes "(me_step resolve)\<^sup>*\<^sup>* keys keys'" "distinct (map ak_id keys)"
  shows "distinct (map ak_id keys') \<and> (\<forall>r \<in> set keys'. active_key r \<longrightarrow> (\<exists>p \<in> set keys. active_key p \<and> bounded_by r p))"
  using assms
proof (induction rule: rtranclp_induct)
  case base
  then show ?case using bounded_by_refl by blast
next
  case (step mid last)
  obtain caller now req where c: "caller \<in> set mid" "ak_status caller = ''active''"
    "last = snd (serve_me now (me_of_key resolve caller) req mid)" using step(2) by (blast elim: me_stepE)
  have rows: "distinct (map ak_id last) \<and> (\<forall>r \<in> set last. active_key r \<longrightarrow> r \<in> set mid \<or> bounded_by r caller)"
    using serve_me_rows [OF _ c(1) c(3)] step by blast
  have "\<exists>p \<in> set keys. active_key p \<and> bounded_by r p" if r: "r \<in> set last" "active_key r" for r
  proof -
    have "r \<in> set mid \<or> bounded_by r caller" using rows r by blast
    moreover have "active_key caller" using c(2) by (simp add: active_key_def)
    ultimately show ?thesis using step c(1) r(2) bounded_by_trans by meson
  qed
  then show ?case using rows by blast
qed

text \<open>
  C12. Whatever sequence of self-service requests is made with the keys of the table (issuing, narrowing,
  rotating and revoking, each authenticated by some key that is active at that moment), every active key of the
  final table is bounded by a key that was active at the start: it belongs to the same user, has no higher role
  rank and no further scope, admits no further model, provider or IPv4 client (through its entries without a
  colon), spends no more and does not outlive it.
\<close>

theorem self_service_never_escalates:
  assumes "(me_step resolve)\<^sup>*\<^sup>* keys keys'" "distinct (map ak_id keys)"
    and "k \<in> set keys'" "ak_status k = ''active''"
  shows "\<exists>p \<in> set keys. ak_status p = ''active'' \<and> bounded_by k p"
  using me_steps_bounded [OF assms(1,2)] assms(3,4) unfolding active_key_def by blast

definition sample_policy :: key_policy where
  "sample_policy =
     \<lparr>kp_scopes = [''models:read''], kp_allowed_ips = [''10.0.0.0/8''], kp_allowed_models = [''m-*''],
      kp_denied_models = [''m-x''], kp_allowed_providers = [], kp_denied_providers = [], kp_budget_limit_krw = 10,
      kp_expires_at = zero_time\<rparr>"

definition sample_key :: api_key where
  "sample_key = issued_key 5 ''0123456789abcdef0''
     \<lparr>me_user_id = ''u1'', me_team_id = ''t1'', me_role = ''developer'', me_policy = sample_policy\<rparr> ''laptop''"

definition sample_patch :: key_patch where
  "sample_patch =
     \<lparr>kt_scopes = None, kt_allowed_ips = Some [''10.1.2.0/24''], kt_allowed_models = Some [''m-1''],
      kt_denied_models = None, kt_allowed_providers = None, kt_denied_providers = None,
      kt_budget_limit_krw = Some 5, kt_expires_at = None\<rparr>"

definition sample_issue :: "(admin_error + api_key) \<times> api_key list" where
  "sample_issue = serve_me 9 (me_of_key (\<lambda>t. t) sample_key) (Issue ''fedcba98765432100'' ''ci'' sample_patch) [sample_key]"

lemma sample_issue_facts:
  "map ak_id (snd sample_issue) = [''key_0123456789abcdef'', ''key_fedcba9876543210''] \<and>
   map ak_status (snd sample_issue) = [''active'', ''active''] \<and>
   kp_allowed_models (ak_policy (snd sample_issue ! 1)) = [''m-1'']"
  by code_simp

theorem self_service_never_escalates_witness:
  "kp_allowed_models (ak_policy (snd sample_issue ! 1)) = [''m-1''] \<and>
   (\<exists>p \<in> set [sample_key]. ak_status p = ''active'' \<and> bounded_by (snd sample_issue ! 1) p)"
proof -
  have l: "length (snd sample_issue) = 2" using arg_cong [OF conjunct1 [OF sample_issue_facts], of length] by simp
  have "me_step (\<lambda>t. t) [sample_key] (snd sample_issue)"
    unfolding sample_issue_def by (rule me_step.intros) (simp, code_simp, code_simp)
  moreover have "ak_status (snd sample_issue ! 1) = ''active''"
    using sample_issue_facts l by (metis One_nat_def lessI nth_Cons_0 nth_Cons_Suc nth_map numeral_2_eq_2)
  ultimately show ?thesis
    using sample_issue_facts l self_service_never_escalates [of "\<lambda>t. t" "[sample_key]" "snd sample_issue" "snd sample_issue ! 1"]
    by auto
qed

text \<open>
  The bound on IPv4 clients does not extend to entries with a colon: \<open>ipAllowListWithin\<close> keeps the mapped
  addresses within IPv6, but at run time \<open>net.ParseCIDR\<close> reads them as IPv4, so a caller confined to IPv6
  hands on a key that every IPv4 client may use.
\<close>

lemma mapped_prefix_escapes:
  "normalize_ip_constraints [''::ffff:0:0/96''] = Some [''::ffff:0.0.0.0/96''] \<and>
   ip_allow_list_within [''::ffff:0.0.0.0/96''] [''::/0''] \<and>
   ip_allowed ''203.0.113.7'' [''::ffff:0.0.0.0/96''] \<and> \<not> ip_allowed ''203.0.113.7'' [''::/0'']"
proof -
  have "normal_ip ''::ffff:0:0/96'' = Some ''::ffff:0.0.0.0/96''"
  proof -
    have "parse_prefix ''::ffff:0:0/96'' = Some (V6 0xFFFF00000000 [], 96)"
      "prefix_text (V6 0xFFFF00000000 [], 96) = ''::ffff:0.0.0.0/96''"
      "clear_low 32 (0xFFFF00000000 :: 128 word) = 0xFFFF00000000"
      "trim_space ''::ffff:0:0/96'' = ''::ffff:0:0/96''" by code_simp+
    then show ?thesis by (simp add: normal_ip_def)
  qed
  then have "normalize_ip_constraints [''::ffff:0:0/96''] = Some [''::ffff:0.0.0.0/96'']"
    by (simp add: normalize_ip_constraints_def normalize_list_def)
  moreover have "ip_allow_list_within [''::ffff:0.0.0.0/96''] [''::/0'']" by code_simp
  moreover have "ip_allowed ''203.0.113.7'' [''::ffff:0.0.0.0/96'']" by code_simp
  moreover have "\<not> ip_allowed ''203.0.113.7'' [''::/0'']" by code_simp
  ultimately show ?thesis by blast
qed

section \<open>Rotation\<close>








end
