(* ===== verification/Accounts.thy ===== *)
theory Accounts
  imports AccessKeys
begin

text \<open>
  Accounts of the gateway: users, roles, login sessions and refresh tokens.  Tables and statements of
  \<open>internal/store/auth.go\<close> and \<open>custom_roles.go\<close>; tokens, roles and assignment rules of
  \<open>internal/proxy/auth.go\<close> and \<open>admin_roles.go\<close>; the handlers of \<open>auth_handlers.go\<close>, \<open>me_sessions.go\<close>,
  \<open>admin_users.go\<close> and \<open>admin_roles.go\<close>.  Password hashing, the token hash, signing and verifying are
  arguments (\<open>auth_config\<close>), drawn identifiers and secrets are inputs; the database answers, and the audit
  log is left out.  The zero time stands for NULL.
\<close>

section \<open>Tables\<close>

record auth_user =
  au_id :: string
  au_email :: string
  au_password_hash :: string
  au_name :: string
  au_role :: string
  au_status :: string
  au_created_at :: go_time
  au_updated_at :: go_time

record auth_session =
  se_id :: string
  se_user_id :: string
  se_expires_at :: go_time
  se_created_at :: go_time
  se_revoked_at :: go_time
  se_kc_sid :: string

record refresh_token =
  rt_id :: string
  rt_user_id :: string
  rt_session_id :: string
  rt_token_hash :: string
  rt_revoked_at :: go_time
  rt_expires_at :: go_time
  rt_created_at :: go_time
  rt_rotated_from :: string

record custom_role =
  cr_role :: string
  cr_description :: string
  cr_scopes :: "string list"
  cr_default_home :: string

record auth_team =
  at_id :: string
  at_name :: string

record membership =
  um_user_id :: string
  um_team_id :: string
  um_role :: string
  um_created_at :: go_time

record account_store =
  as_users :: "auth_user list"
  as_sessions :: "auth_session list"
  as_tokens :: "refresh_token list"
  as_roles :: "custom_role list"
  as_teams :: "auth_team list"
  as_memberships :: "membership list"

record access_claims =
  cl_subject :: string
  cl_email :: string
  cl_role :: string
  cl_team_id :: string
  cl_scopes :: "string list"
  cl_session_id :: string
  cl_expires_at :: int
  cl_issued_at :: int
  cl_type :: string

text \<open>The configuration and the library functions the code calls.\<close>

record auth_config =
  cf_enabled :: bool
  cf_admin_token :: string
  cf_admin_readonly_token :: string
  cf_attribute_external :: bool
  cf_access_ttl :: int
  cf_refresh_ttl :: int
  cf_hash :: "string \<Rightarrow> string"
  cf_password_ok :: "string \<Rightarrow> string \<Rightarrow> bool"
  cf_sign :: "access_claims \<Rightarrow> string"
  cf_mac_ok :: "string \<Rightarrow> string \<Rightarrow> bool"
  cf_decode_claims :: "string \<Rightarrow> access_claims option"
  cf_keycloak :: "string \<Rightarrow> access_claims option"

section \<open>Statements\<close>

definition auth_user_by_email :: "string \<Rightarrow> account_store \<Rightarrow> auth_user option" where
  "auth_user_by_email email st = find (\<lambda>u. au_email u = email) (as_users st)"

definition auth_user_by_id :: "string \<Rightarrow> account_store \<Rightarrow> auth_user option" where
  "auth_user_by_id k st = find_row au_id (as_users st) k"

definition merge_auth_user :: "auth_user \<Rightarrow> auth_user \<Rightarrow> auth_user" where
  "merge_auth_user old new = new\<lparr>au_created_at := au_created_at old\<rparr>"

definition create_auth_user :: "go_time \<Rightarrow> auth_user \<Rightarrow> account_store \<Rightarrow> account_store result" where
  "create_auth_user now u st =
     (let created = (if au_created_at u = zero_time then now else au_created_at u);
          u = u\<lparr>au_created_at := created,
                au_updated_at := (if au_updated_at u = zero_time then created else au_updated_at u),
                au_status := (if au_status u = [] then ''active'' else au_status u),
                au_role := (if au_role u = [] then ''developer'' else au_role u)\<rparr>
      in if list_ex (\<lambda>r. au_email r = au_email u \<and> au_id r \<noteq> au_id u) (as_users st)
         then Inl ''UNIQUE constraint failed: users.email''
         else Inr (st\<lparr>as_users := upsert_row au_id merge_auth_user u (as_users st)\<rparr>))"

definition update_auth_user_role_status :: "go_time \<Rightarrow> string \<Rightarrow> string \<Rightarrow> string \<Rightarrow> account_store \<Rightarrow> account_store" where
  "update_auth_user_role_status now k role status st =
     st\<lparr>as_users := map (\<lambda>u. if au_id u = k
         then u\<lparr>au_role := (if role = [] then au_role u else role),
                au_status := (if status = [] then au_status u else status), au_updated_at := now\<rparr>
         else u) (as_users st)\<rparr>"

definition count_auth_users_by_role :: "string \<Rightarrow> account_store \<Rightarrow> nat \<times> nat" where
  "count_auth_users_by_role role st =
     (length (filter (\<lambda>u. au_role u = role) (as_users st)),
      length (filter (\<lambda>u. au_role u = role \<and> au_status u = ''active'') (as_users st)))"

text \<open>\<open>revoked_at = now WHERE ... AND revoked_at IS NULL\<close>, over sessions and over tokens.\<close>

definition revoke_sessions_where :: "go_time \<Rightarrow> (auth_session \<Rightarrow> bool) \<Rightarrow> auth_session list \<Rightarrow> auth_session list" where
  "revoke_sessions_where now p rows =
     map (\<lambda>s. if p s \<and> se_revoked_at s = zero_time then s\<lparr>se_revoked_at := now\<rparr> else s) rows"

definition revoke_tokens_where :: "go_time \<Rightarrow> (refresh_token \<Rightarrow> bool) \<Rightarrow> refresh_token list \<Rightarrow> refresh_token list" where
  "revoke_tokens_where now p rows =
     map (\<lambda>t. if p t \<and> rt_revoked_at t = zero_time then t\<lparr>rt_revoked_at := now\<rparr> else t) rows"

definition revoke_auth_sessions_for_user :: "go_time \<Rightarrow> string \<Rightarrow> account_store \<Rightarrow> account_store" where
  "revoke_auth_sessions_for_user now user st =
     st\<lparr>as_sessions := revoke_sessions_where now (\<lambda>s. se_user_id s = user) (as_sessions st),
        as_tokens := revoke_tokens_where now (\<lambda>t. rt_user_id t = user) (as_tokens st)\<rparr>"

definition has_role :: "string \<Rightarrow> account_store \<Rightarrow> string \<Rightarrow> bool" where
  "has_role role st user = list_ex (\<lambda>u. au_id u = user \<and> au_role u = role) (as_users st)"

definition revoke_auth_sessions_for_role :: "go_time \<Rightarrow> string \<Rightarrow> account_store \<Rightarrow> account_store" where
  "revoke_auth_sessions_for_role now role st =
     st\<lparr>as_sessions := revoke_sessions_where now (\<lambda>s. has_role role st (se_user_id s)) (as_sessions st),
        as_tokens := revoke_tokens_where now (\<lambda>t. has_role role st (rt_user_id t)) (as_tokens st)\<rparr>"

definition insert_auth_session :: "auth_session \<Rightarrow> account_store \<Rightarrow> account_store result" where
  "insert_auth_session s st =
     (if list_ex (\<lambda>r. se_id r = se_id s) (as_sessions st) then Inl ''UNIQUE constraint failed: auth_sessions.id''
      else Inr (st\<lparr>as_sessions := as_sessions st @ [s]\<rparr>))"

text \<open>The unconditional statement of a logout.\<close>

definition revoke_auth_session :: "go_time \<Rightarrow> string \<Rightarrow> account_store \<Rightarrow> account_store" where
  "revoke_auth_session now k st =
     st\<lparr>as_sessions := map (\<lambda>s. if se_id s = k then s\<lparr>se_revoked_at := now\<rparr> else s) (as_sessions st)\<rparr>"

definition revoke_auth_session_owned :: "go_time \<Rightarrow> string \<Rightarrow> string \<Rightarrow> account_store \<Rightarrow> bool \<times> account_store" where
  "revoke_auth_session_owned now k user st =
     (let hit = (\<lambda>s. se_id s = k \<and> se_user_id s = user);
          found = list_ex (\<lambda>s. hit s \<and> se_revoked_at s = zero_time) (as_sessions st)
      in (found,
          st\<lparr>as_sessions := revoke_sessions_where now hit (as_sessions st),
             as_tokens := (if found then revoke_tokens_where now (\<lambda>t. rt_session_id t = k) (as_tokens st) else as_tokens st)\<rparr>))"

definition revoke_other_auth_sessions_for_user :: "go_time \<Rightarrow> string \<Rightarrow> string \<Rightarrow> account_store \<Rightarrow> account_store" where
  "revoke_other_auth_sessions_for_user now user keep st =
     st\<lparr>as_sessions := revoke_sessions_where now (\<lambda>s. se_user_id s = user \<and> se_id s \<noteq> keep) (as_sessions st),
        as_tokens := revoke_tokens_where now (\<lambda>t. rt_user_id t = user \<and> rt_session_id t \<noteq> keep) (as_tokens st)\<rparr>"

definition revoke_auth_sessions_by_keycloak_sid :: "go_time \<Rightarrow> string \<Rightarrow> account_store \<Rightarrow> string list \<times> account_store" where
  "revoke_auth_sessions_by_keycloak_sid now sid st =
     (if sid = [] then ([], st)
      else
        let hit = (\<lambda>s. se_kc_sid s = sid);
            users = first_by (\<lambda>u. u) [] (map se_user_id (filter (\<lambda>s. hit s \<and> se_revoked_at s = zero_time) (as_sessions st)))
        in (users,
            st\<lparr>as_sessions := revoke_sessions_where now hit (as_sessions st),
               as_tokens := revoke_tokens_where now (\<lambda>t. rt_user_id t \<in> set users) (as_tokens st)\<rparr>))"

definition auth_session_active :: "go_time \<Rightarrow> string \<Rightarrow> account_store \<Rightarrow> bool" where
  "auth_session_active now k st =
     (case find_row se_id (as_sessions st) k of
        None \<Rightarrow> False
      | Some s \<Rightarrow> se_revoked_at s = zero_time \<and> now < se_expires_at s)"

definition insert_refresh_token :: "go_time \<Rightarrow> refresh_token \<Rightarrow> account_store \<Rightarrow> account_store result" where
  "insert_refresh_token now t st =
     (let t = t\<lparr>rt_created_at := (if rt_created_at t = zero_time then now else rt_created_at t)\<rparr>
      in if list_ex (\<lambda>r. rt_id r = rt_id t \<or> rt_token_hash r = rt_token_hash t) (as_tokens st)
         then Inl ''UNIQUE constraint failed: refresh_tokens''
         else Inr (st\<lparr>as_tokens := as_tokens st @ [t]\<rparr>))"

definition refresh_token_by_hash :: "string \<Rightarrow> account_store \<Rightarrow> refresh_token option" where
  "refresh_token_by_hash h st = find_row rt_token_hash (as_tokens st) h"

definition revoke_refresh_token :: "go_time \<Rightarrow> string \<Rightarrow> account_store \<Rightarrow> account_store" where
  "revoke_refresh_token now k st =
     st\<lparr>as_tokens := map (\<lambda>t. if rt_id t = k then t\<lparr>rt_revoked_at := now\<rparr> else t) (as_tokens st)\<rparr>"

definition auth_team_by_id_or_name :: "string \<Rightarrow> account_store \<Rightarrow> auth_team option" where
  "auth_team_by_id_or_name value st =
     (if value = [] then None
      else case find_row at_id (as_teams st) value of
             Some t \<Rightarrow> Some t
           | None \<Rightarrow> find (\<lambda>t. to_lower (at_name t) = to_lower value) (as_teams st))"

text \<open>The earliest membership; ties keep the table order.\<close>

definition primary_team_for_user :: "string \<Rightarrow> account_store \<Rightarrow> string" where
  "primary_team_for_user user st =
     (case select_rows (\<lambda>m. um_user_id m = user) (by_key um_created_at) (as_memberships st) of
        [] \<Rightarrow> [] | m # _ \<Rightarrow> um_team_id m)"

definition merge_membership :: "membership \<Rightarrow> membership \<Rightarrow> membership" where
  "merge_membership old new = old\<lparr>um_role := um_role new\<rparr>"

definition upsert_membership :: "membership \<Rightarrow> account_store \<Rightarrow> account_store" where
  "upsert_membership m st =
     st\<lparr>as_memberships := upsert_row (\<lambda>m. (um_user_id m, um_team_id m)) merge_membership m (as_memberships st)\<rparr>"

definition set_user_team :: "go_time \<Rightarrow> string \<Rightarrow> string \<Rightarrow> string \<Rightarrow> account_store \<Rightarrow> account_store" where
  "set_user_team now user team role st =
     (let cleared = st\<lparr>as_memberships := filter (\<lambda>m. um_user_id m \<noteq> user) (as_memberships st)\<rparr>
      in if team = [] then cleared
         else upsert_membership \<lparr>um_user_id = user, um_team_id = team, um_role = role, um_created_at = now\<rparr> cleared)"

definition get_custom_role :: "string \<Rightarrow> account_store \<Rightarrow> custom_role option" where
  "get_custom_role role st = find_row cr_role (as_roles st) role"

definition upsert_custom_role :: "custom_role \<Rightarrow> account_store \<Rightarrow> account_store" where
  "upsert_custom_role c st = st\<lparr>as_roles := upsert_row cr_role (\<lambda>old new. new) c (as_roles st)\<rparr>"

definition delete_custom_role :: "string \<Rightarrow> account_store \<Rightarrow> account_store" where
  "delete_custom_role role st = st\<lparr>as_roles := filter (\<lambda>c. cr_role c \<noteq> role) (as_roles st)\<rparr>"

section \<open>Roles\<close>

definition effective_scopes_for_role :: "account_store \<Rightarrow> string \<Rightarrow> string list" where
  "effective_scopes_for_role st role =
     (case get_custom_role role st of Some c \<Rightarrow> cr_scopes c | None \<Rightarrow> scopes_for_role role)"

definition effective_valid_role :: "account_store \<Rightarrow> string \<Rightarrow> bool" where
  "effective_valid_role st role \<longleftrightarrow> valid_role role \<or> get_custom_role role st \<noteq> None"

definition effective_role_rank :: "account_store \<Rightarrow> string \<Rightarrow> int" where
  "effective_role_rank st role =
     (let rank = role_rank (trim_space role)
      in if 0 < rank then rank
         else case get_custom_role (trim_space role) st of Some c \<Rightarrow> custom_role_rank (cr_scopes c) | None \<Rightarrow> 0)"

text \<open>The common test of \<open>canAssignRole\<close> and \<open>canModifySubjectRole\<close> below a super administrator.\<close>

definition role_below :: "account_store \<Rightarrow> access_claims \<Rightarrow> string \<Rightarrow> bool" where
  "role_below st claims role \<longleftrightarrow>
     0 < effective_role_rank st role \<and> effective_role_rank st role < effective_role_rank st (cl_role claims) \<and>
     scopes_within (effective_scopes_for_role st role) (cl_scopes claims)"

definition can_modify_subject_role :: "auth_config \<Rightarrow> access_claims option \<Rightarrow> string \<Rightarrow> account_store \<Rightarrow> bool" where
  "can_modify_subject_role cfg claims role st =
     (if \<not> cf_enabled cfg then True
      else case claims of
             None \<Rightarrow> False
           | Some c \<Rightarrow> cl_role c = ''super_admin'' \<or> role_below st c role)"

definition can_assign_role :: "auth_config \<Rightarrow> access_claims option \<Rightarrow> string \<Rightarrow> account_store \<Rightarrow> bool" where
  "can_assign_role cfg claims role st =
     (let role = trim_space role
      in if role = [] \<or> \<not> cf_enabled cfg then True
         else case claims of
                None \<Rightarrow> False
              | Some c \<Rightarrow> cl_role c = ''super_admin'' \<or> role_below st c role)"

definition scopes_assignable :: "auth_config \<Rightarrow> access_claims option \<Rightarrow> string list \<Rightarrow> bool" where
  "scopes_assignable cfg claims scopes =
     (if \<not> cf_enabled cfg then True
      else case claims of
             None \<Rightarrow> False
           | Some c \<Rightarrow> cl_role c = ''super_admin'' \<or> scopes_within scopes (cl_scopes c))"

definition can_define_custom_role :: "auth_config \<Rightarrow> access_claims option \<Rightarrow> string list \<Rightarrow> account_store \<Rightarrow> bool" where
  "can_define_custom_role cfg claims scopes st =
     (if \<not> cf_enabled cfg then True
      else case claims of
             None \<Rightarrow> False
           | Some c \<Rightarrow> cl_role c = ''super_admin'' \<or>
               custom_role_rank scopes < effective_role_rank st (cl_role c) \<and> scopes_assignable cfg claims scopes)"

definition would_remove_last_active_super :: "auth_user \<Rightarrow> string \<Rightarrow> string \<Rightarrow> account_store \<Rightarrow> bool" where
  "would_remove_last_active_super u next_role next_status st =
     (if au_role u \<noteq> ''super_admin'' \<or> au_status u \<noteq> ''active'' \<or> (next_role = ''super_admin'' \<and> next_status = ''active'')
      then False
      else snd (count_auth_users_by_role ''super_admin'' st) \<le> 1)"

section \<open>Tokens\<close>

definition unix :: "go_time \<Rightarrow> int" where
  "unix t = t div second"

text \<open>
  \<open>verifyAccessToken\<close>: three parts, a valid signature over the first two, claims of type access that have
  not expired, and a session that is active.
\<close>

definition verify_access_token :: "auth_config \<Rightarrow> go_time \<Rightarrow> string \<Rightarrow> account_store \<Rightarrow> access_claims option" where
  "verify_access_token cfg now token st =
     (case split_char (CHR ''.'') token of
        [h, p, sig] \<Rightarrow>
          if \<not> cf_mac_ok cfg (h @ ''.'' @ p) sig then None
          else (case cf_decode_claims cfg p of
                  None \<Rightarrow> None
                | Some c \<Rightarrow>
                    if cl_type c \<noteq> ''access'' \<or> cl_expires_at c \<le> unix now then None
                    else if \<not> auth_session_active now (cl_session_id c) st then None
                    else Some c)
      | _ \<Rightarrow> None)"

definition current_access_claims :: "auth_config \<Rightarrow> go_time \<Rightarrow> string \<Rightarrow> account_store \<Rightarrow> access_claims option" where
  "current_access_claims cfg now token st =
     (if token = [] then None
      else case (if cf_enabled cfg then verify_access_token cfg now token st else None) of
             Some c \<Rightarrow> Some c
           | None \<Rightarrow> cf_keycloak cfg token)"

text \<open>The identifiers and secrets drawn for one request.\<close>

record drawn =
  dr_session_id :: string
  dr_token_id :: string
  dr_secret :: string

record token_pair =
  tp_access :: string
  tp_refresh :: string

definition access_claims_for :: "auth_config \<Rightarrow> go_time \<Rightarrow> auth_user \<Rightarrow> string \<Rightarrow> string \<Rightarrow> account_store \<Rightarrow> access_claims" where
  "access_claims_for cfg now u team session st =
     \<lparr>cl_subject = au_id u, cl_email = au_email u, cl_role = au_role u, cl_team_id = team,
      cl_scopes = effective_scopes_for_role st (au_role u), cl_session_id = session,
      cl_expires_at = unix (now + cf_access_ttl cfg), cl_issued_at = unix now, cl_type = ''access''\<rparr>"

definition new_refresh_token :: "auth_config \<Rightarrow> go_time \<Rightarrow> drawn \<Rightarrow> string \<Rightarrow> string \<Rightarrow> string \<Rightarrow> refresh_token" where
  "new_refresh_token cfg now d user session from =
     \<lparr>rt_id = dr_token_id d, rt_user_id = user, rt_session_id = session, rt_token_hash = cf_hash cfg (dr_secret d),
      rt_revoked_at = zero_time, rt_expires_at = now + cf_refresh_ttl cfg, rt_created_at = now, rt_rotated_from = from\<rparr>"

text \<open>\<open>issueTokenPairWithSession\<close>; a session whose refresh token cannot be stored stays behind.\<close>

definition issue_token_pair ::
  "auth_config \<Rightarrow> go_time \<Rightarrow> drawn \<Rightarrow> auth_user \<Rightarrow> string \<Rightarrow> account_store \<Rightarrow> token_pair result \<times> account_store" where
  "issue_token_pair cfg now d u team st =
     (case insert_auth_session
             \<lparr>se_id = dr_session_id d, se_user_id = au_id u, se_expires_at = now + cf_refresh_ttl cfg,
              se_created_at = now, se_revoked_at = zero_time, se_kc_sid = []\<rparr> st of
        Inl e \<Rightarrow> (Inl e, st)
      | Inr st1 \<Rightarrow>
          (case insert_refresh_token now (new_refresh_token cfg now d (au_id u) (dr_session_id d) []) st1 of
             Inl e \<Rightarrow> (Inl e, st1)
           | Inr st2 \<Rightarrow>
               (Inr \<lparr>tp_access = cf_sign cfg (access_claims_for cfg now u team (dr_session_id d) st2),
                     tp_refresh = dr_secret d\<rparr>, st2)))"

definition handle_auth_login ::
  "auth_config \<Rightarrow> go_time \<Rightarrow> drawn \<Rightarrow> string \<Rightarrow> string \<Rightarrow> account_store \<Rightarrow> (admin_error + token_pair) \<times> account_store" where
  "handle_auth_login cfg now d email password st =
     (case auth_user_by_email (to_lower (trim_space email)) st of
        None \<Rightarrow> (admin_fail 401 ''invalid email or password'' ''invalid_credentials'', st)
      | Some u \<Rightarrow>
          if au_status u \<noteq> ''active'' \<or> \<not> cf_password_ok cfg (au_password_hash u) password
          then (admin_fail 401 ''invalid email or password'' ''invalid_credentials'', st)
          else (case issue_token_pair cfg now d u (primary_team_for_user (au_id u) st) st of
                  (Inl e, st') \<Rightarrow> (admin_fail 500 e ''login_failed'', st')
                | (Inr pair, st') \<Rightarrow> (Inr pair, st')))"

text \<open>
  \<open>rotateRefreshToken\<close> in the two parts between which another request may run: the checks, which read, and
  the writes.
\<close>

definition refresh_checks :: "auth_config \<Rightarrow> go_time \<Rightarrow> string \<Rightarrow> account_store \<Rightarrow> (refresh_token \<times> auth_user) result" where
  "refresh_checks cfg now raw st =
     (case refresh_token_by_hash (cf_hash cfg raw) st of
        None \<Rightarrow> Inl ''invalid refresh token''
      | Some rec \<Rightarrow>
          if rt_revoked_at rec \<noteq> zero_time \<or> rt_expires_at rec < now then Inl ''invalid refresh token''
          else if \<not> auth_session_active now (rt_session_id rec) st then Inl ''session revoked''
          else case auth_user_by_id (rt_user_id rec) st of
                 None \<Rightarrow> Inl ''user inactive''
               | Some u \<Rightarrow> if au_status u \<noteq> ''active'' then Inl ''user inactive'' else Inr (rec, u))"

definition refresh_writes ::
  "auth_config \<Rightarrow> go_time \<Rightarrow> drawn \<Rightarrow> refresh_token \<Rightarrow> auth_user \<Rightarrow> account_store \<Rightarrow> token_pair result \<times> account_store" where
  "refresh_writes cfg now d rec u st =
     (let st1 = revoke_refresh_token now (rt_id rec) st
      in case insert_refresh_token now (new_refresh_token cfg now d (au_id u) (rt_session_id rec) (rt_id rec)) st1 of
           Inl e \<Rightarrow> (Inl e, st1)
         | Inr st2 \<Rightarrow>
             (Inr \<lparr>tp_access = cf_sign cfg (access_claims_for cfg now u (primary_team_for_user (au_id u) st1) (rt_session_id rec) st2),
                   tp_refresh = dr_secret d\<rparr>, st2))"

definition rotate_refresh_token ::
  "auth_config \<Rightarrow> go_time \<Rightarrow> drawn \<Rightarrow> string \<Rightarrow> account_store \<Rightarrow> token_pair result \<times> account_store" where
  "rotate_refresh_token cfg now d raw st =
     (case refresh_checks cfg now raw st of
        Inl e \<Rightarrow> (Inl e, st)
      | Inr (rec, u) \<Rightarrow> refresh_writes cfg now d rec u st)"

definition handle_auth_refresh ::
  "auth_config \<Rightarrow> go_time \<Rightarrow> drawn \<Rightarrow> string \<Rightarrow> account_store \<Rightarrow> (admin_error + token_pair) \<times> account_store" where
  "handle_auth_refresh cfg now d raw st =
     (case rotate_refresh_token cfg now d (trim_space raw) st of
        (Inl _, st') \<Rightarrow> (admin_fail 401 ''invalid refresh token'' ''invalid_refresh_token'', st')
      | (Inr pair, st') \<Rightarrow> (Inr pair, st'))"

definition handle_auth_logout :: "auth_config \<Rightarrow> go_time \<Rightarrow> string \<Rightarrow> string \<Rightarrow> account_store \<Rightarrow> account_store" where
  "handle_auth_logout cfg now token refresh st =
     (let st = (case verify_access_token cfg now token st of
                  Some c \<Rightarrow> revoke_auth_session now (cl_session_id c) st | None \<Rightarrow> st)
      in if refresh = [] then st
         else case refresh_token_by_hash (cf_hash cfg refresh) st of
                Some rec \<Rightarrow> revoke_refresh_token now (rt_id rec) st | None \<Rightarrow> st)"

section \<open>Own sessions\<close>

definition handle_me_session_by_id ::
  "access_claims option \<Rightarrow> go_time \<Rightarrow> string \<Rightarrow> account_store \<Rightarrow> (admin_error + unit) \<times> account_store" where
  "handle_me_session_by_id claims now k st =
     (case claims of
        None \<Rightarrow> (admin_fail 401 ''could not identify caller'' ''invalid_api_key'', st)
      | Some c \<Rightarrow>
          if cl_subject c = [] then (admin_fail 401 ''could not identify caller'' ''invalid_api_key'', st)
          else if k = [] \<or> CHR ''/'' \<in> set k then (admin_fail 400 ''session id required'' ''bad_request'', st)
          else case revoke_auth_session_owned now k (cl_subject c) st of
                 (False, st') \<Rightarrow> (admin_fail 404 ''session not found or not yours'' ''not_found'', st')
               | (True, st') \<Rightarrow> (Inr (), st'))"

definition handle_me_sessions_revoke_others ::
  "access_claims option \<Rightarrow> go_time \<Rightarrow> account_store \<Rightarrow> (admin_error + unit) \<times> account_store" where
  "handle_me_sessions_revoke_others claims now st =
     (case claims of
        None \<Rightarrow> (admin_fail 401 ''could not identify caller'' ''invalid_api_key'', st)
      | Some c \<Rightarrow>
          if cl_subject c = [] then (admin_fail 401 ''could not identify caller'' ''invalid_api_key'', st)
          else (Inr (), revoke_other_auth_sessions_for_user now (cl_subject c) (cl_session_id c) st))"

section \<open>Account administration\<close>

record user_payload =
  up_email :: string
  up_password :: string
  up_name :: string
  up_role :: string
  up_team_id :: string

definition is_team_admin :: "access_claims option \<Rightarrow> bool" where
  "is_team_admin claims = (case claims of None \<Rightarrow> False | Some c \<Rightarrow> cl_role c = ''team_admin'')"

definition user_id_of :: "auth_config \<Rightarrow> string \<Rightarrow> string" where
  "user_id_of cfg email = ''usr_'' @ take 16 (cf_hash cfg email)"

text \<open>
  The POST branch of \<open>handleUsers\<close> behind the admin authorization; \<open>pw_hash\<close> is the fresh hash of the
  password.
\<close>

definition new_user :: "auth_config \<Rightarrow> string \<Rightarrow> string \<Rightarrow> string \<Rightarrow> string \<Rightarrow> auth_user" where
  "new_user cfg pw_hash email name role =
     \<lparr>au_id = user_id_of cfg email, au_email = email, au_password_hash = pw_hash, au_name = name, au_role = role,
      au_status = ''active'', au_created_at = zero_time, au_updated_at = zero_time\<rparr>"

definition check_user_post ::
  "auth_config \<Rightarrow> access_claims option \<Rightarrow> string \<Rightarrow> user_payload \<Rightarrow> account_store \<Rightarrow> admin_error + auth_user \<times> string" where
  "check_user_post cfg claims pw_hash p st =
     (let email = to_lower (trim_space (up_email p));
          role = (if trim_space (up_role p) = [] then ''developer'' else trim_space (up_role p));
          team = trim_space (up_team_id p); known = auth_team_by_id_or_name team st;
          team_id = (case known of Some t \<Rightarrow> at_id t | None \<Rightarrow> [])
      in if email = [] \<or> up_password p = [] then admin_fail 400 ''email and password are required'' ''missing_user_fields''
         else if \<not> effective_valid_role st role then admin_fail 400 ''invalid role'' ''invalid_role''
         else if \<not> can_assign_role cfg claims role st
         then admin_fail 403 ''cannot assign role at or above your role'' ''role_escalation_denied''
         else if team \<noteq> [] \<and> known = None then admin_fail 400 ''unknown team'' ''unknown_team''
         else if is_team_admin claims \<and> (team_id = [] \<or> team_id \<noteq> cl_team_id (the claims))
         then admin_fail 403 ''team_admin can only manage own team'' ''team_scope_denied''
         else Inr (new_user cfg pw_hash email (trim_space (up_name p)) role, team_id))"

definition post_user ::
  "auth_config \<Rightarrow> go_time \<Rightarrow> access_claims option \<Rightarrow> string \<Rightarrow> user_payload \<Rightarrow> account_store \<Rightarrow>
   (admin_error + auth_user) \<times> account_store" where
  "post_user cfg now claims pw_hash p st =
     (case check_user_post cfg claims pw_hash p st of
        Inl e \<Rightarrow> (Inl e, st)
      | Inr (u, team) \<Rightarrow>
          (case create_auth_user now u st of
             Inl e \<Rightarrow> (admin_fail 500 e ''user_create_failed'', st)
           | Inr st1 \<Rightarrow>
               (Inr u, if team = [] then st1
                       else upsert_membership
                              \<lparr>um_user_id = au_id u, um_team_id = team, um_role = au_role u, um_created_at = now\<rparr> st1)))"

record user_patch =
  uq_role :: "string option"
  uq_status :: "string option"
  uq_team_id :: "string option"

definition patch_text :: "string option \<Rightarrow> string" where
  "patch_text v = (case v of None \<Rightarrow> [] | Some s \<Rightarrow> trim_space s)"

text \<open>The checks of \<open>handleAuthUserUpdate\<close> up to the first write: the user and the team to write.\<close>

definition check_user_patch ::
  "auth_config \<Rightarrow> access_claims option \<Rightarrow> string \<Rightarrow> user_patch \<Rightarrow> account_store \<Rightarrow> admin_error + auth_user \<times> string" where
  "check_user_patch cfg claims k p st =
     (if is_team_admin claims
      then admin_fail 403 ''team_admin cannot change roles or account status'' ''role_change_denied''
      else case auth_user_by_id k st of
             None \<Rightarrow> admin_fail 404 ''user not found'' ''user_not_found''
           | Some u \<Rightarrow>
               let role = patch_text (uq_role p); status = patch_text (uq_status p);
                   next_role = (if role \<noteq> [] then role else au_role u);
                   next_status = (if status \<noteq> [] then status else au_status u);
                   team = patch_text (uq_team_id p); known = auth_team_by_id_or_name team st
               in if \<not> can_modify_subject_role cfg claims (au_role u) st
                  then admin_fail 403 ''cannot modify a user at or above your role'' ''role_escalation_denied''
                  else if role \<noteq> [] \<and> \<not> effective_valid_role st role
                  then admin_fail 400 ''invalid role'' ''invalid_role''
                  else if role \<noteq> [] \<and> \<not> can_assign_role cfg claims role st
                  then admin_fail 403 ''cannot assign role at or above your role'' ''role_escalation_denied''
                  else if uq_status p \<noteq> None \<and> status \<noteq> ''active'' \<and> status \<noteq> ''disabled''
                  then admin_fail 400 ''status must be active or disabled'' ''invalid_status''
                  else if role = [] \<and> status = [] \<and> uq_team_id p = None
                  then admin_fail 400 ''nothing to update'' ''empty_update''
                  else if would_remove_last_active_super u next_role next_status st
                  then admin_fail 409 ''the last active super_admin cannot be demoted or disabled'' ''last_super_admin''
                  else if team \<noteq> [] \<and> known = None
                  then admin_fail 400 ''unknown team'' ''unknown_team''
                  else Inr (u, case known of Some t \<Rightarrow> at_id t | None \<Rightarrow> []))"

definition revokes_sessions :: "user_patch \<Rightarrow> auth_user \<Rightarrow> bool" where
  "revokes_sessions p u \<longleftrightarrow>
     patch_text (uq_status p) = ''disabled'' \<or> (patch_text (uq_role p) \<noteq> [] \<and> patch_text (uq_role p) \<noteq> au_role u)"

text \<open>The writes, in their order: sessions first, then the account, then its team.\<close>

definition write_user_patch :: "go_time \<Rightarrow> string \<Rightarrow> user_patch \<Rightarrow> auth_user \<Rightarrow> string \<Rightarrow> account_store \<Rightarrow> account_store" where
  "write_user_patch now k p u team st =
     (let role = patch_text (uq_role p); status = patch_text (uq_status p);
          next_role = (if role \<noteq> [] then role else au_role u); old_team = primary_team_for_user k st;
          st1 = (if revokes_sessions p u then revoke_auth_sessions_for_user now k st else st);
          st2 = (if role \<noteq> [] \<or> status \<noteq> [] then update_auth_user_role_status now k role status st1 else st1)
      in if uq_team_id p \<noteq> None then set_user_team now k team next_role st2
         else if role \<noteq> [] \<and> role \<noteq> au_role u \<and> old_team \<noteq> [] then set_user_team now k old_team next_role st2
         else st2)"

definition handle_auth_user_update ::
  "auth_config \<Rightarrow> go_time \<Rightarrow> access_claims option \<Rightarrow> string \<Rightarrow> user_patch \<Rightarrow> account_store \<Rightarrow>
   (admin_error + unit) \<times> account_store" where
  "handle_auth_user_update cfg now claims k p st =
     (case check_user_patch cfg claims k p st of
        Inl e \<Rightarrow> (Inl e, st)
      | Inr (u, team) \<Rightarrow> (Inr (), write_user_patch now k p u team st))"

section \<open>Role administration\<close>

definition scope_dependencies :: "(string \<times> string) list" where
  "scope_dependencies =
     [(''admin:write'', ''admin:read''), (''routing:write'', ''routing:read''), (''mcp:admin'', ''mcp:use'')]"

definition scope_dependencies_met :: "string list \<Rightarrow> bool" where
  "scope_dependencies_met scopes =
     list_all (\<lambda>(s, d). has_scope scopes s \<longrightarrow> has_scope scopes d) scope_dependencies"

definition allowed_role_homes :: "string list" where
  "allowed_role_homes = [[], ''#/dataworks/home'', ''#/dataworks/risk'', ''#/factory'', ''#/team'', ''#/settings'']"

definition lower_letter :: "char \<Rightarrow> bool" where
  "lower_letter c \<longleftrightarrow> 97 \<le> (of_char c :: nat) \<and> (of_char c :: nat) \<le> 122"

definition custom_role_name :: "string \<Rightarrow> bool" where
  "custom_role_name s \<longleftrightarrow>
     3 \<le> length s \<and> length s \<le> 64 \<and> lower_letter (hd s) \<and>
     list_all (\<lambda>c. lower_letter c \<or> is_digit c \<or> c = CHR ''_'') s"

text \<open>
  The checks of a posted role.  A missing dependency is reported for an arbitrary scope (the code walks a Go
  map), so its message is left empty.
\<close>

definition check_custom_role ::
  "auth_config \<Rightarrow> access_claims option \<Rightarrow> custom_role \<Rightarrow> account_store \<Rightarrow> admin_error + custom_role" where
  "check_custom_role cfg claims p st =
     (let role = to_lower (trim_space (cr_role p))
      in if \<not> custom_role_name role then admin_fail 400 ''role must match ^[a-z][a-z0-9_]{2,63}$'' ''invalid_role_name''
         else if valid_role role then admin_fail 409 (CHR 0x27 # role @ CHR 0x27 # '' is a built-in role and cannot be overridden'') ''builtin_role''
         else case normalize_scopes (cr_scopes p) of
                None \<Rightarrow> admin_fail 400 ''one or more scopes are unknown'' ''invalid_scope''
              | Some clean \<Rightarrow>
                  if \<not> scope_dependencies_met clean then admin_fail 400 [] ''missing_scope_dependency''
                  else if trim_space (cr_default_home p) \<notin> set allowed_role_homes
                  then admin_fail 400 ''unsupported default_home'' ''invalid_default_home''
                  else if get_custom_role role st \<noteq> None \<and> \<not> can_modify_subject_role cfg claims role st
                  then admin_fail 403 ''cannot modify a role at or above your role'' ''role_escalation_denied''
                  else if \<not> can_define_custom_role cfg claims clean st
                  then admin_fail 403 ''cannot define a role at or above your role'' ''role_escalation_denied''
                  else Inr \<lparr>cr_role = role, cr_description = trim_space (cr_description p), cr_scopes = clean,
                            cr_default_home = trim_space (cr_default_home p)\<rparr>)"

definition post_custom_role ::
  "auth_config \<Rightarrow> go_time \<Rightarrow> access_claims option \<Rightarrow> custom_role \<Rightarrow> account_store \<Rightarrow>
   (admin_error + custom_role) \<times> account_store" where
  "post_custom_role cfg now claims p st =
     (case check_custom_role cfg claims p st of
        Inl e \<Rightarrow> (Inl e, st)
      | Inr c \<Rightarrow>
          (Inr c, upsert_custom_role c
                    (if get_custom_role (cr_role c) st \<noteq> None then revoke_auth_sessions_for_role now (cr_role c) st else st)))"

definition remove_custom_role ::
  "auth_config \<Rightarrow> access_claims option \<Rightarrow> string \<Rightarrow> account_store \<Rightarrow> (admin_error + unit) \<times> account_store" where
  "remove_custom_role cfg claims raw st =
     (let role = to_lower (trim_space raw)
      in if role = [] then (admin_fail 400 ''role query param is required'' ''missing_role'', st)
         else if valid_role role then (admin_fail 409 ''cannot delete built-in role'' ''builtin_role'', st)
         else if get_custom_role role st = None then (admin_fail 404 ''role not found'' ''role_not_found'', st)
         else if \<not> can_modify_subject_role cfg claims role st
         then (admin_fail 403 ''cannot delete a role at or above your role'' ''role_escalation_denied'', st)
         else if 0 < fst (count_auth_users_by_role role st)
         then (admin_fail 409 ''role is assigned to users'' ''role_in_use'', st)
         else (Inr (), delete_custom_role role st))"

end
