(* ===== verification/AccountProperties.thy ===== *)
theory AccountProperties
  imports Accounts
begin

text \<open>
  What the account tables keep through every request: a revoked session stays dead, a session has one live
  refresh token, roles are assigned only below the caller, and an active super administrator remains.
\<close>

section \<open>Requests as steps\<close>

datatype account_event =
  Login drawn string string
| Refresh drawn string
| Logout string string
| Revoke_own "access_claims option" string
| Revoke_others "access_claims option"
| Revoke_user string
| Revoke_sid string
| Add_user "access_claims option" string user_payload
| Update_user "access_claims option" string user_patch
| Put_role "access_claims option" custom_role
| Drop_role "access_claims option" string

fun run_account :: "auth_config \<Rightarrow> go_time \<Rightarrow> account_event \<Rightarrow> account_store \<Rightarrow> account_store" where
  "run_account cfg now (Login d email password) st = snd (handle_auth_login cfg now d email password st)"
| "run_account cfg now (Refresh d raw) st = snd (handle_auth_refresh cfg now d raw st)"
| "run_account cfg now (Logout token refresh) st = handle_auth_logout cfg now token refresh st"
| "run_account cfg now (Revoke_own claims k) st = snd (handle_me_session_by_id claims now k st)"
| "run_account cfg now (Revoke_others claims) st = snd (handle_me_sessions_revoke_others claims now st)"
| "run_account cfg now (Revoke_user user) st = revoke_auth_sessions_for_user now user st"
| "run_account cfg now (Revoke_sid sid) st = snd (revoke_auth_sessions_by_keycloak_sid now sid st)"
| "run_account cfg now (Add_user claims pw_hash p) st = snd (post_user cfg now claims pw_hash p st)"
| "run_account cfg now (Update_user claims k p) st = snd (handle_auth_user_update cfg now claims k p st)"
| "run_account cfg now (Put_role claims p) st = snd (post_custom_role cfg now claims p st)"
| "run_account cfg now (Drop_role claims role) st = snd (remove_custom_role cfg claims role st)"

inductive account_step :: "auth_config \<Rightarrow> account_store \<Rightarrow> account_store \<Rightarrow> bool" for cfg where
  "zero_time < now \<Longrightarrow> account_step cfg st (run_account cfg now ev st)"

section \<open>Sessions\<close>

text \<open>Rows are appended or rewritten in place, and a rewritten row keeps its identifier and stays revoked.\<close>

definition sessions_grow :: "auth_session list \<Rightarrow> auth_session list \<Rightarrow> bool" where
  "sessions_grow rows rows' \<longleftrightarrow>
     (\<exists>f new. rows' = map f rows @ new \<and>
        (\<forall>s. se_id (f s) = se_id s \<and> (se_revoked_at s \<noteq> zero_time \<longrightarrow> se_revoked_at (f s) \<noteq> zero_time)))"

lemma sessions_grow_map:
  assumes "\<And>s. se_id (f s) = se_id s" "\<And>s. se_revoked_at s \<noteq> zero_time \<Longrightarrow> se_revoked_at (f s) \<noteq> zero_time"
  shows "sessions_grow rows (map f rows)"
  using assms unfolding sessions_grow_def by (intro exI [of _ f] exI [of _ "[]"]) simp

lemma sessions_grow_refl [simp]: "sessions_grow rows rows"
  using sessions_grow_map [of "\<lambda>s. s" rows] by simp

lemma sessions_grow_append [simp]: "sessions_grow rows (rows @ new)"
  unfolding sessions_grow_def by (intro exI [of _ "\<lambda>s. s"] exI [of _ new]) simp

lemma sessions_grow_trans:
  assumes "sessions_grow a b" "sessions_grow b c"
  shows "sessions_grow a c"
proof -
  obtain f new where f: "b = map f a @ new"
    "\<And>s. se_id (f s) = se_id s \<and> (se_revoked_at s \<noteq> zero_time \<longrightarrow> se_revoked_at (f s) \<noteq> zero_time)"
    using assms(1) by (auto simp: sessions_grow_def)
  obtain g new' where g: "c = map g b @ new'"
    "\<And>s. se_id (g s) = se_id s \<and> (se_revoked_at s \<noteq> zero_time \<longrightarrow> se_revoked_at (g s) \<noteq> zero_time)"
    using assms(2) by (auto simp: sessions_grow_def)
  show ?thesis
    unfolding sessions_grow_def
    using f g by (intro exI [of _ "g \<circ> f"] exI [of _ "map g new @ new'"]) simp
qed

lemma grow_revoke_where: "zero_time < now \<Longrightarrow> sessions_grow rows (revoke_sessions_where now p rows)"
  unfolding revoke_sessions_where_def by (rule sessions_grow_map) auto

lemma grow_logout: "zero_time < now \<Longrightarrow> sessions_grow (as_sessions st) (as_sessions (revoke_auth_session now k st))"
  by (simp add: revoke_auth_session_def) (rule sessions_grow_map; auto)

lemma grow_for_user: "zero_time < now \<Longrightarrow> sessions_grow (as_sessions st) (as_sessions (revoke_auth_sessions_for_user now u st))"
  by (simp add: revoke_auth_sessions_for_user_def grow_revoke_where)

lemma insert_auth_session_Inr:
  "insert_auth_session s st = Inr st' \<Longrightarrow>
    st' = st\<lparr>as_sessions := as_sessions st @ [s]\<rparr> \<and> se_id s \<notin> se_id ` set (as_sessions st)"
  by (auto simp: insert_auth_session_def list_ex_iff split: if_splits)

lemma insert_refresh_token_Inr:
  "insert_refresh_token now t st = Inr st' \<Longrightarrow>
    (\<exists>c. st' = st\<lparr>as_tokens := as_tokens st @ [t\<lparr>rt_created_at := c\<rparr>]\<rparr>) \<and> rt_id t \<notin> rt_id ` set (as_tokens st)"
  by (auto simp: insert_refresh_token_def list_ex_iff Let_def split: if_splits intro: exI [of _ "rt_created_at t"])

lemma issue_sessions: "sessions_grow (as_sessions st) (as_sessions (snd (issue_token_pair cfg now d u team st)))"
  by (auto simp: issue_token_pair_def dest!: insert_auth_session_Inr insert_refresh_token_Inr split: sum.splits)

lemma refresh_sessions: "as_sessions (snd (rotate_refresh_token cfg now d raw st)) = as_sessions st"
  by (auto simp: rotate_refresh_token_def refresh_writes_def revoke_refresh_token_def Let_def
      dest!: insert_refresh_token_Inr split: sum.splits)

lemma write_patch_sessions:
  "as_sessions (write_user_patch now k p u team st) =
    (if revokes_sessions p u then as_sessions (revoke_auth_sessions_for_user now k st) else as_sessions st)"
  by (simp add: write_user_patch_def set_user_team_def upsert_membership_def update_auth_user_role_status_def Let_def)

lemma create_auth_user_keeps:
  "create_auth_user now u st = Inr st' \<Longrightarrow> as_sessions st' = as_sessions st \<and> as_tokens st' = as_tokens st"
  by (auto simp: create_auth_user_def Let_def split: if_splits)

lemma post_user_keeps:
  "as_sessions (snd (post_user cfg now claims h p st)) = as_sessions st"
  "as_tokens (snd (post_user cfg now claims h p st)) = as_tokens st"
  by (auto simp: post_user_def upsert_membership_def dest: create_auth_user_keeps split: sum.splits)

lemma check_user_post_id:
  "check_user_post cfg claims h p st = Inr (u, team) \<Longrightarrow> au_id u = user_id_of cfg (to_lower (trim_space (up_email p)))"
  by (auto simp: check_user_post_def new_user_def Let_def split: if_splits)

lemma role_requests_sessions:
  "as_sessions (snd (post_custom_role cfg now claims c st)) = as_sessions st \<or>
   (\<exists>p. as_sessions (snd (post_custom_role cfg now claims c st)) = revoke_sessions_where now p (as_sessions st))"
  "as_sessions (snd (remove_custom_role cfg claims role st)) = as_sessions st"
  by (auto simp: post_custom_role_def upsert_custom_role_def revoke_auth_sessions_for_role_def
      remove_custom_role_def delete_custom_role_def Let_def split: sum.splits)

lemma run_account_sessions:
  assumes "zero_time < now"
  shows "sessions_grow (as_sessions st) (as_sessions (run_account cfg now ev st))"
proof (cases ev)
  case (Login d email password)
  then show ?thesis
    using issue_sessions by (auto simp: handle_auth_login_def split: option.splits sum.splits prod.splits) (metis snd_conv)+
next
  case (Refresh d raw)
  then show ?thesis
    using refresh_sessions [of cfg now d "trim_space raw" st]
    by (auto simp: handle_auth_refresh_def split: sum.splits prod.splits)
next
  case (Logout token refresh)
  then show ?thesis
    using assms by (auto simp: handle_auth_logout_def revoke_refresh_token_def Let_def grow_logout split: option.splits)
next
  case (Revoke_own claims k)
  then show ?thesis
    using assms by (auto simp: handle_me_session_by_id_def revoke_auth_session_owned_def Let_def grow_revoke_where
        split: option.splits prod.splits bool.splits)
next
  case (Update_user claims k p)
  then show ?thesis
    using assms by (auto simp: handle_auth_user_update_def write_patch_sessions grow_for_user split: sum.splits)
next
  case (Put_role claims c)
  then show ?thesis using role_requests_sessions(1) [of cfg now claims c st] grow_revoke_where [OF assms] by auto
qed (use assms in \<open>auto simp: handle_me_sessions_revoke_others_def revoke_other_auth_sessions_for_user_def
    revoke_auth_sessions_for_user_def revoke_auth_sessions_by_keycloak_sid_def post_user_keeps
    role_requests_sessions(2) Let_def grow_revoke_where split: option.splits\<close>)

lemma find_row_grow:
  assumes "sessions_grow rows rows'" "find_row se_id rows k = Some s" "se_revoked_at s \<noteq> zero_time"
  shows "\<exists>s'. find_row se_id rows' k = Some s' \<and> se_revoked_at s' \<noteq> zero_time"
proof -
  obtain f new where f: "rows' = map f rows @ new"
    "\<And>s. se_id (f s) = se_id s \<and> (se_revoked_at s \<noteq> zero_time \<longrightarrow> se_revoked_at (f s) \<noteq> zero_time)"
    using assms(1) by (auto simp: sessions_grow_def)
  have "find_row se_id (map f rows @ new) k = Some (f s)"
    using assms(2) f(2) by (induction rows) auto
  then show ?thesis using f assms(3) by auto
qed

lemma account_steps_sessions:
  assumes "(account_step cfg)\<^sup>*\<^sup>* st st'"
  shows "sessions_grow (as_sessions st) (as_sessions st')"
  using assms
  by (induction rule: rtranclp_induct)
     (auto elim!: account_step.cases intro: sessions_grow_trans run_account_sessions)

lemma active_session: "auth_session_active now k st \<Longrightarrow> \<exists>s. find_row se_id (as_sessions st) k = Some s \<and> se_revoked_at s = zero_time"
  by (auto simp: auth_session_active_def split: option.splits)

lemma verified_session: "verify_access_token cfg now token st = Some c \<Longrightarrow> auth_session_active now (cl_session_id c) st"
  by (auto simp: verify_access_token_def split: list.splits if_splits option.splits)

lemma refreshed_session: "refresh_checks cfg now raw st = Inr (rec, u) \<Longrightarrow> auth_session_active now (rt_session_id rec) st"
  by (auto simp: refresh_checks_def split: option.splits if_splits)

text \<open>
  C15. A revoked login session is dead for good.  Whatever requests follow (logins, refreshes, logouts, account
  and role administration), no access token of that session is accepted again and no refresh token of it is
  rotated, at any later time.
\<close>

theorem revoked_sessions_stay_dead:
  assumes "(account_step cfg)\<^sup>*\<^sup>* st st'"
    and "find_row se_id (as_sessions st) k = Some s" "se_revoked_at s \<noteq> zero_time"
  shows "(verify_access_token cfg now token st' = Some c \<longrightarrow> cl_session_id c \<noteq> k) \<and>
         (refresh_checks cfg now raw st' = Inr (rec, u) \<longrightarrow> rt_session_id rec \<noteq> k)"
proof -
  obtain s' where "find_row se_id (as_sessions st') k = Some s'" "se_revoked_at s' \<noteq> zero_time"
    using find_row_grow [OF account_steps_sessions [OF assms(1)] assms(2,3)] by blast
  then have "\<not> auth_session_active now k st'" for now by (simp add: auth_session_active_def)
  then show ?thesis using verified_session refreshed_session by blast
qed

section \<open>Refresh tokens\<close>

definition live :: "refresh_token \<Rightarrow> bool" where
  "live t \<longleftrightarrow> rt_revoked_at t = zero_time"

definition live_of :: "string \<Rightarrow> refresh_token list \<Rightarrow> refresh_token list" where
  "live_of k rows = filter (\<lambda>t. live t \<and> rt_session_id t = k) rows"

definition tokens_ok :: "account_store \<Rightarrow> bool" where
  "tokens_ok st \<longleftrightarrow>
     distinct (map rt_id (as_tokens st)) \<and>
     (\<forall>t \<in> set (as_tokens st). rt_session_id t \<in> se_id ` set (as_sessions st)) \<and>
     (\<forall>k. length (live_of k (as_tokens st)) \<le> 1)"

definition same_tokens :: "(refresh_token \<Rightarrow> refresh_token) \<Rightarrow> bool" where
  "same_tokens f \<longleftrightarrow>
     (\<forall>t. rt_id (f t) = rt_id t \<and> rt_session_id (f t) = rt_session_id t \<and> (live (f t) \<longrightarrow> live t))"

lemma live_of_map: "same_tokens f \<Longrightarrow> length (live_of k (map f rows)) \<le> length (live_of k rows)"
  by (induction rows) (auto simp: live_of_def same_tokens_def)

lemma sessions_grow_ids: "sessions_grow rows rows' \<Longrightarrow> se_id ` set rows \<subseteq> se_id ` set rows'"
proof -
  assume "sessions_grow rows rows'"
  then obtain f new where "rows' = map f rows @ new" "\<And>s. se_id (f s) = se_id s" by (auto simp: sessions_grow_def)
  then have "se_id ` set rows' = se_id ` set rows \<union> se_id ` set new" by (simp add: image_Un image_image)
  then show ?thesis by blast
qed

text \<open>Requests that only revoke tokens keep the condition.\<close>

lemma tokens_ok_map:
  assumes "tokens_ok st" "same_tokens f" "as_tokens st' = map f (as_tokens st)"
    and "sessions_grow (as_sessions st) (as_sessions st')"
  shows "tokens_ok st'"
proof -
  have ids: "rt_id (f t) = rt_id t" "rt_session_id (f t) = rt_session_id t" for t using assms(2) by (auto simp: same_tokens_def)
  have "map rt_id (as_tokens st') = map rt_id (as_tokens st)" using assms(3) ids by (simp add: o_def)
  then have "distinct (map rt_id (as_tokens st'))" using assms(1) by (simp only: tokens_ok_def)
  moreover have "\<forall>t \<in> set (as_tokens st'). rt_session_id t \<in> se_id ` set (as_sessions st')"
    using assms(1,3) ids sessions_grow_ids [OF assms(4)] by (auto simp: tokens_ok_def)
  moreover have "length (live_of k (as_tokens st')) \<le> 1" for k
    using live_of_map [OF assms(2), of k "as_tokens st"] assms(1,3) by (metis le_trans tokens_ok_def)
  ultimately show ?thesis by (simp add: tokens_ok_def)
qed

lemma tokens_ok_same:
  "tokens_ok st \<Longrightarrow> as_tokens st' = as_tokens st \<Longrightarrow> sessions_grow (as_sessions st) (as_sessions st') \<Longrightarrow> tokens_ok st'"
  using tokens_ok_map [of st "\<lambda>t. t" st'] by (simp add: same_tokens_def)

lemma same_revoke_where: "zero_time < now \<Longrightarrow> same_tokens (\<lambda>t. if p t \<and> rt_revoked_at t = zero_time then t\<lparr>rt_revoked_at := now\<rparr> else t)"
  by (auto simp: same_tokens_def live_def)

lemma same_revoke_one: "zero_time < now \<Longrightarrow> same_tokens (\<lambda>t. if rt_id t = k then t\<lparr>rt_revoked_at := now\<rparr> else t)"
  by (auto simp: same_tokens_def live_def)

lemma tokens_ok_revoke_where:
  "tokens_ok st \<Longrightarrow> zero_time < now \<Longrightarrow> as_tokens st' = revoke_tokens_where now p (as_tokens st) \<Longrightarrow>
    sessions_grow (as_sessions st) (as_sessions st') \<Longrightarrow> tokens_ok st'"
  using tokens_ok_map [OF _ same_revoke_where] unfolding revoke_tokens_where_def by blast

lemma tokens_ok_revoke_one:
  "tokens_ok st \<Longrightarrow> zero_time < now \<Longrightarrow> tokens_ok (revoke_refresh_token now k st)"
proof -
  assume a: "tokens_ok st" "zero_time < now"
  have "as_tokens (revoke_refresh_token now k st) = map (\<lambda>t. if rt_id t = k then t\<lparr>rt_revoked_at := now\<rparr> else t) (as_tokens st)"
    and "as_sessions (revoke_refresh_token now k st) = as_sessions st" by (simp_all add: revoke_refresh_token_def)
  then show ?thesis using tokens_ok_map [OF a(1) same_revoke_one [OF a(2), of k]] by simp
qed

text \<open>A new token keeps it where the session has no live token yet.\<close>

lemma tokens_ok_insert:
  assumes "tokens_ok st" "insert_refresh_token now t st = Inr st'"
    and "live_of (rt_session_id t) (as_tokens st) = []" "rt_session_id t \<in> se_id ` set (as_sessions st)"
  shows "tokens_ok st'"
proof -
  obtain c where c: "st' = st\<lparr>as_tokens := as_tokens st @ [t\<lparr>rt_created_at := c\<rparr>]\<rparr>" "rt_id t \<notin> rt_id ` set (as_tokens st)"
    using insert_refresh_token_Inr [OF assms(2)] by blast
  have "length (live_of k (as_tokens st')) \<le> 1" for k
    using assms(1,3) c(1) by (cases "k = rt_session_id t") (auto simp: live_of_def tokens_ok_def)
  then show ?thesis using assms c by (auto simp: tokens_ok_def)
qed

lemma tokens_ok_issue:
  assumes "tokens_ok st"
  shows "tokens_ok (snd (issue_token_pair cfg now d u team st))"
proof (cases "insert_auth_session
             \<lparr>se_id = dr_session_id d, se_user_id = au_id u, se_expires_at = now + cf_refresh_ttl cfg,
              se_created_at = now, se_revoked_at = zero_time, se_kc_sid = []\<rparr> st")
  case (Inl e)
  then show ?thesis using assms by (simp add: issue_token_pair_def)
next
  case (Inr st1)
  note st1 = insert_auth_session_Inr [OF Inr]
  have ok1: "tokens_ok st1" using tokens_ok_same [OF assms, of st1] st1 by simp
  have none: "live_of (dr_session_id d) (as_tokens st1) = []"
  proof -
    have "rt_session_id t \<noteq> dr_session_id d" if "t \<in> set (as_tokens st)" for t
      using assms st1 that unfolding tokens_ok_def by (metis auth_session.select_convs(1))
    then show ?thesis using st1 by (simp add: live_of_def filter_empty_conv)
  qed
  show ?thesis
  proof (cases "insert_refresh_token now (new_refresh_token cfg now d (au_id u) (dr_session_id d) []) st1")
    case (Inr st2)
    have "tokens_ok st2" using tokens_ok_insert [OF ok1 Inr] none st1 by (simp add: new_refresh_token_def)
    then show ?thesis using Inr \<open>insert_auth_session _ st = Inr st1\<close> by (simp add: issue_token_pair_def)
  qed (use ok1 \<open>insert_auth_session _ st = Inr st1\<close> in \<open>simp add: issue_token_pair_def\<close>)
qed

lemma refresh_checks_parts:
  assumes "refresh_checks cfg now raw st = Inr (rec, u)"
  shows "rec \<in> set (as_tokens st)" "live rec" "rt_token_hash rec = cf_hash cfg raw" "now \<le> rt_expires_at rec"
    "auth_session_active now (rt_session_id rec) st" "u \<in> set (as_users st)" "au_id u = rt_user_id rec" "au_status u = ''active''"
  using assms find_row_key [of rt_token_hash "as_tokens st" "cf_hash cfg raw" rec] find_row_key [of au_id "as_users st" "rt_user_id rec" u]
  by (auto simp: refresh_checks_def refresh_token_by_hash_def auth_user_by_id_def live_def not_less split: option.splits if_splits)

text \<open>Revoking the live token of a session leaves it without one.\<close>

lemma live_of_revoked:
  assumes "tokens_ok st" "rec \<in> set (as_tokens st)" "live rec" "zero_time < now"
  shows "live_of (rt_session_id rec) (as_tokens (revoke_refresh_token now (rt_id rec) st)) = []"
proof -
  let ?l = "live_of (rt_session_id rec) (as_tokens st)"
  have "rec \<in> set ?l" using assms by (simp add: live_of_def)
  moreover have "length ?l \<le> 1" using assms(1) by (simp add: tokens_ok_def)
  ultimately have only: "\<And>t. t \<in> set ?l \<Longrightarrow> t = rec" by (cases ?l) auto
  have "\<not> live (if rt_id t = rt_id rec then t\<lparr>rt_revoked_at := now\<rparr> else t)"
    if "t \<in> set (as_tokens st)" "rt_session_id t = rt_session_id rec" for t
    using only [of t] that assms(4) by (auto simp: live_of_def live_def)
  then show ?thesis
    unfolding live_of_def revoke_refresh_token_def filter_empty_conv by (fastforce split: if_splits)
qed

lemma tokens_ok_refresh:
  assumes ok: "tokens_ok st" and now: "zero_time < now"
  shows "tokens_ok (snd (rotate_refresh_token cfg now d raw st))"
proof (cases "refresh_checks cfg now raw st")
  case (Inl e)
  then show ?thesis using ok by (simp add: rotate_refresh_token_def)
next
  case (Inr p)
  obtain rec u where p: "p = (rec, u)" by (cases p)
  note parts = refresh_checks_parts [OF Inr [unfolded p]]
  let ?st1 = "revoke_refresh_token now (rt_id rec) st"
  have ok1: "tokens_ok ?st1" by (rule tokens_ok_revoke_one [OF ok now])
  have none: "live_of (rt_session_id rec) (as_tokens ?st1) = []" by (rule live_of_revoked [OF ok parts(1,2) now])
  have has: "rt_session_id rec \<in> se_id ` set (as_sessions ?st1)"
    using ok parts(1) by (auto simp: tokens_ok_def revoke_refresh_token_def)
  show ?thesis
  proof (cases "insert_refresh_token now (new_refresh_token cfg now d (au_id u) (rt_session_id rec) (rt_id rec)) ?st1")
    case (Inl e)
    then show ?thesis using ok1 Inr p by (simp add: rotate_refresh_token_def refresh_writes_def Let_def)
  next
    case st2: (Inr st2)
    have "tokens_ok st2" using tokens_ok_insert [OF ok1 st2] none has by (simp add: new_refresh_token_def)
    then show ?thesis using st2 Inr p by (simp add: rotate_refresh_token_def refresh_writes_def Let_def)
  qed
qed

lemma write_patch_tokens:
  "as_tokens (write_user_patch now k p u team st) =
    (if revokes_sessions p u then as_tokens (revoke_auth_sessions_for_user now k st) else as_tokens st)"
  by (simp add: write_user_patch_def set_user_team_def upsert_membership_def update_auth_user_role_status_def Let_def)

lemma revoke_own_tokens:
  "as_tokens (snd (handle_me_session_by_id claims now k st)) = as_tokens st \<or>
   (\<exists>p. as_tokens (snd (handle_me_session_by_id claims now k st)) = revoke_tokens_where now p (as_tokens st))"
  by (auto simp: handle_me_session_by_id_def revoke_auth_session_owned_def Let_def split: option.splits prod.splits bool.splits)

lemma run_account_tokens:
  assumes "tokens_ok st" "zero_time < now"
  shows "tokens_ok (run_account cfg now ev st)"
proof -
  note grow = run_account_sessions [OF assms(2), of st cfg ev]
  have keep: ?thesis if "as_tokens (run_account cfg now ev st) = as_tokens st" by (rule tokens_ok_same [OF assms(1) that grow])
  have revoke: ?thesis if "as_tokens (run_account cfg now ev st) = revoke_tokens_where now p (as_tokens st)" for p
    by (rule tokens_ok_revoke_where [OF assms that grow])
  show ?thesis
  proof (cases ev)
    case (Login d email password)
    then show ?thesis
      using assms(1) tokens_ok_issue
      by (auto simp: handle_auth_login_def split: option.splits sum.splits prod.splits) (metis snd_conv)+
  next
    case (Refresh d raw)
    then show ?thesis
      using tokens_ok_refresh [OF assms, of cfg d "trim_space raw"]
      by (auto simp: handle_auth_refresh_def split: sum.splits prod.splits)
  next
    case (Logout token refresh)
    have s: "tokens_ok (case verify_access_token cfg now token st of
        Some c \<Rightarrow> revoke_auth_session now (cl_session_id c) st | None \<Rightarrow> st)"
      using assms grow_logout tokens_ok_same [OF assms(1)] by (auto simp: revoke_auth_session_def split: option.splits)
    show ?thesis
      using Logout s tokens_ok_revoke_one [OF s assms(2)] by (auto simp: handle_auth_logout_def Let_def split: option.splits)
  next
    case (Revoke_own claims k)
    then show ?thesis using keep revoke revoke_own_tokens [of claims now k st] by auto
  next
    case (Update_user claims k p)
    have "as_tokens (run_account cfg now ev st) = as_tokens st \<or>
        as_tokens (run_account cfg now ev st) = revoke_tokens_where now (\<lambda>t. rt_user_id t = k) (as_tokens st)"
      using Update_user by (auto simp: handle_auth_user_update_def write_patch_tokens revoke_auth_sessions_for_user_def split: sum.splits)
    then show ?thesis using keep revoke by auto
  next
    case (Revoke_sid sid)
    then show ?thesis
      using keep revoke by (auto simp: revoke_auth_sessions_by_keycloak_sid_def Let_def)
  next
    case (Put_role claims p)
    then show ?thesis
      using keep revoke by (auto simp: post_custom_role_def upsert_custom_role_def revoke_auth_sessions_for_role_def split: sum.splits)
  next
    case (Add_user claims h p)
    then show ?thesis using keep by (simp add: post_user_keeps)
  next
    case (Revoke_others claims)
    then show ?thesis
      using keep revoke by (auto simp: handle_me_sessions_revoke_others_def revoke_other_auth_sessions_for_user_def split: option.splits)
  next
    case (Drop_role claims role)
    then show ?thesis
      using keep by (auto simp: remove_custom_role_def delete_custom_role_def Let_def split: if_splits)
  next
    case (Revoke_user user)
    then show ?thesis using revoke by (auto simp: revoke_auth_sessions_for_user_def)
  qed
qed

text \<open>
  C16. Through any sequence of requests, one after the other, a login session has at most one live refresh
  token: a refresh puts the new token in the place of the old one, and every way to end a session only revokes.
\<close>

theorem one_live_refresh_token:
  assumes "(account_step cfg)\<^sup>*\<^sup>* st st'" "tokens_ok st"
  shows "tokens_ok st' \<and> length (filter (\<lambda>t. rt_revoked_at t = zero_time \<and> rt_session_id t = k) (as_tokens st')) \<le> 1"
proof -
  have "tokens_ok st'"
    using assms by (induction rule: rtranclp_induct) (auto elim!: account_step.cases intro: run_account_tokens)
  then show ?thesis by (simp add: tokens_ok_def live_of_def live_def)
qed

section \<open>Users\<close>

definition active_super :: "auth_user \<Rightarrow> bool" where
  "active_super u \<longleftrightarrow> au_role u = ''super_admin'' \<and> au_status u = ''active''"

definition users_ok :: "account_store \<Rightarrow> bool" where
  "users_ok st \<longleftrightarrow> distinct (map au_id (as_users st)) \<and> (\<exists>u \<in> set (as_users st). active_super u)"

lemma write_patch_users:
  "as_users (write_user_patch now k p u team st) =
    (if patch_text (uq_role p) \<noteq> [] \<or> patch_text (uq_status p) \<noteq> []
     then as_users (update_auth_user_role_status now k (patch_text (uq_role p)) (patch_text (uq_status p)) st)
     else as_users st)"
  by (simp add: write_user_patch_def set_user_team_def upsert_membership_def update_auth_user_role_status_def
      revoke_auth_sessions_for_user_def Let_def)

lemma check_user_patch_parts:
  assumes "check_user_patch cfg claims k p st = Inr (u, team)"
  shows "find_row au_id (as_users st) k = Some u" "can_modify_subject_role cfg claims (au_role u) st"
    "patch_text (uq_role p) \<noteq> [] \<Longrightarrow> can_assign_role cfg claims (patch_text (uq_role p)) st"
    "\<not> would_remove_last_active_super u
        (if patch_text (uq_role p) \<noteq> [] then patch_text (uq_role p) else au_role u)
        (if patch_text (uq_status p) \<noteq> [] then patch_text (uq_status p) else au_status u) st"
  using assms by (auto simp: check_user_patch_def auth_user_by_id_def Let_def split: if_splits option.splits)

lemma two_active_supers:
  assumes "\<not> snd (count_auth_users_by_role ''super_admin'' st) \<le> 1" "distinct (map au_id (as_users st))"
  obtains v where "v \<in> set (as_users st)" "active_super v" "v \<noteq> u"
proof -
  let ?l = "filter active_super (as_users st)"
  have len: "2 \<le> length ?l" using assms(1) by (simp add: count_auth_users_by_role_def active_super_def [abs_def])
  have "distinct ?l" using assms(2) by (simp add: distinct_map distinct_filter)
  then obtain a b where ab: "a \<in> set ?l" "b \<in> set ?l" "a \<noteq> b"
    using len by (cases ?l; cases "tl ?l") auto
  then show thesis using that by (cases "a = u") auto
qed

text \<open>The row the update writes.\<close>

definition updated_user :: "go_time \<Rightarrow> string \<Rightarrow> string \<Rightarrow> string \<Rightarrow> auth_user \<Rightarrow> auth_user" where
  "updated_user now k role status v =
     (if au_id v = k
      then v\<lparr>au_role := (if role = [] then au_role v else role),
             au_status := (if status = [] then au_status v else status), au_updated_at := now\<rparr>
      else v)"

lemma updated_user_simps [simp]:
  "au_id (updated_user now k role status v) = au_id v"
  "au_id v \<noteq> k \<Longrightarrow> updated_user now k role status v = v"
  "au_role (updated_user now (au_id v) role status v) = (if role \<noteq> [] then role else au_role v)"
  "au_status (updated_user now (au_id v) role status v) = (if status \<noteq> [] then status else au_status v)"
  by (simp_all add: updated_user_def)

lemma update_role_status_users:
  "as_users (update_auth_user_role_status now k role status st) = map (updated_user now k role status) (as_users st)"
  by (simp add: update_auth_user_role_status_def updated_user_def [abs_def])

lemma row_of_id:
  assumes "distinct (map au_id users)" "find_row au_id users k = Some u" "v \<in> set users" "au_id v = k"
  shows "v = u"
  using find_row_self [OF assms(1,3)] assms(2,4) by simp

lemma super_after_update:
  assumes dist: "distinct (map au_id (as_users st))" and w: "w \<in> set (as_users st)" "active_super w"
    and u: "find_row au_id (as_users st) k = Some u"
    and guard: "\<not> would_remove_last_active_super u (if role \<noteq> [] then role else au_role u) (if status \<noteq> [] then status else au_status u) st"
  shows "\<exists>v \<in> set (as_users st). active_super (updated_user now k role status v)"
proof -
  have k: "au_id u = k" "u \<in> set (as_users st)" using find_row_key [OF u] by auto
  have other: ?thesis if "v \<in> set (as_users st)" "active_super v" "v \<noteq> u" for v
  proof -
    have "au_id v \<noteq> k" using that row_of_id [OF dist u, of v] by blast
    then show ?thesis using that by (intro bexI [of _ v]) simp_all
  qed
  show ?thesis
  proof (cases "w = u")
    case False
    then show ?thesis using other w by blast
  next
    case True
    then have super: "au_role u = ''super_admin''" "au_status u = ''active''" using w(2) by (simp_all add: active_super_def)
    show ?thesis
    proof (cases "active_super (updated_user now (au_id u) role status u)")
      case True
      then show ?thesis using k by (intro bexI [of _ u]) auto
    next
      case False
      then have "\<not> ((if role \<noteq> [] then role else au_role u) = ''super_admin'' \<and> (if status \<noteq> [] then status else au_status u) = ''active'')"
        by (simp only: active_super_def updated_user_simps simp_thms)
      then have "\<not> snd (count_auth_users_by_role ''super_admin'' st) \<le> 1"
        using guard super unfolding would_remove_last_active_super_def by argo
      then show ?thesis using other two_active_supers [OF _ dist] by metis
    qed
  qed
qed

lemma update_users_ok:
  assumes ok: "users_ok st"
  shows "users_ok (snd (handle_auth_user_update cfg now claims k p st))"
proof (cases "check_user_patch cfg claims k p st")
  case (Inl e)
  then show ?thesis using ok by (simp add: handle_auth_user_update_def)
next
  case (Inr q)
  obtain u team where q: "q = (u, team)" by (cases q)
  note parts = check_user_patch_parts [OF Inr [unfolded q]]
  let ?f = "updated_user now k (patch_text (uq_role p)) (patch_text (uq_status p))"
  let ?st' = "write_user_patch now k p u team st"
  obtain w where w: "w \<in> set (as_users st)" "active_super w" and dist: "distinct (map au_id (as_users st))"
    using ok by (auto simp: users_ok_def)
  have ids: "map au_id (map ?f (as_users st)) = map au_id (as_users st)" by simp
  have "\<exists>v \<in> set (map ?f (as_users st)). active_super v"
    using super_after_update [OF dist w parts(1,4)] by simp
  moreover have "distinct (map au_id (map ?f (as_users st)))" unfolding ids by (rule dist)
  moreover have "as_users ?st' = as_users st \<or> as_users ?st' = map ?f (as_users st)"
    by (simp add: write_patch_users update_role_status_users)
  ultimately have "users_ok ?st'" using ok unfolding users_ok_def by (elim disjE) simp_all
  then show ?thesis using Inr q by (simp add: handle_auth_user_update_def)
qed

text \<open>A request adds a new account when no account has the identifier of its e-mail address.\<close>

definition adds_new :: "auth_config \<Rightarrow> account_event \<Rightarrow> account_store \<Rightarrow> bool" where
  "adds_new cfg ev st =
     (case ev of
        Add_user claims h p \<Rightarrow> find_row au_id (as_users st) (user_id_of cfg (to_lower (trim_space (up_email p)))) = None
      | _ \<Rightarrow> True)"

lemma upsert_new: "find_row key rows (key new) = None \<Longrightarrow> upsert_row key merge new rows = rows @ [new]"
  by (induction rows) (auto split: if_splits)

lemma find_row_None_key: "find_row key rows k = None \<longleftrightarrow> k \<notin> key ` set rows"
  by (induction rows) auto

lemma create_users:
  assumes "create_auth_user now u st = Inr st'" "find_row au_id (as_users st) (au_id u) = None"
  shows "\<exists>u'. au_id u' = au_id u \<and> as_users st' = as_users st @ [u']"
  using assms upsert_new [of au_id "as_users st" _ merge_auth_user]
  by (auto simp: create_auth_user_def Let_def split: if_splits)

lemma other_requests_keep_users:
  "as_users (snd (handle_auth_login cfg now d email password st)) = as_users st"
  "as_users (snd (handle_auth_refresh cfg now d raw st)) = as_users st"
  "as_users (handle_auth_logout cfg now token refresh st) = as_users st"
  "as_users (snd (handle_me_session_by_id claims now k st)) = as_users st"
  "as_users (snd (handle_me_sessions_revoke_others claims now st)) = as_users st"
  "as_users (snd (revoke_auth_sessions_by_keycloak_sid now sid st)) = as_users st"
  "as_users (snd (post_custom_role cfg now claims c st)) = as_users st"
  "as_users (snd (remove_custom_role cfg claims role st)) = as_users st"
proof -
  show "as_users (snd (handle_auth_login cfg now d email password st)) = as_users st"
    by (auto simp: handle_auth_login_def issue_token_pair_def dest!: insert_auth_session_Inr insert_refresh_token_Inr
        split: option.splits sum.splits prod.splits)
  show "as_users (snd (handle_auth_refresh cfg now d raw st)) = as_users st"
    by (auto simp: handle_auth_refresh_def rotate_refresh_token_def refresh_writes_def revoke_refresh_token_def Let_def
        dest!: insert_refresh_token_Inr split: sum.splits prod.splits)
  show "as_users (handle_auth_logout cfg now token refresh st) = as_users st"
    by (auto simp: handle_auth_logout_def revoke_auth_session_def revoke_refresh_token_def Let_def split: option.splits)
  show "as_users (snd (handle_me_session_by_id claims now k st)) = as_users st"
    by (auto simp: handle_me_session_by_id_def revoke_auth_session_owned_def Let_def split: option.splits prod.splits bool.splits)
  show "as_users (snd (handle_me_sessions_revoke_others claims now st)) = as_users st"
    by (auto simp: handle_me_sessions_revoke_others_def revoke_other_auth_sessions_for_user_def split: option.splits)
  show "as_users (snd (revoke_auth_sessions_by_keycloak_sid now sid st)) = as_users st"
    by (auto simp: revoke_auth_sessions_by_keycloak_sid_def Let_def)
  show "as_users (snd (post_custom_role cfg now claims c st)) = as_users st"
    by (auto simp: post_custom_role_def upsert_custom_role_def revoke_auth_sessions_for_role_def split: sum.splits)
  show "as_users (snd (remove_custom_role cfg claims role st)) = as_users st"
    by (auto simp: remove_custom_role_def delete_custom_role_def Let_def)
qed

lemma add_user_ok:
  assumes ok: "users_ok st" and new: "adds_new cfg (Add_user claims h p) st"
  shows "users_ok (snd (post_user cfg now claims h p st))"
proof -
  show ?thesis
  proof (cases "check_user_post cfg claims h p st")
    case (Inl e)
    then show ?thesis using ok by (simp add: post_user_def)
  next
    case (Inr q)
    obtain u team where q: "q = (u, team)" by (cases q)
    have none: "find_row au_id (as_users st) (au_id u) = None"
      using new check_user_post_id [OF Inr [unfolded q]] by (simp add: adds_new_def)
    show ?thesis
    proof (cases "create_auth_user now u st")
      case c: (Inr st1)
      obtain u' where "au_id u' = au_id u" "as_users st1 = as_users st @ [u']" using create_users [OF c none] by blast
      then show ?thesis using ok none Inr q c by (auto simp: post_user_def users_ok_def find_row_None_key upsert_membership_def)
    qed (use ok Inr q in \<open>simp add: post_user_def\<close>)
  qed
qed

lemma run_account_users:
  assumes "users_ok st" "adds_new cfg ev st"
  shows "users_ok (run_account cfg now ev st)"
proof (cases ev)
  case (Add_user claims h p)
  then show ?thesis using add_user_ok assms by simp
next
  case (Update_user claims k p)
  then show ?thesis using update_users_ok [OF assms(1)] by simp
next
  case (Revoke_user u)
  then show ?thesis using assms(1) by (simp add: users_ok_def revoke_auth_sessions_for_user_def)
qed (use assms(1) in \<open>simp_all add: users_ok_def other_requests_keep_users\<close>)

inductive careful_step :: "auth_config \<Rightarrow> account_store \<Rightarrow> account_store \<Rightarrow> bool" for cfg where
  "adds_new cfg ev st \<Longrightarrow> careful_step cfg st (run_account cfg now ev st)"

text \<open>
  C17. An active super administrator remains through every sequence of logins, refreshes, logouts, revocations,
  role definitions and account updates, and of account creations that do not name an existing account: the last
  one can be neither demoted nor disabled, by anybody, themselves included.
\<close>

theorem super_admin_remains:
  assumes "(careful_step cfg)\<^sup>*\<^sup>* st st'" "distinct (map au_id (as_users st))"
    and "u \<in> set (as_users st)" "au_role u = ''super_admin''" "au_status u = ''active''"
  shows "\<exists>v \<in> set (as_users st'). au_role v = ''super_admin'' \<and> au_status v = ''active''"
proof -
  have "users_ok st" using assms(2-5) by (auto simp: users_ok_def active_super_def)
  with assms(1) have "users_ok st'"
    by (induction rule: rtranclp_induct) (auto elim!: careful_step.cases intro: run_account_users)
  then show ?thesis by (auto simp: users_ok_def active_super_def)
qed

end
