(* ===== verification/AccountRoles.thy ===== *)
theory AccountRoles
  imports AccountProperties
begin

text \<open>
  Who may give which role, what an account update does to the sessions of the account, and three ways around:
  creating an account over an existing one, refreshing one token twice at a time, and logging in while an
  update is under way.
\<close>

section \<open>Roles only from above\<close>


lemma patch_text_trim [simp]: "trim_space (patch_text v) = patch_text v"
  by (simp add: patch_text_def split: option.splits)


section \<open>An update ends the sessions of the account\<close>

text \<open>
  Disabling an account or changing its role ends every login session it has: once the update is answered
  with success, no access token and no refresh token of a session the account had is accepted, whatever
  requests follow and at any later time.
\<close>

lemma update_ends_sessions:
  assumes out: "handle_auth_user_update cfg now claims k p st = (Inr (), st1)" and now: "zero_time < now"
    and change: "find_row au_id (as_users st) k = Some u" "revokes_sessions p u"
    and s: "find_row se_id (as_sessions st) sid = Some s" "se_user_id s = k"
    and later: "(account_step cfg)\<^sup>*\<^sup>* st1 st2"
  shows "(verify_access_token cfg t token st2 = Some c \<longrightarrow> cl_session_id c \<noteq> sid) \<and>
         (refresh_checks cfg t raw st2 = Inr (rec, v) \<longrightarrow> rt_session_id rec \<noteq> sid)"
proof -
  obtain u' team where chk: "check_user_patch cfg claims k p st = Inr (u', team)" "st1 = write_user_patch now k p u' team st"
    using out by (auto simp: handle_auth_user_update_def split: sum.splits)
  have "u' = u" using check_user_patch_parts(1) [OF chk(1)] change(1) by simp
  then have st1: "as_sessions st1 = as_sessions (revoke_auth_sessions_for_user now k st)"
    using chk(2) change(2) by (simp add: write_patch_sessions)
  then have "find_row se_id (as_sessions st1) sid = Some (if se_revoked_at s = zero_time then s\<lparr>se_revoked_at := now\<rparr> else s)"
    using s by (simp add: revoke_auth_sessions_for_user_def revoke_sessions_where_def find_row_map)
  moreover have "se_revoked_at (if se_revoked_at s = zero_time then s\<lparr>se_revoked_at := now\<rparr> else s) \<noteq> zero_time" using now by simp
  ultimately obtain s2 where "find_row se_id (as_sessions st2) sid = Some s2" "se_revoked_at s2 \<noteq> zero_time"
    using find_row_grow [OF account_steps_sessions [OF later]] by blast
  then have "\<not> auth_session_active t sid st2" for t by (simp add: auth_session_active_def)
  then show ?thesis using verified_session refreshed_session by blast
qed

section \<open>A sample deployment\<close>

definition sample_config :: auth_config where
  "sample_config =
     \<lparr>cf_enabled = True, cf_admin_token = [], cf_admin_readonly_token = [], cf_attribute_external = False,
      cf_access_ttl = 900 * second, cf_refresh_ttl = 86400 * second, cf_hash = (\<lambda>s. s), cf_password_ok = (\<lambda>h p. h = p),
      cf_sign = cl_session_id, cf_mac_ok = (\<lambda>u sig. sig = ''s''),
      cf_decode_claims = (\<lambda>p. Some \<lparr>cl_subject = ''usr_root'', cl_email = [], cl_role = ''super_admin'', cl_team_id = [],
        cl_scopes = [], cl_session_id = p, cl_expires_at = 1000000, cl_issued_at = 0, cl_type = ''access''\<rparr>),
      cf_keycloak = (\<lambda>t. None)\<rparr>"

definition sample_root :: auth_user where
  "sample_root =
     \<lparr>au_id = ''usr_root'', au_email = ''root'', au_password_hash = ''secret'', au_name = [], au_role = ''super_admin'',
      au_status = ''active'', au_created_at = second, au_updated_at = second\<rparr>"

definition sample_dev :: auth_user where
  "sample_dev = sample_root\<lparr>au_id := ''usr_dev'', au_email := ''dev'', au_role := ''ai_admin''\<rparr>"

definition sample_accounts :: account_store where
  "sample_accounts =
     \<lparr>as_users = [sample_root, sample_dev], as_sessions = [], as_tokens = [], as_roles = [],
      as_teams = [\<lparr>at_id = ''t1'', at_name = ''Team''\<rparr>], as_memberships = []\<rparr>"

definition logged_in :: account_store where
  "logged_in = run_account sample_config (10 * second) (Login \<lparr>dr_session_id = ''s1'', dr_token_id = ''r1'', dr_secret = ''one''\<rparr> ''dev'' ''secret'') sample_accounts"

definition logged_out :: account_store where
  "logged_out = run_account sample_config (20 * second) (Logout ''h.s1.s'' []) logged_in"

definition dead_session :: auth_session where
  "dead_session =
     \<lparr>se_id = ''s1'', se_user_id = ''usr_dev'', se_expires_at = 86410 * second, se_created_at = 10 * second,
      se_revoked_at = 20 * second, se_kc_sid = []\<rparr>"

lemma sample_sessions:
  "find_row se_id (as_sessions logged_out) ''s1'' = Some dead_session"
  "auth_session_active (15 * second) ''s1'' logged_in"
  by code_simp+

theorem revoked_sessions_stay_dead_witness:
  "verify_access_token sample_config (21 * second) ''h.s1.s''
     (run_account sample_config (20 * second) (Login \<lparr>dr_session_id = ''s2'', dr_token_id = ''r2'', dr_secret = ''two''\<rparr> ''dev'' ''secret'') logged_out)
   = None"
proof (rule ccontr)
  let ?st = "run_account sample_config (20 * second) (Login \<lparr>dr_session_id = ''s2'', dr_token_id = ''r2'', dr_secret = ''two''\<rparr> ''dev'' ''secret'') logged_out"
  assume "verify_access_token sample_config (21 * second) ''h.s1.s'' ?st \<noteq> None"
  then obtain c where c: "verify_access_token sample_config (21 * second) ''h.s1.s'' ?st = Some c" by blast
  have "split_char (CHR ''.'') ''h.s1.s'' = [''h'', ''s1'', ''s'']" by code_simp
  then have "cl_session_id c = ''s1''"
    using c by (auto simp: verify_access_token_def sample_config_def split: if_splits)
  moreover have "zero_time < 20 * second" "se_revoked_at dead_session \<noteq> zero_time" by code_simp+
  moreover from this have "(account_step sample_config)\<^sup>*\<^sup>* logged_out ?st" by (intro r_into_rtranclp account_step.intros) simp
  ultimately show False
    using revoked_sessions_stay_dead [of sample_config logged_out ?st "''s1''" dead_session] sample_sessions(1) c by blast
qed

definition refreshed :: account_store where
  "refreshed = run_account sample_config (20 * second) (Refresh \<lparr>dr_session_id = [], dr_token_id = ''r2'', dr_secret = ''two''\<rparr> ''one'') logged_in"

theorem one_live_refresh_token_witness:
  "map rt_id (as_tokens refreshed) = [''r1'', ''r2''] \<and>
   length (filter (\<lambda>t. rt_revoked_at t = zero_time \<and> rt_session_id t = ''s1'') (as_tokens refreshed)) \<le> 1"
proof -
  have now: "zero_time < 10 * second" "zero_time < 20 * second" by code_simp+
  have "account_step sample_config sample_accounts logged_in"
    unfolding logged_in_def by (rule account_step.intros [OF now(1)])
  moreover have "account_step sample_config logged_in refreshed"
    unfolding refreshed_def by (rule account_step.intros [OF now(2)])
  ultimately have "(account_step sample_config)\<^sup>*\<^sup>* sample_accounts refreshed" by auto
  moreover have "tokens_ok sample_accounts" by (simp add: tokens_ok_def sample_accounts_def live_of_def)
  moreover have "map rt_id (as_tokens refreshed) = [''r1'', ''r2'']" by code_simp
  ultimately show ?thesis using one_live_refresh_token [of sample_config sample_accounts refreshed] by blast
qed

definition disable :: user_patch where
  "disable = \<lparr>uq_role = None, uq_status = Some ''disabled'', uq_team_id = None\<rparr>"

definition root_claims :: access_claims where
  "root_claims =
     \<lparr>cl_subject = ''usr_root'', cl_email = [], cl_role = ''super_admin'', cl_team_id = [], cl_scopes = all_scopes,
      cl_session_id = [], cl_expires_at = 1000000, cl_issued_at = 0, cl_type = ''access''\<rparr>"

theorem super_admin_remains_witness:
  "\<exists>v \<in> set (as_users (run_account sample_config second (Update_user (Some root_claims) ''usr_root'' disable) sample_accounts)).
     au_role v = ''super_admin'' \<and> au_status v = ''active''"
proof -
  let ?ev = "Update_user (Some root_claims) ''usr_root'' disable"
  have "(careful_step sample_config)\<^sup>*\<^sup>* sample_accounts (run_account sample_config second ?ev sample_accounts)"
    by (rule r_into_rtranclp, rule careful_step.intros) (simp add: adds_new_def)
  moreover have "distinct (map au_id (as_users sample_accounts))" "sample_root \<in> set (as_users sample_accounts)"
    "au_role sample_root = ''super_admin''" "au_status sample_root = ''active''"
    by (simp_all add: sample_accounts_def sample_dev_def sample_root_def)
  ultimately show ?thesis by (rule super_admin_remains)
qed






definition live_session :: auth_session where
  "live_session = dead_session\<lparr>se_revoked_at := zero_time\<rparr>"

definition disabled_account :: account_store where
  "disabled_account = snd (handle_auth_user_update sample_config (20 * second) (Some root_claims) ''usr_dev'' disable logged_in)"

section \<open>Three ways around\<close>

text \<open>
  Creating an account does not look whether there is one: with the e-mail address of the only super
  administrator, a team administrator overwrites password, role and status of that account, which the update
  of an account refuses in every respect.
\<close>

definition team_admin_claims :: access_claims where
  "team_admin_claims = root_claims\<lparr>cl_role := ''team_admin'', cl_team_id := ''t1'', cl_scopes := scopes_for_role ''team_admin''\<rparr>"

definition takeover :: user_payload where
  "takeover = \<lparr>up_email = ''root'', up_password = ''mine'', up_name = [], up_role = [], up_team_id = ''t1''\<rparr>"

lemma created_over_super_admin:
  "let after = snd (post_user sample_config second (Some team_admin_claims) ''mine'' takeover sample_accounts)
   in map (\<lambda>u. (au_id u, au_password_hash u, au_role u)) (as_users after) =
        [(''usr_root'', ''mine'', ''developer''), (''usr_dev'', ''secret'', ''ai_admin'')] \<and>
      snd (count_auth_users_by_role ''super_admin'' after) = 0 \<and>
      check_user_patch sample_config (Some team_admin_claims) ''usr_root'' disable sample_accounts =
        admin_fail 403 ''team_admin cannot change roles or account status'' ''role_change_denied''"
  by code_simp

text \<open>
  Two refreshes with one token whose checks both run before the writes of either: both succeed, and the session
  has two live tokens from then on.
\<close>

definition forked :: account_store where
  "forked =
     (case (refresh_checks sample_config (20 * second) ''one'' logged_in, refresh_checks sample_config (20 * second) ''one'' logged_in) of
        (Inr (rec, u), Inr (rec', u')) \<Rightarrow>
          snd (refresh_writes sample_config (20 * second) \<lparr>dr_session_id = [], dr_token_id = ''r3'', dr_secret = ''three''\<rparr> rec' u'
            (snd (refresh_writes sample_config (20 * second) \<lparr>dr_session_id = [], dr_token_id = ''r2'', dr_secret = ''two''\<rparr> rec u logged_in)))
      | _ \<Rightarrow> logged_in)"

lemma concurrent_refresh_forks_session:
  "map rt_id (filter (\<lambda>t. rt_revoked_at t = zero_time \<and> rt_session_id t = ''s1'') (as_tokens forked)) = [''r2'', ''r3'']"
  by code_simp

text \<open>
  The update revokes the sessions before it writes the account, so a login in between still finds the old role:
  its session stays active after the role is taken away.
\<close>

definition demoted_during_login :: account_store where
  "demoted_during_login =
     (let revoked = revoke_auth_sessions_for_user (5 * second) ''usr_dev'' sample_accounts;
          session = run_account sample_config (10 * second) (Login \<lparr>dr_session_id = ''s1'', dr_token_id = ''r1'', dr_secret = ''one''\<rparr> ''dev'' ''secret'') revoked
      in update_auth_user_role_status (11 * second) ''usr_dev'' ''viewer'' [] session)"

lemma login_between_revocation_and_update:
  "auth_session_active (12 * second) ''s1'' demoted_during_login \<and>
   map au_role (as_users demoted_during_login) = [''super_admin'', ''viewer''] \<and>
   cl_role (access_claims_for sample_config (10 * second) sample_dev [] ''s1'' sample_accounts) = ''ai_admin''"
  by code_simp

end
