(* ===== verification/AuthGate.thy ===== *)
theory AuthGate
  imports Accounts
begin

text \<open>
  The two gates in front of every handler: the API keys of the \<open>/v1\<close> endpoints
  (\<open>authenticateProxyContextReason\<close> and \<open>attributeExternalKey\<close> of \<open>internal/proxy/server.go\<close>) and the
  admin authorization (\<open>adminAuthorizationStatus\<close>).  The header lookup, \<open>net.SplitHostPort\<close> and the other
  library functions are modelled as far as they are used; the verification of MCP access tokens is an
  argument.
\<close>

section \<open>Requests\<close>

text \<open>Headers are kept under their canonical names; the query holds the first value of each key.\<close>

record http_request =
  rq_method :: string
  rq_path :: string
  rq_headers :: "(string \<times> string) list"
  rq_query :: "(string \<times> string) list"
  rq_remote_addr :: string

definition header :: "http_request \<Rightarrow> string \<Rightarrow> string" where
  "header r name = (case map_of (rq_headers r) name of Some v \<Rightarrow> v | None \<Rightarrow> [])"

definition query :: "http_request \<Rightarrow> string \<Rightarrow> string" where
  "query r name = (case map_of (rq_query r) name of Some v \<Rightarrow> v | None \<Rightarrow> [])"

definition first_non_empty_header :: "http_request \<Rightarrow> string list \<Rightarrow> string" where
  "first_non_empty_header r names =
     (case find (\<lambda>n. trim_space (header r n) \<noteq> []) names of Some n \<Rightarrow> trim_space (header r n) | None \<Rightarrow> [])"

definition bearer_token :: "string \<Rightarrow> string" where
  "bearer_token h = (if 7 \<le> length h \<and> equal_fold (take 7 h) ''bearer '' then trim_space (drop 7 h) else [])"

definition token_of :: "http_request \<Rightarrow> string" where
  "token_of r = bearer_token (header r ''Authorization'')"

text \<open>The host part of \<open>net.SplitHostPort\<close>.\<close>

definition split_host_port :: "string \<Rightarrow> string option" where
  "split_host_port s =
     (if CHR '':'' \<notin> set s then None
      else
        let host = rev (drop 1 (dropWhile (\<lambda>c. c \<noteq> CHR '':'') (rev s)));
            port = rev (takeWhile (\<lambda>c. c \<noteq> CHR '':'') (rev s))
        in if take 1 s = ''['' then
             (let inner = takeWhile (\<lambda>c. c \<noteq> CHR '']'') (drop 1 s)
              in if host = ''['' @ inner @ '']'' \<and> CHR ''['' \<notin> set (inner @ port) \<and> CHR '']'' \<notin> set port then Some inner else None)
           else if CHR '':'' \<in> set host \<or> CHR ''['' \<in> set s \<or> CHR '']'' \<in> set s then None
           else Some host)"

definition client_ip :: "http_request \<Rightarrow> string" where
  "client_ip r =
     (if trim_space (header r ''Cf-Connecting-Ip'') \<noteq> [] then trim_space (header r ''Cf-Connecting-Ip'')
      else if trim_space (header r ''X-Real-Ip'') \<noteq> [] then trim_space (header r ''X-Real-Ip'')
      else
        let forwarded = trim_space (header r ''X-Forwarded-For'')
        in if forwarded \<noteq> [] then trim_space (hd (split_char (CHR '','') forwarded))
           else case split_host_port (rq_remote_addr r) of Some host \<Rightarrow> host | None \<Rightarrow> rq_remote_addr r)"

section \<open>API keys\<close>

definition api_scope_for_request :: "http_request \<Rightarrow> string" where
  "api_scope_for_request r =
     (if rq_path r = ''/v1/chat/completions'' then ''chat:completion''
      else if rq_path r = ''/v1/embeddings'' then ''embeddings:create''
      else if rq_path r = ''/v1/models'' then ''models:read''
      else if rq_path r = ''/mcp'' then ''mcp:use''
      else [])"

text \<open>The identity a request carries through the gateway.\<close>

record caller =
  ca_key_id :: string
  ca_user_id :: string
  ca_team_id :: string
  ca_role :: string
  ca_policy :: key_policy

definition caller_of_key :: "account_store \<Rightarrow> api_key \<Rightarrow> caller" where
  "caller_of_key st k =
     \<lparr>ca_key_id = ak_id k, ca_user_id = ak_user_id k,
      ca_team_id = (if trim_space (ak_team k) = [] then ak_team k
                    else case auth_team_by_id_or_name (ak_team k) st of Some t \<Rightarrow> at_id t | None \<Rightarrow> ak_team k),
      ca_role = key_role (ak_role k) (ak_service_account_id k \<noteq> []),
      ca_policy = (ak_policy k)\<lparr>kp_expires_at := zero_time\<rparr>\<rparr>"

text \<open>What the gate reads: configuration, keys, accounts, and the MCP access tokens.\<close>

record gate_env =
  ge_config :: auth_config
  ge_accounts :: account_store
  ge_mcp_oauth :: "string \<Rightarrow> (string \<times> caller option) option"
  ge_mcp_oauth_active :: bool

definition mcp_oauth_endpoint :: "string \<Rightarrow> bool" where
  "mcp_oauth_endpoint path \<longleftrightarrow> path \<in> {''/mcp'', ''/mcp/gateway''}"

definition looks_like_jwt :: "string \<Rightarrow> bool" where
  "looks_like_jwt token \<longleftrightarrow>
     length token \<le> 32 * 1024 \<and> length (split_char (CHR ''.'') token) = 3 \<and> list_all (\<lambda>p. p \<noteq> []) (split_char (CHR ''.'') token)"

text \<open>The checks on a key that was found.\<close>

definition key_admits :: "gate_env \<Rightarrow> go_time \<Rightarrow> http_request \<Rightarrow> api_key \<Rightarrow> bool" where
  "key_admits e now r k \<longleftrightarrow>
     ak_revoked_at k = zero_time \<and> ak_status k = ''active'' \<and>
     (kp_expires_at (ak_policy k) = zero_time \<or> now \<le> kp_expires_at (ak_policy k)) \<and>
     ip_allowed (client_ip r) (kp_allowed_ips (ak_policy k)) \<and>
     (\<not> cf_enabled (ge_config e) \<or> api_scope_for_request r = [] \<or> has_scope (kp_scopes (ak_policy k)) (api_scope_for_request r))"

text \<open>
  The key table and the identifiers already seen (\<open>extSeen\<close>); \<open>EnsureExternalAPIKey\<close> never touches an
  existing row.
\<close>

record gate_state =
  gs_keys :: "api_key list"
  gs_ext_seen :: "string list"

definition empty_policy :: key_policy where
  "empty_policy =
     \<lparr>kp_scopes = [], kp_allowed_ips = [], kp_allowed_models = [], kp_denied_models = [], kp_allowed_providers = [],
      kp_denied_providers = [], kp_budget_limit_krw = 0, kp_expires_at = zero_time\<rparr>"

definition ensure_external_api_key :: "go_time \<Rightarrow> api_key \<Rightarrow> api_key list \<Rightarrow> api_key list result" where
  "ensure_external_api_key now k keys =
     (let k = k\<lparr>ak_created_at := (if ak_created_at k = zero_time then now else ak_created_at k),
                ak_status := (if ak_status k = [] then ''external'' else ak_status k)\<rparr>
      in if get_api_key (ak_id k) keys \<noteq> None then Inr keys
         else if hash_taken k keys then Inl ''UNIQUE constraint failed''
         else Inr (keys @ [k]))"

definition external_key :: "http_request \<Rightarrow> string \<Rightarrow> api_key" where
  "external_key r h =
     (let name = first_non_empty_header r [''X-Vibe-User'', ''X-User-Id'', ''X-Title'']
      in \<lparr>ak_id = ''key_'' @ take 16 h, ak_name = (if name = [] then ''external-'' @ take 8 h else name), ak_key_hash = h,
          ak_owner = [], ak_team = first_non_empty_header r [''X-Vibe-Team'', ''X-Team''], ak_user_id = [],
          ak_service_account_id = [], ak_role = [], ak_status = ''external'', ak_policy = empty_policy,
          ak_revoked_at = zero_time, ak_created_at = zero_time\<rparr>)"

definition attribute_external_key ::
  "gate_env \<Rightarrow> go_time \<Rightarrow> http_request \<Rightarrow> string \<Rightarrow> gate_state \<Rightarrow> string \<times> gate_state" where
  "attribute_external_key e now r h g =
     (if \<not> cf_attribute_external (ge_config e) then (''passthrough'', g)
      else
        let k = ''key_'' @ take 16 h
        in if k \<in> set (gs_ext_seen g) then (k, g)
           else case ensure_external_api_key now (external_key r h) (gs_keys g) of
                  Inl _ \<Rightarrow> (k, g)
                | Inr keys \<Rightarrow> (k, \<lparr>gs_keys = keys, gs_ext_seen = k # gs_ext_seen g\<rparr>))"

text \<open>
  \<open>authenticateProxyContextReason\<close>: \<open>None\<close> refuses the request, otherwise the key id to attribute it to and
  the identity, absent for anonymous and passed-through calls.
\<close>

definition authenticate ::
  "gate_env \<Rightarrow> go_time \<Rightarrow> http_request \<Rightarrow> gate_state \<Rightarrow> (string \<times> caller option) option \<times> gate_state" where
  "authenticate e now r g =
     (let cfg = ge_config e; token = token_of r; h = cf_hash cfg token;
          unknown = (if \<not> has_active_api_keys (gs_keys g) \<and> \<not> cf_enabled cfg then Some (''anonymous'', None) else None)
      in if token = [] then (unknown, g)
         else case find_active_api_key_by_hash h (gs_keys g) of
                Some k \<Rightarrow> (if key_admits e now r k then Some (ak_id k, Some (caller_of_key (ge_accounts e) k)) else None, g)
              | None \<Rightarrow>
                  if mcp_oauth_endpoint (rq_path r) \<and> looks_like_jwt token \<and> ge_mcp_oauth_active e then (ge_mcp_oauth e token, g)
                  else if \<not> cf_enabled cfg \<and> \<not> has_prefix token ''pcg_''
                  then (let (k, g') = attribute_external_key e now r h g in (Some (k, None), g'))
                  else (unknown, g))"

section \<open>The admin gate\<close>

definition reading :: "http_request \<Rightarrow> bool" where
  "reading r \<longleftrightarrow> rq_method r \<in> {''GET'', ''HEAD''}"

definition admin_required_scope :: "http_request \<Rightarrow> string" where
  "admin_required_scope r =
     (if has_prefix (rq_path r) ''/admin/routing''
      then if reading r \<or> rq_path r = ''/admin/routing/preview'' then ''routing:read'' else ''routing:write''
      else if has_prefix (rq_path r) ''/admin/security'' \<or> has_prefix (rq_path r) ''/admin/policies'' \<or>
              has_prefix (rq_path r) ''/admin/approvals''
      then if reading r then ''security:read'' else ''admin:write''
      else if has_prefix (rq_path r) ''/admin/anomalies''
      then if \<not> reading r then ''admin:write'' else ''costs:read''
      else if has_prefix (rq_path r) ''/admin/mcp''
      then if reading r then ''observability:read'' else ''mcp:admin''
      else if reading r then ''admin:read''
      else ''admin:write'')"

definition settings_sub_admin_role :: "string \<Rightarrow> bool" where
  "settings_sub_admin_role role \<longleftrightarrow> role \<in> {''ops_admin'', ''ai_admin'', ''security_admin''}"

text \<open>The two exceptions for a caller without the scope.\<close>

definition write_exception :: "http_request \<Rightarrow> access_claims \<Rightarrow> bool" where
  "write_exception r c \<longleftrightarrow>
     admin_required_scope r = ''admin:write'' \<and>
     (cl_role c = ''team_admin'' \<and>
        (has_prefix (rq_path r) ''/admin/users'' \<or> has_prefix (rq_path r) ''/admin/teams'' \<or>
         has_prefix (rq_path r) ''/admin/api-keys'') \<or>
      has_prefix (rq_path r) ''/admin/settings'' \<and> settings_sub_admin_role (cl_role c))"

text \<open>The status of the refusal, \<open>None\<close> when the request is authorized.\<close>

definition admin_authorization_status :: "auth_config \<Rightarrow> go_time \<Rightarrow> http_request \<Rightarrow> account_store \<Rightarrow> nat option" where
  "admin_authorization_status cfg now r st =
     (if cf_enabled cfg then
        (case verify_access_token cfg now (token_of r) st of
           None \<Rightarrow> Some 401
         | Some c \<Rightarrow>
             if \<not> has_scope (cl_scopes c) (admin_required_scope r)
             then if write_exception r c then None else Some 403
             else None)
      else if cf_admin_token cfg = [] \<and> cf_admin_readonly_token cfg = [] then None
      else if token_of r = [] then Some 401
      else if cf_admin_token cfg \<noteq> [] \<and> token_of r = cf_admin_token cfg then None
      else if cf_admin_readonly_token cfg \<noteq> [] \<and> token_of r = cf_admin_readonly_token cfg
      then if reading r then None else Some 403
      else Some 401)"

definition require_admin_authorization :: "auth_config \<Rightarrow> go_time \<Rightarrow> http_request \<Rightarrow> account_store \<Rightarrow> admin_error + unit" where
  "require_admin_authorization cfg now r st =
     (case admin_authorization_status cfg now r st of
        None \<Rightarrow> Inr ()
      | Some status \<Rightarrow>
          if status = 403 then admin_fail 403 (admin_required_scope r @ '' scope is required'') ''insufficient_scope''
          else admin_fail 401 ''invalid admin token'' ''invalid_api_key'')"

text \<open>The account endpoints behind the gate; the branches that only show a user or a report answer nothing here.\<close>

definition admin_create_user ::
  "auth_config \<Rightarrow> go_time \<Rightarrow> http_request \<Rightarrow> string \<Rightarrow> user_payload \<Rightarrow> account_store \<Rightarrow>
   (admin_error + auth_user) \<times> account_store" where
  "admin_create_user cfg now r pw_hash p st =
     (case require_admin_authorization cfg now r st of
        Inl e \<Rightarrow> (Inl e, st)
      | Inr _ \<Rightarrow> post_user cfg now (current_access_claims cfg now (token_of r) st) pw_hash p st)"

definition admin_update_user ::
  "auth_config \<Rightarrow> go_time \<Rightarrow> http_request \<Rightarrow> user_patch \<Rightarrow> account_store \<Rightarrow> (admin_error + unit) \<times> account_store" where
  "admin_update_user cfg now r p st =
     (let k = (if has_prefix (rq_path r) ''/admin/users/'' then drop 13 (rq_path r) else rq_path r)
      in case require_admin_authorization cfg now r st of
           Inl e \<Rightarrow> (Inl e, st)
         | Inr _ \<Rightarrow>
             if CHR ''/'' \<in> set k
             then (if drop 1 (dropWhile (\<lambda>c. c \<noteq> CHR ''/'') k) = ''report'' then (Inr (), st)
                   else (admin_fail 404 ''not found'' ''not_found'', st))
             else if k = [] then (admin_fail 400 ''invalid user id'' ''invalid_user_id'', st)
             else if rq_method r = ''PATCH'' \<and> has_prefix k ''usr_''
             then handle_auth_user_update cfg now (current_access_claims cfg now (token_of r) st) k p st
             else (Inr (), st))"

end
