(* ===== verification/GateProperties.thy ===== *)
theory GateProperties
  imports AccountRoles AuthGate AccessKeyProperties
begin

text \<open>
  What passes the two gates.  With authentication on, the \<open>/v1\<close> gate admits exactly the live keys of the
  table, so a key that was revoked or rotated is refused from then on; the admin gate lets only administrators
  write, and an account changes only under a caller above it.  Two ways past the gate follow: the addresses a
  key is bound to are read from headers of the client, and without authentication the secret of the last
  revoked key is admitted as anonymous.
\<close>

section \<open>API keys\<close>

definition no_mcp_token :: "gate_env \<Rightarrow> http_request \<Rightarrow> bool" where
  "no_mcp_token e r \<longleftrightarrow> \<not> (mcp_oauth_endpoint (rq_path r) \<and> looks_like_jwt (token_of r) \<and> ge_mcp_oauth_active e)"







text \<open>
  Without authentication the gate opens when the last key is gone, also to the secret of that key: a token
  with the prefix of the gateway that names no active key is then anonymous.
\<close>

lemma last_revoked_key_opens:
  assumes "\<not> cf_enabled (ge_config e)" "no_mcp_token e r" "has_prefix (token_of r) ''pcg_''"
    "\<not> has_active_api_keys (gs_keys g)"
  shows "authenticate e now r g = (Some (''anonymous'', None), g)"
proof -
  have "find_active_api_key_by_hash h (gs_keys g) = None" for h
    using assms(4) by (auto simp: has_active_api_keys_def find_active_api_key_by_hash_def find_None_iff list_ex_iff)
  then show ?thesis using assms by (auto simp: authenticate_def no_mcp_token_def Let_def)
qed

text \<open>
  The address of the client is what the client says: with the header in place, neither the address list of a
  key nor anything else of the gate depends on where the request comes from.
\<close>

lemma address_list_reads_a_header:
  assumes "trim_space ip \<noteq> []"
  shows "client_ip (r\<lparr>rq_headers := (''Cf-Connecting-Ip'', ip) # rq_headers r\<rparr>) = trim_space ip"
  using assms by (simp add: client_ip_def header_def)

section \<open>The admin gate\<close>




lemma user_path_scope:
  assumes "has_prefix (rq_path r) ''/admin/users/''" "\<not> reading r"
  shows "admin_required_scope r = ''admin:write''"
  using assms by (auto simp: admin_required_scope_def has_prefix_def prefix_def)

text \<open>
  The whole way of an account update, gate and handler: whatever the request, the account tables change
  only when its token is live, its role is no team administrator, its scopes hold the write scope, and the
  account stands below the caller, or the caller is a super administrator.
\<close>

lemma accounts_change_from_above:
  assumes "cf_enabled cfg" "has_prefix (rq_path r) ''/admin/users/''"
    and "snd (admin_update_user cfg now r p st) \<noteq> st"
  shows "\<exists>c u. verify_access_token cfg now (token_of r) st = Some c \<and> auth_session_active now (cl_session_id c) st \<and>
    cl_role c \<noteq> ''team_admin'' \<and> has_scope (cl_scopes c) ''admin:write'' \<and>
    auth_user_by_id (drop 13 (rq_path r)) st = Some u \<and>
    (cl_role c = ''super_admin'' \<or> role_below st c (au_role u))"
proof -
  let ?k = "drop 13 (rq_path r)"
  have gate: "admin_authorization_status cfg now r st = None" "rq_method r = ''PATCH''"
    and upd: "snd (handle_auth_user_update cfg now (current_access_claims cfg now (token_of r) st) ?k p st) \<noteq> st"
    using assms(2,3)
    by (auto simp: admin_update_user_def require_admin_authorization_def admin_fail_def Let_def
        split: sum.splits if_splits option.splits)
  obtain c where c: "verify_access_token cfg now (token_of r) st = Some c"
      "has_scope (cl_scopes c) ''admin:write'' \<or> write_exception r c"
    using assms(1) gate user_path_scope [OF assms(2)]
    by (auto simp: admin_authorization_status_def reading_def split: option.splits if_splits)
  have live: "auth_session_active now (cl_session_id c) st" "token_of r \<noteq> []"
    using c(1) by (auto simp: verify_access_token_def split_char_def split: list.splits option.splits if_splits)
  then have cur: "current_access_claims cfg now (token_of r) st = Some c"
    using assms(1) c(1) by (simp add: current_access_claims_def)
  obtain u team where u: "check_user_patch cfg (Some c) ?k p st = Inr (u, team)"
    using upd unfolding cur by (auto simp: handle_auth_user_update_def split: sum.splits)
  then have "cl_role c \<noteq> ''team_admin''" "auth_user_by_id ?k st = Some u" "can_modify_subject_role cfg (Some c) (au_role u) st"
    by (auto simp: check_user_patch_def is_team_admin_def Let_def split: if_splits option.splits)
  moreover have "\<not> has_prefix (rq_path r) ''/admin/settings''"
    using assms(2) by (auto simp: has_prefix_def prefix_def)
  ultimately show ?thesis
    using c live(1) assms(1) by (auto simp: write_exception_def can_modify_subject_role_def)
qed

section \<open>A sample request\<close>














end
