(* ===== verification/Routing.thy ===== *)
theory Routing
  imports AuthGate
begin

text \<open>
  How the gateway picks model and provider: provider table, routing rules and model deprecations
  (\<open>internal/store/sqlstore.go\<close>, \<open>routing_rules.go\<close>, \<open>model_deprecation.go\<close>), their handlers
  (\<open>admin_routing_rules.go\<close>, \<open>server.go\<close>, \<open>model_deprecation.go\<close>), the selection of a provider, the
  routing plan (\<open>intelligent_routing.go\<close>) and the routing and deprecation steps of the pipeline.  Complexity
  and risk of the prompts, provider health, decryption and the learned model are arguments; the texts that
  are only logged are left out.
\<close>

section \<open>Tables\<close>

record provider_config =
  pc_name :: string
  pc_base_url :: string
  pc_encrypted_key :: string
  pc_timeout_ms :: int
  pc_enabled :: bool
  pc_patterns :: string
  pc_created_at :: go_time

record routing_rule =
  ru_id :: string
  ru_enabled :: bool
  ru_priority :: int
  ru_pattern :: string
  ru_min :: int
  ru_max :: int
  ru_model :: string
  ru_provider :: string
  ru_note :: string
  ru_created_at :: go_time

record model_deprecation =
  md_id :: string
  md_glob :: string
  md_replacement :: string
  md_sunset :: string
  md_message :: string
  md_created_at :: string
  md_updated_at :: string

record routing_tables =
  rg_providers :: "provider_config list"
  rg_rules :: "routing_rule list"
  rg_deprecations :: "model_deprecation list"

definition get_provider :: "string \<Rightarrow> routing_tables \<Rightarrow> provider_config option" where
  "get_provider name t = find_row pc_name (rg_providers t) name"

definition list_provider_configs :: "routing_tables \<Rightarrow> provider_config list" where
  "list_provider_configs t = select_rows pc_enabled (by_key pc_name) (rg_providers t)"

definition merge_provider :: "provider_config \<Rightarrow> provider_config \<Rightarrow> provider_config" where
  "merge_provider old new = new\<lparr>pc_created_at := pc_created_at old\<rparr>"

definition upsert_provider :: "go_time \<Rightarrow> provider_config \<Rightarrow> routing_tables \<Rightarrow> routing_tables" where
  "upsert_provider now p t =
     (let p = p\<lparr>pc_created_at := (if pc_created_at p = zero_time then now else pc_created_at p)\<rparr>
      in t\<lparr>rg_providers := upsert_row pc_name merge_provider p (rg_providers t)\<rparr>)"

definition delete_provider :: "string \<Rightarrow> routing_tables \<Rightarrow> bool \<times> routing_tables" where
  "delete_provider name t =
     (list_ex (\<lambda>p. pc_name p = name) (rg_providers t),
      t\<lparr>rg_providers := filter (\<lambda>p. pc_name p \<noteq> name) (rg_providers t)\<rparr>)"

definition list_routing_rules :: "routing_tables \<Rightarrow> routing_rule list" where
  "list_routing_rules t = select_rows (\<lambda>_. True) (order_then (by_key ru_priority) (by_key ru_created_at)) (rg_rules t)"

definition active_routing_rules :: "routing_tables \<Rightarrow> routing_rule list" where
  "active_routing_rules t = slice_stable (by_key ru_priority) (filter ru_enabled (list_routing_rules t))"

definition merge_routing_rule :: "routing_rule \<Rightarrow> routing_rule \<Rightarrow> routing_rule" where
  "merge_routing_rule old new = new\<lparr>ru_created_at := ru_created_at old\<rparr>"

definition upsert_routing_rule :: "go_time \<Rightarrow> routing_rule \<Rightarrow> routing_tables \<Rightarrow> routing_tables" where
  "upsert_routing_rule now r t =
     (let r = r\<lparr>ru_created_at := (if ru_created_at r = zero_time then now else ru_created_at r)\<rparr>
      in t\<lparr>rg_rules := upsert_row ru_id merge_routing_rule r (rg_rules t)\<rparr>)"

definition delete_routing_rule :: "string \<Rightarrow> routing_tables \<Rightarrow> routing_tables" where
  "delete_routing_rule k t = t\<lparr>rg_rules := filter (\<lambda>r. ru_id r \<noteq> k) (rg_rules t)\<rparr>"

definition list_model_deprecations :: "routing_tables \<Rightarrow> model_deprecation list" where
  "list_model_deprecations t = select_rows (\<lambda>_. True) (by_key md_glob) (rg_deprecations t)"

definition merge_deprecation :: "model_deprecation \<Rightarrow> model_deprecation \<Rightarrow> model_deprecation" where
  "merge_deprecation old new = new\<lparr>md_created_at := md_created_at old\<rparr>"

text \<open>\<open>hash_id\<close> is \<open>okfHashID\<close> with the prefix of the table.\<close>

definition upsert_model_deprecation ::
  "(string \<Rightarrow> string) \<Rightarrow> string \<Rightarrow> model_deprecation \<Rightarrow> routing_tables \<Rightarrow> model_deprecation \<times> routing_tables" where
  "upsert_model_deprecation hash_id now d t =
     (let d = d\<lparr>md_glob := trim_space (md_glob d)\<rparr>;
          d = d\<lparr>md_id := (if md_id d = [] then hash_id (to_lower (md_glob d)) else md_id d), md_updated_at := now\<rparr>;
          d = d\<lparr>md_created_at := (case find_row md_id (rg_deprecations t) (md_id d) of Some old \<Rightarrow> md_created_at old | None \<Rightarrow> now)\<rparr>
      in (d, t\<lparr>rg_deprecations := upsert_row md_id merge_deprecation d (rg_deprecations t)\<rparr>))"

definition delete_model_deprecation :: "string \<Rightarrow> routing_tables \<Rightarrow> routing_tables" where
  "delete_model_deprecation k t = t\<lparr>rg_deprecations := filter (\<lambda>d. md_id d \<noteq> k) (rg_deprecations t)\<rparr>"

interpretation provider_table: replacing_store pc_name "find_row pc_name" "upsert_row pc_name merge_provider" merge_provider
  unfolding replacing_store_def replacing_store_axioms_def
  by (auto simp: merge_provider_def intro!: row_store_upsert)

interpretation rule_table: replacing_store ru_id "find_row ru_id" "upsert_row ru_id merge_routing_rule" merge_routing_rule
  unfolding replacing_store_def replacing_store_axioms_def
  by (auto simp: merge_routing_rule_def intro!: row_store_upsert)

section \<open>Administration\<close>

record rule_payload =
  rp_pattern :: string
  rp_min :: int
  rp_max :: int
  rp_model :: string
  rp_provider :: string
  rp_priority :: int
  rp_enabled :: "bool option"
  rp_note :: string

definition post_routing_rule ::
  "go_time \<Rightarrow> string \<Rightarrow> rule_payload \<Rightarrow> routing_tables \<Rightarrow> (admin_error + routing_rule) \<times> routing_tables" where
  "post_routing_rule now new_id p t =
     (if trim_space (rp_model p) = [] then (admin_fail 400 ''target_model is required'' ''missing_target_model'', t)
      else if rp_min p < 0 \<or> 100 < rp_max p \<or> rp_max p < rp_min p
      then (admin_fail 400 ''complexity range must satisfy 0 <= min <= max <= 100'' ''invalid_range'', t)
      else
        let rule = \<lparr>ru_id = new_id, ru_enabled = (case rp_enabled p of None \<Rightarrow> True | Some b \<Rightarrow> b),
              ru_priority = (if rp_priority p \<le> 0 then 100 else rp_priority p),
              ru_pattern = (if trim_space (rp_pattern p) = [] then ''*'' else trim_space (rp_pattern p)),
              ru_min = rp_min p, ru_max = rp_max p, ru_model = trim_space (rp_model p),
              ru_provider = trim_space (rp_provider p), ru_note = trim_space (rp_note p), ru_created_at = zero_time\<rparr>
        in (Inr rule, upsert_routing_rule now rule t))"

definition patch_routing_rule ::
  "go_time \<Rightarrow> string \<Rightarrow> bool option \<Rightarrow> routing_tables \<Rightarrow> (admin_error + routing_rule) \<times> routing_tables" where
  "patch_routing_rule now k enabled t =
     (case find (\<lambda>r. ru_id r = k) (list_routing_rules t) of
        None \<Rightarrow> (admin_fail 404 ''rule not found'' ''rule_not_found'', t)
      | Some rule \<Rightarrow>
          let rule = rule\<lparr>ru_enabled := (case enabled of None \<Rightarrow> ru_enabled rule | Some b \<Rightarrow> b)\<rparr>
          in (Inr rule, upsert_routing_rule now rule t))"

record provider_payload =
  pp_name :: string
  pp_base_url :: string
  pp_api_key :: string
  pp_timeout_ms :: int
  pp_enabled :: "bool option"
  pp_patterns :: string

record routing_conf =
  uc_provider :: string
  uc_base_url :: string
  uc_default_model :: string
  uc_timeout_ms :: int
  uc_encrypt :: "string \<Rightarrow> string option"
  uc_decrypt :: "string \<Rightarrow> string option"
  uc_absolute_url :: "string \<Rightarrow> bool"
  uc_url_error :: "string \<Rightarrow> string option"

definition post_provider ::
  "routing_conf \<Rightarrow> go_time \<Rightarrow> provider_payload \<Rightarrow> routing_tables \<Rightarrow> (admin_error + provider_config) \<times> routing_tables" where
  "post_provider cf now p t =
     (let name = trim_space (pp_name p); base = trim_right_char (CHR ''/'') (trim_space (pp_base_url p))
      in if name = [] \<or> base = [] then (admin_fail 400 ''name and base_url are required'' ''missing_provider_fields'', t)
         else if \<not> uc_absolute_url cf base then (admin_fail 400 ''base_url must be an absolute URL'' ''invalid_base_url'', t)
         else
           let before = (case get_provider name t of None \<Rightarrow> [] | Some q \<Rightarrow> pc_encrypted_key q);
               key = (if trim_space (pp_api_key p) \<noteq> [] then uc_encrypt cf (trim_space (pp_api_key p)) else Some before)
           in case key of
                None \<Rightarrow> (admin_fail 500 [] ''provider_encrypt_failed'', t)
              | Some secret \<Rightarrow>
                  let provider = \<lparr>pc_name = name, pc_base_url = base, pc_encrypted_key = secret,
                        pc_timeout_ms = (if pp_timeout_ms p \<le> 0 then uc_timeout_ms cf else pp_timeout_ms p),
                        pc_enabled = (case pp_enabled p of None \<Rightarrow> True | Some b \<Rightarrow> b),
                        pc_patterns = trim_space (pp_patterns p), pc_created_at = zero_time\<rparr>
                  in (Inr provider, upsert_provider now provider t))"

definition remove_provider :: "string \<Rightarrow> routing_tables \<Rightarrow> (admin_error + unit) \<times> routing_tables" where
  "remove_provider name t =
     (case get_provider name t of
        None \<Rightarrow> (admin_fail 404 (''provider not found: '' @ name) ''provider_not_found'', t)
      | Some _ \<Rightarrow> (Inr (), snd (delete_provider name t)))"

text \<open>Dates of the layout \<open>2006-01-02\<close>: the day at midnight UTC.\<close>

definition parse_day :: "string \<Rightarrow> go_time option" where
  "parse_day s = (if length s = 10 then parse_rfc3339 (s @ ''T00:00:00Z'') else None)"

definition post_model_deprecation ::
  "(string \<Rightarrow> string) \<Rightarrow> string \<Rightarrow> string \<Rightarrow> string \<Rightarrow> string \<Rightarrow> string \<Rightarrow> routing_tables \<Rightarrow>
   (admin_error + model_deprecation) \<times> routing_tables" where
  "post_model_deprecation hash_id now glob replacement sunset message t =
     (if trim_space glob = [] then (admin_fail 400 ''model_glob is required'' ''missing_model_glob'', t)
      else if trim_space sunset \<noteq> [] \<and> parse_day (trim_space sunset) = None
      then (admin_fail 400 ''sunset_date must be YYYY-MM-DD'' ''invalid_sunset_date'', t)
      else
        let (saved, t') = upsert_model_deprecation hash_id now
              \<lparr>md_id = [], md_glob = glob, md_replacement = trim_space replacement, md_sunset = trim_space sunset,
               md_message = trim_space message, md_created_at = [], md_updated_at = []\<rparr> t
        in (Inr saved, t'))"

section \<open>Providers of a model\<close>

text \<open>The first pattern of a provider that matches the lower-cased model.\<close>

definition matching_pattern :: "string \<Rightarrow> provider_config \<Rightarrow> string option" where
  "matching_pattern model p =
     (if pc_patterns p = [] then None
      else find (\<lambda>pat. pat \<noteq> [] \<and> match_glob pat (to_lower (trim_space model)))
             (map (\<lambda>raw. to_lower (trim_space raw)) (split_char (CHR '','') (pc_patterns p))))"

definition providers_for_model :: "routing_tables \<Rightarrow> string \<Rightarrow> string list" where
  "providers_for_model t model =
     (if model = [] then [] else map pc_name (filter (\<lambda>p. matching_pattern model p \<noteq> None) (list_provider_configs t)))"

fun first_match :: "string \<Rightarrow> provider_config list \<Rightarrow> (string \<times> string) option" where
  "first_match model [] = None"
| "first_match model (p # ps) =
     (case matching_pattern model p of Some pat \<Rightarrow> Some (pc_name p, pat) | None \<Rightarrow> first_match model ps)"

definition match_provider_by_model_detail :: "routing_tables \<Rightarrow> string \<Rightarrow> (string \<times> string) option" where
  "match_provider_by_model_detail t model = first_match model (list_provider_configs t)"

record resolved_provider =
  rs_name :: string
  rs_base_url :: string
  rs_api_key :: string
  rs_timeout_ms :: int
  rs_reason :: string
  rs_detail :: string

text \<open>\<open>%q\<close> on names without characters to escape.\<close>

definition quoted :: "string \<Rightarrow> string" where
  "quoted s = CHR 0x22 # s @ [CHR 0x22]"

text \<open>A request whose provider header was set.\<close>

definition with_provider :: "string \<Rightarrow> http_request \<Rightarrow> http_request" where
  "with_provider name r = r\<lparr>rq_headers := (''X-Proxy-Provider'', name) # rq_headers r\<rparr>"

text \<open>The name to resolve, with the reason and its detail.\<close>

definition provider_name :: "routing_conf \<Rightarrow> routing_tables \<Rightarrow> http_request \<Rightarrow> string \<Rightarrow> string \<times> string \<times> string" where
  "provider_name cf t r model =
     (let pinned = trim_space (header r ''X-Proxy-Provider''); asked = trim_space (query r ''provider'')
      in if pinned \<noteq> [] then (pinned, ''header'', ''X-Proxy-Provider'')
         else if asked \<noteq> [] then (asked, ''query'', ''?provider='')
         else case (if model = [] then None else match_provider_by_model_detail t model) of
                Some (name, pat) \<Rightarrow>
                  if name = [] then (uc_provider cf, ''default'', ''UPSTREAM_PROVIDER'') else (name, ''model_pattern'', pat)
              | None \<Rightarrow> (uc_provider cf, ''default'', ''UPSTREAM_PROVIDER''))"

definition select_provider ::
  "routing_conf \<Rightarrow> routing_tables \<Rightarrow> http_request \<Rightarrow> string \<Rightarrow> resolved_provider result" where
  "select_provider cf t r model =
     (let (name, reason, detail) = provider_name cf t r model
      in case get_provider name t of
           None \<Rightarrow> Inl (''provider '' @ quoted name @ '' is not configured'')
         | Some p \<Rightarrow>
             if \<not> pc_enabled p then Inl (''provider '' @ quoted name @ '' is disabled'')
             else (case uc_decrypt cf (pc_encrypted_key p) of
                    None \<Rightarrow> Inl (''provider '' @ quoted name @ '' API key cannot be decrypted'')
                  | Some key \<Rightarrow>
                      if key = [] then Inl (''provider '' @ quoted name @ '' API key is not configured'')
                      else Inr \<lparr>rs_name = pc_name p, rs_base_url = pc_base_url p, rs_api_key = key,
                                rs_timeout_ms = (if pc_timeout_ms p \<le> 0 then uc_timeout_ms cf else pc_timeout_ms p),
                                rs_reason = reason, rs_detail = detail\<rparr>))"

definition select_provider_forced ::
  "routing_conf \<Rightarrow> routing_tables \<Rightarrow> http_request \<Rightarrow> string \<Rightarrow> string \<Rightarrow> resolved_provider result" where
  "select_provider_forced cf t r model force =
     (if trim_space force \<noteq> [] then
        (case select_provider cf t (with_provider force r) model of
           Inl e \<Rightarrow> Inl e
         | Inr rp \<Rightarrow> Inr (rp\<lparr>rs_reason := ''rule_provider'', rs_detail := force\<rparr>))
      else select_provider cf t r model)"

section \<open>Rules\<close>

definition complexity_tier_name :: "int \<Rightarrow> string" where
  "complexity_tier_name c =
     (if 85 \<le> c then ''reasoning'' else if 60 \<le> c then ''complex'' else if 30 \<le> c then ''standard'' else ''simple'')"

definition risk_tier_name :: "int \<Rightarrow> string" where
  "risk_tier_name score =
     (if 80 \<le> score then ''critical'' else if 60 \<le> score then ''high'' else if 30 \<le> score then ''medium'' else ''low'')"

record routing_decision =
  rd_applied :: bool
  rd_original :: string
  rd_model :: string
  rd_provider :: string
  rd_reason :: string

definition no_decision :: routing_decision where
  "no_decision = \<lparr>rd_applied = False, rd_original = [], rd_model = [], rd_provider = [], rd_reason = []\<rparr>"

definition rule_covers :: "string \<Rightarrow> int \<Rightarrow> routing_rule \<Rightarrow> bool" where
  "rule_covers model complexity rule \<longleftrightarrow>
     (let pat = to_lower (trim_space (ru_pattern rule))
      in ru_min rule \<le> complexity \<and> complexity \<le> ru_max rule \<and>
         match_glob (if pat = [] then ''*'' else pat) (to_lower model))"

definition evaluate_routing_rules :: "routing_tables \<Rightarrow> string \<Rightarrow> int \<Rightarrow> routing_decision" where
  "evaluate_routing_rules t model complexity =
     (let model = trim_space model
      in if model = [] then no_decision
         else case find (rule_covers model complexity) (active_routing_rules t) of
                None \<Rightarrow> no_decision
              | Some rule \<Rightarrow>
                  let target = trim_space (ru_model rule)
                  in if target = [] \<or> target = model then no_decision
                     else \<lparr>rd_applied = True, rd_original = model, rd_model = target,
                           rd_provider = trim_space (ru_provider rule), rd_reason = ''complexity_rule''\<rparr>)"

section \<open>The plan\<close>

text \<open>What the analysis of the prompts found.\<close>

record request_signals =
  sg_complexity :: int
  sg_tier :: string
  sg_risk :: int
  sg_categories :: "string list"

definition is_auto_model_alias :: "string \<Rightarrow> bool" where
  "is_auto_model_alias model \<longleftrightarrow>
     to_lower (trim_space model) \<in> {''auto'', ''clustara/auto'', ''vibe/auto'', ''vibe-coders/auto''}"

definition tier_rank :: "string \<Rightarrow> nat" where
  "tier_rank tier =
     (if tier = ''reasoning'' then 3 else if tier = ''complex'' then 2 else if tier = ''standard'' then 1 else 0)"

definition elevated_tier_for_risk :: "string \<Rightarrow> int \<Rightarrow> string" where
  "elevated_tier_for_risk tier risk =
     (if 80 \<le> risk then ''reasoning''
      else if 60 \<le> risk \<and> tier_rank tier < tier_rank ''complex'' then ''complex''
      else if 30 \<le> risk \<and> tier_rank tier < tier_rank ''standard'' then ''standard''
      else tier)"

definition risk_disables_fallback :: "request_signals \<Rightarrow> bool" where
  "risk_disables_fallback sig = list_ex (\<lambda>c. c = ''pii'' \<or> c = ''secret'') (sg_categories sig)"

definition default_auto_model :: "string \<Rightarrow> string" where
  "default_auto_model tier =
     (if tier = ''reasoning'' then ''o3'' else if tier = ''complex'' \<or> tier = ''standard'' then ''gpt-4.1'' else ''gpt-4.1-mini'')"

definition model_allowed :: "caller option \<Rightarrow> string \<Rightarrow> bool" where
  "model_allowed who model =
     (case who of None \<Rightarrow> True | Some c \<Rightarrow> list_allows model (kp_allowed_models (ca_policy c)) (kp_denied_models (ca_policy c)))"

definition provider_allowed :: "caller option \<Rightarrow> string \<Rightarrow> bool" where
  "provider_allowed who name =
     (case who of None \<Rightarrow> True | Some c \<Rightarrow> list_allows name (kp_allowed_providers (ca_policy c)) (kp_denied_providers (ca_policy c)))"

definition tier_models :: "string \<Rightarrow> string list" where
  "tier_models tier =
     (if tier = ''reasoning'' then [''o3'', ''gpt-4.1'', ''gpt-4.1-mini'']
      else if tier = ''complex'' then [''gpt-4.1'', ''o3'', ''gpt-4.1-mini'']
      else if tier = ''standard'' then [''gpt-4.1'', ''gpt-4.1-mini'', ''o3'']
      else [''gpt-4.1-mini'', ''gpt-4.1'', ''o3''])"

definition default_auto_model_for_policy :: "routing_conf \<Rightarrow> string \<Rightarrow> caller option \<Rightarrow> string" where
  "default_auto_model_for_policy cf tier who =
     (let dm = trim_space (uc_default_model cf)
      in case find (model_allowed who) ((if dm = [] then [] else [dm]) @ tier_models tier) of Some m \<Rightarrow> m | None \<Rightarrow> [])"

text \<open>The best of the candidates by health, the first of equals; providers without a record count as healthy.\<close>

definition health_of :: "(string \<Rightarrow> int option) \<Rightarrow> string \<Rightarrow> int" where
  "health_of health name = (case health name of Some h \<Rightarrow> h | None \<Rightarrow> 100)"

fun best_of :: "(string \<Rightarrow> int option) \<Rightarrow> string \<Rightarrow> int \<Rightarrow> string list \<Rightarrow> string \<times> int" where
  "best_of health best score [] = (best, score)"
| "best_of health best score (c # cs) =
     (if score < health_of health c then best_of health c (health_of health c) cs else best_of health best score cs)"

definition best_provider_for_routing_models ::
  "routing_conf \<Rightarrow> (string \<Rightarrow> int option) \<Rightarrow> routing_tables \<Rightarrow> string list \<Rightarrow> caller option \<Rightarrow> string \<times> int" where
  "best_provider_for_routing_models cf health t models who =
     (let found = first_by (\<lambda>c. c) [] (concat (map (providers_for_model t) models));
          candidates = (if found = [] then [uc_provider cf] else found)
      in case filter (provider_allowed who) candidates of
           [] \<Rightarrow> ([], 0)
         | c # cs \<Rightarrow> best_of health c (health_of health c) cs)"

definition health_score_for_provider :: "(string \<Rightarrow> int option) \<Rightarrow> string \<Rightarrow> int" where
  "health_score_for_provider health name = (if name = [] then 100 else health_of health name)"

definition routing_fallback_path :: "routing_tables \<Rightarrow> string \<Rightarrow> string \<Rightarrow> string list" where
  "routing_fallback_path t model selected =
     (case find (\<lambda>c. c \<noteq> selected) (providers_for_model t model) of
        Some c \<Rightarrow> [''429:'' @ c, ''5xx:'' @ c] | None \<Rightarrow> []) @
     [''timeout:lowest-latency-provider'', ''context_overflow:'' @ default_auto_model ''reasoning'']"

record routing_env =
  re_conf :: routing_conf
  re_tables :: routing_tables
  re_health :: "string \<Rightarrow> int option"
  re_learned :: "string option"

definition has_provider_for :: "routing_env \<Rightarrow> string \<Rightarrow> bool" where
  "has_provider_for e m \<longleftrightarrow> trim_space (uc_base_url (re_conf e)) \<noteq> [] \<or> providers_for_model (re_tables e) m \<noteq> []"

text \<open>The model of an alias: the default of the tier, then what was learned when the key allows it.\<close>

definition auto_choice :: "routing_env \<Rightarrow> string \<Rightarrow> caller option \<Rightarrow> string \<Rightarrow> string \<times> string" where
  "auto_choice e tier who model =
     (let candidate = default_auto_model_for_policy (re_conf e) tier who;
          first = (if has_provider_for e candidate then (candidate, ''auto_router'')
                   else if has_provider_for e model then (model, ''auto_router_original'')
                   else (candidate, ''auto_router''))
      in case re_learned e of
           None \<Rightarrow> first
         | Some l \<Rightarrow>
             if l \<noteq> fst first \<and> model_allowed who l \<and> has_provider_for e l then (l, ''auto_router_learned'') else first)"

record routing_plan =
  pl_requested :: string
  pl_model :: string
  pl_provider :: string
  pl_signals :: request_signals
  pl_health :: int
  pl_fallback :: "string list"
  pl_reason :: string
  pl_force :: bool

text \<open>The selected model with its reason, and the provider a rule forces.\<close>

definition routed ::
  "routing_env \<Rightarrow> request_signals \<Rightarrow> bool \<Rightarrow> bool \<Rightarrow> caller option \<Rightarrow> string \<Rightarrow> string \<times> string \<times> string \<times> bool" where
  "routed e sig pinned no_route who model =
     (if no_route then (model, ''client_model'', [], False)
      else if is_auto_model_alias model
      then (let (m, reason) = auto_choice e (elevated_tier_for_risk (sg_tier sig) (sg_risk sig)) who model in (m, reason, [], \<not> pinned))
      else if pinned then (model, ''client_model'', [], False)
      else let d = evaluate_routing_rules (re_tables e) model (sg_complexity sig)
           in if rd_applied d then (rd_model d, rd_reason d, rd_provider d, rd_provider d \<noteq> [])
              else (model, ''client_model'', [], False))"

definition within_model_policy :: "routing_env \<Rightarrow> request_signals \<Rightarrow> caller option \<Rightarrow> string \<Rightarrow> string \<Rightarrow> string" where
  "within_model_policy e sig who model selected =
     (let replacement = default_auto_model_for_policy (re_conf e) (elevated_tier_for_risk (sg_tier sig) (sg_risk sig)) who
      in if who \<noteq> None \<and> is_auto_model_alias model \<and> selected \<noteq> [] \<and> \<not> model_allowed who selected \<and> replacement \<noteq> []
         then replacement else selected)"

definition plan_intelligent_routing ::
  "routing_env \<Rightarrow> request_signals \<Rightarrow> bool \<Rightarrow> bool \<Rightarrow> caller option \<Rightarrow> string \<Rightarrow> routing_plan" where
  "plan_intelligent_routing e sig pinned no_route who model =
     (let (chosen, reason, forced, force) = routed e sig pinned no_route who model;
          selected = within_model_policy e sig who model chosen;
          (provider, health) =
            (if forced \<noteq> [] then (forced, health_score_for_provider (re_health e) forced)
             else if pinned then ([], 100)
             else best_provider_for_routing_models (re_conf e) (re_health e) (re_tables e)
                    (if is_auto_model_alias model then [selected, model] else [selected]) who);
          final = (if selected = [] then model else selected)
      in \<lparr>pl_requested = model, pl_model = final, pl_provider = provider, pl_signals = sig, pl_health = health,
          pl_fallback = (if risk_disables_fallback sig then [''fallback_disabled:sensitive_data'']
                         else routing_fallback_path (re_tables e) final provider),
          pl_reason = reason, pl_force = force\<rparr>)"

section \<open>The routing step\<close>

text \<open>
  A body is the decoded JSON object, \<open>None\<close> when it does not decode; names occur once in it, as after
  decoding.
\<close>

type_synonym body = "any_map option"

definition body_model :: "body \<Rightarrow> string" where
  "body_model body =
     (case body of
        None \<Rightarrow> []
      | Some kvs \<Rightarrow> (case map_of kvs ''model'' of Some (Any_str m) \<Rightarrow> m | _ \<Rightarrow> []))"

definition rewrite_model_field :: "body \<Rightarrow> string \<Rightarrow> body" where
  "rewrite_model_field body model =
     (case body of
        None \<Rightarrow> None
      | Some kvs \<Rightarrow>
          Some (map (\<lambda>(k, v). (k, if k = ''model'' then Any_str model else v)) kvs))"

definition pinned_provider :: "http_request \<Rightarrow> bool" where
  "pinned_provider r \<longleftrightarrow> trim_space (header r ''X-Proxy-Provider'') \<noteq> [] \<or> trim_space (query r ''provider'') \<noteq> []"

definition no_route_requested :: "http_request \<Rightarrow> bool" where
  "no_route_requested r \<longleftrightarrow> equal_fold (trim_space (header r ''X-Proxy-No-Route'')) ''1''"

definition chat_post :: "http_request \<Rightarrow> bool" where
  "chat_post r \<longleftrightarrow> rq_path r = ''/v1/chat/completions'' \<and> rq_method r = ''POST''"

text \<open>The state of the pipeline: the body to send, its model, the decision and the plan.\<close>

record routed_request =
  rr_body :: body
  rr_model :: string
  rr_decision :: routing_decision
  rr_plan :: "routing_plan option"

definition step_routing ::
  "routing_env \<Rightarrow> http_request \<Rightarrow> caller option \<Rightarrow> request_signals \<Rightarrow> body \<Rightarrow> admin_error + routed_request" where
  "step_routing e r who sig body =
     (if \<not> chat_post r then Inr \<lparr>rr_body = body, rr_model = body_model body, rr_decision = no_decision, rr_plan = None\<rparr>
      else
        let pinned = pinned_provider r; no_route = no_route_requested r;
            plan = plan_intelligent_routing e sig pinned no_route who (body_model body);
            rewrite = \<not> no_route \<and> pl_model plan \<noteq> [] \<and> pl_requested plan \<noteq> [] \<and> pl_model plan \<noteq> pl_requested plan \<and>
              (\<not> pinned \<or> is_auto_model_alias (pl_requested plan));
            target = (if \<not> pinned \<and> pl_force plan then pl_provider plan else [])
        in if who \<noteq> None \<and> (pl_model plan = [] \<or> \<not> model_allowed who (pl_model plan))
           then admin_fail 403 ''model is not allowed by auth policy'' ''model_denied''
           else
             let sent = (if rewrite then rewrite_model_field body (pl_model plan) else body)
             in Inr \<lparr>rr_body = sent, rr_model = body_model sent,
                     rr_decision =
                       (if rewrite
                        then \<lparr>rd_applied = True, rd_original = pl_requested plan, rd_model = pl_model plan,
                              rd_provider = target, rd_reason = pl_reason plan\<rparr>
                        else no_decision\<lparr>rd_provider := (if no_route then [] else target)\<rparr>),
                     rr_plan = Some plan\<rparr>)"

section \<open>The deprecation step\<close>

definition match_model_deprecation :: "routing_tables \<Rightarrow> string \<Rightarrow> model_deprecation option" where
  "match_model_deprecation t model =
     (if trim_space model = [] then None
      else find (\<lambda>d. match_glob (to_lower (trim_space (md_glob d))) (to_lower (trim_space model))) (list_model_deprecations t))"

definition sunset_reached :: "string \<Rightarrow> go_time \<Rightarrow> bool" where
  "sunset_reached sunset now \<longleftrightarrow>
     (if trim_space sunset = [] then False
      else case parse_day (trim_space sunset) of None \<Rightarrow> False | Some d \<Rightarrow> d \<le> now)"

definition step_deprecation :: "routing_env \<Rightarrow> go_time \<Rightarrow> http_request \<Rightarrow> routed_request \<Rightarrow> admin_error + routed_request" where
  "step_deprecation e now r q =
     (if rq_method r \<noteq> ''POST'' then Inr q
      else case match_model_deprecation (re_tables e) (rr_model q) of
             None \<Rightarrow> Inr q
           | Some d \<Rightarrow>
               if \<not> sunset_reached (md_sunset d) now then Inr q
               else if md_replacement d = []
               then admin_fail 400 (''model '' @ CHR 0x27 # rr_model q @ CHR 0x27 # '' is retired (sunset '' @ md_sunset d @ '')'') ''model_sunset''
               else Inr (q\<lparr>rr_body := rewrite_model_field (rr_body q) (md_replacement d), rr_model := md_replacement d\<rparr>))"

end
