(* ===== verification/Dispatch.thy ===== *)
theory Dispatch
  imports Routing
begin

text \<open>
  The last step of the pipeline: choice of the provider, failover candidates, and the calls upstream
  (\<open>stepUpstream\<close> of \<open>internal/proxy/pipeline.go\<close>, \<open>dialUpstream\<close> of \<open>server.go\<close>).  The upstream is an
  argument, \<open>send n p body\<close> being the reply to the call number \<open>n\<close>; so are the URL parser and the governance
  check of the provider phase, which may replace body and model.  A result also holds the calls that were made.
\<close>

section \<open>Replies\<close>

datatype upstream_reply = Failed string | Replied nat string

record dial_call =
  dc_provider :: resolved_provider
  dc_body :: body
  dc_reply :: upstream_reply

definition status_fallback_allowed :: "nat \<Rightarrow> bool" where
  "status_fallback_allowed status \<longleftrightarrow> status = 429 \<or> (500 \<le> status \<and> status \<le> 599)"

definition fallback_reason_for_status :: "nat \<Rightarrow> string" where
  "fallback_reason_for_status status =
     (if status = 429 then ''429'' else if 500 \<le> status \<and> status \<le> 599 then ''5xx'' else ''status_'' @ itoa (int status))"

definition fallback_reason_for_error :: "string \<Rightarrow> string" where
  "fallback_reason_for_error err =
     (if contains (to_lower err) ''timeout'' \<or> contains (to_lower err) ''deadline exceeded'' then ''timeout'' else ''transport_error'')"

definition context_overflow_body :: "string \<Rightarrow> bool" where
  "context_overflow_body b =
     contains_any (to_lower b) [''context_length_exceeded'', ''maximum context length'', ''context window'', ''too many tokens'']"

section \<open>The loop\<close>

record dial_state =
  ds_body :: body
  ds_model :: string
  ds_long :: bool
  ds_path :: "string list"
  ds_error :: "string option"
  ds_calls :: "dial_call list"

record dial_result =
  dl_answer :: "string + nat \<times> string"
  dl_provider :: string
  dl_from :: string
  dl_reason :: string
  dl_path :: "string list"
  dl_body :: body
  dl_model :: string
  dl_calls :: "dial_call list"

text \<open>An error, and the answer of attempt \<open>i\<close>.\<close>

definition dial_failed :: "string \<Rightarrow> string \<Rightarrow> dial_state \<Rightarrow> dial_result" where
  "dial_failed err reason s =
     \<lparr>dl_answer = Inl err, dl_provider = [], dl_from = [], dl_reason = reason, dl_path = ds_path s,
      dl_body = ds_body s, dl_model = ds_model s, dl_calls = ds_calls s\<rparr>"

definition dial_answered :: "resolved_provider list \<Rightarrow> nat \<Rightarrow> nat \<Rightarrow> string \<Rightarrow> dial_state \<Rightarrow> dial_result" where
  "dial_answered attempts i status b s =
     \<lparr>dl_answer = Inr (status, b), dl_provider = rs_name (attempts ! i),
      dl_from = (if 0 < i then rs_name (hd attempts) else []),
      dl_reason = (if 0 < i \<and> ds_path s \<noteq> [] then last (ds_path s) else []), dl_path = ds_path s,
      dl_body = ds_body s, dl_model = ds_model s, dl_calls = ds_calls s\<rparr>"

definition hop :: "string \<Rightarrow> resolved_provider list \<Rightarrow> nat \<Rightarrow> string" where
  "hop reason attempts i = reason @ '':'' @ rs_name (attempts ! i) @ ''->'' @ rs_name (attempts ! Suc i)"

definition long_model :: string where
  "long_model = default_auto_model ''reasoning''"

definition to_long_model :: "dial_state \<Rightarrow> dial_state" where
  "to_long_model s =
     s\<lparr>ds_path := ds_path s @ [''context_overflow:'' @ ds_model s @ ''->'' @ long_model],
       ds_body := rewrite_model_field (ds_body s) long_model, ds_model := long_model, ds_long := True\<rparr>"

text \<open>What follows a reply.\<close>

datatype dial_move = Next string | Long | Answer nat string | Lost string

definition move_after :: "dial_state \<Rightarrow> bool \<Rightarrow> upstream_reply \<Rightarrow> dial_move" where
  "move_after s further reply =
     (case reply of
        Failed err \<Rightarrow> Lost err
      | Replied status b \<Rightarrow>
          if status_fallback_allowed status \<and> further then Next (fallback_reason_for_status status)
          else if status = 400 \<and> \<not> ds_long s \<and> context_overflow_body b \<and> long_model \<noteq> ds_model s then Long
          else Answer status b)"

lemma move_after_Long: "move_after s further reply = Long \<Longrightarrow> \<not> ds_long s"
  by (auto simp: move_after_def split: upstream_reply.splits if_splits)

function dial_loop ::
  "routing_conf \<Rightarrow> (nat \<Rightarrow> resolved_provider \<Rightarrow> body \<Rightarrow> upstream_reply) \<Rightarrow> resolved_provider list \<Rightarrow> nat \<Rightarrow>
   dial_state \<Rightarrow> dial_result" where
  "dial_loop cf send attempts i s =
     (if length attempts \<le> i then
        (case ds_error s of
           None \<Rightarrow> dial_failed ''no provider attempts made'' (fallback_reason_for_error ''no provider attempts made'') s
         | Some err \<Rightarrow> dial_failed err (fallback_reason_for_error err) s)
      else
        let p = attempts ! i
        in (case uc_url_error cf (rs_base_url p) of
             Some err \<Rightarrow> dial_failed err [] s
           | None \<Rightarrow>
               let reply = send (length (ds_calls s)) p (ds_body s); further = Suc i < length attempts;
                   made = s\<lparr>ds_calls := ds_calls s @ [\<lparr>dc_provider = p, dc_body = ds_body s, dc_reply = reply\<rparr>]\<rparr>
               in (case move_after s further reply of
                    Next reason \<Rightarrow> dial_loop cf send attempts (Suc i) (made\<lparr>ds_path := ds_path s @ [hop reason attempts i]\<rparr>)
                  | Long \<Rightarrow> dial_loop cf send attempts i (to_long_model made)
                  | Answer status b \<Rightarrow> dial_answered attempts i status b made
                  | Lost err \<Rightarrow>
                      dial_loop cf send attempts (Suc i)
                        (made\<lparr>ds_error := Some err,
                              ds_path := ds_path s @ (if further then [hop (fallback_reason_for_error err) attempts i] else [])\<rparr>))))"
  by pat_completeness auto

termination
  by (relation "measure (\<lambda>(cf, send, attempts, i, s). 2 * (length attempts - i) + (if ds_long s then 0 else 1))")
    (auto simp: to_long_model_def dest: move_after_Long)

declare dial_loop.simps [simp del]

section \<open>The step\<close>

definition dial_attempts ::
  "routing_conf \<Rightarrow> routing_tables \<Rightarrow> http_request \<Rightarrow> resolved_provider \<Rightarrow> string list \<Rightarrow> resolved_provider list" where
  "dial_attempts cf t r primary names =
     primary # List.map_filter (\<lambda>name. case select_provider cf t (with_provider name r) [] of Inl _ \<Rightarrow> None | Inr p \<Rightarrow> Some p) names"

definition dial_upstream ::
  "routing_conf \<Rightarrow> (nat \<Rightarrow> resolved_provider \<Rightarrow> body \<Rightarrow> upstream_reply) \<Rightarrow> routing_tables \<Rightarrow> http_request \<Rightarrow> body \<Rightarrow>
   resolved_provider \<Rightarrow> string list \<Rightarrow> dial_result" where
  "dial_upstream cf send t r body primary names =
     dial_loop cf send (dial_attempts cf t r primary names) 0
       \<lparr>ds_body = body, ds_model = body_model body, ds_long = False, ds_path = [], ds_error = None, ds_calls = []\<rparr>"

definition failover_candidates :: "routing_tables \<Rightarrow> http_request \<Rightarrow> routing_plan option \<Rightarrow> string \<Rightarrow> string \<Rightarrow> string list" where
  "failover_candidates t r plan model provider =
     (let allowed = (case plan of None \<Rightarrow> True | Some pl \<Rightarrow> \<not> risk_disables_fallback (pl_signals pl));
          found = providers_for_model t model
      in if allowed \<and> \<not> pinned_provider r \<and> 1 < length found then filter (\<lambda>name. name \<noteq> provider) found else [])"

definition text2sql_model :: "string \<Rightarrow> bool" where
  "text2sql_model model = has_prefix (to_lower (trim_space model)) ''vibe/text2sql''"

text \<open>\<open>Inr None\<close> when the request is one of Text2SQL, which does not go upstream here.\<close>

definition step_upstream ::
  "routing_env \<Rightarrow> bool \<Rightarrow> (string \<Rightarrow> body \<times> string \<Rightarrow> admin_error + body \<times> string) \<Rightarrow> (nat \<Rightarrow> resolved_provider \<Rightarrow> body \<Rightarrow> upstream_reply) \<Rightarrow>
   http_request \<Rightarrow> caller option \<Rightarrow> routed_request \<Rightarrow> admin_error + dial_result option" where
  "step_upstream e text2sql govern send r who q =
     (let cf = re_conf e; t = re_tables e
      in if text2sql \<and> rq_method r = ''POST'' \<and> text2sql_model (rr_model q) then Inr None
         else case select_provider_forced cf t r (rr_model q) (rd_provider (rr_decision q)) of
                Inl err \<Rightarrow> admin_fail 502 err ''provider_unavailable''
              | Inr p \<Rightarrow>
                  if \<not> provider_allowed who (rs_name p)
                  then admin_fail 403 ''provider is not allowed by auth policy'' ''provider_denied''
                  else (case (if rq_method r = ''POST'' then govern (rs_name p) (rr_body q, rr_model q) else Inr (rr_body q, rr_model q)) of
                         Inl err \<Rightarrow> Inl err
                       | Inr (b, model) \<Rightarrow>
                           Inr (Some (dial_upstream cf send t r b p
                             (failover_candidates t r (rr_plan q) model (rs_name p))))))"

end
