(* ===== verification/RoutingProperties.thy ===== *)
theory RoutingProperties
  imports Dispatch TimeRoundTrip
begin

text \<open>
  What the routing promises: the calls upstream are bounded, go through the attempts in their order and end
  with the answer that is relayed; one provider that answers is enough; and a key with a model policy is
  routed to models of that policy.  The last section shows what the failover and the overflow retry leave
  unchecked.
\<close>

section \<open>The calls\<close>

text \<open>A reply after which the loop goes on.\<close>

definition retry_reply :: "upstream_reply \<Rightarrow> bool" where
  "retry_reply reply =
     (case reply of
        Failed _ \<Rightarrow> True
      | Replied status b \<Rightarrow> status_fallback_allowed status \<or> status = 400 \<and> context_overflow_body b)"

lemma move_cases:
  "move_after s further reply = Next reason \<Longrightarrow> \<exists>st b. reply = Replied st b \<and> status_fallback_allowed st \<and> further"
  "move_after s further reply = Long \<Longrightarrow> \<not> ds_long s \<and> (\<exists>b. reply = Replied 400 b \<and> context_overflow_body b)"
  "move_after s further reply = Lost err \<Longrightarrow> reply = Failed err"
  "move_after s further reply = Answer st b \<Longrightarrow> reply = Replied st b \<and> (status_fallback_allowed st \<longrightarrow> \<not> further)"
  by (auto simp: move_after_def split: upstream_reply.splits if_splits)

definition long_body :: "body \<Rightarrow> body" where
  "long_body b = rewrite_model_field b long_model"

abbreviation call_of :: "resolved_provider \<Rightarrow> body \<Rightarrow> upstream_reply \<Rightarrow> dial_call" where
  "call_of p b reply \<equiv> \<lparr>dc_provider = p, dc_body = b, dc_reply = reply\<rparr>"

text \<open>
  The specification of the loop as a relation: the calls made from attempt \<open>i\<close> on, and the answer.  An attempt
  is left on a failed call or on a fallback status with another attempt behind it; the long context model is
  tried once, on the attempt that overflowed; anything else is the answer.
\<close>

inductive dial_runs ::
  "routing_conf \<Rightarrow> resolved_provider list \<Rightarrow> nat \<Rightarrow> bool \<Rightarrow> body \<Rightarrow> dial_call list \<Rightarrow> string + nat \<times> string \<Rightarrow> bool"
  for cf attempts where
  run_stop: "length attempts \<le> i \<or> uc_url_error cf (rs_base_url (attempts ! i)) \<noteq> None \<Longrightarrow>
    dial_runs cf attempts i long b [] (Inl err)"
| run_lost: "i < length attempts \<Longrightarrow> dial_runs cf attempts (Suc i) long b cs ans \<Longrightarrow>
    dial_runs cf attempts i long b (call_of (attempts ! i) b (Failed err) # cs) ans"
| run_next: "Suc i < length attempts \<Longrightarrow> status_fallback_allowed st \<Longrightarrow> dial_runs cf attempts (Suc i) long b cs ans \<Longrightarrow>
    dial_runs cf attempts i long b (call_of (attempts ! i) b (Replied st msg) # cs) ans"
| run_long: "i < length attempts \<Longrightarrow> context_overflow_body msg \<Longrightarrow> dial_runs cf attempts i True (long_body b) cs ans \<Longrightarrow>
    dial_runs cf attempts i False b (call_of (attempts ! i) b (Replied 400 msg) # cs) ans"
| run_answer: "i < length attempts \<Longrightarrow> status_fallback_allowed st \<longrightarrow> Suc i = length attempts \<Longrightarrow>
    dial_runs cf attempts i long b [call_of (attempts ! i) b (Replied st msg)] (Inr (st, msg))"

text \<open>The loop implements the relation, and reports the provider and the body of its last call.\<close>

definition reports :: "dial_result \<Rightarrow> dial_call list \<Rightarrow> bool" where
  "reports res cs \<longleftrightarrow>
     (\<forall>st msg. dl_answer res = Inr (st, msg) \<longrightarrow>
        cs \<noteq> [] \<and> dl_provider res = rs_name (dc_provider (last cs)) \<and> dl_body res = dc_body (last cs))"

definition sent_by :: "(nat \<Rightarrow> resolved_provider \<Rightarrow> body \<Rightarrow> upstream_reply) \<Rightarrow> dial_call \<Rightarrow> bool" where
  "sent_by send c \<longleftrightarrow> (\<exists>n. dc_reply c = send n (dc_provider c) (dc_body c))"

lemma reports_more: "reports res cs \<Longrightarrow> reports res (c # cs)"
  by (auto simp: reports_def)

lemma dial_loop_runs:
  "\<exists>cs. dl_calls (dial_loop cf send attempts i s) = ds_calls s @ cs \<and> reports (dial_loop cf send attempts i s) cs \<and>
     list_all (sent_by send) cs \<and>
     dial_runs cf attempts i (ds_long s) (ds_body s) cs (dl_answer (dial_loop cf send attempts i s))"
proof (induction cf send attempts i s rule: dial_loop.induct)
  case (1 cf send attempts i s)
  let ?p = "attempts ! i"
  let ?reply = "send (length (ds_calls s)) ?p (ds_body s)"
  let ?further = "Suc i < length attempts"
  let ?made = "s\<lparr>ds_calls := ds_calls s @ [call_of ?p (ds_body s) ?reply]\<rparr>"
  show ?case
  proof (cases "length attempts \<le> i \<or> uc_url_error cf (rs_base_url ?p) \<noteq> None")
    case True
    then have "dl_calls (dial_loop cf send attempts i s) = ds_calls s"
      "\<exists>err. dl_answer (dial_loop cf send attempts i s) = Inl err"
      by (auto simp: dial_loop.simps [of cf send attempts i s] dial_failed_def split: option.split)
    then show ?thesis using run_stop [OF True] by (auto simp: reports_def)
  next
    case False
    then have i: "i < length attempts" and u: "uc_url_error cf (rs_base_url ?p) = None" by auto
    have n: "\<not> length attempts \<le> i" using i by simp
    have loop: "dial_loop cf send attempts i s =
        (case move_after s ?further ?reply of
           Next reason \<Rightarrow> dial_loop cf send attempts (Suc i) (?made\<lparr>ds_path := ds_path s @ [hop reason attempts i]\<rparr>)
         | Long \<Rightarrow> dial_loop cf send attempts i (to_long_model ?made)
         | Answer status b \<Rightarrow> dial_answered attempts i status b ?made
         | Lost err \<Rightarrow> dial_loop cf send attempts (Suc i) (?made\<lparr>ds_error := Some err,
             ds_path := ds_path s @ (if ?further then [hop (fallback_reason_for_error err) attempts i] else [])\<rparr>))"
      using n u by (subst dial_loop.simps) (simp add: Let_def)
    have sent: "sent_by send (call_of ?p (ds_body s) ?reply)" by (auto simp: sent_by_def)
    show ?thesis
    proof (cases "move_after s ?further ?reply")
      case (Next reason)
      obtain st msg where r: "?reply = Replied st msg" "status_fallback_allowed st" ?further
        using move_cases(1) [OF Next] by blast
      show ?thesis
        using 1(1) [OF n refl u refl refl refl Next] run_next [OF r(3,2), of cf "ds_long s" "ds_body s"] sent
        unfolding loop [unfolded Next dial_move.case] r(1) by (auto intro!: reports_more)
    next
      case Long
      obtain msg where r: "?reply = Replied 400 msg" "context_overflow_body msg" "\<not> ds_long s"
        using move_cases(2) [OF Long] by blast
      show ?thesis
        using 1(2) [OF n refl u refl refl refl Long] run_long [OF i r(2), of cf "ds_body s"] r(3) sent
        unfolding loop [unfolded Long dial_move.case] r(1) by (auto simp: to_long_model_def long_body_def intro!: reports_more)
    next
      case (Answer st msg)
      note r = move_cases(4) [OF Answer]
      have "status_fallback_allowed st \<longrightarrow> Suc i = length attempts" using r i by auto
      from run_answer [OF i this, of cf "ds_long s" "ds_body s" msg] show ?thesis
        unfolding loop [unfolded Answer dial_move.case] using r sent by (auto simp: dial_answered_def reports_def)
    next
      case (Lost err)
      show ?thesis
        using 1(3) [OF n refl u refl refl refl Lost] run_lost [OF i, of cf "ds_long s" "ds_body s" _ _ err] move_cases(3) [OF Lost] sent
        unfolding loop [unfolded Lost dial_move.case] by (auto intro!: reports_more)
    qed
  qed
qed

text \<open>What follows from the relation, each by induction on a run.\<close>

lemma runs_bound:
  assumes "dial_runs cf attempts i long b cs ans"
  shows "length cs \<le> (length attempts - i) + (if long then 0 else 1)"
  using assms by induction auto

lemma runs_order:
  assumes "dial_runs cf attempts i long b cs ans"
  shows "\<exists>js. map dc_provider cs = map (nth attempts) js \<and> sorted js \<and> (\<forall>j \<in> set js. i \<le> j \<and> j < length attempts)"
  using assms
proof induction
  case (run_lost i long b cs ans err)
  then obtain js where "map dc_provider cs = map (nth attempts) js" "sorted js" "\<forall>j \<in> set js. Suc i \<le> j \<and> j < length attempts"
    by blast
  then show ?case using run_lost(1) by (intro exI [of _ "i # js"]) auto
next
  case (run_next i st long b cs ans msg)
  then obtain js where "map dc_provider cs = map (nth attempts) js" "sorted js" "\<forall>j \<in> set js. Suc i \<le> j \<and> j < length attempts"
    by blast
  then show ?case using run_next(1) by (intro exI [of _ "i # js"]) auto
next
  case (run_long i msg b cs ans)
  then obtain js where "map dc_provider cs = map (nth attempts) js" "sorted js" "\<forall>j \<in> set js. i \<le> j \<and> j < length attempts"
    by blast
  then show ?case using run_long(1) by (intro exI [of _ "i # js"]) auto
next
  case (run_answer i st long b msg)
  then show ?case by (intro exI [of _ "[i]"]) auto
qed auto

lemma runs_retry:
  assumes "dial_runs cf attempts i long b cs ans"
  shows "\<forall>c \<in> set (butlast cs). retry_reply (dc_reply c)"
  using assms by induction (auto simp: retry_reply_def)

lemma runs_answer:
  assumes "dial_runs cf attempts i long b cs ans"
  shows "case ans of Inl _ \<Rightarrow> \<forall>c \<in> set cs. retry_reply (dc_reply c)
    | Inr (st, msg) \<Rightarrow> cs \<noteq> [] \<and> dc_reply (last cs) = Replied st msg"
  using assms by induction (auto simp: retry_reply_def split: sum.splits)

lemma runs_bodies:
  assumes "dial_runs cf attempts i long b cs ans"
  shows "\<forall>c \<in> set cs. dc_body c = b \<or> \<not> long \<and> dc_body c = long_body b"
  using assms by induction auto


text \<open>A run that ends with an error has tried every attempt.\<close>

lemma runs_error:
  assumes "dial_runs cf attempts i long b cs ans" "\<forall>p \<in> set attempts. uc_url_error cf (rs_base_url p) = None"
    "ans = Inl err" "i \<le> j" "j < length attempts"
  shows "attempts ! j \<in> dc_provider ` set cs"
  using assms
proof induction
  case (run_stop i long b err)
  then show ?case by simp
next
  case (run_lost i long b cs ans err)
  then show ?case by (cases "j = i") auto
next
  case (run_next i st long b cs ans msg)
  then show ?case by (cases "j = i") auto
qed auto

lemma dial_upstream_runs:
  fixes cf send t r b p names defines "res \<equiv> dial_upstream cf send t r b p names"
  shows "reports res (dl_calls res)" "list_all (sent_by send) (dl_calls res)"
    "dial_runs cf (dial_attempts cf t r p names) 0 False b (dl_calls res) (dl_answer res)"
proof -
  obtain s where s: "res = dial_loop cf send (dial_attempts cf t r p names) 0 s"
    "ds_calls s = []" "ds_long s = False" "ds_body s = b"
    by (simp add: res_def dial_upstream_def)
  show "reports res (dl_calls res)" "list_all (sent_by send) (dl_calls res)"
    "dial_runs cf (dial_attempts cf t r p names) 0 False b (dl_calls res) (dl_answer res)"
    using dial_loop_runs [of cf send "dial_attempts cf t r p names" 0 s] unfolding s by auto
qed

lemma length_map_filter: "length (List.map_filter f xs) \<le> length xs"
  by (simp add: List.map_filter_def)

text \<open>
  C22. The calls of one request are bounded: at most one for the chosen provider and each failover candidate, and
  one more for the long context model; they go through the chosen provider and the candidates in this order,
  never back.
\<close>

theorem dial_is_bounded:
  "length (dl_calls (dial_upstream cf send t r b p names)) \<le> length names + 2 \<and>
   (\<exists>js. map dc_provider (dl_calls (dial_upstream cf send t r b p names)) = map (nth (dial_attempts cf t r p names)) js \<and>
      sorted js \<and> list_all (\<lambda>j. j < length (dial_attempts cf t r p names)) js)"
proof -
  have "length (dial_attempts cf t r p names) \<le> length names + 1"
    by (simp add: dial_attempts_def length_map_filter)
  then show ?thesis
    using runs_bound [OF dial_upstream_runs(3), of cf send t r b p names] runs_order [OF dial_upstream_runs(3), of cf send t r b p names]
    by (auto simp: list_all_iff)
qed

text \<open>
  What the client gets is the reply to the last call made, under the name of the provider called and with the
  body sent; every call before it failed, or was answered by a status the gateway does not relay while another
  attempt was left, or overflowed the context.  An error is only returned when every call was of this kind.
  The body is the one of the request, or that body with the long context model.
\<close>

lemma dial_relays_last_reply:
  "let res = dial_upstream cf send t r b p names
   in (case dl_answer res of
         Inl _ \<Rightarrow> list_all (\<lambda>c. retry_reply (dc_reply c)) (dl_calls res)
       | Inr (st, msg) \<Rightarrow> dl_calls res \<noteq> [] \<and> dc_reply (last (dl_calls res)) = Replied st msg \<and>
           dl_provider res = rs_name (dc_provider (last (dl_calls res))) \<and> dl_body res = dc_body (last (dl_calls res))) \<and>
      list_all (\<lambda>c. retry_reply (dc_reply c)) (butlast (dl_calls res)) \<and>
      list_all (\<lambda>c. dc_body c = b \<or> dc_body c = long_body b) (dl_calls res) \<and>
      list_all (sent_by send) (dl_calls res)"
proof -
  note run = dial_upstream_runs [where cf = cf and send = send and t = t and r = r and b = b and p = p and names = names]
  show ?thesis
    using runs_answer [OF run(3)] runs_retry [OF run(3)] runs_bodies [OF run(3)] run(1,2)
    unfolding Let_def by (auto simp: list_all_iff reports_def split: sum.split)
qed

text \<open>
  One provider is enough: when the addresses of the attempts are valid and one of them answers every call
  with a plain status, the request is answered, whatever the others do.
\<close>

lemma one_provider_is_enough:
  assumes "\<forall>q \<in> set (dial_attempts cf t r p names). uc_url_error cf (rs_base_url q) = None"
    and "live \<in> set (dial_attempts cf t r p names)"
    and "\<And>n body. \<exists>st msg. send n live body = Replied st msg \<and> st < 500 \<and> st \<noteq> 429 \<and> st \<noteq> 400"
  shows "\<exists>st msg. dl_answer (dial_upstream cf send t r b p names) = Inr (st, msg)"
proof (cases "dl_answer (dial_upstream cf send t r b p names)")
  case (Inl err)
  note run = dial_upstream_runs [where cf = cf and send = send and t = t and r = r and b = b and p = p and names = names]
  obtain j where j: "j < length (dial_attempts cf t r p names)" "live = dial_attempts cf t r p names ! j"
    using assms(2) by (auto simp: in_set_conv_nth)
  obtain c where c: "c \<in> set (dl_calls (dial_upstream cf send t r b p names))" "dc_provider c = live"
    using runs_error [OF run(3) assms(1) Inl le0 j(1)] j(2) by auto
  then obtain n where "dc_reply c = send n live (dc_body c)"
    using run(2) by (auto simp: list_all_iff sent_by_def)
  moreover have "retry_reply (dc_reply c)"
    using runs_answer [OF run(3), unfolded Inl] c(1) by simp
  ultimately show ?thesis
    using assms(3) [of n "dc_body c"] by (auto simp: retry_reply_def status_fallback_allowed_def)
qed (auto simp: prod_eq_iff)

section \<open>The model\<close>

lemma rewritten_model:
  assumes "body_model b \<noteq> []"
  shows "body_model (rewrite_model_field b m) = m"
proof -
  obtain kvs old where b: "b = Some kvs" "map_of kvs ''model'' = Some (Any_str old)"
    using assms by (auto simp: body_model_def split: option.splits any_val.splits)
  have "map_of (map (\<lambda>(k, v). (k, if k = ''model'' then Any_str m else v)) kvs) ''model'' = Some (Any_str m)"
    using b(2) by (induction kvs) (auto split: if_splits)
  then show ?thesis by (simp add: b(1) rewrite_model_field_def body_model_def)
qed

lemma plan_requested [simp]: "pl_requested (plan_intelligent_routing e sig pinned nr who model) = model"
  by (simp add: plan_intelligent_routing_def Let_def case_prod_beta)

lemma plan_model:
  "pl_model (plan_intelligent_routing e sig pinned nr who model) =
    (let m = within_model_policy e sig who model (fst (routed e sig pinned nr who model)) in if m = [] then model else m)"
  by (simp add: plan_intelligent_routing_def Let_def case_prod_beta)

text \<open>Without an alias, a request that is not routed keeps its model.\<close>

lemma plan_keeps_model:
  assumes "nr \<or> pinned" "\<not> is_auto_model_alias model"
  shows "pl_model (plan_intelligent_routing e sig pinned nr who model) = model"
  using assms by (auto simp: plan_model routed_def within_model_policy_def Let_def)

text \<open>
  C21. A chat request that passes the routing step under a key leaves it with a model, the one its body now names,
  and that model is allowed by the policy of the key: models chosen by the alias, by a rule and by the learning
  loop included.  The one exception is an alias sent with the header that disables routing.
\<close>

theorem routed_model_is_allowed:
  assumes "step_routing e r (Some c) sig body = Inr q" and "chat_post r"
    and "\<not> (no_route_requested r \<and> is_auto_model_alias (body_model body))"
  shows "rr_model q = body_model (rr_body q) \<and> rr_model q \<noteq> [] \<and>
    list_allows (rr_model q) (kp_allowed_models (ca_policy c)) (kp_denied_models (ca_policy c))"
proof -
  let ?m = "body_model body"
  let ?plan = "plan_intelligent_routing e sig (pinned_provider r) (no_route_requested r) (Some c) ?m"
  let ?rewrite = "\<not> no_route_requested r \<and> pl_model ?plan \<noteq> [] \<and> ?m \<noteq> [] \<and> pl_model ?plan \<noteq> ?m \<and>
    (\<not> pinned_provider r \<or> is_auto_model_alias ?m)"
  have ok: "pl_model ?plan \<noteq> []" "model_allowed (Some c) (pl_model ?plan)"
    and q: "rr_body q = (if ?rewrite then rewrite_model_field body (pl_model ?plan) else body)" "rr_model q = body_model (rr_body q)"
    using assms(1,2) by (auto simp: step_routing_def Let_def split: if_splits)
  have "rr_model q = pl_model ?plan"
  proof (cases ?rewrite)
    case True
    then show ?thesis unfolding q(2) q(1) if_P [OF True] by (intro rewritten_model) simp
  next
    case False
    have "?m \<noteq> []"
    proof
      assume m: "?m = []"
      then have "pl_model ?plan = []"
        by (simp add: plan_model routed_def within_model_policy_def evaluate_routing_rules_def no_decision_def
            is_auto_model_alias_def Let_def)
      then show False using ok(1) by simp
    qed
    then have "?m = pl_model ?plan"
      using False ok(1) assms(3) plan_keeps_model [of "no_route_requested r" "pinned_provider r" ?m e sig "Some c"] by auto
    then show ?thesis unfolding q(2) q(1) if_not_P [OF False] by simp
  qed
  then show ?thesis using ok q(2) by (simp add: model_allowed_def)
qed

lemma sunset_date:
  assumes "0 \<le> y" "y \<le> 9999" "1 \<le> mo" "mo \<le> 12" "1 \<le> d" "d \<le> days_in y mo"
    "date = pad_digits 4 y @ ''-'' @ pad_digits 2 mo @ ''-'' @ pad_digits 2 d" "trim_space date = date"
  shows "sunset_reached date now \<longleftrightarrow> days_from_civil y mo d * 86400 * second \<le> now"
proof -
  have z: "pad_digits 2 0 = ''00''" "format_fraction 0 = []" by code_simp+
  have l: "length (pad_digits k x) = k" for k x by (induction k arbitrary: x) simp_all
  have "parse_rfc3339 (date @ ''T00:00:00Z'') = Some (days_from_civil y mo d * 86400 * second)"
    using parse_parts [OF assms(1-6), of 0 0 0 0] by (simp add: assms(7) z)
  moreover have "length date = 10" by (simp add: assms(7) l)
  ultimately have "parse_day date = Some (days_from_civil y mo d * 86400 * second)" "date \<noteq> []"
    by (auto simp: parse_day_def)
  then show ?thesis unfolding sunset_reached_def assms(8) by simp
qed

text \<open>
  Retired models.  From the first instant of the sunset day, UTC, a POST for a model with an entry is refused
  with 400 \<open>model_sunset\<close>, or leaves the step with the replacement in its body; until then it passes unchanged.
\<close>

lemma retired_models_are_not_sent:
  assumes "rq_method r = ''POST''" and "match_model_deprecation (re_tables e) (rr_model q) = Some d"
    and "md_sunset d = pad_digits 4 y @ ''-'' @ pad_digits 2 mo @ ''-'' @ pad_digits 2 day" "trim_space (md_sunset d) = md_sunset d"
    and "0 \<le> y" "y \<le> 9999" "1 \<le> mo" "mo \<le> 12" "1 \<le> day" "day \<le> days_in y mo"
    and "rr_model q = body_model (rr_body q)" "rr_model q \<noteq> []"
  shows "if now < days_from_civil y mo day * 86400 * second then step_deprecation e now r q = Inr q
    else case step_deprecation e now r q of
           Inl err \<Rightarrow> md_replacement d = [] \<and> aerr_status err = 400 \<and> aerr_code err = ''model_sunset''
         | Inr q' \<Rightarrow> md_replacement d \<noteq> [] \<and> rr_model q' = md_replacement d \<and> body_model (rr_body q') = md_replacement d"
  using sunset_date [OF assms(5-10,3,4), of now] assms(1,2,11,12) rewritten_model [of "rr_body q" "md_replacement d"]
  by (auto simp: step_deprecation_def admin_fail_def)

section \<open>The provider\<close>


section \<open>A sample deployment\<close>

definition plain_conf :: routing_conf where
  "plain_conf =
     \<lparr>uc_provider = ''a'', uc_base_url = [], uc_default_model = [], uc_timeout_ms = 1000, uc_encrypt = Some, uc_decrypt = Some,
      uc_absolute_url = (\<lambda>u. True), uc_url_error = (\<lambda>u. None)\<rparr>"

definition provider_row :: "string \<Rightarrow> provider_config" where
  "provider_row name =
     \<lparr>pc_name = name, pc_base_url = ''http://h'', pc_encrypted_key = ''k'', pc_timeout_ms = 0, pc_enabled = True,
      pc_patterns = ''gpt-*'', pc_created_at = 0\<rparr>"

definition old_model :: model_deprecation where
  "old_model = \<lparr>md_id = ''d'', md_glob = ''gpt-3'', md_replacement = ''o3'', md_sunset = ''2024-06-01'', md_message = [],
     md_created_at = [], md_updated_at = []\<rparr>"

definition two_providers :: routing_env where
  "two_providers =
     \<lparr>re_conf = plain_conf,
      re_tables = \<lparr>rg_providers = [provider_row ''b'', provider_row ''a''], rg_rules = [], rg_deprecations = [old_model]\<rparr>,
      re_health = (\<lambda>name. None), re_learned = None\<rparr>"

definition bound_key :: caller where
  "bound_key = \<lparr>ca_key_id = ''k'', ca_user_id = [], ca_team_id = [], ca_role = [],
     ca_policy = empty_policy\<lparr>kp_allowed_models := [''gpt-*''], kp_allowed_providers := [''a'']\<rparr>\<rparr>"

definition chat_request :: http_request where
  "chat_request = \<lparr>rq_method = ''POST'', rq_path = ''/v1/chat/completions'', rq_headers = [], rq_query = [], rq_remote_addr = []\<rparr>"

definition chat_body :: "string \<Rightarrow> body" where
  "chat_body model = Some [(''model'', Any_str model)]"

definition calm :: request_signals where
  "calm = \<lparr>sg_complexity = 10, sg_tier = ''simple'', sg_risk = 0, sg_categories = []\<rparr>"

text \<open>An upstream whose provider \<open>a\<close> cannot be reached, and one whose models are too small.\<close>

definition a_is_down :: "nat \<Rightarrow> resolved_provider \<Rightarrow> body \<Rightarrow> upstream_reply" where
  "a_is_down n p b = (if rs_name p = ''a'' then Failed ''connection refused'' else Replied 200 ''ok'')"

definition too_small :: "nat \<Rightarrow> resolved_provider \<Rightarrow> body \<Rightarrow> upstream_reply" where
  "too_small n p b = (if body_model b = ''o3'' then Replied 200 ''ok'' else Replied 400 ''maximum context length'')"

definition routed_chat :: "http_request \<Rightarrow> string \<Rightarrow> admin_error + routed_request" where
  "routed_chat r model = step_routing two_providers r (Some bound_key) calm (chat_body model)"

definition sent_chat :: "(nat \<Rightarrow> resolved_provider \<Rightarrow> body \<Rightarrow> upstream_reply) \<Rightarrow> string \<Rightarrow> (string \<times> string) option" where
  "sent_chat send model =
     (case routed_chat chat_request model of
        Inl _ \<Rightarrow> None
      | Inr q \<Rightarrow>
          (case step_upstream two_providers False (\<lambda>name bm. Inr bm) send chat_request (Some bound_key) q of
             Inr (Some res) \<Rightarrow> Some (dl_provider res, dl_model res) | _ \<Rightarrow> None))"

text \<open>
  Four ways past the policy of a key that may use provider \<open>a\<close> and models \<open>gpt-*\<close> only: a failed call goes on to
  provider \<open>b\<close>, an overflow is retried with \<open>o3\<close>, a retired model is replaced by \<open>o3\<close>, and an alias sent with
  the header against routing goes upstream as it is; on another endpoint the model is not checked at all.
\<close>

lemma routing_policy_gaps:
  "sent_chat a_is_down ''gpt-4'' = Some (''b'', ''gpt-4'') \<and> \<not> provider_allowed (Some bound_key) ''b'' \<and>
   sent_chat too_small ''gpt-4'' = Some (''a'', ''o3'') \<and> \<not> model_allowed (Some bound_key) ''o3'' \<and>
   (case routed_chat chat_request ''gpt-3'' of
      Inr q \<Rightarrow> (case step_deprecation two_providers (1800000000 * second) chat_request q of Inr q' \<Rightarrow> rr_model q' = ''o3'' | _ \<Rightarrow> False)
    | _ \<Rightarrow> False) \<and>
   (case routed_chat (chat_request\<lparr>rq_headers := [(''X-Proxy-No-Route'', ''1'')]\<rparr>) ''auto'' of
      Inr q \<Rightarrow> rr_model q = ''auto'' \<and> \<not> model_allowed (Some bound_key) ''auto'' | _ \<Rightarrow> False) \<and>
   (case routed_chat (chat_request\<lparr>rq_path := ''/v1/embeddings''\<rparr>) ''o3'' of Inr q \<Rightarrow> rr_model q = ''o3'' | _ \<Rightarrow> False)"
  by code_simp

definition chat_gpt4 :: routed_request where
  "chat_gpt4 = projr (routed_chat chat_request ''gpt-4'')"


lemma chat_facts:
  "isl (routed_chat chat_request ''gpt-4'') = False \<and> chat_post chat_request \<and> \<not> no_route_requested chat_request \<and>
   (case step_upstream two_providers False (\<lambda>name bm. Inr bm) a_is_down (with_provider ''b'' chat_request) None chat_gpt4 of
      Inr (Some res) \<Rightarrow> True | _ \<Rightarrow> False) \<and>
   pinned_provider (with_provider ''b'' chat_request) \<and>
   match_model_deprecation (re_tables two_providers) ''gpt-3'' = Some old_model \<and>
   trim_space (md_sunset old_model) = md_sunset old_model \<and>
   md_sunset old_model = pad_digits 4 2024 @ ''-'' @ pad_digits 2 6 @ ''-'' @ pad_digits 2 1 \<and> 1 \<le> days_in 2024 6 \<and>
   days_from_civil 2024 6 1 * 86400 * second \<le> 1800000000 * second"
  by code_simp

theorem routed_model_is_allowed_witness:
  "list_allows (rr_model chat_gpt4) [''gpt-*''] [] \<and> rr_model chat_gpt4 \<noteq> []"
proof -
  have "step_routing two_providers chat_request (Some bound_key) calm (chat_body ''gpt-4'') = Inr chat_gpt4"
    using chat_facts by (cases "routed_chat chat_request ''gpt-4''") (auto simp: chat_gpt4_def routed_chat_def)
  moreover have "chat_post chat_request" "\<not> (no_route_requested chat_request \<and> is_auto_model_alias (body_model (chat_body ''gpt-4'')))"
    using chat_facts by simp_all
  moreover have "kp_allowed_models (ca_policy bound_key) = [''gpt-*'']" "kp_denied_models (ca_policy bound_key) = []"
    by (simp_all add: bound_key_def empty_policy_def)
  ultimately show ?thesis using routed_model_is_allowed [of two_providers chat_request bound_key calm "chat_body ''gpt-4''" chat_gpt4] by metis
qed


definition gpt3_request :: routed_request where
  "gpt3_request = \<lparr>rr_body = chat_body ''gpt-3'', rr_model = ''gpt-3'', rr_decision = no_decision, rr_plan = None\<rparr>"

end
