(* ===== verification/Quotas.thy ===== *)
theory Quotas
  imports AuthGate TimeRoundTrip
begin

text \<open>
  Token and cost quotas: the table (\<open>internal/store/queries.go\<close>), the usage of a period, the check in
  front of every \<open>/v1\<close> request (\<open>internal/proxy/quota.go\<close>, \<open>stepQuota\<close>), and the administration
  (\<open>admin_quotas.go\<close>).  Periods are days and months of Korean time; costs are exact rationals.
\<close>

section \<open>Periods\<close>

definition seoul_offset :: int where "seoul_offset = 9 * hour"

text \<open>
  \<open>time.Date(y, m, d, 0, 0, 0, 0, seoulZone)\<close>: a day past the end of its month and month 13 are
  normalised, as Go does.
\<close>

definition seoul_date :: "int \<Rightarrow> int \<Rightarrow> int \<Rightarrow> go_time" where
  "seoul_date y m d = days_from_civil y m d * (86400 * second) - seoul_offset"

definition seoul_day :: "go_time \<Rightarrow> int" where
  "seoul_day t = (t + seoul_offset) div (86400 * second)"

definition period_bounds :: "string \<Rightarrow> go_time \<Rightarrow> go_time \<times> go_time" where
  "period_bounds period now =
     (let (y, m, d) = civil_from_days (seoul_day now)
      in if period = ''monthly'' then (seoul_date y m 1, seoul_date y (m + 1) 1)
         else (seoul_date y m d, seoul_date y m (d + 1)))"

definition quota_retry_after_seconds :: "go_time \<Rightarrow> go_time \<Rightarrow> int" where
  "quota_retry_after_seconds now ends = (let d = ends - now in if d \<le> 0 then 1 else go_div d second + 1)"

section \<open>Tables\<close>

record quota =
  qu_id :: string
  qu_scope :: string
  qu_value :: string
  qu_period :: string
  qu_token_limit :: int
  qu_krw_limit :: rat
  qu_enabled :: bool
  qu_note :: string
  qu_created_at :: go_time

text \<open>The columns of \<open>request_logs\<close> and \<open>token_usage\<close> the usage is computed from; times are stored texts.\<close>

record request_log =
  rl_id :: string
  rl_api_key_id :: string
  rl_client_ip :: string
  rl_created_at :: string

record token_usage =
  tu_request_id :: string
  tu_total_tokens :: int
  tu_cost :: rat

record usage_tables =
  us_keys :: "api_key list"
  us_logs :: "request_log list"
  us_usage :: "token_usage list"
  us_quotas :: "quota list"

definition list_quotas :: "usage_tables \<Rightarrow> quota list" where
  "list_quotas t = select_rows (\<lambda>_. True) (order_then (by_key qu_scope) (by_key qu_value)) (us_quotas t)"

definition active_quotas_for :: "string \<Rightarrow> string \<Rightarrow> usage_tables \<Rightarrow> quota list" where
  "active_quotas_for scope v t = filter (\<lambda>q. qu_enabled q \<and> qu_scope q = scope \<and> qu_value q = v) (us_quotas t)"

definition merge_quota :: "quota \<Rightarrow> quota \<Rightarrow> quota" where
  "merge_quota old new = new\<lparr>qu_created_at := qu_created_at old\<rparr>"

definition upsert_quota :: "go_time \<Rightarrow> quota \<Rightarrow> usage_tables \<Rightarrow> usage_tables" where
  "upsert_quota now q t =
     (let q = q\<lparr>qu_created_at := (if qu_created_at q = zero_time then now else qu_created_at q)\<rparr>
      in t\<lparr>us_quotas := upsert_row qu_id merge_quota q (us_quotas t)\<rparr>)"

definition delete_quota :: "string \<Rightarrow> usage_tables \<Rightarrow> usage_tables" where
  "delete_quota k t = t\<lparr>us_quotas := filter (\<lambda>q. qu_id q \<noteq> k) (us_quotas t)\<rparr>"

interpretation quota_table: replacing_store qu_id "find_row qu_id" "upsert_row qu_id merge_quota" merge_quota
  unfolding replacing_store_def replacing_store_axioms_def
  by (auto simp: merge_quota_def intro!: row_store_upsert)

section \<open>Usage\<close>

text \<open>\<open>requestTeamExpr\<close>: the team of the key, or \<open>unassigned\<close>.\<close>

definition request_team :: "usage_tables \<Rightarrow> request_log \<Rightarrow> string" where
  "request_team t l =
     (case get_api_key (rl_api_key_id l) (us_keys t) of
        None \<Rightarrow> ''unassigned''
      | Some k \<Rightarrow> if ak_team k = [] then ''unassigned'' else ak_team k)"

definition in_scope :: "usage_tables \<Rightarrow> string \<Rightarrow> string \<Rightarrow> request_log \<Rightarrow> bool" where
  "in_scope t scope v l \<longleftrightarrow>
     (if scope = ''api_key'' then rl_api_key_id l = v
      else if scope = ''team'' then request_team t l = v
      else if scope = ''ip'' then (if rl_client_ip l = [] then ''unknown'' else rl_client_ip l) = v
      else True)"

text \<open>The rows of the left join for one request.\<close>

definition joined :: "usage_tables \<Rightarrow> request_log \<Rightarrow> (int \<times> rat) list" where
  "joined t l =
     (let us = filter (\<lambda>u. tu_request_id u = rl_id l) (us_usage t)
      in if us = [] then [(0, 0)] else map (\<lambda>u. (tu_total_tokens u, tu_cost u)) us)"

text \<open>Requests, cost and tokens since an instant; the database compares the texts of the times.\<close>

definition usage_since :: "usage_tables \<Rightarrow> string \<Rightarrow> string \<Rightarrow> go_time \<Rightarrow> (int \<times> rat \<times> int) result" where
  "usage_since t scope v since =
     (if scope \<notin> {''api_key'', ''team'', ''ip'', ''global''} then Inl (''unsupported quota scope '' @ scope)
      else
        let rows = concat (map (joined t)
              (filter (\<lambda>l. format_time since \<le> rl_created_at l \<and> in_scope t scope v l) (us_logs t)))
        in Inr (int (length rows), sum_list (map snd rows), sum_list (map fst rows)))"

definition team_for_api_key :: "usage_tables \<Rightarrow> string \<Rightarrow> string" where
  "team_for_api_key t k =
     (if k = [] \<or> k = ''anonymous'' then []
      else case get_api_key k (us_keys t) of None \<Rightarrow> [] | Some r \<Rightarrow> ak_team r)"

section \<open>The check\<close>

record quota_decision =
  qd_reason :: string
  qd_quota :: quota
  qd_tokens :: int
  qd_cost :: rat
  qd_start :: go_time
  qd_end :: go_time

definition judge_quota :: "usage_tables \<Rightarrow> go_time \<Rightarrow> quota \<Rightarrow> quota_decision option result" where
  "judge_quota t now q =
     (let (start, ends) = period_bounds (qu_period q) now
      in case usage_since t (qu_scope q) (qu_value q) start of
           Inl e \<Rightarrow> Inl e
         | Inr (_, cost, tokens) \<Rightarrow>
             let blocked = (\<lambda>why. Some \<lparr>qd_reason = why, qd_quota = q, qd_tokens = tokens, qd_cost = cost,
                   qd_start = start, qd_end = ends\<rparr>)
             in if 0 < qu_token_limit q \<and> qu_token_limit q \<le> tokens then Inr (blocked ''token_limit_exceeded'')
                else if 0 < qu_krw_limit q \<and> qu_krw_limit q \<le> cost then Inr (blocked ''krw_limit_exceeded'')
                else Inr None)"

fun judge_quotas :: "usage_tables \<Rightarrow> go_time \<Rightarrow> quota list \<Rightarrow> quota_decision option result" where
  "judge_quotas t now [] = Inr None"
| "judge_quotas t now (q # qs) =
     (case judge_quota t now q of
        Inl e \<Rightarrow> Inl e
      | Inr (Some d) \<Rightarrow> Inr (Some d)
      | Inr None \<Rightarrow> judge_quotas t now qs)"

definition quota_scopes :: "usage_tables \<Rightarrow> string \<Rightarrow> string \<Rightarrow> (string \<times> string) list" where
  "quota_scopes t key ip =
     (let team = team_for_api_key t key
      in [(''global'', ''*''), (''api_key'', key), (''ip'', ip)] @ (if team = [] then [] else [(''team'', team)]))"

definition check_quotas :: "usage_tables \<Rightarrow> go_time \<Rightarrow> string \<Rightarrow> string \<Rightarrow> quota_decision option result" where
  "check_quotas t now key ip =
     judge_quotas t now
       (concat (map (\<lambda>(scope, v). if v = [] then [] else active_quotas_for scope v t) (quota_scopes t key ip)))"

text \<open>A failed check lets the request pass.\<close>

definition step_quota :: "usage_tables \<Rightarrow> go_time \<Rightarrow> http_request \<Rightarrow> string \<Rightarrow> admin_error + unit" where
  "step_quota t now r key =
     (case check_quotas t now key (client_ip r) of
        Inr (Some d) \<Rightarrow> admin_fail 429 (''quota exceeded: '' @ qd_reason d) (qd_reason d)
      | _ \<Rightarrow> Inr ())"

section \<open>Administration\<close>

record quota_payload =
  qp_scope :: string
  qp_value :: string
  qp_period :: string
  qp_token_limit :: int
  qp_krw_limit :: rat
  qp_enabled :: "bool option"
  qp_note :: string

record quota_patch =
  qt_token_limit :: "int option"
  qt_krw_limit :: "rat option"
  qt_enabled :: "bool option"
  qt_note :: "string option"

definition valid_quota_scopes :: "string list" where
  "valid_quota_scopes = [''api_key'', ''team'', ''ip'', ''global'']"

definition valid_quota_periods :: "string list" where
  "valid_quota_periods = [''daily'', ''monthly'']"

definition post_quota :: "go_time \<Rightarrow> string \<Rightarrow> quota_payload \<Rightarrow> usage_tables \<Rightarrow> (admin_error + quota) \<times> usage_tables" where
  "post_quota now new_id p t =
     (let scope = trim_space (qp_scope p); period = trim_space (qp_period p);
          v = (if scope = ''global'' then ''*'' else trim_space (qp_value p))
      in if scope \<notin> set valid_quota_scopes
         then (admin_fail 400 ''scope must be one of api_key/team/ip/global'' ''invalid_scope'', t)
         else if v = [] then (admin_fail 400 ''scope_value is required'' ''missing_scope_value'', t)
         else if period \<notin> set valid_quota_periods
         then (admin_fail 400 ''period must be daily or monthly'' ''invalid_period'', t)
         else if qp_token_limit p < 0 \<or> qp_krw_limit p < 0
         then (admin_fail 400 ''limits must be non-negative'' ''invalid_limits'', t)
         else if qp_token_limit p = 0 \<and> qp_krw_limit p = 0
         then (admin_fail 400 ''token_limit or krw_limit must be positive'' ''missing_limit'', t)
         else
           let q = \<lparr>qu_id = new_id, qu_scope = scope, qu_value = v, qu_period = period,
                 qu_token_limit = qp_token_limit p, qu_krw_limit = qp_krw_limit p,
                 qu_enabled = (case qp_enabled p of None \<Rightarrow> True | Some b \<Rightarrow> b),
                 qu_note = trim_space (qp_note p), qu_created_at = zero_time\<rparr>
           in (Inr q, upsert_quota now q t))"

definition patched_quota :: "quota_patch \<Rightarrow> quota \<Rightarrow> quota" where
  "patched_quota p q =
     q\<lparr>qu_token_limit := (case qt_token_limit p of None \<Rightarrow> qu_token_limit q | Some n \<Rightarrow> n),
       qu_krw_limit := (case qt_krw_limit p of None \<Rightarrow> qu_krw_limit q | Some n \<Rightarrow> n),
       qu_enabled := (case qt_enabled p of None \<Rightarrow> qu_enabled q | Some b \<Rightarrow> b),
       qu_note := (case qt_note p of None \<Rightarrow> qu_note q | Some n \<Rightarrow> trim_space n), qu_created_at := zero_time\<rparr>"

definition valid_quota_id :: "string \<Rightarrow> bool" where
  "valid_quota_id k \<longleftrightarrow> k \<noteq> [] \<and> CHR ''/'' \<notin> set k"

definition patch_quota ::
  "go_time \<Rightarrow> string \<Rightarrow> quota_patch \<Rightarrow> usage_tables \<Rightarrow> (admin_error + quota) \<times> usage_tables" where
  "patch_quota now k p t =
     (if \<not> valid_quota_id k then (admin_fail 400 ''invalid quota id'' ''invalid_quota_id'', t)
      else case find (\<lambda>q. qu_id q = k) (list_quotas t) of
             None \<Rightarrow> (admin_fail 404 ''quota not found'' ''quota_not_found'', t)
           | Some q \<Rightarrow>
               let q = patched_quota p q
               in if qu_token_limit q < 0 \<or> qu_krw_limit q < 0
                  then (admin_fail 400 ''limits must be non-negative'' ''invalid_limits'', t)
                  else (Inr q, upsert_quota now q t))"

definition remove_quota :: "string \<Rightarrow> usage_tables \<Rightarrow> (admin_error + unit) \<times> usage_tables" where
  "remove_quota k t =
     (if \<not> valid_quota_id k then (admin_fail 400 ''invalid quota id'' ''invalid_quota_id'', t)
      else (Inr (), delete_quota k t))"

end
