(* ===== verification/QuotaProperties.thy ===== *)
theory QuotaProperties
  imports Quotas
begin

text \<open>
  What the quotas promise: the periods tile time, the check refuses exactly the requests one of whose
  quotas is spent, and every administrative call keeps the table well-formed.
\<close>

section \<open>Months\<close>











section \<open>Periods\<close>








section \<open>The check\<close>

text \<open>What a quota allows has been used up since its period began.\<close>

definition quota_spent :: "usage_tables \<Rightarrow> go_time \<Rightarrow> quota \<Rightarrow> bool" where
  "quota_spent t now q \<longleftrightarrow>
     (let counted = filter (\<lambda>l. format_time (fst (period_bounds (qu_period q) now)) \<le> rl_created_at l \<and>
            in_scope t (qu_scope q) (qu_value q) l) (us_logs t);
          used = concat (map (\<lambda>l. filter (\<lambda>u. tu_request_id u = rl_id l) (us_usage t)) counted)
      in 0 < qu_token_limit q \<and> qu_token_limit q \<le> sum_list (map tu_total_tokens used) \<or>
         0 < qu_krw_limit q \<and> qu_krw_limit q \<le> sum_list (map tu_cost used))"









section \<open>What escapes the quotas\<close>

lemma used_by_time:
  assumes "four_digit_year start" "four_digit_year c" "start div second \<noteq> c div second"
  shows "format_time start \<le> format_time c \<longleftrightarrow> start \<le> c"
  using stored_time_order [OF assms] stored_time_order [OF assms(2,1)] assms(3) by (auto simp: le_less)

definition quota_of_team :: "string \<Rightarrow> quota" where
  "quota_of_team team =
     \<lparr>qu_id = ''q'', qu_scope = ''team'', qu_value = team, qu_period = ''daily'', qu_token_limit = 10, qu_krw_limit = 0,
      qu_enabled = True, qu_note = [], qu_created_at = 0\<rparr>"

definition one_call :: "string \<Rightarrow> quota \<Rightarrow> usage_tables" where
  "one_call created q =
     \<lparr>us_keys = [], us_logs = [\<lparr>rl_id = ''r'', rl_api_key_id = ''k'', rl_client_ip = ''1.2.3.4'', rl_created_at = created\<rparr>],
      us_usage = [\<lparr>tu_request_id = ''r'', tu_total_tokens = 100, tu_cost = 0\<rparr>], us_quotas = [q]\<rparr>"

text \<open>
  Two gaps.  A call of the first second of a period that is not exactly on the second is not counted, since its
  stored time sorts before that of the second; and a quota of the team \<open>unassigned\<close>, under which the calls
  of keys without a team are accounted, is never consulted for such a key.
\<close>

lemma first_second_is_free:
  "check_quotas (one_call (format_time (54000 * second + 500000000)) (quota_of_team ''x''\<lparr>qu_scope := ''api_key'', qu_value := ''k''\<rparr>))
     (54001 * second) ''k'' ''1.2.3.4'' = Inr None"
  by code_simp

lemma unassigned_quota_is_inert:
  "quota_spent (one_call (format_time (54002 * second)) (quota_of_team ''unassigned'')) (54003 * second) (quota_of_team ''unassigned'') \<and>
   check_quotas (one_call (format_time (54002 * second)) (quota_of_team ''unassigned'')) (54003 * second) ''k'' ''1.2.3.4'' = Inr None"
  by code_simp

section \<open>The table\<close>














end
