(* ===== verification/Skills.thy ===== *)
theory Skills
  imports PromptSignals
begin

text \<open>
  Skills: reusable instructions with a lifecycle and a policy.  The tables (\<open>internal/store/skills.go\<close>,
  \<open>skill_fitness.go\<close>), their administration with the promotion gates (\<open>internal/proxy/admin_skills.go\<close>,
  \<open>admin_skill_fitness.go\<close>, \<open>skill_scan.go\<close>), and the step of the pipeline that applies a skill to a request
  (\<open>skill_enforce.go\<close>).  The secret patterns and the JSON parser are arguments.
\<close>

section \<open>Request bodies\<close>

text \<open>
  A body as the steps decode it: not a JSON object (or empty); \<open>null\<close>, which decodes into a nil map; an
  object; an object with a number beyond \<open>float64\<close>, which decodes into a structure without that member but not
  into a map.
\<close>

datatype payload = Malformed | Null_body | Object any_map | Huge any_map

text \<open>What a \<open>map[string]any\<close> receives; \<open>None\<close> when the decoding fails or leaves a nil map.\<close>

definition body_of :: "payload \<Rightarrow> body" where
  "body_of p = (case p of Object m \<Rightarrow> Some m | _ \<Rightarrow> None)"

definition with_body :: "payload \<Rightarrow> body \<Rightarrow> payload" where
  "with_body p b = (case b of None \<Rightarrow> p | Some m \<Rightarrow> Object m)"

text \<open>The members a structure sees: those of an object, whatever the numbers.\<close>

definition object_members :: "payload \<Rightarrow> any_map option" where
  "object_members p = (case p of Object m \<Rightarrow> Some m | Huge m \<Rightarrow> Some m | Null_body \<Rightarrow> Some [] | Malformed \<Rightarrow> None)"

text \<open>The values decoded into a structure field: its name is matched without regard to letter case.\<close>

definition field_values :: "string \<Rightarrow> any_map \<Rightarrow> any_val list" where
  "field_values name m = map snd (filter (\<lambda>(k, _). to_lower k = name) m)"

text \<open>A string field: its last string; any other value but \<open>null\<close> is a type error.\<close>

definition decode_string :: "string \<Rightarrow> any_map \<Rightarrow> string option" where
  "decode_string name m =
     (let vs = filter (\<lambda>v. v \<noteq> Any_null) (field_values name m)
      in if list_all (\<lambda>v. case v of Any_str _ \<Rightarrow> True | _ \<Rightarrow> False) vs
         then Some (case vs of [] \<Rightarrow> [] | _ \<Rightarrow> (case last vs of Any_str s \<Rightarrow> s | _ \<Rightarrow> []))
         else None)"

text \<open>A list field: \<open>null\<close> empties it.\<close>

definition decode_list :: "string \<Rightarrow> any_map \<Rightarrow> any_val list option" where
  "decode_list name m =
     (let vs = field_values name m
      in if list_all (\<lambda>v. case v of Any_list _ \<Rightarrow> True | Any_null \<Rightarrow> True | _ \<Rightarrow> False) vs
         then Some (case vs of [] \<Rightarrow> [] | _ \<Rightarrow> (case last vs of Any_list xs \<Rightarrow> xs | _ \<Rightarrow> []))
         else None)"

definition decode_object :: "any_val \<Rightarrow> any_map option" where
  "decode_object v = (case v of Any_obj m \<Rightarrow> Some m | Any_null \<Rightarrow> Some [] | _ \<Rightarrow> None)"

text \<open>The first error of a list of decodings decides.\<close>

fun decode_all :: "('a \<Rightarrow> 'b option) \<Rightarrow> 'a list \<Rightarrow> 'b list option" where
  "decode_all f [] = Some []"
| "decode_all f (x # xs) =
     (case f x of None \<Rightarrow> None | Some y \<Rightarrow> (case decode_all f xs of None \<Rightarrow> None | Some ys \<Rightarrow> Some (y # ys)))"

text \<open>The names of a tool: of its function object, and its own.\<close>

definition tool_names :: "any_val \<Rightarrow> string list option" where
  "tool_names v = do {
     m \<leftarrow> decode_object v;
     fs \<leftarrow> decode_all decode_object (field_values ''function'' m);
     inner \<leftarrow> decode_string ''name'' (concat fs);
     own \<leftarrow> decode_string ''name'' m;
     Some [inner, own]
   }"

definition function_names :: "any_val \<Rightarrow> string list option" where
  "function_names v = do { m \<leftarrow> decode_object v; own \<leftarrow> decode_string ''name'' m; Some [own] }"

definition parse_request_tool_names :: "payload \<Rightarrow> string list" where
  "parse_request_tool_names p =
     (case (do {
        m \<leftarrow> object_members p;
        tools \<leftarrow> decode_list ''tools'' m;
        functions \<leftarrow> decode_list ''functions'' m;
        ts \<leftarrow> decode_all tool_names tools;
        fs \<leftarrow> decode_all function_names functions;
        Some (concat ts @ concat fs)
      }) of
        None \<Rightarrow> []
      | Some names \<Rightarrow> first_by (\<lambda>n. n) [] (filter (\<lambda>n. n \<noteq> []) (map trim_space names)))"

definition put_member :: "string \<Rightarrow> any_val \<Rightarrow> any_map \<Rightarrow> any_map" where
  "put_member k v m =
     (if list_ex (\<lambda>(k', _). k' = k) m then map (\<lambda>(k', v'). (k', if k' = k then v else v')) m else m @ [(k, v)])"

definition inject_skill_instructions :: "payload \<Rightarrow> string \<Rightarrow> payload option" where
  "inject_skill_instructions p raw =
     (let instructions = trim_space raw
      in if instructions = [] then None
         else case p of
                Object m \<Rightarrow>
                  (case map_of m ''messages'' of
                     Some (Any_list msgs) \<Rightarrow>
                       Some (Object (put_member ''messages''
                         (Any_list (Any_obj [(''role'', Any_str ''system''),
                            (''content'', Any_str (''[Skill instructions]'' @ [char_of (10 :: nat)] @ instructions))] # msgs)) m))
                   | _ \<Rightarrow> None)
              | _ \<Rightarrow> None)"

section \<open>Tables\<close>

record skill =
  sk_name :: string
  sk_description :: string
  sk_version :: string
  sk_owner :: string
  sk_status :: string
  sk_risk :: string
  sk_models :: string
  sk_tools :: string
  sk_teams :: string
  sk_daily_limit :: int
  sk_instructions :: string
  sk_metadata :: string
  sk_created_at :: string
  sk_updated_at :: string
  sk_updated_by :: string

record skill_run =
  sr_skill :: string
  sr_version :: string
  sr_actor :: string
  sr_tools :: string
  sr_model :: string
  sr_status :: string
  sr_cost :: rat
  sr_latency :: int
  sr_created_at :: string

record skill_promotion =
  sp_skill :: string
  sp_from :: string
  sp_to :: string
  sp_from_version :: string
  sp_to_version :: string
  sp_actor :: string
  sp_note :: string
  sp_created_at :: string

record skill_evidence =
  se_skill :: string
  se_kind :: string
  se_ref :: string
  se_passed :: bool
  se_score :: rat
  se_note :: string
  se_by :: string
  se_created :: string

record skill_tables =
  st_skills :: "skill list"
  st_runs :: "skill_run list"
  st_promotions :: "skill_promotion list"
  st_evidence :: "skill_evidence list"

definition normalize_skill :: "skill \<Rightarrow> skill" where
  "normalize_skill sk =
     sk\<lparr>sk_version := (if trim_space (sk_version sk) = [] then ''0.1.0'' else sk_version sk),
        sk_status := (if trim_space (sk_status sk) = [] then ''draft'' else sk_status sk),
        sk_risk := (if trim_space (sk_risk sk) = [] then ''low'' else sk_risk sk),
        sk_metadata := (if trim_space (sk_metadata sk) = [] then ''{}'' else sk_metadata sk)\<rparr>"

definition get_skill :: "string \<Rightarrow> skill_tables \<Rightarrow> skill option" where
  "get_skill name t = find_row sk_name (st_skills t) name"

definition list_skills :: "string \<Rightarrow> skill_tables \<Rightarrow> skill list" where
  "list_skills status t = select_rows (\<lambda>sk. status = [] \<or> sk_status sk = status) (by_key sk_name) (st_skills t)"

definition merge_skill :: "skill \<Rightarrow> skill \<Rightarrow> skill" where
  "merge_skill old new = new\<lparr>sk_created_at := sk_created_at old\<rparr>"

definition upsert_skill :: "go_time \<Rightarrow> skill \<Rightarrow> string \<Rightarrow> skill_tables \<Rightarrow> skill \<times> skill_tables" where
  "upsert_skill now raw by_user t =
     (let sk = normalize_skill raw;
          sk = sk\<lparr>sk_updated_at := format_time now, sk_updated_by := by_user\<rparr>;
          sk = sk\<lparr>sk_created_at :=
                 (case get_skill (sk_name sk) t of None \<Rightarrow> format_time now | Some old \<Rightarrow> sk_created_at old)\<rparr>
      in (sk, t\<lparr>st_skills := upsert_row sk_name merge_skill sk (st_skills t)\<rparr>))"

definition delete_skill :: "string \<Rightarrow> skill_tables \<Rightarrow> skill_tables" where
  "delete_skill name t = t\<lparr>st_skills := filter (\<lambda>sk. sk_name sk \<noteq> name) (st_skills t)\<rparr>"

definition record_skill_run_row :: "go_time \<Rightarrow> skill_run \<Rightarrow> skill_tables \<Rightarrow> skill_tables" where
  "record_skill_run_row now run t =
     t\<lparr>st_runs := st_runs t @ [run\<lparr>sr_created_at := (if trim_space (sr_created_at run) = [] then format_time now
                                                       else sr_created_at run)\<rparr>]\<rparr>"

definition add_skill_evidence :: "go_time \<Rightarrow> skill_evidence \<Rightarrow> skill_tables \<Rightarrow> skill_tables" where
  "add_skill_evidence now e t = t\<lparr>st_evidence := st_evidence t @ [e\<lparr>se_created := format_time now\<rparr>]\<rparr>"

definition count_passing_evidence :: "string \<Rightarrow> skill_tables \<Rightarrow> int" where
  "count_passing_evidence name t = int (length (filter (\<lambda>e. se_skill e = name \<and> se_passed e) (st_evidence t)))"

definition count_skill_runs_since :: "string \<Rightarrow> go_time \<Rightarrow> string list \<Rightarrow> skill_tables \<Rightarrow> int" where
  "count_skill_runs_since name since statuses t =
     int (length (filter (\<lambda>x. sr_skill x = name \<and> format_time since \<le> sr_created_at x \<and>
       (statuses = [] \<or> sr_status x \<in> set statuses)) (st_runs t)))"

text \<open>\<open>None\<close>: no such skill.  The two writes are one transaction.\<close>

definition promote_skill ::
  "go_time \<Rightarrow> string \<Rightarrow> string \<Rightarrow> string \<Rightarrow> string \<Rightarrow> string \<Rightarrow> skill_tables \<Rightarrow> skill option \<times> skill_tables" where
  "promote_skill now name to_status to_version actor note t =
     (case get_skill name t of
        None \<Rightarrow> (None, t)
      | Some cur \<Rightarrow>
          let version = (if trim_space to_version = [] then sk_version cur else trim_space to_version);
              move = (\<lambda>sk. sk\<lparr>sk_status := to_status, sk_version := version, sk_updated_at := format_time now,
                               sk_updated_by := actor\<rparr>)
          in (Some (move cur),
              t\<lparr>st_skills := map (\<lambda>sk. if sk_name sk = name then move sk else sk) (st_skills t),
                st_promotions := st_promotions t @
                  [\<lparr>sp_skill = name, sp_from = sk_status cur, sp_to = to_status, sp_from_version = sk_version cur,
                    sp_to_version = version, sp_actor = actor, sp_note = note, sp_created_at = format_time now\<rparr>]\<rparr>))"

interpretation skill_table: replacing_store sk_name "find_row sk_name" "upsert_row sk_name merge_skill" merge_skill
  unfolding replacing_store_def replacing_store_axioms_def
  by (auto simp: merge_skill_def intro!: row_store_upsert)

section \<open>Security scan\<close>

text \<open>The types of the secrets found in a text, whether a text is JSON, and the object it decodes into.\<close>

record skill_env =
  sv_secret_types :: "string \<Rightarrow> string list"
  sv_valid_json :: "string \<Rightarrow> bool"
  sv_decode :: "string \<Rightarrow> payload"

definition destructive_skill_patterns :: "string list" where
  "destructive_skill_patterns =
     [''rm -rf'', ''drop table'', ''drop database'', ''truncate table'', ''delete from '', ''shutdown'', ''mkfs'',
      ''format c:'', '':(){:|:&};:'', ''curl http'', ''wget http'', ''| bash'', ''| sh'', ''sudo '', ''chmod 777'',
      ''git push --force'', ''force push'']"

text \<open>Severity and category of each finding; the details are only shown.\<close>

definition severity_rank :: "string \<Rightarrow> nat" where
  "severity_rank s = (if s = ''high'' then 0 else if s = ''medium'' then 1 else if s = ''low'' then 2 else 0)"

definition scan_skill_security :: "skill_env \<Rightarrow> skill \<Rightarrow> (string \<times> string) list" where
  "scan_skill_security v sk =
     (let noted = (\<lambda>hit severity category. if hit then [(severity, category)] else [])
      in slice_stable (order_then (by_key (\<lambda>f. severity_rank (fst f))) (by_key snd))
           (map (\<lambda>_. (''high'', ''embedded_secret''))
              (first_by (\<lambda>x. x) [] (sv_secret_types v (sk_instructions sk @ [char_of (10 :: nat)] @ sk_metadata sk))) @
            noted (fst (detect_prompt_injection (sk_instructions sk)) \<noteq> []) ''high'' ''prompt_injection'' @
            noted (contains_any (to_lower (sk_instructions sk)) destructive_skill_patterns) ''medium'' ''destructive_instruction'' @
            noted (sk_risk sk = ''high'' \<and> trim_space (sk_tools sk) = []) ''medium'' ''unrestricted_tools'' @
            noted (sk_risk sk = ''high'' \<and> trim_space (sk_models sk) = []) ''low'' ''unrestricted_models'' @
            noted (sk_status sk = ''production'' \<and> trim_space (sk_instructions sk) = []) ''medium'' ''missing_instructions''))"

definition high_count :: "(string \<times> string) list \<Rightarrow> nat" where
  "high_count findings = length (filter (\<lambda>f. fst f = ''high'') findings)"

section \<open>Promotion\<close>

definition valid_skill_status :: "string list" where
  "valid_skill_status = [''draft'', ''staging'', ''production'', ''deprecated'']"

definition valid_skill_risk :: "string list" where
  "valid_skill_risk = [''low'', ''medium'', ''high'']"

definition skill_transition :: "string \<Rightarrow> string list" where
  "skill_transition from_status =
     (if from_status = ''draft'' then [''staging'', ''deprecated'']
      else if from_status = ''staging'' then [''production'', ''draft'', ''deprecated'']
      else if from_status = ''production'' then [''staging'', ''deprecated'']
      else if from_status = ''deprecated'' then [''staging'', ''draft''] else [])"

text \<open>The labels of \<open>productionPolicyChecks\<close> that are not satisfied, all of them required.\<close>

definition missing_production_policies :: "skill \<Rightarrow> string list" where
  "missing_production_policies sk = map fst (filter (\<lambda>(_, ok). \<not> ok)
     [(utf8 [236, 167, 128, 236, 185, 168, 40, 105, 110, 115, 116, 114, 117, 99, 116, 105, 111, 110, 115,
           41],
       trim_space (sk_instructions sk) \<noteq> []),
      (utf8 [237, 151, 136, 236, 154, 169, 32, 235, 170, 168, 235, 141, 184, 40, 97, 108, 108, 111, 119,
           101, 100, 95, 109, 111, 100, 101, 108, 115, 41],
       trim_space (sk_models sk) \<noteq> []),
      (utf8 [237, 151, 136, 236, 154, 169, 32, 235, 143, 132, 234, 181, 172, 40, 97, 108, 108, 111, 119,
           101, 100, 95, 116, 111, 111, 108, 115, 41],
       trim_space (sk_tools sk) \<noteq> []),
      (utf8 [237, 151, 136, 236, 154, 169, 32, 237, 140, 128, 40, 97, 108, 108, 111, 119, 101, 100, 95, 116,
           101, 97, 109, 115, 41],
       trim_space (sk_teams sk) \<noteq> []),
      (utf8 [236, 157, 188, 236, 157, 188, 32, 237, 149, 156, 235, 143, 132, 40, 100, 97, 105, 108, 121, 95,
           108, 105, 109, 105, 116, 41],
       0 < sk_daily_limit sk)])"

text \<open>The reason a transition is refused.\<close>

definition skill_promotion_gate :: "skill \<Rightarrow> string \<Rightarrow> string \<Rightarrow> string option" where
  "skill_promotion_gate sk to_status note =
     (let from_status = (if trim_space (sk_status sk) = [] then ''draft'' else trim_space (sk_status sk))
      in if from_status = to_status then Some (''skill is already in status '' @ CHR 0x27 # to_status @ [CHR 0x27])
         else if to_status \<notin> set (skill_transition from_status)
         then Some (''transition '' @ from_status @ '' '' @ utf8 [226, 134, 146] @ '' '' @ to_status @ '' is not allowed'')
         else if to_status \<noteq> ''production'' then None
         else if trim_space (sk_instructions sk) = [] then Some ''a production skill must have non-empty instructions''
         else if missing_production_policies sk \<noteq> []
         then Some (utf8 [237, 148, 132, 235, 161, 156, 235, 141, 149, 236, 133, 152, 32, 236, 160, 132, 237, 153,
                 152, 32, 236, 160, 132, 32, 237, 149, 132, 236, 136, 152, 32, 237, 149, 173, 235, 170, 169, 32,
                 235, 136, 132, 235, 157, 189, 58, 32] @
                join '', '' (missing_production_policies sk))
         else if sk_risk sk = ''high'' \<and> trim_space note = []
         then Some ''high-risk skills require a justification note to reach production''
         else None)"

definition model_fitness_required :: "skill_env \<Rightarrow> skill \<Rightarrow> bool" where
  "model_fitness_required v sk \<longleftrightarrow>
     equal_fold (sk_risk sk) ''high'' \<or>
     trim_space (sk_metadata sk) \<noteq> [] \<and>
       (case body_of (sv_decode v (sk_metadata sk)) of
          None \<Rightarrow> False
        | Some m \<Rightarrow> (case map_of m ''require_model_fitness'' of
                       Some (Any_bool b) \<Rightarrow> b | Some (Any_str s) \<Rightarrow> equal_fold s ''true'' | _ \<Rightarrow> False))"

definition skill_fitness_min_evidence :: int where "skill_fitness_min_evidence = 2"

text \<open>Whether the fitness gate refuses.\<close>

definition model_fitness_gate :: "skill_env \<Rightarrow> skill \<Rightarrow> string \<Rightarrow> int \<Rightarrow> bool" where
  "model_fitness_gate v sk to_status passing \<longleftrightarrow>
     to_status = ''production'' \<and> model_fitness_required v sk \<and> passing < skill_fitness_min_evidence"

definition handle_skill_promote ::
  "skill_env \<Rightarrow> go_time \<Rightarrow> string \<Rightarrow> string \<Rightarrow> string \<Rightarrow> string \<Rightarrow> string \<Rightarrow> skill_tables \<Rightarrow>
   (admin_error + skill) \<times> skill_tables" where
  "handle_skill_promote v now actor raw_name raw_to version note t =
     (let name = trim_space raw_name; to_status = trim_space raw_to
      in if name = [] \<or> to_status = [] then (admin_fail 400 ''name and to_status are required'' ''missing_fields'', t)
         else if to_status \<notin> set valid_skill_status
         then (admin_fail 400 ''to_status must be draft|staging|production|deprecated'' ''invalid_status'', t)
         else case get_skill name t of
                None \<Rightarrow> (admin_fail 404 ''skill not found'' ''not_found'', t)
              | Some sk \<Rightarrow>
                  (case skill_promotion_gate sk to_status note of
                     Some reason \<Rightarrow> (admin_fail 422 (''promotion gate: '' @ reason) ''promotion_gate'', t)
                   | None \<Rightarrow>
                       if to_status = ''production'' \<and> 0 < high_count (scan_skill_security v sk)
                       then (admin_fail 422 ''security gate'' ''security_gate'', t)
                       else if model_fitness_gate v sk to_status (count_passing_evidence name t)
                       then (admin_fail 422 ''model-fitness gate'' ''model_fitness_gate'', t)
                       else (case promote_skill now name to_status (trim_space version) actor (trim_space note) t of
                               (None, t') \<Rightarrow> (admin_fail 500 ''no rows'' ''skill_promote_failed'', t')
                             | (Some saved, t') \<Rightarrow> (Inr saved, t'))))"

section \<open>Administration\<close>

text \<open>The payload is a skill whose times and author are not read; the metadata is the raw JSON.\<close>

definition handle_skills_post ::
  "skill_env \<Rightarrow> go_time \<Rightarrow> string \<Rightarrow> skill \<Rightarrow> skill_tables \<Rightarrow> (admin_error + skill) \<times> skill_tables" where
  "handle_skills_post v now actor p t =
     (let status = trim_space (sk_status p); risk = trim_space (sk_risk p); raw = trim_space (sk_metadata p);
          metadata = (if raw = [] \<or> raw = ''null'' then ''{}'' else raw)
      in if trim_space (sk_name p) = [] then (admin_fail 400 ''name is required'' ''missing_name'', t)
         else if status \<noteq> [] \<and> status \<notin> set valid_skill_status
         then (admin_fail 400 ''status must be draft|staging|production|deprecated'' ''invalid_status'', t)
         else if risk \<noteq> [] \<and> risk \<notin> set valid_skill_risk
         then (admin_fail 400 ''risk_level must be low|medium|high'' ''invalid_risk'', t)
         else if \<not> sv_valid_json v metadata
         then (admin_fail 400 ''metadata must be valid JSON'' ''invalid_metadata'', t)
         else
           let (saved, t') = upsert_skill now
                 \<lparr>sk_name = trim_space (sk_name p), sk_description = sk_description p, sk_version = trim_space (sk_version p),
                  sk_owner = trim_space (sk_owner p), sk_status = status, sk_risk = risk,
                  sk_models = trim_space (sk_models p), sk_tools = trim_space (sk_tools p), sk_teams = trim_space (sk_teams p),
                  sk_daily_limit = sk_daily_limit p, sk_instructions = sk_instructions p, sk_metadata = metadata,
                  sk_created_at = [], sk_updated_at = [], sk_updated_by = []\<rparr> actor t
           in (Inr saved, t'))"

definition handle_skill_delete :: "string \<Rightarrow> skill_tables \<Rightarrow> (admin_error + unit) \<times> skill_tables" where
  "handle_skill_delete name t =
     (if name = [] then (admin_fail 400 ''skill name required'' ''missing_name'', t) else (Inr (), delete_skill name t))"

text \<open>Why a skill of a bundle is skipped.\<close>

definition import_refusal :: "skill_env \<Rightarrow> skill \<Rightarrow> string option" where
  "import_refusal v sk =
     (let metadata = trim_space (sk_metadata sk)
      in if trim_space (sk_name sk) = [] then Some ''missing name''
         else if sk_status sk \<noteq> [] \<and> sk_status sk \<notin> set valid_skill_status then Some (''invalid status: '' @ sk_status sk)
         else if sk_risk sk \<noteq> [] \<and> sk_risk sk \<notin> set valid_skill_risk then Some (''invalid risk_level: '' @ sk_risk sk)
         else if metadata \<noteq> [] \<and> metadata \<noteq> ''{}'' \<and> \<not> sv_valid_json v metadata then Some ''invalid metadata JSON''
         else if sk_status sk = ''production'' \<and> 0 < high_count (scan_skill_security v sk)
         then Some ''security_gate: high-severity findings''
         else None)"

text \<open>Names imported, names skipped with the reason, and the tables.\<close>

fun import_skills ::
  "skill_env \<Rightarrow> go_time \<Rightarrow> string \<Rightarrow> skill list \<Rightarrow> skill_tables \<Rightarrow>
   (string list \<times> (string \<times> string) list) \<times> skill_tables" where
  "import_skills v now actor [] t = (([], []), t)"
| "import_skills v now actor (sk # sks) t =
     (case import_refusal v sk of
        Some reason \<Rightarrow>
          (let ((ok, skipped), t') = import_skills v now actor sks t in ((ok, (trim_space (sk_name sk), reason) # skipped), t'))
      | None \<Rightarrow>
          (let ((ok, skipped), t') = import_skills v now actor sks (snd (upsert_skill now sk actor t))
           in ((trim_space (sk_name sk) # ok, skipped), t')))"

definition handle_skill_fitness_post ::
  "go_time \<Rightarrow> string \<Rightarrow> skill_evidence \<Rightarrow> skill_tables \<Rightarrow> (admin_error + unit) \<times> skill_tables" where
  "handle_skill_fitness_post now actor p t =
     (if trim_space (se_skill p) = [] then (admin_fail 400 ''skill is required'' ''bad_request'', t)
      else
        (Inr (), add_skill_evidence now
          (p\<lparr>se_skill := trim_space (se_skill p),
             se_kind := (if trim_space (se_kind p) \<in> {''multimodel'', ''golden'', ''testcase''} then trim_space (se_kind p) else ''multimodel''),
             se_ref := trim_space (se_ref p), se_note := trim_space (se_note p), se_by := actor\<rparr>) t))"

section \<open>The skill step\<close>

definition split_skill_list :: "string \<Rightarrow> string list" where
  "split_skill_list csv = filter (\<lambda>p. p \<noteq> []) (map trim_space (split_char (CHR '','') csv))"

definition quoted1 :: "string \<Rightarrow> string" where
  "quoted1 s = CHR 0x27 # s @ [CHR 0x27]"

definition evaluate_skill_policy :: "skill \<Rightarrow> string \<Rightarrow> string list \<Rightarrow> string \<Rightarrow> string list" where
  "evaluate_skill_policy sk model tools team =
     (let models = split_skill_list (sk_models sk); allowed = split_skill_list (sk_tools sk); teams = split_skill_list (sk_teams sk)
      in (if models \<noteq> [] \<and> trim_space model \<noteq> [] \<and> \<not> list_allows model models []
          then [''model '' @ quoted1 model @ '' is not in the skill'' @ CHR 0x27 # ''s allowed_models ('' @ sk_models sk @ '')''] else []) @
         (if allowed \<noteq> []
          then map (\<lambda>x. ''tool '' @ quoted1 x @ '' is not in the skill'' @ CHR 0x27 # ''s allowed_tools ('' @ sk_tools sk @ '')'')
                 (filter (\<lambda>x. trim_space x \<noteq> [] \<and> \<not> list_allows x allowed []) tools) else []) @
         (if teams \<noteq> [] \<and> \<not> list_allows team teams []
          then [''team '' @ quoted1 team @ '' is not in the skill'' @ CHR 0x27 # ''s allowed_teams ('' @ sk_teams sk @ '')''] else []))"

text \<open>\<open>recordSkillRun\<close>; the row is written in the background.\<close>

definition record_skill_run ::
  "go_time \<Rightarrow> string \<Rightarrow> string \<Rightarrow> string \<Rightarrow> string \<Rightarrow> string \<Rightarrow> string \<Rightarrow> rat \<Rightarrow> int \<Rightarrow> skill_tables \<Rightarrow> skill_tables" where
  "record_skill_run now actor tools name version status model cost latency t =
     (if trim_space name = [] then t
      else record_skill_run_row now
        \<lparr>sr_skill = name, sr_version = version, sr_actor = actor, sr_tools = tools, sr_model = model, sr_status = status,
         sr_cost = cost, sr_latency = latency, sr_created_at = format_time now\<rparr> t)"

text \<open>What the later steps know of the skill of a request.\<close>

record skill_use =
  su_name :: string
  su_version :: string
  su_tools :: string

definition no_skill :: skill_use where
  "no_skill = \<lparr>su_name = [], su_version = [], su_tools = []\<rparr>"

definition skill_mode :: "string \<Rightarrow> string" where
  "skill_mode enforcement = (let m = to_lower (trim_space enforcement) in if m = [] then ''warn'' else m)"

definition day_start :: "go_time \<Rightarrow> go_time" where
  "day_start t = t div (24 * hour) * (24 * hour)"

definition skill_used_today :: "go_time \<Rightarrow> string \<Rightarrow> skill_tables \<Rightarrow> int" where
  "skill_used_today now name t = count_skill_runs_since name (day_start now) [''ok'', ''error''] t"

definition requested_skill :: "http_request \<Rightarrow> string" where
  "requested_skill r = trim_space (first_non_empty_header r [''X-Vibe-Skill'', ''X-Skill''])"

text \<open>The skill found in production: its policy, its daily limit, its instructions.\<close>

definition apply_skill ::
  "string \<Rightarrow> go_time \<Rightarrow> string \<Rightarrow> string \<Rightarrow> string \<Rightarrow> skill \<Rightarrow> payload \<Rightarrow> skill_tables \<Rightarrow>
   (admin_error + payload \<times> skill_use) \<times> skill_tables" where
  "apply_skill mode now key team model sk p t =
     (let tools = parse_request_tool_names p; listed = join '','' tools;
          violations = evaluate_skill_policy sk model tools team;
          blocked = record_skill_run now key listed (sk_name sk) (sk_version sk) ''blocked'' model 0 0 t
      in if violations \<noteq> [] \<and> mode = ''enforce''
         then (admin_fail 403 (''skill policy violation: '' @ join ''; '' violations) ''skill_policy_violation'', blocked)
         else if 0 < sk_daily_limit sk \<and> sk_daily_limit sk \<le> skill_used_today now (sk_name sk) t \<and> mode = ''enforce''
         then (admin_fail 429 (''skill daily limit reached for '' @ quoted1 (sk_name sk)) ''skill_rate_limited'', blocked)
         else (Inr (case inject_skill_instructions p (sk_instructions sk) of None \<Rightarrow> p | Some p' \<Rightarrow> p',
                    \<lparr>su_name = sk_name sk, su_version = sk_version sk, su_tools = listed\<rparr>), t))"

definition step_skill ::
  "string \<Rightarrow> go_time \<Rightarrow> http_request \<Rightarrow> string \<Rightarrow> caller option \<Rightarrow> string \<Rightarrow> payload \<Rightarrow> skill_tables \<Rightarrow>
   (admin_error + payload \<times> skill_use) \<times> skill_tables" where
  "step_skill enforcement now r key who model p t =
     (let name = requested_skill r; mode = skill_mode enforcement; team = (case who of None \<Rightarrow> [] | Some c \<Rightarrow> ca_team_id c)
      in if rq_method r \<noteq> ''POST'' \<or> name = [] \<or> mode = ''off'' then (Inr (p, no_skill), t)
         else case (case get_skill name t of Some sk \<Rightarrow> if sk_status sk = ''production'' then Some sk else None | None \<Rightarrow> None) of
                None \<Rightarrow>
                  if mode = ''enforce''
                  then (admin_fail 403 (''skill is not available (not found or not in production): '' @ name) ''skill_unavailable'',
                        record_skill_run now key [] name [] ''blocked'' model 0 0 t)
                  else (Inr (p, no_skill), t)
              | Some sk \<Rightarrow> apply_skill mode now key team model sk p t)"

end
