(* ===== verification/SkillProperties.thy ===== *)
theory SkillProperties
  imports Skills TimeRoundTrip
begin

text \<open>
  What the signals and the skills promise: scores are percentages and markers disable failover; a skill reaches
  production only through its gates or the older write endpoints; an enforced skill runs only within its policy.
\<close>

section \<open>Signals\<close>

lemma add_risk_set: "set (fst (add_risk hit c w acc)) = set (fst acc) \<union> (if hit then {c} else {})"
  by (auto simp: add_risk_def)

lemma add_risk_score: "0 \<le> w \<Longrightarrow> snd acc \<le> snd (add_risk hit c w acc)"
  by (simp add: add_risk_def)

lemma fold_add_risk_set:
  "set (fst (fold (\<lambda>(c, w, ks). add_risk (keyword_hit lower ks) c w) rows acc)) =
     set (fst acc) \<union> {c. \<exists>w ks. (c, w, ks) \<in> set rows \<and> keyword_hit lower ks}"
proof (induction rows arbitrary: acc)
  case Nil
  then show ?case by simp
next
  case (Cons row rows)
  obtain c w ks where r: "row = (c, w, ks)" by (cases row) auto
  show ?case unfolding r by (auto simp: Cons.IH add_risk_set)
qed

lemma fold_add_risk_score:
  "\<forall>(c, w, ks) \<in> set rows. 0 \<le> w \<Longrightarrow>
     snd acc \<le> snd (fold (\<lambda>(c, w, ks). add_risk (keyword_hit lower ks) c w) rows acc)"
proof (induction rows arbitrary: acc)
  case Nil
  then show ?case by simp
next
  case (Cons row rows)
  obtain c w ks where r: "row = (c, w, ks)" by (cases row) auto
  have "snd acc \<le> snd (add_risk (keyword_hit lower ks) c w acc)" using Cons.prems by (simp add: r add_risk_score)
  also have "\<dots> \<le> snd (fold (\<lambda>(c, w, ks). add_risk (keyword_hit lower ks) c w) rows (add_risk (keyword_hit lower ks) c w acc))"
    using Cons by simp
  finally show ?case by (simp add: r)
qed

lemma risk_keyword_rows:
  "fst ` set risk_keywords = {''api_key'', ''sql'', ''authentication'', ''authorization'', ''crypto'', ''deployment_command'',
     ''infrastructure_command''}"
  "\<forall>(c, w, ks) \<in> set risk_keywords. 0 \<le> w"
  by (auto simp: risk_keywords_def)

definition marked :: "prompt_log list \<Rightarrow> string list \<Rightarrow> bool" where
  "marked prompts markers = list_ex (contains (prompts_plain_text prompts)) markers"

definition injected :: "prompt_log list \<Rightarrow> bool" where
  "injected prompts =
     list_ex (\<lambda>(_, pats). list_ex (contains (to_lower (prompts_plain_text prompts))) pats) injection_signatures"

lemma injection_score:
  "snd (detect_prompt_injection (prompts_plain_text prompts)) \<ge> (if injected prompts then 45 else 0) \<and>
   (0 < snd (detect_prompt_injection (prompts_plain_text prompts)) \<longleftrightarrow> injected prompts)"
proof -
  define f where "f = (\<lambda>(l :: string, pats). list_ex (contains (to_lower (prompts_plain_text prompts))) pats)"
  let ?hits = "map fst (filter f injection_signatures)"
  have i: "injected prompts \<longleftrightarrow> ?hits \<noteq> []"
    unfolding injected_def f_def by (auto simp: list_ex_iff filter_empty_conv)
  have "1 \<le> int (length ?hits)" if "?hits \<noteq> []" using that by (cases ?hits) auto
  then show ?thesis unfolding i detect_prompt_injection_def Let_def f_def by auto
qed


lemma other_rows: "c \<in> {''pii'', ''secret'', ''prompt_injection''} \<Longrightarrow> (c, w, ks) \<notin> set risk_keywords"
proof
  assume c: "c \<in> {''pii'', ''secret'', ''prompt_injection''}" "(c, w, ks) \<in> set risk_keywords"
  then have "c \<in> fst ` set risk_keywords" by force
  then show False using c(1) unfolding risk_keyword_rows(1) by auto
qed

lemma risk_parts_set:
  fixes body
  defines "res \<equiv> set (fst (risk_parts body))"
  shows "(''pii'' \<in> res \<longleftrightarrow> list_ex (contains body) pii_markers) \<and>
    (''secret'' \<in> res \<longleftrightarrow> list_ex (contains body) secret_markers) \<and>
    (''prompt_injection'' \<in> res \<longleftrightarrow> 0 < snd (detect_prompt_injection body))"
proof -
  have r: "res = (if list_ex (contains body) pii_markers then {''pii''} else {}) \<union>
      (if list_ex (contains body) secret_markers then {''secret''} else {}) \<union>
      {c. \<exists>w ks. (c, w, ks) \<in> set risk_keywords \<and> keyword_hit (to_lower body) ks} \<union>
      (if 0 < snd (detect_prompt_injection body) then {''prompt_injection''} else {})"
    unfolding res_def risk_parts_def Let_def add_risk_set fold_add_risk_set by simp
  show ?thesis unfolding r using other_rows by (simp split: if_split)
qed

lemma risk_parts_score:
  "0 \<le> snd (risk_parts body)" "snd (detect_prompt_injection body) \<le> snd (risk_parts body)"
proof -
  define base where "base = add_risk (list_ex (contains body) secret_markers) ''secret'' 40
    (add_risk (list_ex (contains body) pii_markers) ''pii'' 35 ([], 0))"
  define acc where "acc = fold (\<lambda>(c, w, ks). add_risk (keyword_hit (to_lower body) ks) c w) risk_keywords base"
  define i where "i = snd (detect_prompt_injection body)"
  have p: "risk_parts body = add_risk (0 < i) ''prompt_injection'' i acc"
    by (simp add: risk_parts_def Let_def acc_def base_def i_def)
  have "0 \<le> snd base" by (simp add: base_def add_risk_def)
  also have "\<dots> \<le> snd acc" unfolding acc_def by (rule fold_add_risk_score [OF risk_keyword_rows(2)])
  finally have a: "0 \<le> snd acc" .
  have "''prompt_injection'' \<notin> set (fst acc)"
    unfolding acc_def fold_add_risk_set base_def add_risk_set using other_rows by (simp split: if_split)
  then have "snd (risk_parts body) = (if 0 < i then snd acc + i else snd acc)" unfolding p by (simp add: add_risk_def)
  then show "0 \<le> snd (risk_parts body)" "snd (detect_prompt_injection body) \<le> snd (risk_parts body)"
    using a unfolding i_def by (auto split: if_splits)
qed

lemma analyze_risk_fields:
  "ra_score (analyze_risk ps) = min 100 (snd (risk_parts (prompts_plain_text ps)))"
  "set (ra_categories (analyze_risk ps)) = set (fst (risk_parts (prompts_plain_text ps)))"
  by (simp_all add: analyze_risk_def Let_def split: prod.split)

lemma risk_categories:
  "''pii'' \<in> set (ra_categories (analyze_risk ps)) \<longleftrightarrow> marked ps pii_markers"
  "''secret'' \<in> set (ra_categories (analyze_risk ps)) \<longleftrightarrow> marked ps secret_markers"
  "''prompt_injection'' \<in> set (ra_categories (analyze_risk ps)) \<longleftrightarrow> injected ps"
  using risk_parts_set [of "prompts_plain_text ps"] injection_score [of ps]
  unfolding analyze_risk_fields marked_def by blast+

lemma risk_score_bounds:
  "0 \<le> ra_score (analyze_risk ps)" "ra_score (analyze_risk ps) \<le> 100"
  "injected ps \<Longrightarrow> 45 \<le> ra_score (analyze_risk ps)"
  using risk_parts_score [of "prompts_plain_text ps"] injection_score [of ps] unfolding analyze_risk_fields by auto

lemma norm_to_unit: "0 \<le> norm_to v c \<and> norm_to v c \<le> 1"
  by (simp add: norm_to_def)

lemma weighted_nonneg: "0 \<le> k \<Longrightarrow> 0 \<le> k * norm_to v c"
  using norm_to_unit [of v c] by simp

lemma percentage: "(0 :: rat) \<le> s \<Longrightarrow> 0 \<le> \<lfloor>min 100 s + 1 / 2\<rfloor> \<and> \<lfloor>min 100 s + 1 / 2\<rfloor> \<le> 100"
  by (auto simp: min_def floor_le_iff)

lemma complexity_sum_nonneg: "0 \<le> complexity_sum files ps tools"
  unfolding complexity_sum_def Let_def by (intro add_nonneg_nonneg weighted_nonneg) simp_all

lemma complexity_range: "0 \<le> fst (analyze_complexity files ps tools) \<and> fst (analyze_complexity files ps tools) \<le> 100"
proof -
  have "0 \<le> complexity_floor l (complexity_sum files ps tools)" for l
    using complexity_sum_nonneg [of files ps tools] by (simp add: complexity_floor_def)
  from percentage [OF this] show ?thesis by (simp add: analyze_complexity_def Let_def)
qed

text \<open>
  The signals of a request are percentages with the tier of their score, and the markers act: whatever the
  keywords in the prompts, failover is disabled exactly when the redaction left a marker of personal data
  or of a secret, and a phrase of an injection family in any letter case is reported and scores
  at least 45, so that an automatic model is chosen from the standard tier or above.
\<close>
lemma signals_act:
  fixes files prompts b
  defines "sig \<equiv> signals_of files prompts b"
  shows "0 \<le> sg_complexity sig \<and> sg_complexity sig \<le> 100 \<and> sg_tier sig = complexity_tier_name (sg_complexity sig) \<and>
    0 \<le> sg_risk sig \<and> sg_risk sig \<le> 100 \<and>
    (risk_disables_fallback sig \<longleftrightarrow> marked prompts pii_markers \<or> marked prompts secret_markers) \<and>
    (''prompt_injection'' \<in> set (sg_categories sig) \<longleftrightarrow> injected prompts) \<and>
    (if injected prompts then 45 \<le> sg_risk sig \<and> tier_rank ''standard'' \<le> tier_rank (elevated_tier_for_risk (sg_tier sig) (sg_risk sig))
     else True)"
proof -
  define c where "c = (case b of None \<Rightarrow> 0 | Some m \<Rightarrow> count_request_tools m)"
  have t: "snd (analyze_complexity files prompts c) = complexity_tier_name (fst (analyze_complexity files prompts c))"
    by (simp add: analyze_complexity_def Let_def)
  have e: "45 \<le> k \<Longrightarrow> tier_rank ''standard'' \<le> tier_rank (elevated_tier_for_risk tier k)" for k tier
    by (auto simp: elevated_tier_for_risk_def tier_rank_def)
  have s: "sig = \<lparr>sg_complexity = fst (analyze_complexity files prompts c), sg_tier = snd (analyze_complexity files prompts c),
      sg_risk = ra_score (analyze_risk prompts), sg_categories = ra_categories (analyze_risk prompts)\<rparr>"
    by (simp add: sig_def signals_of_def c_def Let_def split: prod.split)
  have "risk_disables_fallback sig \<longleftrightarrow> ''pii'' \<in> set (sg_categories sig) \<or> ''secret'' \<in> set (sg_categories sig)"
    unfolding risk_disables_fallback_def list_ex_iff by blast
  then have f: "risk_disables_fallback sig \<longleftrightarrow> marked prompts pii_markers \<or> marked prompts secret_markers"
    unfolding s by (simp only: request_signals.select_convs risk_categories)
  show ?thesis
    unfolding f unfolding s request_signals.select_convs t risk_categories(3)
    using complexity_range [of files prompts c] risk_score_bounds [of prompts] e by presburger
qed

section \<open>Enforced skills\<close>

text \<open>The policy of a skill over a request, as its lists say it.\<close>

definition within_skill :: "skill \<Rightarrow> string \<Rightarrow> string list \<Rightarrow> string \<Rightarrow> bool" where
  "within_skill sk model tools team \<longleftrightarrow>
     (split_skill_list (sk_models sk) = [] \<or> trim_space model = [] \<or> list_allows model (split_skill_list (sk_models sk)) []) \<and>
     (split_skill_list (sk_tools sk) = [] \<or>
        list_all (\<lambda>x. trim_space x = [] \<or> list_allows x (split_skill_list (sk_tools sk)) []) tools) \<and>
     (split_skill_list (sk_teams sk) = [] \<or> list_allows team (split_skill_list (sk_teams sk)) [])"









definition sample_skill :: skill where
  "sample_skill =
     \<lparr>sk_name = ''s'', sk_description = [], sk_version = ''1'', sk_owner = [], sk_status = ''production'', sk_risk = ''low'',
      sk_models = ''gpt-*'', sk_tools = ''search'', sk_teams = [], sk_daily_limit = 1, sk_instructions = [],
      sk_metadata = ''{}'', sk_created_at = [], sk_updated_at = [], sk_updated_by = []\<rparr>"

definition sample_skills :: skill_tables where
  "sample_skills = \<lparr>st_skills = [sample_skill], st_runs = [], st_promotions = [], st_evidence = []\<rparr>"



text \<open>
  A body whose tool list does not decode declares no tools for the policy, while the members are sent as they
  are: one member of the wrong type hides every other tool.
\<close>

definition tool_body :: "any_val \<Rightarrow> payload" where
  "tool_body functions =
     Object [(''tools'', Any_list [Any_obj [(''function'', Any_obj [(''name'', Any_str ''shell'')])]]), (''functions'', functions)]"

lemma malformed_member_hides_tools:
  "within_skill sample_skill ''gpt-5'' (parse_request_tool_names (tool_body (Any_str ''x''))) [] \<and>
   \<not> within_skill sample_skill ''gpt-5'' (parse_request_tool_names (tool_body Any_null)) []"
  by code_simp

section \<open>Promotion\<close>

text \<open>Every guard on the way to production.\<close>

definition production_ready :: "skill_env \<Rightarrow> skill_tables \<Rightarrow> skill \<Rightarrow> bool" where
  "production_ready v t sk \<longleftrightarrow>
     trim_space (sk_status sk) = ''staging'' \<and> trim_space (sk_instructions sk) \<noteq> [] \<and> trim_space (sk_models sk) \<noteq> [] \<and>
     trim_space (sk_tools sk) \<noteq> [] \<and> trim_space (sk_teams sk) \<noteq> [] \<and> 0 < sk_daily_limit sk \<and>
     high_count (scan_skill_security v sk) = 0 \<and>
     (model_fitness_required v sk \<longrightarrow> 2 \<le> count_passing_evidence (sk_name sk) t)"

lemma transition_to_production: "''production'' \<in> set (skill_transition s) \<Longrightarrow> s = ''staging''"
  by (simp add: skill_transition_def split: if_splits)

lemma all_checks_hold: "map fst (filter (\<lambda>(_, ok). \<not> ok) checks) = [] \<longleftrightarrow> list_all snd checks"
  by (induction checks) auto

lemma gate_to_production:
  assumes "skill_promotion_gate sk ''production'' why = None"
  shows "trim_space (sk_status sk) = ''staging'' \<and> trim_space (sk_instructions sk) \<noteq> [] \<and> trim_space (sk_models sk) \<noteq> [] \<and>
     trim_space (sk_tools sk) \<noteq> [] \<and> trim_space (sk_teams sk) \<noteq> [] \<and> 0 < sk_daily_limit sk"
proof -
  let ?from = "if trim_space (sk_status sk) = [] then ''draft'' else trim_space (sk_status sk)"
  have g: "''production'' \<in> set (skill_transition ?from)" "missing_production_policies sk = []"
    using assms unfolding skill_promotion_gate_def Let_def by (auto split: if_splits)
  from transition_to_production [OF g(1)] have "trim_space (sk_status sk) = ''staging''" by (simp split: if_splits)
  with g(2) show ?thesis unfolding missing_production_policies_def all_checks_hold by simp
qed

lemma promoted_row:
  assumes "get_skill k (snd (promote_skill now name to_status version actor why t)) = Some sk'"
  shows "if k = name then sk_status sk' = to_status else get_skill k t = Some sk'"
proof (cases "get_skill name t")
  case None
  then show ?thesis using assms by (auto simp: promote_skill_def)
next
  case (Some cur)
  define g where "g sk = (if sk_name sk = name then
      sk\<lparr>sk_status := to_status, sk_version := (if trim_space version = [] then sk_version cur else trim_space version),
         sk_updated_at := format_time now, sk_updated_by := actor\<rparr> else sk)" for sk :: skill
  have p: "st_skills (snd (promote_skill now name to_status version actor why t)) = map g (st_skills t)"
    using Some by (simp add: promote_skill_def Let_def g_def)
  have g: "sk_name (g sk) = sk_name sk" for sk by (simp add: g_def)
  from assms obtain x where x: "find_row sk_name (st_skills t) k = Some x" "sk' = g x"
    unfolding get_skill_def p find_row_map [of sk_name g, OF g] by auto
  then have "sk_name x = k" by (auto dest: find_row_key)
  then show ?thesis using x by (simp add: g_def get_skill_def)
qed

text \<open>
  C25. The promotion endpoint publishes only what passed every gate: after any call a skill is in production
  only if it already was, unchanged, or the call named it and it was in staging with instructions, model, tool and
  team lists and a daily limit, the security scan had no finding of high severity, a skill that needs
  evidence of model fitness had two passing records, and a high-risk skill came with a note.
\<close>
theorem production_needs_the_gates:
  assumes "get_skill k (snd (handle_skill_promote v now actor name to_status version why t)) = Some sk'"
    and "sk_status sk' = ''production''"
  shows "get_skill k t = Some sk' \<or>
    (\<exists>sk. get_skill k t = Some sk \<and> k = trim_space name \<and> production_ready v t sk \<and>
       (if sk_risk sk = ''high'' then trim_space why \<noteq> [] else True))"
proof (cases "get_skill k t = Some sk'")
  case False
  let ?n = "trim_space name" and ?s = "trim_space to_status"
  from False assms(1) obtain sk where sk: "get_skill ?n t = Some sk" "skill_promotion_gate sk ?s why = None"
    "\<not> (?s = ''production'' \<and> 0 < high_count (scan_skill_security v sk))"
    "\<not> model_fitness_gate v sk ?s (count_passing_evidence ?n t)"
    "get_skill k (snd (promote_skill now ?n ?s (trim_space version) actor (trim_space why) t)) = Some sk'"
    unfolding handle_skill_promote_def Let_def
    by (auto split: if_splits option.splits prod.splits)
  have k: "k = ?n" "?s = ''production''" using promoted_row [OF sk(5)] False assms(2) by (auto split: if_splits)
  have "sk_name sk = ?n" using sk(1) by (auto simp: get_skill_def dest: find_row_key)
  moreover have "sk_risk sk = ''high'' \<Longrightarrow> trim_space why \<noteq> []"
    using sk(2) unfolding skill_promotion_gate_def Let_def k(2) by (auto split: if_splits)
  ultimately show ?thesis
    using sk gate_to_production [of sk why] unfolding k
    by (auto simp: production_ready_def model_fitness_gate_def skill_fitness_min_evidence_def)
qed simp

definition any_json :: skill_env where
  "any_json = \<lparr>sv_secret_types = \<lambda>_. [], sv_valid_json = \<lambda>_. True, sv_decode = \<lambda>_. Object []\<rparr>"

definition staged_skill :: skill where
  "staged_skill = sample_skill\<lparr>sk_status := ''staging'', sk_instructions := ''x'', sk_models := ''m'', sk_tools := ''t'', sk_teams := ''a''\<rparr>"

definition staged_skills :: skill_tables where
  "staged_skills = sample_skills\<lparr>st_skills := [staged_skill]\<rparr>"

text \<open>Texts shorter than a pattern do not contain it, so the scan of a short skill is clean.\<close>

lemma shorter_text: "length s < length p \<Longrightarrow> \<not> contains s p"
  by (auto simp: contains_iff_sublist dest: sublist_length_le)

lemma length_to_lower: "length (to_lower s) = length s"
  by (simp add: to_lower_def)

lemma length_utf8 [simp]: "length (utf8 bytes) = length bytes"
  by (simp add: utf8_def)

lemma staged_injection: "list_ex (\<lambda>(_, pats). list_ex (contains (to_lower ''x'')) pats) injection_signatures = False"
  using length_to_lower [of "''x''"]
  by (simp add: injection_signatures_def shorter_text del: contains.simps)

lemma staged_destructive: "contains_any (to_lower ''x'') destructive_skill_patterns = False"
  using length_to_lower [of "''x''"]
  by (simp add: contains_any_def destructive_skill_patterns_def shorter_text del: contains.simps)

lemma staged_fields:
  "sk_instructions staged_skill = ''x'' \<and> sk_risk staged_skill = ''low'' \<and> sk_status staged_skill = ''staging'' \<and>
   sk_name staged_skill = ''s'' \<and> get_skill ''s'' staged_skills = Some staged_skill \<and>
   skill_promotion_gate staged_skill ''production'' [] = None \<and>
   \<not> model_fitness_gate any_json staged_skill ''production'' (count_passing_evidence ''s'' staged_skills) \<and>
   trim_space ''s'' = ''s'' \<and> trim_space ''production'' = ''production''"
  by code_simp

lemma staged_scan: "high_count (scan_skill_security any_json staged_skill) = 0"
proof -
  have "fst (detect_prompt_injection ''x'') = []"
    using staged_injection unfolding detect_prompt_injection_def Let_def list_ex_iff by (auto simp: filter_empty_conv)
  then show ?thesis
    using staged_fields staged_destructive by (simp add: scan_skill_security_def any_json_def high_count_def)
qed

theorem production_needs_the_gates_witness: "production_ready any_json staged_skills staged_skill"
proof -
  let ?t = "snd (handle_skill_promote any_json 5 ''me'' ''s'' ''production'' [] [] staged_skills)"
  let ?sk = "staged_skill\<lparr>sk_status := ''production'', sk_updated_at := format_time 5, sk_updated_by := ''me''\<rparr>"
  have "?t = snd (promote_skill 5 ''s'' ''production'' [] ''me'' [] staged_skills)"
    using staged_fields staged_scan
    by (simp add: handle_skill_promote_def valid_skill_status_def promote_skill_def Let_def)
  moreover have "st_skills staged_skills = [staged_skill]" by (simp add: staged_skills_def)
  ultimately have "st_skills ?t = [?sk]" using staged_fields by (simp add: promote_skill_def Let_def)
  then have k: "get_skill ''s'' ?t = Some ?sk" using staged_fields by (simp add: get_skill_def)
  have "sk_status ?sk = ''production''" by simp
  moreover have "staged_skill \<noteq> ?sk"
  proof
    assume "staged_skill = ?sk"
    then have "sk_status staged_skill = sk_status ?sk" by (rule arg_cong)
    then show False using staged_fields by simp
  qed
  ultimately show ?thesis using production_needs_the_gates [OF k] staged_fields by auto
qed

text \<open>
  The older write endpoint does not ask for any of it: posting a skill with status \<open>production\<close> publishes it with
  no instructions, lists or limit, although \<open>productionPolicyChecks\<close> is said to make that impossible; and a
  posted edit without a status takes a published skill back to draft.
\<close>

lemma post_publishes_past_the_gates:
  "(case handle_skills_post any_json 5 ''me'' (sample_skill\<lparr>sk_models := [], sk_tools := [], sk_daily_limit := 0\<rparr>) staged_skills of
      (Inr sk, t) \<Rightarrow> sk_status sk = ''production'' \<and> \<not> production_ready any_json staged_skills (the (get_skill ''s'' staged_skills)\<lparr>sk_instructions := sk_instructions sk\<rparr>)
    | _ \<Rightarrow> False) \<and>
   (case handle_skills_post any_json 5 ''me'' (sample_skill\<lparr>sk_status := []\<rparr>) sample_skills of
      (Inr sk, t) \<Rightarrow> sk_status sk = ''draft'' | _ \<Rightarrow> False)"
  by code_simp

end
