(* ===== verification/RequestGuards.thy ===== *)
theory RequestGuards
  imports Dispatch Quotas Skills ToolGovernance
begin

text \<open>
  The remaining guards of the request pipeline: default streaming, MCP discovery models, request limits
  (\<open>internal/proxy/limits.go\<close>), the MCP server policy (\<open>mcp_policy.go\<close>, \<open>internal/store/mcp_policy.go\<close>,
  \<open>admin_mcp.go\<close>), the governance of a request (\<open>governance.go\<close>), and the predicted cost
  (\<open>cost_predict.go\<close>, \<open>internal/audit/usage.go\<close>).
\<close>

section \<open>Default streaming\<close>

definition apply_default_chat_stream :: "bool \<Rightarrow> payload \<Rightarrow> payload" where
  "apply_default_chat_stream default_stream p =
     (case p of
        Object m \<Rightarrow> if list_ex (\<lambda>(k, _). k = ''stream'') m then p else Object (put_member ''stream'' (Any_bool default_stream) m)
      | _ \<Rightarrow> p)"

definition step_chat_defaults :: "bool \<Rightarrow> http_request \<Rightarrow> payload \<Rightarrow> payload" where
  "step_chat_defaults default_stream r p = (if chat_post r then apply_default_chat_stream default_stream p else p)"

section \<open>MCP discovery\<close>

definition canonical_mcp_discovery_model :: "string \<Rightarrow> string" where
  "canonical_mcp_discovery_model model =
     (let m = to_lower (trim_space model) in if m = ''vibe/all_mcp'' then ''vibe/all-mcp'' else m)"

definition is_mcp_discovery_model :: "string \<Rightarrow> bool" where
  "is_mcp_discovery_model model \<longleftrightarrow>
     canonical_mcp_discovery_model model \<in>
       {''vibe/grounded'', ''vibe/all-mcp'', ''vibe/research'', ''vibe/compliance'', ''vibe/policy'', ''vibe/legal''}"

text \<open>\<open>strings.ReplaceAll\<close>.\<close>

function replace_all :: "string \<Rightarrow> string \<Rightarrow> string \<Rightarrow> string" where
  "replace_all old new s =
     (if old = [] \<or> s = [] then s
      else case index_of s old of
             None \<Rightarrow> s
           | Some i \<Rightarrow> take i s @ new @ replace_all old new (drop (i + length old) s))"
  by pat_completeness auto
termination by (relation "measure (\<lambda>(old, new, s). length s)") auto

declare replace_all.simps [simp del]

definition canonical_mcp_discovery_pattern :: "string \<Rightarrow> string" where
  "canonical_mcp_discovery_pattern pat = replace_all ''all_mcp'' ''all-mcp'' (to_lower (trim_space pat))"

definition mcp_auth_model_allowed :: "string \<Rightarrow> string \<Rightarrow> string list \<Rightarrow> string list \<Rightarrow> bool" where
  "mcp_auth_model_allowed requested canonical allowed denied =
     (let requested = to_lower (trim_space requested); canonical = canonical_mcp_discovery_model canonical;
          hit = (\<lambda>pat. let p = canonical_mcp_discovery_pattern pat in match_glob p requested \<or> match_glob p canonical)
      in \<not> list_ex hit denied \<and> (allowed = [] \<or> list_ex hit allowed))"

text \<open>
  \<open>None\<close>: an ordinary model.  \<open>Some (Inr model)\<close>: the request is answered from MCP servers under the policy of
  that model, which only for \<open>vibe/all-mcp\<close> is the mode \<open>all_allowed\<close>.
\<close>

definition step_mcp_discovery ::
  "http_request \<Rightarrow> caller option \<Rightarrow> string \<Rightarrow> prompt_log list \<Rightarrow> (admin_error + string) option" where
  "step_mcp_discovery r who model prompts =
     (let canonical = canonical_mcp_discovery_model model
      in if \<not> chat_post r \<or> \<not> is_mcp_discovery_model canonical then None
         else Some (case who of
             Some c \<Rightarrow>
               if \<not> has_scope (kp_scopes (ca_policy c)) ''mcp:use''
               then admin_fail 403 ''mcp:use scope is required for MCP discovery models'' ''scope_denied''
               else if \<not> mcp_auth_model_allowed model canonical (kp_allowed_models (ca_policy c)) (kp_denied_models (ca_policy c))
               then admin_fail 403 ''model is not allowed by auth policy'' ''model_denied''
               else if canonical = ''vibe/all-mcp'' \<and> ca_role c \<noteq> ''admin'' \<and> ca_role c \<noteq> ''super_admin''
               then admin_fail 403 ''vibe/all-mcp is restricted to admin roles'' ''mcp_all_admin_required''
               else if trim_space (prompts_plain_text prompts) = []
               then admin_fail 400 ''MCP discovery requires at least one user prompt'' ''empty_query''
               else Inr canonical
           | None \<Rightarrow>
               if trim_space (prompts_plain_text prompts) = []
               then admin_fail 400 ''MCP discovery requires at least one user prompt'' ''empty_query''
               else Inr canonical))"

section \<open>Limits\<close>

record limits_conf =
  lc_max_bytes :: int
  lc_max_messages :: int
  lc_max_output :: int

definition max_supported_output_tokens :: int where "max_supported_output_tokens = 256 * 1024"

text \<open>
  Go's conversion of a float to \<open>int\<close> truncates; what it gives outside of the 64-bit range depends on the
  implementation and is an argument.
\<close>

definition truncate_rat :: "rat \<Rightarrow> int" where
  "truncate_rat r = (if 0 \<le> r then \<lfloor>r\<rfloor> else \<lceil>r\<rceil>)"

definition int_of_float :: "(rat \<Rightarrow> int) \<Rightarrow> rat \<Rightarrow> int" where
  "int_of_float far r = (let n = truncate_rat r in if - (2 ^ 63) \<le> n \<and> n < 2 ^ 63 then n else far r)"

definition num_field :: "(rat \<Rightarrow> int) \<Rightarrow> any_map \<Rightarrow> string \<Rightarrow> int option" where
  "num_field far m k = (case map_of m k of Some (Any_num r _) \<Rightarrow> Some (int_of_float far r) | _ \<Rightarrow> None)"

definition number :: "int \<Rightarrow> any_val" where
  "number n = Any_num (of_int n) (itoa n)"

text \<open>The loop over the fields: the object, whether one is present, whether one changed, the largest replaced.\<close>

definition clamp_field ::
  "(rat \<Rightarrow> int) \<Rightarrow> int \<Rightarrow> string \<Rightarrow> any_map \<times> bool \<times> bool \<times> int \<Rightarrow> any_map \<times> bool \<times> bool \<times> int" where
  "clamp_field far max_out field acc =
     (let (m, present, changed, from_value) = acc
      in case num_field far m field of
           None \<Rightarrow> acc
         | Some cur \<Rightarrow>
             if max_out < cur then (put_member field (number max_out) m, True, True, max cur from_value)
             else (m, True, changed, from_value))"

text \<open>The assignment into the nil map of a \<open>null\<close> body panics.\<close>

datatype clamp = Unchanged | Clamped payload int int | Clamp_panic

definition clamp_token_fields ::
  "(rat \<Rightarrow> int) \<Rightarrow> int \<Rightarrow> bool \<Rightarrow> string \<Rightarrow> string list \<Rightarrow> payload \<Rightarrow> clamp" where
  "clamp_token_fields far max_out inject inject_field fs p =
     (if max_out \<le> 0 then Unchanged
      else case p of
             Malformed \<Rightarrow> Unchanged
           | Huge _ \<Rightarrow> Unchanged
           | Null_body \<Rightarrow> if inject then Clamp_panic else Unchanged
           | Object m \<Rightarrow>
               (let (m', present, changed, from_value) = fold (clamp_field far max_out) fs (m, False, False, 0)
                in if \<not> present then
                     if inject then Clamped (Object (put_member inject_field (number max_out) m')) (- 1) max_out else Unchanged
                   else if changed then Clamped (Object m') from_value max_out else Unchanged))"

definition count_messages :: "payload \<Rightarrow> int" where
  "count_messages p =
     (case object_members p of
        None \<Rightarrow> 0
      | Some m \<Rightarrow> (case decode_list ''messages'' m of None \<Rightarrow> 0 | Some xs \<Rightarrow> int (length xs)))"

text \<open>The token fields of an endpoint, the first of them the one that is injected.\<close>

definition token_fields :: "string \<Rightarrow> string list" where
  "token_fields path =
     (if path = ''/v1/chat/completions'' then [''max_tokens'', ''max_completion_tokens'']
      else if path = ''/v1/responses'' then [''max_output_tokens''] else [])"

definition output_ceiling :: "limits_conf \<Rightarrow> int" where
  "output_ceiling lc =
     (if 0 < lc_max_output lc \<and> lc_max_output lc < max_supported_output_tokens then lc_max_output lc
      else max_supported_output_tokens)"

text \<open>\<open>None\<close>: the handler panics.  The second component is the header \<open>X-Max-Tokens-Clamped\<close>.\<close>

definition step_limits ::
  "(rat \<Rightarrow> int) \<Rightarrow> limits_conf \<Rightarrow> http_request \<Rightarrow> int \<Rightarrow> payload \<Rightarrow> (admin_error + payload \<times> string) option" where
  "step_limits far lc r bytes p =
     (if rq_method r \<noteq> ''POST'' then Some (Inr (p, []))
      else if 0 < lc_max_bytes lc \<and> lc_max_bytes lc < bytes
      then Some (admin_fail 413 (''request body exceeds the configured limit ('' @ itoa bytes @ '' > '' @ itoa (lc_max_bytes lc) @ '' bytes)'')
             ''payload_too_large'')
      else if 0 < lc_max_messages lc \<and> lc_max_messages lc < count_messages p
      then Some (admin_fail 400 (''too many messages ('' @ itoa (count_messages p) @ '' > '' @ itoa (lc_max_messages lc) @ '')'')
             ''too_many_messages'')
      else case token_fields (rq_path r) of
             [] \<Rightarrow> Some (Inr (p, []))
           | f # fs \<Rightarrow>
               (case clamp_token_fields far (output_ceiling lc) (0 < lc_max_output lc) f (f # fs) p of
                  Clamp_panic \<Rightarrow> None
                | Unchanged \<Rightarrow> Some (Inr (p, []))
                | Clamped p' from_value to_value \<Rightarrow>
                    Some (Inr (p', if from_value < 0 then ''injected:'' @ itoa to_value
                                   else itoa from_value @ ''->'' @ itoa to_value))))"

section \<open>MCP server policy\<close>

record mcp_policy =
  my_server :: string
  my_mode :: string
  my_note :: string
  my_created_at :: go_time
  my_updated_at :: go_time

record mcp_tables =
  mt_policies :: "mcp_policy list"
  mt_allowlist_flag :: "string option"

definition merge_mcp_policy :: "mcp_policy \<Rightarrow> mcp_policy \<Rightarrow> mcp_policy" where
  "merge_mcp_policy old new = new\<lparr>my_created_at := my_created_at old\<rparr>"

definition upsert_mcp_policy :: "go_time \<Rightarrow> mcp_policy \<Rightarrow> mcp_tables \<Rightarrow> mcp_tables" where
  "upsert_mcp_policy now p t =
     (let p = p\<lparr>my_created_at := (if my_created_at p = zero_time then now else my_created_at p), my_updated_at := now\<rparr>
      in t\<lparr>mt_policies := upsert_row my_server merge_mcp_policy p (mt_policies t)\<rparr>)"

definition delete_mcp_policy :: "string \<Rightarrow> mcp_tables \<Rightarrow> mcp_tables" where
  "delete_mcp_policy server t = t\<lparr>mt_policies := filter (\<lambda>p. my_server p \<noteq> server) (mt_policies t)\<rparr>"

definition mcp_mode_of :: "mcp_tables \<Rightarrow> string \<Rightarrow> string" where
  "mcp_mode_of t server = (case find_row my_server (mt_policies t) server of None \<Rightarrow> [] | Some p \<Rightarrow> my_mode p)"

definition mcp_allowlist :: "mcp_tables \<Rightarrow> bool" where
  "mcp_allowlist t = (case mt_allowlist_flag t of None \<Rightarrow> False | Some v \<Rightarrow> equal_fold (trim_space v) ''true'' \<or> v = ''1'')"

interpretation mcp_policy_table: replacing_store my_server "find_row my_server" "upsert_row my_server merge_mcp_policy" merge_mcp_policy
  unfolding replacing_store_def replacing_store_axioms_def
  by (auto simp: merge_mcp_policy_def intro!: row_store_upsert)

text \<open>The payload: server, mode, note, and the switch of the allowlist, which is set when no server is named.\<close>

definition post_mcp_policy ::
  "go_time \<Rightarrow> string \<Rightarrow> string \<Rightarrow> string \<Rightarrow> bool option \<Rightarrow> mcp_tables \<Rightarrow> (admin_error + unit) \<times> mcp_tables" where
  "post_mcp_policy now raw_server raw_mode raw_note allowlist t =
     (let server = trim_space raw_server; mode = trim_space raw_mode
      in case (if server = [] then allowlist else None) of
           Some b \<Rightarrow> (Inr (), t\<lparr>mt_allowlist_flag := Some (if b then ''true'' else ''false'')\<rparr>)
         | None \<Rightarrow>
             if server = [] then (admin_fail 400 ''server_label is required'' ''missing_server'', t)
             else if mode \<notin> {''allow'', ''block'', ''warn''}
             then (admin_fail 400 ''mode must be allow/block/warn'' ''invalid_mode'', t)
             else (Inr (), upsert_mcp_policy now
                    \<lparr>my_server = server, my_mode = mode, my_note = trim_space raw_note, my_created_at = zero_time,
                     my_updated_at = zero_time\<rparr> t))"

definition remove_mcp_policy :: "string \<Rightarrow> mcp_tables \<Rightarrow> (admin_error + unit) \<times> mcp_tables" where
  "remove_mcp_policy server t =
     (if server = [] \<or> CHR ''/'' \<in> set server then (admin_fail 400 ''invalid server label'' ''invalid_server'', t)
      else (Inr (), delete_mcp_policy server t))"

text \<open>The server that blocks with the reason, or the servers to warn about.\<close>

fun mcp_walk :: "mcp_tables \<Rightarrow> string list \<Rightarrow> string list \<Rightarrow> (string \<times> string) + string list" where
  "mcp_walk t warnings [] = Inr warnings"
| "mcp_walk t warnings (srv # rest) =
     (let mode = mcp_mode_of t srv
      in if mode = ''block'' then Inl (srv, ''server_blocked'')
         else if mode = ''warn'' then mcp_walk t (warnings @ [srv]) rest
         else if mode \<noteq> ''allow'' \<and> mcp_allowlist t then Inl (srv, ''not_in_allowlist'')
         else mcp_walk t warnings rest)"

text \<open>A tool of the request: whether it is one of an MCP server, and the label of the server.\<close>

definition mcp_servers :: "(bool \<times> string) list \<Rightarrow> string list" where
  "mcp_servers tools = sort (remdups (map snd (filter (\<lambda>(is_mcp, label). is_mcp \<and> label \<noteq> []) tools)))"

definition evaluate_mcp_policy :: "mcp_tables \<Rightarrow> (bool \<times> string) list \<Rightarrow> (string \<times> string) + string list" where
  "evaluate_mcp_policy t tools = mcp_walk t [] (mcp_servers tools)"

definition enforce_mcp_policy :: "mcp_tables \<Rightarrow> (bool \<times> string) list \<Rightarrow> admin_error + string list" where
  "enforce_mcp_policy t tools =
     (case evaluate_mcp_policy t tools of
        Inr warnings \<Rightarrow> Inr warnings
      | Inl (srv, reason) \<Rightarrow>
          admin_fail 403 (''MCP server '' @ quoted1 srv @ '' is not permitted by gateway policy ('' @ reason @ '')'') reason)"

section \<open>Governance of a request\<close>

text \<open>What is known of the request: its id, the provider the audit record names, the plan, the cost.\<close>

record request_facts =
  rf_id :: string
  rf_key :: string
  rf_provider :: string
  rf_plan :: "routing_plan option"
  rf_cost :: rat
  rf_team_name :: string

definition join_bar :: "string list \<Rightarrow> string" where
  "join_bar = join ''|''"

definition openai_governance_context ::
  "(string \<Rightarrow> string) \<Rightarrow> http_request \<Rightarrow> request_facts \<Rightarrow> caller option \<Rightarrow> string \<Rightarrow> string \<Rightarrow> string \<Rightarrow> governance_context" where
  "openai_governance_context hash_text r f who model body_text phase =
     (let m = (case rf_plan f of None \<Rightarrow> model | Some pl \<Rightarrow> if pl_model pl = [] then model else pl_model pl);
          provider = (case rf_plan f of None \<Rightarrow> rf_provider f | Some pl \<Rightarrow> if pl_provider pl = [] then rf_provider f else pl_provider pl)
      in \<lparr>gc_request_id = rf_id f, gc_api_key_id = rf_key f,
          gc_user_id = (case who of None \<Rightarrow> [] | Some c \<Rightarrow> ca_user_id c),
          gc_team_id = (case who of None \<Rightarrow> [] | Some c \<Rightarrow> ca_team_id c),
          gc_team_name = (case who of None \<Rightarrow> [] | Some c \<Rightarrow> rf_team_name f),
          gc_role = (case who of None \<Rightarrow> [] | Some c \<Rightarrow> ca_role c),
          gc_endpoint = rq_path r, gc_phase = phase, gc_model = m, gc_provider = provider,
          gc_risk_score = (case rf_plan f of None \<Rightarrow> 0 | Some pl \<Rightarrow> sg_risk (pl_signals pl)),
          gc_complexity_score = (case rf_plan f of None \<Rightarrow> 0 | Some pl \<Rightarrow> sg_complexity (pl_signals pl)),
          gc_cost_krw = rf_cost f, gc_contains_secret = False, gc_secret_types = [], gc_mcp_server = [], gc_mcp_tool = [],
          gc_subject_type = ''openai_request'',
          gc_subject_id = take 24 (hash_text (join_bar [rf_key f, rq_path r, m, provider, body_text]))\<rparr>)"

text \<open>What the gateway knows of a body: its text, the types of the secrets in it, and the body with them masked.\<close>

record secret_firewall =
  sf_text :: "payload \<Rightarrow> string"
  sf_types :: "payload \<Rightarrow> string list"
  sf_mask :: "payload \<Rightarrow> payload"
  sf_hash :: "string \<Rightarrow> string"

definition secret_action_of :: "governance_context \<Rightarrow> governance_decision \<Rightarrow> string" where
  "secret_action_of g d =
     (let action = to_lower (trim_space (gd_secret_action d)); action = (if action = [] then ''detect'' else action)
      in if gd_blocked d \<and> gc_contains_secret g then ''block'' else action)"

text \<open>
  \<open>enforceOpenAIGovernance\<close>; \<open>new_id\<close> and \<open>approval_payload\<close> are the id and the JSON of a new approval.
\<close>

definition enforce_openai_governance ::
  "secret_firewall \<Rightarrow> policy_rule list result \<Rightarrow> go_time \<Rightarrow> string \<Rightarrow> string \<Rightarrow> bool \<Rightarrow> string \<Rightarrow> http_request \<Rightarrow>
   request_facts \<Rightarrow> caller option \<Rightarrow> string \<Rightarrow> payload \<Rightarrow> tool_tables \<Rightarrow> (admin_error + payload) \<times> tool_tables" where
  "enforce_openai_governance sf rules now new_id approval_payload detect phase r f who model p t =
     (let types = (if detect then sf_types sf p else []);
          g = (openai_governance_context (sf_hash sf) r f who model (sf_text sf p) phase)
                \<lparr>gc_contains_secret := types \<noteq> [], gc_secret_types := types\<rparr>;
          d = evaluate_governance rules g;
          t = record_policy_decision_events (gd_events d) t;
          action = secret_action_of g d;
          sent = (if action = ''mask'' \<and> types \<noteq> [] then sf_mask sf p else p)
      in if gd_blocked d \<or> action = ''block'' \<and> types \<noteq> []
         then (admin_fail 403
                 (first_non_empty_raw [if gd_reason d = [] \<and> action = ''block'' \<and> types \<noteq> []
                    then ''secret firewall blocked sensitive data'' else gd_reason d, ''blocked by governance policy''])
                 ''governance_blocked'', t)
         else if gd_require_approval d then
           (let (answer, t) = governance_approval_gate now new_id approval_payload (header r ''X-Governance-Approval-Id'') g
                  (first_non_empty_raw [gd_reason d, ''approval required by governance policy'']) t
            in if ga_allowed answer then (Inr sent, t)
               else (admin_fail 423 (ga_message answer) ''approval_required'', t))
         else (Inr sent, t))"

section \<open>Predicted cost\<close>

record model_price =
  mp_input :: rat
  mp_cached :: rat
  mp_output :: rat

text \<open>The price table in the order in which the program happens to range over the map.\<close>

definition lookup_price :: "string \<Rightarrow> string \<Rightarrow> (string \<times> model_price) list \<Rightarrow> model_price option" where
  "lookup_price fallback model pricing =
     (let m = to_lower (trim_space model)
      in if m = [] then None
         else case map_of pricing m of
                Some price \<Rightarrow> Some price
              | None \<Rightarrow>
                  (case find (\<lambda>(k, _). to_lower (trim_space k) \<noteq> [] \<and> has_prefix m (to_lower (trim_space k))) pricing of
                     Some (_, price) \<Rightarrow> Some price
                   | None \<Rightarrow> map_of pricing fallback))"

definition estimate_cost_krw :: "model_price \<Rightarrow> int \<Rightarrow> int \<Rightarrow> int \<Rightarrow> int \<Rightarrow> rat" where
  "estimate_cost_krw price prompt completion cached reasoning =
     (let cached = (if cached < 0 then 0 else cached); cached = (if prompt < cached then prompt else cached);
          cached_rate = (if mp_cached price \<le> 0 then mp_input price else mp_cached price)
      in of_int (prompt - cached) * mp_input price / 1000000 + of_int cached * cached_rate / 1000000 +
         of_int (completion + reasoning) * mp_output price / 1000000)"

record model_stat =
  ms_samples :: int
  ms_avg_output :: rat

record cost_snapshot =
  cs_stats :: "string \<Rightarrow> model_stat option"
  cs_guard_enabled :: bool
  cs_guard_threshold :: rat

record cost_estimate =
  ce_input :: int
  ce_output :: int
  ce_cost :: rat
  ce_priced :: bool
  ce_basis :: string

definition default_expected_output_tokens :: int where "default_expected_output_tokens = 600"

text \<open>The first positive token field.\<close>

definition positive_field :: "(rat \<Rightarrow> int) \<Rightarrow> any_map \<Rightarrow> string \<Rightarrow> int option" where
  "positive_field far m k =
     (case map_of m k of Some (Any_num r _) \<Rightarrow> if 0 < r then Some (int_of_float far r) else None | _ \<Rightarrow> None)"

definition parse_max_tokens :: "(rat \<Rightarrow> int) \<Rightarrow> payload \<Rightarrow> int" where
  "parse_max_tokens far p =
     (case p of
        Object m \<Rightarrow>
          (case List.map_filter (positive_field far m) [''max_tokens'', ''max_completion_tokens'', ''max_output_tokens''] of
             [] \<Rightarrow> 0 | n # _ \<Rightarrow> n)
      | _ \<Rightarrow> 0)"

definition predict_cost ::
  "string \<Rightarrow> (string \<times> model_price) list \<Rightarrow> cost_snapshot \<Rightarrow> string \<Rightarrow> int \<Rightarrow> int \<Rightarrow> cost_estimate" where
  "predict_cost fallback pricing snap model input max_tokens =
     (let (out, basis) =
            (case (case cs_stats snap model of Some s \<Rightarrow> if 5 \<le> ms_samples s \<and> 0 < ms_avg_output s then Some s else None
                   | None \<Rightarrow> None) of
               Some s \<Rightarrow> (truncate_rat (ms_avg_output s + 1 / 2), ''history'')
             | None \<Rightarrow> if 0 < max_tokens then (max_tokens, ''max_tokens'') else (default_expected_output_tokens, ''default''))
      in case lookup_price fallback model pricing of
           None \<Rightarrow> \<lparr>ce_input = input, ce_output = out, ce_cost = 0, ce_priced = False, ce_basis = basis\<rparr>
         | Some price \<Rightarrow>
             \<lparr>ce_input = input, ce_output = out, ce_cost = estimate_cost_krw price input out 0 0, ce_priced = True,
              ce_basis = basis\<rparr>)"

definition prompt_token_estimate :: "prompt_log list \<Rightarrow> int" where
  "prompt_token_estimate prompts = int (sum_list (map (\<lambda>p. estimate_tokens (pg_redacted p)) prompts))"

text \<open>The two refusals on the estimate: the budget of the key before the governance of the cost phase, the guard after it.\<close>

definition over_budget :: "caller option \<Rightarrow> cost_estimate \<Rightarrow> bool" where
  "over_budget who e \<longleftrightarrow>
     (case who of None \<Rightarrow> False
      | Some c \<Rightarrow> 0 < kp_budget_limit_krw (ca_policy c) \<and> ce_priced e \<and> kp_budget_limit_krw (ca_policy c) < ce_cost e)"

definition guard_blocks :: "cost_snapshot \<Rightarrow> http_request \<Rightarrow> cost_estimate \<Rightarrow> bool" where
  "guard_blocks snap r e \<longleftrightarrow>
     cs_guard_enabled snap \<and> 0 < cs_guard_threshold snap \<and> ce_priced e \<and> cs_guard_threshold snap < ce_cost e \<and>
     \<not> equal_fold (trim_space (header r ''X-Cost-Approve'')) ''1''"

end
