(* ===== verification/GuardProperties.thy ===== *)
theory GuardProperties
  imports RequestGuards SkillProperties QuotaProperties
begin

text \<open>
  What the guards of a request promise: the ceiling on output tokens, the exact MCP server policy, the secret
  firewall, and where the guards have gaps.
\<close>

section \<open>Output tokens\<close>

lemma map_of_put_member: "map_of (put_member k v m) = (map_of m)(k \<mapsto> v)"
proof -
  have "map_of (map (\<lambda>(k', v'). (k', if k' = k then v else v')) m) x =
      (if x = k then (case map_of m k of None \<Rightarrow> None | Some _ \<Rightarrow> Some v) else map_of m x)" for x
    by (induction m) auto
  moreover have "list_ex (\<lambda>(k', _). k' = k) m \<longleftrightarrow> map_of m k \<noteq> None"
    by (induction m) auto
  ultimately show ?thesis
    by (auto simp: put_member_def fun_eq_iff map_add_def split: option.splits)
qed

text \<open>A number the conversion of Go reads right is at most the ceiling, up to its fraction.\<close>

definition capped :: "int \<Rightarrow> any_map \<Rightarrow> string \<Rightarrow> bool" where
  "capped cap m f \<longleftrightarrow>
     (case map_of m f of Some (Any_num v _) \<Rightarrow> v < of_int (cap + 1) \<or> 2 ^ 63 \<le> truncate_rat v | _ \<Rightarrow> True)"

lemma truncate_le: "truncate_rat v \<le> cap \<Longrightarrow> 0 \<le> cap \<Longrightarrow> v < of_int (cap + 1)"
  by (auto simp: truncate_rat_def floor_le_iff split: if_splits)

lemma num_field_capped:
  assumes "num_field far m f = Some cur" "cur \<le> cap" "0 \<le> cap"
  shows "capped cap m f"
proof -
  obtain v x where v: "map_of m f = Some (Any_num v x)" "cur = int_of_float far v"
    using assms(1) by (auto simp: num_field_def split: option.splits any_val.splits)
  show ?thesis
  proof (cases "- (2 ^ 63) \<le> truncate_rat v \<and> truncate_rat v < 2 ^ 63")
    case True
    then show ?thesis using v assms(2,3) truncate_le [of v cap] by (simp add: capped_def int_of_float_def)
  next
    case False
    then have "2 ^ 63 \<le> truncate_rat v \<or> truncate_rat v \<le> cap" using assms(3) by auto
    then show ?thesis using v truncate_le [of v cap] assms(3) by (auto simp: capped_def)
  qed
qed

lemma num_field_none_capped: "num_field far m f = None \<Longrightarrow> capped cap m f"
  by (auto simp: num_field_def capped_def split: option.splits any_val.splits)

lemma put_number_capped: "0 \<le> cap \<Longrightarrow> capped cap (put_member f (number cap) m) f"
  by (simp add: capped_def map_of_put_member number_def)

lemma capped_other: "f \<noteq> g \<Longrightarrow> capped cap (put_member g v m) f = capped cap m f"
  by (simp add: capped_def map_of_put_member)

lemma clamp_field_capped:
  assumes "0 \<le> cap" "clamp_field far cap g (m, b, c, n) = (m', b', c', n')"
  shows "capped cap m' g" "f \<noteq> g \<Longrightarrow> map_of m' f = map_of m f" "b' \<longleftrightarrow> b \<or> num_field far m g \<noteq> None" "0 \<le> n \<Longrightarrow> 0 \<le> n'"
  using assms num_field_capped [of far m g _ cap] num_field_none_capped [of far m g cap] put_number_capped [of cap g m]
  by (auto simp: clamp_field_def map_of_put_member split: option.splits if_splits)

lemma clamp_fields_capped:
  assumes "0 \<le> cap" "fold (clamp_field far cap) fs (m, b, c, n) = (m', b', c', n')" "distinct fs"
  shows "(\<forall>f \<in> set fs. capped cap m' f) \<and> (\<forall>f. f \<notin> set fs \<longrightarrow> map_of m' f = map_of m f) \<and>
    (b' \<longleftrightarrow> b \<or> (\<exists>f \<in> set fs. num_field far m f \<noteq> None))"
  using assms(2,3)
proof (induction fs arbitrary: m b c n)
  case Nil
  then show ?case by simp
next
  case (Cons g fs)
  obtain m1 b1 c1 n1 where g: "clamp_field far cap g (m, b, c, n) = (m1, b1, c1, n1)" by (metis prod_cases4)
  note one = clamp_field_capped [OF assms(1) g]
  from Cons.IH [of m1 b1 c1 n1] Cons.prems g
  have ih: "\<forall>f \<in> set fs. capped cap m' f" "\<And>f. f \<notin> set fs \<Longrightarrow> map_of m' f = map_of m1 f"
    "b' \<longleftrightarrow> b1 \<or> (\<exists>f \<in> set fs. num_field far m1 f \<noteq> None)" by auto
  have "capped cap m' g" using ih(2) [of g] one(1) Cons.prems(2) by (simp add: capped_def)
  moreover have "num_field far m1 f = num_field far m f" if "f \<noteq> g" for f using one(2) [OF that] by (simp add: num_field_def)
  then have "(\<exists>f \<in> set fs. num_field far m1 f \<noteq> None) \<longleftrightarrow> (\<exists>f \<in> set fs. num_field far m f \<noteq> None)"
    using Cons.prems(2) by (metis distinct.simps(2))
  ultimately show ?case using ih one by auto
qed

lemma ceiling_range: "0 < output_ceiling lc \<and> output_ceiling lc \<le> 262144"
  by (simp add: output_ceiling_def max_supported_output_tokens_def)

lemma token_fields_distinct: "distinct (token_fields path)"
  by (simp add: token_fields_def)

lemma clamp_field_keeps:
  assumes "clamp_field far cap g (m, b, c, n) = (m', b', c', n')"
  shows "\<not> c' \<Longrightarrow> m' = m \<and> \<not> c" "num_field far m f \<noteq> None \<Longrightarrow> num_field far m' f \<noteq> None"
  using assms by (auto simp: clamp_field_def num_field_def number_def map_of_put_member split: option.splits if_splits)

lemma clamp_fields_keep:
  "fold (clamp_field far cap) fs (m, b, c, n) = (m', b', c', n') \<Longrightarrow>
     (\<not> c' \<longrightarrow> m' = m \<and> \<not> c) \<and> (\<forall>f. num_field far m f \<noteq> None \<longrightarrow> num_field far m' f \<noteq> None)"
proof (induction fs arbitrary: m b c n)
  case Nil
  then show ?case by simp
next
  case (Cons g fs)
  obtain m1 b1 c1 n1 where g: "clamp_field far cap g (m, b, c, n) = (m1, b1, c1, n1)" by (metis prod_cases4)
  with Cons.prems have "fold (clamp_field far cap) fs (m1, b1, c1, n1) = (m', b', c', n')" by simp
  from Cons.IH [OF this] clamp_field_keeps [OF g] show ?case by blast
qed

text \<open>The object that leaves the clamp, whatever the clamp reports.\<close>

definition clamped_object :: "any_map \<Rightarrow> clamp \<Rightarrow> any_map" where
  "clamped_object m c = (case c of Clamped (Object m') _ _ \<Rightarrow> m' | _ \<Rightarrow> m)"

lemma clamp_object:
  fixes far :: "rat \<Rightarrow> int" and cap :: int and inject :: bool and f0 :: string and fs :: "string list" and m :: any_map
  assumes "0 < cap" "distinct fs" "f0 \<in> set fs"
  defines "c \<equiv> clamp_token_fields far cap inject f0 fs (Object m)"
  shows "c \<noteq> Clamp_panic" "c = Clamped p' k l \<Longrightarrow> p' = Object (clamped_object m c)"
    "\<forall>f \<in> set fs. capped cap (clamped_object m c) f"
    "\<forall>f. f \<notin> set fs \<longrightarrow> map_of (clamped_object m c) f = map_of m f"
    "inject \<Longrightarrow> \<exists>f \<in> set fs. num_field far (clamped_object m c) f \<noteq> None"
proof -
  obtain m' b' c' n' where f: "fold (clamp_field far cap) fs (m, False, False, 0) = (m', b', c', n')" by (metis prod_cases4)
  have cd: "c = (if \<not> b' then if inject then Clamped (Object (put_member f0 (number cap) m')) (- 1) cap else Unchanged
      else if c' then Clamped (Object m') n' cap else Unchanged)"
    using assms(1) f by (simp add: c_def clamp_token_fields_def)
  note all = clamp_fields_capped [OF less_imp_le [OF assms(1)] f assms(2)] clamp_fields_keep [OF f]
  have put: "\<forall>f \<in> set fs. capped cap (put_member f0 (number cap) m') f"
    using all assms(1) put_number_capped [of cap f0 m'] capped_other [of _ f0 cap "number cap" m'] by (metis less_imp_le)
  have num: "num_field far (put_member f0 (number cap) m') f0 \<noteq> None"
    by (simp add: num_field_def map_of_put_member number_def)
  show "c \<noteq> Clamp_panic" by (simp add: cd)
  show "c = Clamped p' k l \<Longrightarrow> p' = Object (clamped_object m c)" unfolding cd by (auto simp: clamped_object_def split: if_splits)
  have "\<not> b' \<Longrightarrow> \<forall>f \<in> set fs. capped cap m f" using all num_field_none_capped by blast
  then show "\<forall>f \<in> set fs. capped cap (clamped_object m c) f" unfolding cd using all put by (auto simp: clamped_object_def)
  show "\<forall>f. f \<notin> set fs \<longrightarrow> map_of (clamped_object m c) f = map_of m f"
    unfolding cd using all assms(3) by (auto simp: clamped_object_def map_of_put_member)
  show "inject \<Longrightarrow> \<exists>f \<in> set fs. num_field far (clamped_object m c) f \<noteq> None"
  proof -
    assume i: "inject"
    show "\<exists>f \<in> set fs. num_field far (clamped_object m c) f \<noteq> None"
    proof (cases b')
      case True
      then obtain f where "f \<in> set fs" "num_field far m f \<noteq> None" "num_field far m' f \<noteq> None" using all by blast
      then show ?thesis using True by (cases c') (auto simp: cd clamped_object_def)
    next
      case False
      then show ?thesis using i num assms(3) by (auto simp: cd clamped_object_def)
    qed
  qed
qed

lemma limits_cap:
  assumes "step_limits far lc r bytes (Object m) = Some (Inr (p', h))" "rq_method r = ''POST''"
  shows "\<exists>m'. p' = Object m' \<and> list_all (capped (output_ceiling lc) m') (token_fields (rq_path r)) \<and>
    output_ceiling lc \<le> 262144 \<and> (if 0 < lc_max_output lc then output_ceiling lc \<le> lc_max_output lc else True) \<and>
    (\<forall>k. k \<in> set (token_fields (rq_path r)) \<or> map_of m' k = map_of m k) \<and>
    (if 0 < lc_max_output lc \<and> token_fields (rq_path r) \<noteq> []
     then list_ex (\<lambda>f. num_field far m' f \<noteq> None) (token_fields (rq_path r)) else True)"
proof (cases "token_fields (rq_path r)")
  case Nil
  then have "p' = Object m" using assms by (auto simp: step_limits_def admin_fail_def split: if_splits)
  then show ?thesis using Nil ceiling_range [of lc] by (auto simp: output_ceiling_def)
next
  case (Cons f fs)
  let ?c = "clamp_token_fields far (output_ceiling lc) (0 < lc_max_output lc) f (f # fs) (Object m)"
  have d: "distinct (f # fs)" using token_fields_distinct [of "rq_path r"] Cons by simp
  note o = clamp_object [OF ceiling_range [of lc, THEN conjunct1] d list.set_intros(1), where far = far and inject = "0 < lc_max_output lc" and m = m]
  have "p' = Object (clamped_object m ?c)"
    using assms Cons o(1,2) by (auto simp: step_limits_def admin_fail_def clamped_object_def split: if_splits clamp.splits)
  moreover have "if 0 < lc_max_output lc then output_ceiling lc \<le> lc_max_output lc else True"
    by (simp add: output_ceiling_def)
  moreover have "list_all (capped (output_ceiling lc) (clamped_object m ?c)) (f # fs)"
    using o(3) unfolding list_all_iff .
  moreover have "\<forall>k. k \<in> set (f # fs) \<or> map_of (clamped_object m ?c) k = map_of m k" using o(4) by blast
  moreover have "if 0 < lc_max_output lc \<and> f # fs \<noteq> [] then list_ex (\<lambda>f. num_field far (clamped_object m ?c) f \<noteq> None) (f # fs) else True"
    using o(5) unfolding list_ex_iff by simp
  ultimately show ?thesis unfolding Cons using ceiling_range [of lc] by blast
qed

text \<open>
  C26. The ceiling on output tokens: whenever a POST request with a JSON object passes the limits step, each token
  field of its endpoint that is a number below 2^63 is less than the ceiling plus one, the ceiling is at most
  256 Ki tokens and at most the configured limit, no other member has changed, and with a configured limit one of the
  fields is present.
\<close>
theorem output_tokens_are_capped:
  assumes "step_limits far lc r bytes (Object m) = Some (Inr (p', h))" "rq_method r = ''POST''"
  shows "\<exists>m'. p' = Object m' \<and> list_all (capped (output_ceiling lc) m') (token_fields (rq_path r)) \<and>
    output_ceiling lc \<le> 262144 \<and> (if 0 < lc_max_output lc then output_ceiling lc \<le> lc_max_output lc else True) \<and>
    (\<forall>k. k \<in> set (token_fields (rq_path r)) \<or> map_of m' k = map_of m k) \<and>
    (if 0 < lc_max_output lc \<and> token_fields (rq_path r) \<noteq> []
     then list_ex (\<lambda>f. num_field far m' f \<noteq> None) (token_fields (rq_path r)) else True)"
  using assms by (rule limits_cap)

definition post_to :: "string \<Rightarrow> http_request" where
  "post_to path = \<lparr>rq_method = ''POST'', rq_path = path, rq_headers = [], rq_query = [], rq_remote_addr = ''1.2.3.4:5''\<rparr>"

definition small_limits :: limits_conf where
  "small_limits = \<lparr>lc_max_bytes = 0, lc_max_messages = 0, lc_max_output = 100\<rparr>"

lemma num_field_number [simp]:
  "num_field far ((k, number n) # m) k = Some (if - (2 ^ 63) \<le> n \<and> n < 2 ^ 63 then n else far (of_int n))"
  by (simp add: num_field_def number_def int_of_float_def truncate_rat_def)

lemmas limits_by_simp = step_limits_def small_limits_def post_to_def token_fields_def output_ceiling_def
  max_supported_output_tokens_def clamp_token_fields_def clamp_field_def put_member_def

theorem output_tokens_are_capped_witness:
  "list_all (capped 100 [(''max_output_tokens'', number 100)]) [''max_output_tokens'']"
proof -
  have "step_limits (\<lambda>_. 0) small_limits (post_to ''/v1/responses'') 9 (Object [(''max_output_tokens'', number 5000)]) =
      Some (Inr (Object [(''max_output_tokens'', number 100)], itoa 5000 @ ''->'' @ itoa 100))"
    by (simp add: limits_by_simp)
  from output_tokens_are_capped [OF this] show ?thesis by (simp add: post_to_def token_fields_def output_ceiling_def small_limits_def
      max_supported_output_tokens_def)
qed

text \<open>
  Where the ceiling does not hold: a number from 2^63 on converts to the least integer on common machines and passes
  the comparison; a body with a number beyond \<open>float64\<close> does not decode and passes as it is; and a configured
  limit on a \<open>null\<close> body panics.
\<close>

lemma limits_gaps:
  "step_limits (\<lambda>_. - (2 ^ 63)) small_limits (post_to ''/v1/responses'') 9 (Object [(''max_output_tokens'', number (10 ^ 19))]) =
     Some (Inr (Object [(''max_output_tokens'', number (10 ^ 19))], [])) \<and>
   step_limits (\<lambda>_. 0) small_limits (post_to ''/v1/responses'') 9 (Huge [(''max_output_tokens'', number 5000)]) =
     Some (Inr (Huge [(''max_output_tokens'', number 5000)], [])) \<and>
   step_limits (\<lambda>_. 0) small_limits (post_to ''/v1/responses'') 4 Null_body = None"
  by (simp add: limits_by_simp)

section \<open>MCP servers\<close>

definition server_admitted :: "mcp_tables \<Rightarrow> string \<Rightarrow> bool" where
  "server_admitted t srv \<longleftrightarrow>
     mcp_mode_of t srv \<noteq> ''block'' \<and> (\<not> mcp_allowlist t \<or> mcp_mode_of t srv \<in> {''allow'', ''warn''})"

lemma mcp_walk_exact:
  "mcp_walk t ws srvs =
     (case find (\<lambda>s. \<not> server_admitted t s) srvs of
        None \<Rightarrow> Inr (ws @ filter (\<lambda>s. mcp_mode_of t s = ''warn'') srvs)
      | Some s \<Rightarrow> Inl (s, if mcp_mode_of t s = ''block'' then ''server_blocked'' else ''not_in_allowlist''))"
  by (induction t ws srvs rule: mcp_walk.induct) (auto simp: Let_def server_admitted_def split: option.splits)

lemma find_least: "sorted xs \<Longrightarrow> find P xs = Some x \<Longrightarrow> y \<in> set xs \<Longrightarrow> P y \<Longrightarrow> x \<le> (y :: 'a :: linorder)"
  by (induction xs) (auto split: if_splits)

lemma mcp_servers_set: "set (mcp_servers tools) = {srv. (True, srv) \<in> set tools \<and> srv \<noteq> []}"
  by (force simp: mcp_servers_def)

lemma mcp_policy_passes:
  assumes "enforce_mcp_policy t tools = Inr warnings"
  shows "list_all (\<lambda>(is_mcp, srv). is_mcp = False \<or> srv = [] \<or> server_admitted t srv) tools"
proof -
  have "find (\<lambda>s. \<not> server_admitted t s) (mcp_servers tools) = None"
    using assms by (auto simp: enforce_mcp_policy_def evaluate_mcp_policy_def mcp_walk_exact admin_fail_def split: option.splits)
  then have "\<forall>srv \<in> set (mcp_servers tools). server_admitted t srv" by (simp add: find_None_all)
  then show ?thesis unfolding mcp_servers_set list_all_iff by auto
qed

text \<open>
  C27. The MCP server policy is exact: a request passes exactly when every MCP server its tools name is
  admitted, that is not marked \<open>block\<close> and in allowlist mode marked \<open>allow\<close> or \<open>warn\<close>; otherwise the refusal
  names the first server in alphabetical order that is not, and when it passes the warnings are the servers marked
  \<open>warn\<close>, sorted and without repetition.
\<close>
theorem mcp_policy_exact:
  "(case evaluate_mcp_policy t tools of
      Inr warnings \<Rightarrow>
        list_all (\<lambda>(is_mcp, srv). is_mcp = False \<or> srv = [] \<or> server_admitted t srv) tools \<and> sorted warnings \<and> distinct warnings \<and>
        set warnings = {srv. (True, srv) \<in> set tools \<and> srv \<noteq> [] \<and> mcp_mode_of t srv = ''warn''}
    | Inl (srv, reason) \<Rightarrow>
        (True, srv) \<in> set tools \<and> srv \<noteq> [] \<and> \<not> server_admitted t srv \<and>
        list_all (\<lambda>(is_mcp, s). is_mcp = False \<or> s = [] \<or> server_admitted t s \<or> srv \<le> s) tools)"
proof -
  note srvs = mcp_servers_set [of tools]
  have s: "sorted (mcp_servers tools)" "distinct (mcp_servers tools)" by (simp_all add: mcp_servers_def)
  show ?thesis
  proof (cases "find (\<lambda>s. \<not> server_admitted t s) (mcp_servers tools)")
    case None
    then have a: "\<forall>srv \<in> set (mcp_servers tools). server_admitted t srv" by (simp add: find_None_all)
    have "evaluate_mcp_policy t tools = Inr (filter (\<lambda>s. mcp_mode_of t s = ''warn'') (mcp_servers tools))"
      using None by (simp add: evaluate_mcp_policy_def mcp_walk_exact)
    moreover have "list_all (\<lambda>(is_mcp, srv). is_mcp = False \<or> srv = [] \<or> server_admitted t srv) tools"
      using a unfolding srvs list_all_iff by auto
    moreover have "set (filter (\<lambda>s. mcp_mode_of t s = ''warn'') (mcp_servers tools)) =
        {srv. (True, srv) \<in> set tools \<and> srv \<noteq> [] \<and> mcp_mode_of t srv = ''warn''}" using srvs by auto
    ultimately show ?thesis using s by (simp add: sorted_wrt_filter)
  next
    case (Some x)
    have x: "x \<in> set (mcp_servers tools)" "\<not> server_admitted t x" using find_Some_set [OF Some] by simp_all
    have "\<forall>y \<in> set (mcp_servers tools). server_admitted t y \<or> x \<le> y" using find_least [OF s(1) Some] by blast
    then have "list_all (\<lambda>(is_mcp, s). is_mcp = False \<or> s = [] \<or> server_admitted t s \<or> x \<le> s) tools"
      unfolding srvs list_all_iff by auto
    moreover obtain why where "evaluate_mcp_policy t tools = Inl (x, why)"
      using Some by (simp add: evaluate_mcp_policy_def mcp_walk_exact)
    moreover have "(True, x) \<in> set tools \<and> x \<noteq> []" using x(1) unfolding srvs by blast
    ultimately show ?thesis using x(2) by (simp only: sum.case prod.case) blast
  qed
qed

section \<open>Gaps of governance and cost\<close>

definition needs_approval :: policy_rule where
  "needs_approval =
     \<lparr>pr_id = ''r'', pr_policy_id = ''p'', pr_name = ''approve'', pr_enabled = True, pr_priority = 1, pr_conditions = [],
      pr_actions = [(''require_approval'', Any_bool True)], pr_rollout_percent = 100\<rparr>"

text \<open>A firewall whose hash only reverses, and an approved approval for a subject.\<close>

definition plain_firewall :: secret_firewall where
  "plain_firewall = \<lparr>sf_text = \<lambda>_. ''b'', sf_types = \<lambda>_. [], sf_mask = \<lambda>p. p, sf_hash = rev\<rparr>"

definition approved_for :: "string \<Rightarrow> tool_tables" where
  "approved_for subject =
     \<lparr>tt_profiles = [], tt_scopes = [],
      tt_approvals = [\<lparr>ap_id = ''a'', ap_request_id = [], ap_api_key_id = [], ap_user_id = [], ap_team_id = [],
        ap_subject_type = ''openai_request'', ap_subject_id = subject, ap_status = ''approved'', ap_reason = [],
        ap_risk_score = 0, ap_cost_krw = 0, ap_payload = [], ap_expires_at = [], ap_decided_by = ''admin'',
        ap_decided_at = [], ap_created_at = []\<rparr>], tt_events = []\<rparr>"

definition approved_request :: http_request where
  "approved_request = (post_to ''/v1/embeddings'')\<lparr>rq_headers := [(''X-Governance-Approval-Id'', ''a'')]\<rparr>"

definition facts_at :: "string \<Rightarrow> request_facts" where
  "facts_at provider =
     \<lparr>rf_id = ''q'', rf_key = ''k'', rf_provider = provider, rf_plan = None, rf_cost = 0, rf_team_name = []\<rparr>"

definition phase_result :: "string \<Rightarrow> string \<Rightarrow> admin_error + payload" where
  "phase_result phase provider =
     fst (enforce_openai_governance plain_firewall (Inr [needs_approval]) 5 ''new'' [] False phase approved_request
       (facts_at provider) None ''m'' Null_body (approved_for (take 24 (rev ''k|/v1/embeddings|m|openai|b''))))"

text \<open>
  An approval binds the provider of the phase it was asked in: the request phase knows the default provider, the
  provider phase the selected one, and the one approval a request can carry covers the first and not the
  second.
\<close>

lemma approval_covers_one_phase:
  "phase_result ''request'' ''openai'' = Inr Null_body \<and>
   (case phase_result ''provider'' ''other'' of Inl e \<Rightarrow> aerr_status e = 423 | Inr _ \<Rightarrow> False)"
  by code_simp

text \<open>The price of a model with two prefixes in the table depends on the order of the map.\<close>

lemma price_depends_on_map_order:
  "lookup_price [] ''gpt-4.1'' [(''gpt'', \<lparr>mp_input = 1, mp_cached = 0, mp_output = 1\<rparr>), (''gpt-4'', \<lparr>mp_input = 9, mp_cached = 0, mp_output = 9\<rparr>)] \<noteq>
   lookup_price [] ''gpt-4.1'' [(''gpt-4'', \<lparr>mp_input = 9, mp_cached = 0, mp_output = 9\<rparr>), (''gpt'', \<lparr>mp_input = 1, mp_cached = 0, mp_output = 1\<rparr>)]"
  by code_simp

end
