(* ===== verification/Pipeline.thy ===== *)
theory Pipeline
  imports RequestGuards
begin

text \<open>
  The request pipeline of the \<open>/v1\<close> endpoints (\<open>internal/proxy/pipeline.go\<close>): its steps in order, over the
  state they share.  A step answers the request or hands it on.  Inputs of the model are what comes from
  outside of the request: configuration, the redacted prompts, secret patterns, caches and the upstream.
\<close>

section \<open>Outcomes and steps\<close>

text \<open>How a step ends the request instead of handing it on.\<close>

datatype stop = Refused admin_error | Crashed | From_cache | From_mcp string | From_text2sql

record world =
  pw_gate :: gate_state
  pw_usage :: usage_tables
  pw_skills :: skill_tables
  pw_tools :: tool_tables
  pw_mcp :: mcp_tables
  pw_kill :: "(string \<times> string) option"

text \<open>The state of a request between two steps.\<close>

record request_state =
  rt_key :: string
  rt_caller :: "caller option"
  rt_body :: payload
  rt_model :: string
  rt_decision :: routing_decision
  rt_plan :: "routing_plan option"
  rt_prompts :: "prompt_log list"
  rt_tools :: "(bool \<times> string) list"
  rt_skill :: skill_use
  rt_cost :: rat

type_synonym 'a step = "world \<Rightarrow> (stop + 'a) \<times> world"

definition and_then :: "'a step \<Rightarrow> ('a \<Rightarrow> 'b step) \<Rightarrow> 'b step" where
  "and_then s f w = (case s w of (Inl out, w') \<Rightarrow> (Inl out, w') | (Inr x, w') \<Rightarrow> f x w')"

text \<open>A step that only reads, and one that changes a part of the world.\<close>

definition reads :: "(world \<Rightarrow> admin_error + 'a) \<Rightarrow> 'a step" where
  "reads f w = (case f w of Inl e \<Rightarrow> (Inl (Refused e), w) | Inr x \<Rightarrow> (Inr x, w))"

section \<open>The environment\<close>

record pipe_env =
  pe_gate :: gate_env
  pe_routing :: routing_env
  pe_default_stream :: bool
  pe_limits :: limits_conf
  pe_far :: "rat \<Rightarrow> int"
  pe_skills :: string
  pe_firewall :: secret_firewall
  pe_rules :: "policy_rule list result"
  pe_request_id :: string
  pe_approval_id :: "string \<Rightarrow> string"
  pe_approval_payload :: string
  pe_team_name :: "caller option \<Rightarrow> string"
  pe_prompts :: "payload \<Rightarrow> prompt_log list"
  pe_files :: "payload \<Rightarrow> nat"
  pe_tools :: "payload \<Rightarrow> (bool \<times> string) list"
  pe_bytes :: "payload \<Rightarrow> int"
  pe_expand :: "http_request \<Rightarrow> payload \<Rightarrow> payload"
  pe_cached :: "http_request \<Rightarrow> payload \<Rightarrow> bool"
  pe_snapshot :: cost_snapshot
  pe_pricing :: "(string \<times> model_price) list"
  pe_fallback_price :: string
  pe_text2sql :: bool
  pe_run_cost :: "dial_result \<Rightarrow> rat \<times> int"
  pe_send :: "nat \<Rightarrow> resolved_provider \<Rightarrow> body \<Rightarrow> upstream_reply"

section \<open>Steps\<close>

definition models_get :: "http_request \<Rightarrow> bool" where
  "models_get r \<longleftrightarrow> rq_method r = ''GET'' \<and> rq_path r = ''/v1/models''"

definition step_auth :: "pipe_env \<Rightarrow> go_time \<Rightarrow> http_request \<Rightarrow> (string \<times> caller option) step" where
  "step_auth e now r w =
     (if models_get r then (Inr (''anonymous'', None), w)
      else case authenticate (pe_gate e) now r (pw_gate w) of
             (None, g) \<Rightarrow> (Inl (Refused \<lparr>aerr_status = 401, aerr_message = ''invalid proxy API key'', aerr_code = ''invalid_api_key''\<rparr>),
                           w\<lparr>pw_gate := g\<rparr>)
           | (Some who, g) \<Rightarrow> (Inr who, w\<lparr>pw_gate := g\<rparr>))"

text \<open>The quota check reads the keys of the same database.\<close>

definition usage_of :: "world \<Rightarrow> usage_tables" where
  "usage_of w = (pw_usage w)\<lparr>us_keys := gs_keys (pw_gate w)\<rparr>"

definition quota_stage :: "go_time \<Rightarrow> http_request \<Rightarrow> string \<Rightarrow> unit step" where
  "quota_stage now r key = reads (\<lambda>w. step_quota (usage_of w) now r key)"

definition discovery_stage :: "pipe_env \<Rightarrow> http_request \<Rightarrow> caller option \<Rightarrow> payload \<Rightarrow> unit step" where
  "discovery_stage e r who p w =
     (case step_mcp_discovery r who (body_model (body_of p)) (pe_prompts e p) of
        None \<Rightarrow> (Inr (), w)
      | Some (Inl err) \<Rightarrow> (Inl (Refused err), w)
      | Some (Inr model) \<Rightarrow> (Inl (From_mcp model), w))"

definition routing_stage :: "pipe_env \<Rightarrow> http_request \<Rightarrow> string \<Rightarrow> caller option \<Rightarrow> payload \<Rightarrow> request_state step" where
  "routing_stage e r key who p = reads (\<lambda>_.
     case step_routing (pe_routing e) r who (signals_of (pe_files e p) (pe_prompts e p) (body_of p)) (body_of p) of
       Inl err \<Rightarrow> Inl err
     | Inr q \<Rightarrow>
         let sent = with_body p (rr_body q)
         in Inr \<lparr>rt_key = key, rt_caller = who, rt_body = sent, rt_model = rr_model q, rt_decision = rr_decision q,
                 rt_plan = rr_plan q, rt_prompts = pe_prompts e sent, rt_tools = pe_tools e sent,
                 rt_skill = no_skill, rt_cost = 0\<rparr>)"

definition skill_stage :: "pipe_env \<Rightarrow> go_time \<Rightarrow> http_request \<Rightarrow> request_state \<Rightarrow> request_state step" where
  "skill_stage e now r s w =
     (case step_skill (pe_skills e) now r (rt_key s) (rt_caller s) (rt_model s) (rt_body s) (pw_skills w) of
        (Inl err, t) \<Rightarrow> (Inl (Refused err), w\<lparr>pw_skills := t\<rparr>)
      | (Inr (p, use), t) \<Rightarrow> (Inr (s\<lparr>rt_body := p, rt_skill := use\<rparr>), w\<lparr>pw_skills := t\<rparr>))"

definition routed_of :: "request_state \<Rightarrow> routed_request" where
  "routed_of s = \<lparr>rr_body = body_of (rt_body s), rr_model = rt_model s, rr_decision = rt_decision s, rr_plan = rt_plan s\<rparr>"

definition deprecation_stage :: "pipe_env \<Rightarrow> go_time \<Rightarrow> http_request \<Rightarrow> request_state \<Rightarrow> request_state step" where
  "deprecation_stage e now r s = reads (\<lambda>_.
     case step_deprecation (pe_routing e) now r (routed_of s) of
       Inl err \<Rightarrow> Inl err
     | Inr q \<Rightarrow> Inr (s\<lparr>rt_body := with_body (rt_body s) (rr_body q), rt_model := rr_model q\<rparr>))"

definition limits_stage :: "pipe_env \<Rightarrow> http_request \<Rightarrow> request_state \<Rightarrow> request_state step" where
  "limits_stage e r s w =
     (case step_limits (pe_far e) (pe_limits e) r (pe_bytes e (rt_body s)) (rt_body s) of
        None \<Rightarrow> (Inl Crashed, w)
      | Some (Inl err) \<Rightarrow> (Inl (Refused err), w)
      | Some (Inr (p, _)) \<Rightarrow> (Inr (s\<lparr>rt_body := p\<rparr>), w))"

definition facts_of :: "pipe_env \<Rightarrow> request_state \<Rightarrow> string \<Rightarrow> request_facts" where
  "facts_of e s provider =
     \<lparr>rf_id = pe_request_id e, rf_key = rt_key s, rf_provider = provider, rf_plan = rt_plan s, rf_cost = rt_cost s,
      rf_team_name = pe_team_name e (rt_caller s)\<rparr>"

definition default_provider :: "pipe_env \<Rightarrow> string" where
  "default_provider e = uc_provider (re_conf (pe_routing e))"

text \<open>The governance of one phase, and the step that writes the tables it changes.\<close>

definition govern_phase ::
  "pipe_env \<Rightarrow> go_time \<Rightarrow> string \<Rightarrow> http_request \<Rightarrow> string \<Rightarrow> request_state \<Rightarrow> tool_tables \<Rightarrow>
   (admin_error + payload) \<times> tool_tables" where
  "govern_phase e now phase r provider s t =
     enforce_openai_governance (pe_firewall e) (pe_rules e) now (pe_approval_id e phase) (pe_approval_payload e)
       (phase = ''request'') phase r (facts_of e s provider) (rt_caller s) (rt_model s) (rt_body s) t"

definition governed :: "pipe_env \<Rightarrow> go_time \<Rightarrow> string \<Rightarrow> http_request \<Rightarrow> request_state \<Rightarrow> request_state step" where
  "governed e now phase r s w =
     (case govern_phase e now phase r (default_provider e) s (pw_tools w) of
        (Inl err, t) \<Rightarrow> (Inl (Refused err), w\<lparr>pw_tools := t\<rparr>)
      | (Inr p, t) \<Rightarrow> (Inr (s\<lparr>rt_body := p\<rparr>), w\<lparr>pw_tools := t\<rparr>))"

definition governance_stage :: "pipe_env \<Rightarrow> go_time \<Rightarrow> http_request \<Rightarrow> request_state \<Rightarrow> request_state step" where
  "governance_stage e now r s =
     and_then (if rq_method r = ''POST'' then governed e now ''request'' r s else (\<lambda>w. (Inr s, w)))
       (\<lambda>s. reads (\<lambda>w. case enforce_mcp_policy (pw_mcp w) (rt_tools s) of
          Inl err \<Rightarrow> Inl err
        | Inr _ \<Rightarrow> Inr (if chat_post r then s\<lparr>rt_body := pe_expand e r (rt_body s)\<rparr> else s)))"

definition cache_stage :: "pipe_env \<Rightarrow> http_request \<Rightarrow> request_state \<Rightarrow> request_state step" where
  "cache_stage e r s w = (if pe_cached e r (rt_body s) then (Inl From_cache, w) else (Inr s, w))"

definition estimate_of :: "pipe_env \<Rightarrow> request_state \<Rightarrow> cost_estimate" where
  "estimate_of e s =
     predict_cost (pe_fallback_price e) (pe_pricing e) (pe_snapshot e) (rt_model s) (prompt_token_estimate (rt_prompts s))
       (parse_max_tokens (pe_far e) (rt_body s))"

definition cost_stage :: "pipe_env \<Rightarrow> go_time \<Rightarrow> http_request \<Rightarrow> request_state \<Rightarrow> request_state step" where
  "cost_stage e now r s =
     (if \<not> chat_post r then (\<lambda>w. (Inr s, w))
      else
        let est = estimate_of e s
        in if over_budget (rt_caller s) est
           then reads (\<lambda>_. admin_fail 402 ''estimated cost exceeds key budget limit'' ''budget_denied'')
           else and_then (governed e now ''cost'' r (s\<lparr>rt_cost := ce_cost est\<rparr>))
                  (\<lambda>s. reads (\<lambda>_. if guard_blocks (pe_snapshot e) r est
                     then admin_fail 402 ''estimated cost exceeds the cost guard threshold'' ''cost_threshold_exceeded''
                     else Inr s)))"

text \<open>The plan as the provider phase sees it: with the provider that was selected.\<close>

definition with_plan_provider :: "string \<Rightarrow> request_state \<Rightarrow> request_state" where
  "with_plan_provider name s = s\<lparr>rt_plan := map_option (\<lambda>pl. pl\<lparr>pl_provider := name\<rparr>) (rt_plan s)\<rparr>"

definition provider_phase ::
  "pipe_env \<Rightarrow> go_time \<Rightarrow> http_request \<Rightarrow> request_state \<Rightarrow> tool_tables \<Rightarrow> string \<Rightarrow> (admin_error + payload) \<times> tool_tables" where
  "provider_phase e now r s t name = govern_phase e now ''provider'' r name (with_plan_provider name s) t"

text \<open>The skill run of a request that was dialled; cost and latency of the reply are an argument.\<close>

definition record_upstream_run :: "pipe_env \<Rightarrow> go_time \<Rightarrow> request_state \<Rightarrow> dial_result \<Rightarrow> skill_tables \<Rightarrow> skill_tables" where
  "record_upstream_run e now s d t =
     (let u = rt_skill s; (cost, latency) = pe_run_cost e d; model = (if dl_model d = [] then rt_model s else dl_model d)
      in case dl_answer d of
           Inl _ \<Rightarrow> record_skill_run now (rt_key s) (su_tools u) (su_name u) (su_version u) ''error'' model 0 latency t
         | Inr (status, _) \<Rightarrow>
             record_skill_run now (rt_key s) (su_tools u) (su_name u) (su_version u)
               (if 400 \<le> status then ''error'' else ''ok'') model cost latency t)"

definition upstream_stage :: "pipe_env \<Rightarrow> go_time \<Rightarrow> http_request \<Rightarrow> request_state \<Rightarrow> (payload \<times> dial_result) step" where
  "upstream_stage e now r s w =
     (let t = pw_tools w;
          selected = select_provider_forced (re_conf (pe_routing e)) (re_tables (pe_routing e)) r (rt_model s)
            (rd_provider (rt_decision s));
          t' = (case selected of
                  Inl _ \<Rightarrow> t
                | Inr p \<Rightarrow> if pe_text2sql e \<and> rq_method r = ''POST'' \<and> text2sql_model (rt_model s) \<or>
                              \<not> provider_allowed (rt_caller s) (rs_name p) \<or> rq_method r \<noteq> ''POST'' then t
                           else snd (provider_phase e now r s t (rs_name p)));
          govern = (\<lambda>name (b, model). case fst (provider_phase e now r s t name) of
                      Inl err \<Rightarrow> Inl err | Inr p \<Rightarrow> Inr (body_of p, model))
      in case step_upstream (pe_routing e) (pe_text2sql e) govern (pe_send e) r (rt_caller s) (routed_of s) of
           Inl err \<Rightarrow> (Inl (Refused err), w\<lparr>pw_tools := t'\<rparr>)
         | Inr None \<Rightarrow> (Inl From_text2sql, w\<lparr>pw_tools := t'\<rparr>)
         | Inr (Some d) \<Rightarrow>
             (Inr (rt_body s, d),
              w\<lparr>pw_tools := t', pw_skills := record_upstream_run e now s d (pw_skills w)\<rparr>))"

section \<open>The pipeline\<close>

text \<open>The steps after routing, up to the dial.\<close>

definition guarded :: "pipe_env \<Rightarrow> go_time \<Rightarrow> http_request \<Rightarrow> request_state \<Rightarrow> request_state step" where
  "guarded e now r s =
     and_then (skill_stage e now r s) (\<lambda>s.
     and_then (deprecation_stage e now r s) (\<lambda>s.
     and_then (limits_stage e r s) (\<lambda>s.
     and_then (governance_stage e now r s) (\<lambda>s.
     and_then (cache_stage e r s) (\<lambda>s.
     cost_stage e now r s)))))"

definition admitted :: "pipe_env \<Rightarrow> go_time \<Rightarrow> http_request \<Rightarrow> payload \<Rightarrow> request_state step" where
  "admitted e now r p =
     and_then (step_auth e now r) (\<lambda>(key, who).
     and_then (quota_stage now r key) (\<lambda>_.
     let p = step_chat_defaults (pe_default_stream e) r p
     in and_then (discovery_stage e r who p) (\<lambda>_. routing_stage e r key who p)))"

text \<open>The kill switch: value and note of the flag \<open>gateway_disabled\<close>.\<close>

definition gateway_disabled :: "world \<Rightarrow> string option" where
  "gateway_disabled w =
     (case pw_kill w of
        None \<Rightarrow> None
      | Some (v, reason) \<Rightarrow> if equal_fold (trim_space v) ''true'' \<or> v = ''1'' then Some reason else None)"

definition set_kill_switch :: "bool \<Rightarrow> string \<Rightarrow> world \<Rightarrow> world" where
  "set_kill_switch disabled reason w = w\<lparr>pw_kill := Some (if disabled then ''true'' else ''false'', trim_space reason)\<rparr>"

definition entry_stage :: "http_request \<Rightarrow> unit step" where
  "entry_stage r = reads (\<lambda>w.
     if rq_method r \<noteq> ''POST'' \<and> \<not> models_get r then admin_fail 405 ''method not allowed'' ''method_not_allowed''
     else case gateway_disabled w of
            Some reason \<Rightarrow> admin_fail 503 (''gateway is disabled by admin kill switch: '' @ reason) ''kill_switch_active''
          | None \<Rightarrow> Inr ())"

text \<open>The body that was sent, and what the dial of the upstream gave.\<close>

definition run_pipeline :: "pipe_env \<Rightarrow> go_time \<Rightarrow> http_request \<Rightarrow> payload \<Rightarrow> (payload \<times> dial_result) step" where
  "run_pipeline e now r p =
     and_then (entry_stage r) (\<lambda>_.
     and_then (admitted e now r p) (\<lambda>s.
     and_then (guarded e now r s) (upstream_stage e now r)))"

end
