(* ===== verification/PipelineProperties.thy ===== *)
theory PipelineProperties
  imports Pipeline GuardProperties GateProperties RoutingProperties
begin

text \<open>
  The pipeline as a whole: a request that was dialled has passed every guard, in the order of the steps; the kill
  switch stops everything; and the one input on which a step panics.
\<close>

section \<open>Steps in sequence\<close>

lemma and_then_passes: "and_then s f w = (Inr y, w') \<longleftrightarrow> (\<exists>x w1. s w = (Inr x, w1) \<and> f x w1 = (Inr y, w'))"
  by (auto simp: and_then_def split: prod.splits sum.splits)

lemma and_then_stops:
  "and_then s f w = (Inl out, w') \<longleftrightarrow> s w = (Inl out, w') \<or> (\<exists>x w1. s w = (Inr x, w1) \<and> f x w1 = (Inl out, w'))"
  by (auto simp: and_then_def split: prod.splits sum.splits)

lemma reads_passes: "reads f w = (Inr x, w') \<longleftrightarrow> f w = Inr x \<and> w' = w"
  by (auto simp: reads_def split: sum.splits)

lemma reads_stops: "reads f w = (Inl out, w') \<longleftrightarrow> (\<exists>e. f w = Inl e \<and> out = Refused e) \<and> w' = w"
  by (auto simp: reads_def split: sum.splits)

lemmas step_results = and_then_passes and_then_stops reads_passes reads_stops


section \<open>Governance\<close>




section \<open>Stages\<close>















section \<open>The whole pipeline\<close>



section \<open>The kill switch\<close>

lemma kill_switch_stops:
  "\<exists>err. run_pipeline e now r p (set_kill_switch True reason w) = (Inl (Refused err), set_kill_switch True reason w) \<and>
    aerr_status err \<in> {405, 503} \<and> gateway_disabled (set_kill_switch False reason w) = None"
proof -
  have "equal_fold (trim_space ''true'') ''true''" "\<not> equal_fold (trim_space ''false'') ''true''" by code_simp+
  then show ?thesis
    by (simp add: run_pipeline_def and_then_def entry_stage_def reads_def gateway_disabled_def set_kill_switch_def admin_fail_def)
qed

section \<open>Panics\<close>









section \<open>A sample gateway\<close>


































end
