(* ===== verification/AuditLog.thy ===== *)
theory AuditLog
  imports GoStrings
begin

text \<open>
  The audit logger (\<open>internal/store/async.go\<close>): a bounded queue, one writer, a fallback file for records the
  database refuses, and the replay of that file.  The handlers, the writer and a replay run at the same time; their
  atomic actions are the events of a step relation.  The fallback mutex is held for the whole of an append and of a
  replay.  What the database and the file system answer is part of the events; the JSON codec is an argument.
\<close>

section \<open>State\<close>

text \<open>A record: its id, which is the primary key of \<open>request_logs\<close>, and everything else.\<close>

record log_record =
  lr_id :: string
  lr_content :: string

record log_conf =
  lo_capacity :: nat
  lo_path :: string
  lo_encode :: "log_record \<Rightarrow> string option"
  lo_decode :: "string \<Rightarrow> log_record option"

text \<open>Where the writer is: at the channel, with a record to insert, with one to append to the file, or returned.\<close>

datatype writer = Waiting | Holding log_record | Falling log_record | Finished

record replay =
  rp_rest :: "string list"
  rp_tmp :: "string list"
  rp_imported :: nat
  rp_duplicates :: nat
  rp_failed :: nat
  rp_remaining :: nat

record logger =
  lg_queue :: "log_record list"
  lg_done :: bool
  lg_writer :: writer
  lg_dropped :: nat
  lg_written :: nat
  lg_failed :: nat
  lg_last_error :: string
  lg_fallback :: "string list option"
  lg_replay :: "replay option"
  lg_db :: "log_record list"

definition new_async_logger :: logger where
  "new_async_logger =
     \<lparr>lg_queue = [], lg_done = False, lg_writer = Waiting, lg_dropped = 0, lg_written = 0, lg_failed = 0, lg_last_error = [],
      lg_fallback = None, lg_replay = None, lg_db = []\<rparr>"

text \<open>
  The answer to \<open>InsertLogRecord\<close>: committed; refused with a message; or committed with an error on the way
  back.  A record whose id is stored cannot be committed again.
\<close>

datatype insert_answer = Committed | Refused_with string | Committed_but string

definition insert_log_record :: "log_record \<Rightarrow> insert_answer \<Rightarrow> log_record list \<Rightarrow> log_record list" where
  "insert_log_record r a db = (case a of Refused_with _ \<Rightarrow> db | _ \<Rightarrow> db @ [r])"

definition insert_possible :: "log_record \<Rightarrow> insert_answer \<Rightarrow> log_record list \<Rightarrow> bool" where
  "insert_possible r a db \<longleftrightarrow> (case a of Refused_with _ \<Rightarrow> True | _ \<Rightarrow> lr_id r \<notin> lr_id ` set db)"

definition insert_error :: "insert_answer \<Rightarrow> string option" where
  "insert_error a = (case a of Committed \<Rightarrow> None | Refused_with e \<Rightarrow> Some e | Committed_but e \<Rightarrow> Some e)"

section \<open>Handlers\<close>

definition enqueue_log :: "log_conf \<Rightarrow> log_record \<Rightarrow> logger \<Rightarrow> logger" where
  "enqueue_log c r s =
     (if length (lg_queue s) < lo_capacity c then s\<lparr>lg_queue := lg_queue s @ [r]\<rparr> else s\<lparr>lg_dropped := lg_dropped s + 1\<rparr>)"

definition stop_logger :: "logger \<Rightarrow> logger" where
  "stop_logger s = s\<lparr>lg_done := True\<rparr>"

section \<open>The writer\<close>

definition take_record :: "logger \<Rightarrow> logger" where
  "take_record s = s\<lparr>lg_queue := tl (lg_queue s), lg_writer := Holding (hd (lg_queue s))\<rparr>"

definition write_record :: "log_record \<Rightarrow> insert_answer \<Rightarrow> logger \<Rightarrow> logger" where
  "write_record r a s =
     (let s = s\<lparr>lg_db := insert_log_record r a (lg_db s)\<rparr>
      in case insert_error a of
           None \<Rightarrow> s\<lparr>lg_written := lg_written s + 1, lg_last_error := [], lg_writer := Waiting\<rparr>
         | Some e \<Rightarrow> s\<lparr>lg_failed := lg_failed s + 1, lg_last_error := e, lg_writer := Falling r\<rparr>)"

text \<open>\<open>file_ok\<close>: directory, file and write of the fallback succeed.\<close>

definition write_fallback :: "log_conf \<Rightarrow> log_record \<Rightarrow> bool \<Rightarrow> logger \<Rightarrow> logger" where
  "write_fallback c r file_ok s =
     (let s = s\<lparr>lg_writer := Waiting\<rparr>
      in if lo_path c = [] \<or> \<not> file_ok then s
         else let held = (case lg_fallback s of None \<Rightarrow> [] | Some ls \<Rightarrow> ls)
              in s\<lparr>lg_fallback := Some (held @ (case lo_encode c r of None \<Rightarrow> [] | Some l \<Rightarrow> [l]))\<rparr>)"

section \<open>The replay\<close>

definition duplicate_log_record_error :: "string \<Rightarrow> bool" where
  "duplicate_log_record_error msg =
     (let m = to_lower msg in contains m ''unique constraint'' \<or> contains m ''duplicate key'' \<or> contains m ''constraint failed'')"

definition open_replay :: "logger \<Rightarrow> logger" where
  "open_replay s =
     (case lg_fallback s of
        None \<Rightarrow> s
      | Some ls \<Rightarrow>
          s\<lparr>lg_replay := Some \<lparr>rp_rest = ls, rp_tmp = [], rp_imported = 0, rp_duplicates = 0, rp_failed = 0, rp_remaining = 0\<rparr>\<rparr>)"

text \<open>A line that stays: \<open>tmp_ok\<close> when the write to the temporary file succeeds, which the code does not check.\<close>

definition keep_line :: "string \<Rightarrow> bool \<Rightarrow> replay \<Rightarrow> replay" where
  "keep_line l tmp_ok p =
     p\<lparr>rp_failed := rp_failed p + 1, rp_remaining := rp_remaining p + 1, rp_tmp := rp_tmp p @ (if tmp_ok then [l] else [])\<rparr>"

definition line_record :: "log_conf \<Rightarrow> string \<Rightarrow> log_record option" where
  "line_record c l = (if trim_space l = [] then None else lo_decode c (trim_space l))"

definition replay_line :: "log_conf \<Rightarrow> insert_answer \<Rightarrow> bool \<Rightarrow> replay \<Rightarrow> logger \<Rightarrow> logger" where
  "replay_line c a tmp_ok p s =
     (let l = trim_space (hd (rp_rest p)); p = p\<lparr>rp_rest := tl (rp_rest p)\<rparr>
      in if l = [] then s\<lparr>lg_replay := Some p\<rparr>
         else case lo_decode c l of
                None \<Rightarrow> s\<lparr>lg_replay := Some (keep_line l tmp_ok p)\<rparr>
              | Some r \<Rightarrow>
                  let s = s\<lparr>lg_db := insert_log_record r a (lg_db s)\<rparr>
                  in case insert_error a of
                       None \<Rightarrow> s\<lparr>lg_replay := Some (p\<lparr>rp_imported := rp_imported p + 1\<rparr>)\<rparr>
                     | Some e \<Rightarrow>
                         if duplicate_log_record_error e then s\<lparr>lg_replay := Some (p\<lparr>rp_duplicates := rp_duplicates p + 1\<rparr>)\<rparr>
                         else s\<lparr>lg_replay := Some (keep_line l tmp_ok p)\<rparr>)"

text \<open>The two calls that end a replay: removal of the fallback file, and renaming of what remains onto it.\<close>

definition close_replay :: "bool \<Rightarrow> bool \<Rightarrow> replay \<Rightarrow> logger \<Rightarrow> logger" where
  "close_replay removed renamed p s =
     s\<lparr>lg_replay := None,
       lg_fallback := (if \<not> removed then lg_fallback s else if rp_remaining p = 0 \<or> \<not> renamed then None else Some (rp_tmp p))\<rparr>"

section \<open>Steps\<close>

datatype log_event =
  Enqueue log_record | Hand_off log_record | Stop | Take | Write insert_answer | Append bool | Return |
  Replay_open | Replay_line insert_answer bool | Replay_close bool bool | Replay_abort

text \<open>
  A send to a channel at which the writer waits hands the record over.  A replay that cannot read a line (the scanner
  stops at 16 MiB) or open a file leaves the fallback as it is.
\<close>

inductive log_step :: "log_conf \<Rightarrow> logger \<Rightarrow> log_event \<Rightarrow> logger \<Rightarrow> bool" for c where
  enqueue: "log_step c s (Enqueue r) (enqueue_log c r s)"
| hand_off: "lg_writer s = Waiting \<Longrightarrow> lg_queue s = [] \<Longrightarrow> log_step c s (Hand_off r) (s\<lparr>lg_writer := Holding r\<rparr>)"
| stop: "\<not> lg_done s \<Longrightarrow> log_step c s Stop (stop_logger s)"
| take: "lg_writer s = Waiting \<Longrightarrow> lg_queue s \<noteq> [] \<Longrightarrow> log_step c s Take (take_record s)"
| returns: "lg_writer s = Waiting \<Longrightarrow> lg_done s \<Longrightarrow> lg_queue s = [] \<Longrightarrow> log_step c s Return (s\<lparr>lg_writer := Finished\<rparr>)"
| inserts: "lg_writer s = Holding r \<Longrightarrow> insert_possible r a (lg_db s) \<Longrightarrow> log_step c s (Write a) (write_record r a s)"
| appends: "lg_writer s = Falling r \<Longrightarrow> lg_replay s = None \<Longrightarrow> log_step c s (Append ok) (write_fallback c r ok s)"
| replay_open: "lo_path c \<noteq> [] \<Longrightarrow> lg_replay s = None \<Longrightarrow> log_step c s Replay_open (open_replay s)"
| replay_line:
    "lg_replay s = Some p \<Longrightarrow> rp_rest p = l # ls \<Longrightarrow>
     (case line_record c l of None \<Rightarrow> True | Some r \<Rightarrow> insert_possible r a (lg_db s)) \<Longrightarrow>
     log_step c s (Replay_line a ok) (replay_line c a ok p s)"
| replay_close: "lg_replay s = Some p \<Longrightarrow> rp_rest p = [] \<Longrightarrow> log_step c s (Replay_close rm rn) (close_replay rm rn p s)"
| replay_abort: "lg_replay s = Some p \<Longrightarrow> log_step c s Replay_abort (s\<lparr>lg_replay := None\<rparr>)"

inductive_simps log_step_simps [simp]:
  "log_step c s (Enqueue r) t" "log_step c s (Hand_off r) t" "log_step c s Stop t" "log_step c s Take t"
  "log_step c s Return t" "log_step c s (Write a) t" "log_step c s (Append ok) t" "log_step c s Replay_open t"
  "log_step c s (Replay_line a ok) t" "log_step c s (Replay_close rm rn) t" "log_step c s Replay_abort t"

text \<open>The records an event brings in.\<close>

definition taken_on :: "log_conf \<Rightarrow> logger \<Rightarrow> log_event \<Rightarrow> log_record set" where
  "taken_on c s ev =
     (case ev of
        Enqueue r \<Rightarrow> if length (lg_queue s) < lo_capacity c then {r} else {}
      | Hand_off r \<Rightarrow> {r}
      | _ \<Rightarrow> {})"

text \<open>Runs whose events satisfy \<open>P\<close> where they happen, with all records brought in.\<close>

inductive log_run :: "(logger \<Rightarrow> log_event \<Rightarrow> bool) \<Rightarrow> log_conf \<Rightarrow> logger \<Rightarrow> log_event list \<Rightarrow> log_record set \<Rightarrow> logger \<Rightarrow> bool"
  for P c s where
  start: "log_run P c s [] {} s"
| further: "log_run P c s evs A t \<Longrightarrow> log_step c t ev u \<Longrightarrow> P t ev \<Longrightarrow> log_run P c s (evs @ [ev]) (A \<union> taken_on c t ev) u"

end
