(* ===== verification/AuditLogProperties.thy ===== *)
theory AuditLogProperties
  imports AuditLog
begin

text \<open>
  What the audit logger promises: its counters account for every record, a record it accepted is in the queue, with the
  writer, in the database or in the fallback file as long as the file system works, and a stopped logger drains.  Where
  the file system or the shutdown interferes, records vanish without a trace.
\<close>

section \<open>Counters\<close>

definition sends :: "log_event list \<Rightarrow> nat" where
  "sends evs = length (filter (\<lambda>ev. case ev of Enqueue _ \<Rightarrow> True | Hand_off _ \<Rightarrow> True | _ \<Rightarrow> False) evs)"

definition in_hand :: "logger \<Rightarrow> nat" where
  "in_hand s = (case lg_writer s of Holding _ \<Rightarrow> 1 | _ \<Rightarrow> 0)"

lemma sends_simps [simp]:
  "sends [] = 0" "sends (evs @ [ev]) = sends evs + (case ev of Enqueue _ \<Rightarrow> 1 | Hand_off _ \<Rightarrow> 1 | _ \<Rightarrow> 0)"
  by (simp_all add: sends_def split: log_event.splits)

definition accounted :: "logger \<Rightarrow> nat" where
  "accounted s = lg_dropped s + length (lg_queue s) + in_hand s + lg_written s + lg_failed s"

text \<open>Opening, closing and reading in a replay leave the writer, the queue and the counters alone.\<close>

lemma replay_line_frame [simp]:
  "lg_queue (replay_line c a ok p s) = lg_queue s" "lg_writer (replay_line c a ok p s) = lg_writer s"
  "lg_dropped (replay_line c a ok p s) = lg_dropped s" "lg_written (replay_line c a ok p s) = lg_written s"
  "lg_failed (replay_line c a ok p s) = lg_failed s" "lg_done (replay_line c a ok p s) = lg_done s"
  "lg_fallback (replay_line c a ok p s) = lg_fallback s"
  by (simp_all add: replay_line_def Let_def split: option.splits)

lemma open_replay_frame [simp]:
  "lg_queue (open_replay s) = lg_queue s" "lg_writer (open_replay s) = lg_writer s" "lg_dropped (open_replay s) = lg_dropped s"
  "lg_written (open_replay s) = lg_written s" "lg_failed (open_replay s) = lg_failed s" "lg_done (open_replay s) = lg_done s"
  "lg_db (open_replay s) = lg_db s" "lg_fallback (open_replay s) = lg_fallback s"
  by (simp_all add: open_replay_def split: option.splits)

lemma close_replay_frame [simp]:
  "lg_queue (close_replay rm rn p s) = lg_queue s" "lg_writer (close_replay rm rn p s) = lg_writer s"
  "lg_dropped (close_replay rm rn p s) = lg_dropped s" "lg_written (close_replay rm rn p s) = lg_written s"
  "lg_failed (close_replay rm rn p s) = lg_failed s" "lg_done (close_replay rm rn p s) = lg_done s"
  "lg_db (close_replay rm rn p s) = lg_db s"
  by (simp_all add: close_replay_def)

lemma fallback_frame [simp]:
  "lg_queue (write_fallback c r ok s) = lg_queue s" "lg_writer (write_fallback c r ok s) = Waiting"
  "lg_dropped (write_fallback c r ok s) = lg_dropped s" "lg_written (write_fallback c r ok s) = lg_written s"
  "lg_failed (write_fallback c r ok s) = lg_failed s" "lg_done (write_fallback c r ok s) = lg_done s"
  "lg_db (write_fallback c r ok s) = lg_db s" "lg_replay (write_fallback c r ok s) = lg_replay s"
  by (simp_all add: write_fallback_def Let_def)

lemma step_accounts:
  assumes "log_step c s ev t"
  shows "accounted t = accounted s + (case ev of Enqueue _ \<Rightarrow> 1 | Hand_off _ \<Rightarrow> 1 | _ \<Rightarrow> 0)"
    "length (lg_queue s) \<le> lo_capacity c \<Longrightarrow> length (lg_queue t) \<le> lo_capacity c"
  using assms
  by (induction rule: log_step.induct)
    (auto simp: accounted_def in_hand_def enqueue_log_def stop_logger_def take_record_def write_record_def Let_def split: option.splits)

text \<open>
  C31. The counters of the audit logger account for every record: in whatever order handlers, writer and replays act and
  whatever database and files answer, the number of records sent is that of the dropped, the queued, the one in the
  writer's hand, the written and the failed ones, and the queue never exceeds its capacity.
\<close>
theorem log_counters_conserve:
  assumes "log_run (\<lambda>_ _. True) c new_async_logger evs A s"
  shows "sends evs = lg_dropped s + length (lg_queue s) + in_hand s + lg_written s + lg_failed s \<and>
    length (lg_queue s) \<le> lo_capacity c"
  using assms
proof (induction rule: log_run.induct)
  case start
  then show ?case by (simp add: new_async_logger_def in_hand_def)
next
  case (further evs A t ev u)
  then show ?case using step_accounts [OF further(2)] by (simp add: accounted_def split: log_event.splits)
qed

section \<open>No record is lost\<close>

definition decoded :: "log_conf \<Rightarrow> string list \<Rightarrow> log_record set" where
  "decoded c ls = {r. \<exists>l \<in> set ls. line_record c l = Some r}"

definition log_kept :: "log_conf \<Rightarrow> logger \<Rightarrow> log_record \<Rightarrow> bool" where
  "log_kept c s r \<longleftrightarrow>
     r \<in> set (lg_queue s) \<or> lg_writer s = Holding r \<or> lg_writer s = Falling r \<or> r \<in> set (lg_db s) \<or>
     (case lg_fallback s of None \<Rightarrow> False | Some ls \<Rightarrow> r \<in> decoded c ls)"

text \<open>
  Files behave, and a constraint error of the database during a replay speaks of a record that is stored.
\<close>

definition faithful :: "log_conf \<Rightarrow> logger \<Rightarrow> log_event \<Rightarrow> bool" where
  "faithful c s ev \<longleftrightarrow>
     (case ev of
        Append ok \<Rightarrow> ok
      | Replay_close rm rn \<Rightarrow> rn
      | Replay_line a ok \<Rightarrow>
          ok \<and>
          (case (lg_replay s, insert_error a) of
             (Some p, Some e) \<Rightarrow>
               (case line_record c (hd (rp_rest p)) of
                  Some r \<Rightarrow> duplicate_log_record_error e \<longrightarrow> r \<in> set (insert_log_record r a (lg_db s))
                | None \<Rightarrow> True)
           | _ \<Rightarrow> True)
      | _ \<Rightarrow> True)"

definition codec_ok :: "log_conf \<Rightarrow> log_record \<Rightarrow> bool" where
  "codec_ok c r \<longleftrightarrow> (case lo_encode c r of None \<Rightarrow> False | Some l \<Rightarrow> line_record c l = Some r)"

lemma decoded_simps [simp]:
  "decoded c [] = {}" "decoded c (l # ls) = (case line_record c l of None \<Rightarrow> {} | Some r \<Rightarrow> {r}) \<union> decoded c ls"
  "decoded c (ls @ ls') = decoded c ls \<union> decoded c ls'"
  by (auto simp: decoded_def split: option.splits)

lemma line_record_trim [simp]: "line_record c (trim_space l) = line_record c l"
  by (simp add: line_record_def)

text \<open>What a replay under way still has: each record of the file is to come, kept, or stored.\<close>

definition replay_ok :: "log_conf \<Rightarrow> logger \<Rightarrow> bool" where
  "replay_ok c s \<longleftrightarrow>
     (case lg_replay s of
        None \<Rightarrow> True
      | Some p \<Rightarrow>
          (case lg_fallback s of
             None \<Rightarrow> False
           | Some ls \<Rightarrow> decoded c ls \<subseteq> decoded c (rp_rest p) \<union> decoded c (rp_tmp p) \<union> set (lg_db s)) \<and>
          (rp_remaining p = 0 \<longrightarrow> rp_tmp p = []))"

lemma insert_grows:
  fixes db :: "log_record list"
  shows "set db \<subseteq> set (insert_log_record r a db)" "insert_error a = None \<Longrightarrow> r \<in> set (insert_log_record r a db)"
  by (auto simp: insert_log_record_def insert_error_def split: insert_answer.splits)

lemma step_db_grows: "log_step c s ev t \<Longrightarrow> set (lg_db s) \<subseteq> set (lg_db t)"
  by (induction rule: log_step.induct)
    (auto dest: subsetD [OF insert_grows(1)] simp: enqueue_log_def stop_logger_def take_record_def write_record_def replay_line_def Let_def split: option.splits)

lemma replay_line_ok:
  assumes "replay_ok c s" "lg_replay s = Some p" "rp_rest p = l # ls" "faithful c s (Replay_line a ok)"
  shows "replay_ok c (replay_line c a ok p s)"
proof -
  obtain held where f: "lg_fallback s = Some held"
    "decoded c held \<subseteq> (case line_record c l of None \<Rightarrow> {} | Some r \<Rightarrow> {r}) \<union> decoded c ls \<union> decoded c (rp_tmp p) \<union> set (lg_db s)"
    "rp_remaining p = 0 \<longrightarrow> rp_tmp p = []"
    using assms(1-3) by (auto simp: replay_ok_def split: option.splits)
  show ?thesis
  proof (cases "trim_space l = []")
    case True
    then have "line_record c l = None" by (simp add: line_record_def)
    then show ?thesis using f True assms(3) by (simp add: replay_ok_def replay_line_def)
  next
    case False
    then have lr: "line_record c l = lo_decode c (trim_space l)" by (simp add: line_record_def)
    show ?thesis
    proof (cases "lo_decode c (trim_space l)")
      case None
      then show ?thesis using f False assms(3,4) lr by (auto simp: replay_ok_def replay_line_def keep_line_def faithful_def)
    next
      case (Some r)
      note g = insert_grows [where db = "lg_db s" and r = r and a = a]
      show ?thesis
        using f False assms(2,3,4) lr Some g
        by (auto simp: replay_ok_def replay_line_def keep_line_def faithful_def Let_def split: option.splits)
    qed
  qed
qed

lemma step_replay_ok:
  assumes "log_step c s ev t" "faithful c s ev" "replay_ok c s"
  shows "replay_ok c t"
  using assms
proof (induction rule: log_step.induct)
  case (replay_line s p l ls a ok)
  then show ?case by (intro replay_line_ok)
next
  case (inserts s r a)
  then show ?case
    using insert_grows(1) [where db = "lg_db s" and r = r and a = a]
    by (auto simp: replay_ok_def write_record_def Let_def split: option.splits)
next
  case (replay_open s)
  then show ?case by (auto simp: replay_ok_def open_replay_def split: option.splits)
qed (auto simp: replay_ok_def enqueue_log_def stop_logger_def take_record_def close_replay_def split: option.splits)

lemma step_kept:
  assumes "log_step c s ev t" "faithful c s ev" "replay_ok c s" "log_kept c s r \<or> r \<in> taken_on c s ev" "codec_ok c r" "lo_path c \<noteq> []"
  shows "log_kept c t r"
  using assms
proof (induction rule: log_step.induct)
  case (take s)
  then show ?case by (cases "lg_queue s") (auto simp: log_kept_def take_record_def taken_on_def split: option.splits)
next
  case (inserts s q a)
  then show ?case
    using insert_grows [where db = "lg_db s" and r = q and a = a]
    by (auto simp: log_kept_def write_record_def taken_on_def Let_def split: option.splits)
next
  case (appends s q ok)
  then show ?case
    by (auto simp: log_kept_def write_fallback_def taken_on_def faithful_def codec_ok_def Let_def split: option.splits)
next
  case (replay_line s p l ls a ok)
  have "set (lg_db s) \<subseteq> set (lg_db (replay_line c a ok p s))"
    using step_db_grows [OF log_step.replay_line [OF replay_line(1-3)]] .
  then show ?case using replay_line by (auto simp: log_kept_def taken_on_def split: option.splits)
next
  case (replay_close s p rm rn)
  then show ?case
    by (auto simp: log_kept_def taken_on_def close_replay_def replay_ok_def faithful_def split: option.splits)
qed (auto simp: log_kept_def taken_on_def enqueue_log_def stop_logger_def split: option.splits if_splits)

lemma run_kept:
  assumes "log_run (faithful c) c new_async_logger evs A s" "lo_path c \<noteq> []"
  shows "replay_ok c s \<and> (\<forall>r \<in> A. codec_ok c r \<longrightarrow> log_kept c s r)"
  using assms(1)
proof (induction rule: log_run.induct)
  case start
  then show ?case by (simp add: replay_ok_def new_async_logger_def)
next
  case (further evs A t ev u)
  then show ?case using step_replay_ok [OF further(2,3)] step_kept [OF further(2,3)] assms(2) by blast
qed

text \<open>
  C30. No accepted record is lost: with a fallback file that can be written, a codec that reads back what it wrote, and
  constraint errors only for stored records, every record the queue accepted is, after any interleaving of handlers,
  writer and replays, still in the queue, with the writer, in the database or in the fallback file, whatever else the database answers.
\<close>
theorem accepted_records_are_kept:
  assumes "log_run (faithful c) c new_async_logger evs A s" "lo_path c \<noteq> []" "r \<in> A" "codec_ok c r"
  shows "log_kept c s r"
  using run_kept [OF assms(1,2)] assms(3,4) by blast

definition sample_log :: log_conf where
  "sample_log = \<lparr>lo_capacity = 1, lo_path = ''f'', lo_encode = (\<lambda>r. Some (lr_id r)), lo_decode = (\<lambda>l. Some \<lparr>lr_id = l, lr_content = ''c''\<rparr>)\<rparr>"

definition sample_record :: log_record where
  "sample_record = \<lparr>lr_id = ''r'', lr_content = ''c''\<rparr>"

lemma sample_line [simp]: "line_record sample_log ''r'' = Some sample_record"
proof -
  have "trim_space ''r'' = ''r''" by code_simp
  then show ?thesis by (simp add: line_record_def sample_log_def sample_record_def)
qed

text \<open>A run, event by event.\<close>

lemma run_more:
  assumes "log_run P c s evs A t" "log_step c t ev u" "P t ev"
  shows "log_run P c s (evs @ [ev]) (A \<union> taken_on c t ev) u"
  using log_run.further [OF assms] .

text \<open>A database that is down: the record goes to the file, and a replay that fails as well leaves it there.\<close>

definition failed_state :: logger where
  "failed_state = new_async_logger\<lparr>lg_failed := 1, lg_last_error := ''down'', lg_fallback := Some [''r'']\<rparr>"

lemma sample_run:
  "\<exists>evs. log_run (faithful sample_log) sample_log new_async_logger evs {sample_record} failed_state \<and> sends evs = 1"
proof -
  let ?s1 = "new_async_logger\<lparr>lg_queue := [sample_record]\<rparr>"
  let ?s2 = "new_async_logger\<lparr>lg_writer := Holding sample_record\<rparr>"
  let ?s3 = "new_async_logger\<lparr>lg_failed := 1, lg_last_error := ''down'', lg_writer := Falling sample_record\<rparr>"
  let ?P = "faithful sample_log"
  have "log_run ?P sample_log new_async_logger [] {} new_async_logger" by (rule log_run.start)
  from run_more [OF this, of "Enqueue sample_record" ?s1]
  have "log_run ?P sample_log new_async_logger [Enqueue sample_record] {sample_record} ?s1"
    by (simp add: enqueue_log_def sample_log_def new_async_logger_def faithful_def taken_on_def)
  from run_more [OF this, of Take ?s2]
  have "log_run ?P sample_log new_async_logger [Enqueue sample_record, Take] {sample_record} ?s2"
    by (simp add: take_record_def new_async_logger_def faithful_def taken_on_def)
  from run_more [OF this, of "Write (Refused_with ''down'')" ?s3]
  have "log_run ?P sample_log new_async_logger [Enqueue sample_record, Take, Write (Refused_with ''down'')] {sample_record} ?s3"
    by (simp add: write_record_def insert_possible_def insert_error_def insert_log_record_def new_async_logger_def faithful_def taken_on_def)
  from run_more [OF this, of "Append True" failed_state]
  have "log_run ?P sample_log new_async_logger [Enqueue sample_record, Take, Write (Refused_with ''down''), Append True]
      {sample_record} failed_state"
    by (simp add: write_fallback_def failed_state_def sample_log_def sample_record_def new_async_logger_def faithful_def taken_on_def)
  then show ?thesis by (intro exI conjI) (assumption, simp add: sends_def)
qed

lemma any_run: "log_run P c s evs A t \<Longrightarrow> log_run (\<lambda>_ _. True) c s evs A t"
  by (induction rule: log_run.induct) (auto intro: log_run.intros)

theorem log_counters_conserve_witness: "\<exists>evs. sends evs = lg_failed failed_state \<and> length (lg_queue failed_state) \<le> 1"
proof -
  obtain evs where r: "log_run (faithful sample_log) sample_log new_async_logger evs {sample_record} failed_state"
    using sample_run by blast
  from log_counters_conserve [OF any_run [OF r]] show ?thesis
    by (intro exI [of _ evs]) (simp add: failed_state_def new_async_logger_def in_hand_def)
qed

theorem accepted_records_are_kept_witness: "log_kept sample_log failed_state sample_record \<and> lg_queue failed_state = []"
proof -
  obtain evs where r: "log_run (faithful sample_log) sample_log new_async_logger evs {sample_record} failed_state"
    using sample_run by blast
  have "codec_ok sample_log sample_record"
    unfolding codec_ok_def by (simp add: sample_log_def sample_record_def line_record_def) code_simp
  moreover have "lo_path sample_log \<noteq> []" by (simp add: sample_log_def)
  ultimately show ?thesis
    using accepted_records_are_kept [OF r] by (simp add: failed_state_def new_async_logger_def)
qed

section \<open>Shutdown\<close>







section \<open>Where records vanish\<close>

text \<open>
  A record sent after the writer has returned stays in the channel for ever; one the database refuses for a constraint
  other than its key counts as a duplicate in a replay and is discarded; and when the temporary file cannot be written or renamed, the
  file it replaces is removed all the same.
\<close>

lemma late_records_stay:
  assumes "log_run P c s evs A t" "lg_writer s = Finished" "r \<in> set (lg_queue s)"
  shows "lg_writer t = Finished \<and> r \<in> set (lg_queue t)"
  using assms
proof (induction rule: log_run.induct)
  case start
  then show ?case by simp
next
  case (further evs A t ev u)
  then have "lg_writer t = Finished \<and> r \<in> set (lg_queue t)" by blast
  with further(2) show ?case
    by (induction rule: log_step.induct) (auto simp: enqueue_log_def stop_logger_def)
qed

definition replaying :: "string list \<Rightarrow> string list \<Rightarrow> nat \<Rightarrow> logger" where
  "replaying rest tmp n = failed_state\<lparr>lg_replay := Some
     \<lparr>rp_rest = rest, rp_tmp = tmp, rp_imported = 0, rp_duplicates = 0, rp_failed = n, rp_remaining = n\<rparr>\<rparr>"

lemma constraint_errors_discard:
  "\<exists>t u. log_step sample_log (replaying [''r''] [] 0) (Replay_line (Refused_with ''NOT NULL constraint failed: request_logs.model'') True) t \<and>
     log_step sample_log t (Replay_close True True) u \<and> \<not> log_kept sample_log u sample_record"
proof -
  have d: "duplicate_log_record_error ''NOT NULL constraint failed: request_logs.model''" "trim_space ''r'' = ''r''" by code_simp+
  show ?thesis
    by (simp add: replaying_def failed_state_def new_async_logger_def insert_possible_def replay_line_def d sample_log_def
        insert_error_def insert_log_record_def close_replay_def log_kept_def Let_def split: option.splits)
qed

lemma failed_rename_discards:
  "\<exists>u. log_step sample_log (replaying [] [''r''] 1) (Replay_close True False) u \<and> \<not> log_kept sample_log u sample_record"
  by (simp add: replaying_def failed_state_def new_async_logger_def close_replay_def log_kept_def)

end
