(* ===== verification/Spec2Isabelle.thy ===== *)
theory Spec2Isabelle
  imports AccessProperties Lifecycle FlowProperties SqlGuard ToolProperties AccessKeyProperties
    GateProperties RoutingProperties QuotaProperties SkillProperties GuardProperties PipelineProperties AuditLogProperties
begin

text \<open>
  Data Works: a gateway in front of language models that also runs a factory of data products.  This is the
  documentation of the development; file names are those under \<open>src/internal\<close>.

  \<^bold>\<open>The program.\<close>  Requests to \<open>/v1\<close> run through a pipeline: authentication, quotas, routing, skills,
  limits, governance, caches, predicted cost, and the call of an upstream model with failover.  Requests to
  \<open>/v1/data-products\<close> are answered from catalog rows under contracts and entitlements.  Administrators write the
  tables behind both (keys, accounts, policies, tools, skills, quotas, products, contracts, flows) through
  \<open>/admin\<close>, where a product is published only through a gate over stored evidence.  All state is in SQL tables
  of \<open>store\<close>; the handlers of \<open>proxy\<close> read and write them; \<open>dataworks\<close> and \<open>text2sql\<close> are pure.

  \<^bold>\<open>Common ground.\<close>  Prelude: results, stable sorting, the locale of weak orders.  GoStrings, GoTime,
  TimeRoundTrip: the parts of \<open>strings\<close>, \<open>strconv\<close> and \<open>time\<close> the program uses, with the round trip
  of stored times.  Tables: an SQL table with a primary key is a list of rows; the locales \<open>row_store\<close> and
  \<open>replacing_store\<close> state what a lookup returns after an upsert, and every table below interprets one of them
  with its own upsert.  StoreTypes: the row types of \<open>store\<close>.

  \<^bold>\<open>Data products.\<close>  ContractStore, ProductStore, CatalogStore, GovernanceStore: the tables of
  \<open>store/dataworks_operations.go\<close>, \<open>data_products.go\<close>, \<open>dataworks_governance.go\<close>.
  AccessGate: \<open>handleV1DataProductQuery\<close> of \<open>proxy/dataworks_runtime.go\<close> from the method check to metering, over
  the limiter of RateLimiter (\<open>dataworks_ratelimit.go\<close>, whose calls are atomic steps since each holds the mutex).
  AccessProperties: when it answers, and that the answer rests on live rows.  ContractAdmin: the writes to
  contracts, entitlements and approvals (\<open>admin_dataworks.go\<close>).  PublishGate: \<open>EvaluatePublishGateV2\<close>
  (\<open>dataworks/domain.go\<close>) with its exact condition.  Lifecycle: every handler that changes the status of a product,
  and that publication is caused by the gate or by outcome scoring.

  \<^bold>\<open>Identity.\<close>  AccessKeys, IpAddress, IpLaws, AccessKeyProperties: API keys, their policies and
  self service (\<open>proxy/auth.go\<close>, \<open>api_key_policy.go\<close>, \<open>me_keys.go\<close>); a key handed on admits no more than
  its parent.  Accounts, AccountProperties, AccountRoles: users, sessions, refresh tokens and roles (\<open>store/auth.go\<close>,
  \<open>auth_handlers.go\<close>, \<open>admin_users.go\<close>).  AuthGate, GateProperties: who passes the gate of \<open>/v1\<close> and
  of \<open>/admin\<close>.

  \<^bold>\<open>Governance.\<close>  PolicyRules, PolicyStore, PolicyProperties: rules, their decision and their tables
  (\<open>proxy/governance.go\<close>, \<open>store/governance.go\<close>).  ToolGovernance, ToolProperties: the check of an MCP
  tool call, risk profiles, scopes and approvals.  SqlGuard: \<open>text2sql/validator.go\<close>.  FlowGraph, FlowRuntime,
  FlowProperties: flows, agents and tools (\<open>store/dataworks_platform_runtime.go\<close>).

  \<^bold>\<open>The pipeline.\<close>  Routing, Dispatch, RoutingProperties: choice of model and provider and the failover loop
  (\<open>intelligent_routing.go\<close>, \<open>routing_rules.go\<close>, \<open>server.go\<close>).  Quotas, QuotaProperties: quotas over
  Korean calendar periods (\<open>quota.go\<close>, \<open>admin_quotas.go\<close>).  PromptSignals: complexity, risk and prompt
  injection of a request.  Skills, SkillProperties: skills, their promotion and their enforcement (\<open>store/skills.go\<close>,
  \<open>admin_skills.go\<close>, \<open>skill_enforce.go\<close>).  RequestGuards, GuardProperties: limits, MCP server policy,
  governance of a request, predicted cost.  Pipeline composes these steps in the order of \<open>steps\<close> of
  \<open>pipeline.go\<close>: a step maps the tables (the record \<open>world\<close>) to new tables and to either the end of the
  request or the state the next step sees.  PipelineProperties: what is sent upstream has passed every guard.

  \<^bold>\<open>The audit log.\<close>  AuditLog: the queue, the writer and the fallback file of \<open>store/async.go\<close>.  Handlers, writer
  and replays run at the same time, so their atomic actions are the events of the step relation \<open>log_step\<close>, and
  \<open>log_run\<close> are its runs.  AuditLogProperties: what is counted, kept and drained in every interleaving.

  \<^bold>\<open>Kinds of lemmas.\<close>  For each table the laws of its store; for each operation its result on every branch,
  refusals included; exact conditions of the checks against a reference definition; invariants of the tables over all
  operations that write them; and, where the code has a gap, a lemma that evaluates it on a concrete input.
  Definitions that only state a property or a sample stand with the properties, in the theories named
  \<open>Properties\<close> and in the last sections of the others.

  \<^bold>\<open>Conventions.\<close>  A string is the list of its bytes; letter case is changed for ASCII letters only.  An instant is
  the number of nanoseconds since 1970 as an integer, \<open>zero_time\<close> the zero value of Go, and a nullable time in a
  row is \<open>zero_time\<close>.  Times in SQL are RFC3339Nano text and are compared as text where the statement does
  so.  \<open>float64\<close> values are exact rationals, Go's \<open>int\<close> is an integer (the code never comes near its bounds, except
  where a float is converted, which is modelled with its 64-bit range), and JSON bodies are decoded maps.  Errors are values: \<open>admin_error\<close> holds the status, message
  and code of a refusal; a message that prints an amount of money has no amount in the model.  A failure of the database
  is an argument where the code reacts to it and is left out otherwise.  Identifiers, hashes, signatures, random
  values, the clock, environment settings and upstream replies are arguments.

  \<^bold>\<open>Termination.\<close>  All definitions are total.  The failover loop \<open>dial_loop\<close> has the measure \<open>2 * (attempts left) +
  (1 unless the long model was tried)\<close>; Kahn's algorithm of FlowGraph recurses on the nodes left; the
  scanners of GoStrings and SqlGuard recurse on the text left.  No definition takes fuel.

  \<^bold>\<open>Not modelled.\<close>  SQL text and migrations (the statements are modelled by their effect); HTTP plumbing and the
  streaming relay; the contents of audit records and the metrics; the admin pages; configuration from the
  environment; the Kubernetes client, collector, analyzers and the agent, which share no state with the parts above; the
  listings and reports of the store, which only read; regular expressions over secrets and file
  names, whose results are arguments; and response caches and knowledge expansion, which the pipeline takes as arguments.
\<close>

end
